(* ===== verification/Go_Prelude.thy ===== *)
theory Go_Prelude
  imports
    Complex_Main
    "HOL-Library.Char_ord"
    "HOL-Library.List_Lexorder"
    "HOL-Library.Multiset"
begin

text \<open>
  The vocabulary every component shares: Go's error values with their wrapping chain, instants
  and durations, 64-bit integers, byte strings with \<open>strings.TrimSpace\<close>, IEEE comparison of
  float64 values, early-return chains, and the stable sort of package sort.

  Conventions. A Go function that returns only an \<open>error\<close> returns \<open>go_error option\<close>, with
  \<open>None\<close> for nil. A function that returns \<open>(T, error)\<close> returns \<open>go_error + T\<close>. A Go \<open>string\<close>
  is the list of its bytes. A \<open>time.Time\<close> is the number of nanoseconds since the zero Time, so
  \<open>IsZero\<close> is \<open>t = 0\<close>, \<open>Before\<close> is \<open><\<close> and \<open>Equal\<close> is \<open>=\<close>.
\<close>

named_theorems go_rules "unfolding rules of the Go run-time vocabulary"

section \<open>Errors\<close>

text \<open>The sentinel errors of the packages; two sentinels are the same only if they are the same
  variable, so each is a constructor.\<close>

datatype domain_error =
    ErrNotFound | ErrConflict | ErrInvalidTransition | ErrCapacityExceeded | ErrExpired
  | ErrIdempotency

datatype policy_error = ErrIncompatibleLoad | ErrReleaseBlocked

datatype arrayops_error = ArrErrConflict | ArrErrUnauthorized | ArrErrUnavailable | ArrErrInvalid

datatype telemetry_error = TelErrConflict | TelErrInvalid | TelErrUnavailable | TelErrUnauthorized

text \<open>Sentinels of the standard library and of pgx that the code compares with.\<close>

datatype external_error = ContextCanceled | ContextDeadlineExceeded | PgxErrNoRows

datatype sentinel =
    DomainErr domain_error
  | PolicyErr policy_error
  | ArrayOpsErr arrayops_error
  | TelemetryErr telemetry_error
  | ExternalErr external_error

text \<open>
  Error values. \<open>Errorf s e\<close> is \<open>fmt.Errorf("s: %w", e)\<close> with its other verbs already formatted
  into \<open>s\<close>; \<open>Errorf2\<close> is the two-\<open>%w\<close> form; \<open>NewError s\<close> wraps nothing. \<open>SignatureError\<close> and
  \<open>DecodeError\<close> are the two error structs of the repository, \<open>PgError\<close> is the driver's
  \<open>pgconn.PgError\<close> with its SQLSTATE code.
\<close>

datatype go_error =
    Sentinel sentinel
  | NewError string
  | Errorf string go_error
  | Errorf2 string go_error go_error
  | SignatureError string go_error
  | DecodeError string go_error
  | PgError string

type_synonym 'a result = "go_error + 'a"

text \<open>\<open>errors.Is\<close> walks the Unwrap chain (both branches of a two-\<open>%w\<close> error).\<close>

fun errors_Is :: "go_error \<Rightarrow> sentinel \<Rightarrow> bool" where
  "errors_Is (Sentinel s) t \<longleftrightarrow> s = t"
| "errors_Is (NewError _) t \<longleftrightarrow> False"
| "errors_Is (Errorf _ e) t \<longleftrightarrow> errors_Is e t"
| "errors_Is (Errorf2 _ e f) t \<longleftrightarrow> errors_Is e t \<or> errors_Is f t"
| "errors_Is (SignatureError _ e) t \<longleftrightarrow> errors_Is e t"
| "errors_Is (DecodeError _ e) t \<longleftrightarrow> errors_Is e t"
| "errors_Is (PgError _) t \<longleftrightarrow> False"

text \<open>\<open>errors.As\<close> for the three struct targets.\<close>

fun errors_As_signature :: "go_error \<Rightarrow> bool" where
  "errors_As_signature (SignatureError _ _) \<longleftrightarrow> True"
| "errors_As_signature (Errorf _ e) \<longleftrightarrow> errors_As_signature e"
| "errors_As_signature (Errorf2 _ e f) \<longleftrightarrow> errors_As_signature e \<or> errors_As_signature f"
| "errors_As_signature (DecodeError _ e) \<longleftrightarrow> errors_As_signature e"
| "errors_As_signature _ \<longleftrightarrow> False"

fun errors_As_decode :: "go_error \<Rightarrow> bool" where
  "errors_As_decode (DecodeError _ _) \<longleftrightarrow> True"
| "errors_As_decode (Errorf _ e) \<longleftrightarrow> errors_As_decode e"
| "errors_As_decode (Errorf2 _ e f) \<longleftrightarrow> errors_As_decode e \<or> errors_As_decode f"
| "errors_As_decode (SignatureError _ e) \<longleftrightarrow> errors_As_decode e"
| "errors_As_decode _ \<longleftrightarrow> False"

fun errors_As_pg :: "go_error \<Rightarrow> string option" where
  "errors_As_pg (PgError c) = Some c"
| "errors_As_pg (Errorf _ e) = errors_As_pg e"
| "errors_As_pg (Errorf2 _ e f) =
     (case errors_As_pg e of Some c \<Rightarrow> Some c | None \<Rightarrow> errors_As_pg f)"
| "errors_As_pg (SignatureError _ e) = errors_As_pg e"
| "errors_As_pg (DecodeError _ e) = errors_As_pg e"
| "errors_As_pg _ = None"

abbreviation conflict :: go_error where "conflict \<equiv> Sentinel (DomainErr ErrConflict)"
abbreviation not_found :: go_error where "not_found \<equiv> Sentinel (DomainErr ErrNotFound)"
abbreviation invalid_transition :: go_error where
  "invalid_transition \<equiv> Sentinel (DomainErr ErrInvalidTransition)"
abbreviation capacity_exceeded :: go_error where
  "capacity_exceeded \<equiv> Sentinel (DomainErr ErrCapacityExceeded)"
abbreviation expired :: go_error where "expired \<equiv> Sentinel (DomainErr ErrExpired)"
abbreviation arr_conflict :: go_error where
  "arr_conflict \<equiv> Sentinel (ArrayOpsErr ArrErrConflict)"
abbreviation arr_invalid :: go_error where "arr_invalid \<equiv> Sentinel (ArrayOpsErr ArrErrInvalid)"
abbreviation arr_unauthorized :: go_error where
  "arr_unauthorized \<equiv> Sentinel (ArrayOpsErr ArrErrUnauthorized)"
abbreviation tel_conflict :: go_error where
  "tel_conflict \<equiv> Sentinel (TelemetryErr TelErrConflict)"
abbreviation tel_invalid :: go_error where
  "tel_invalid \<equiv> Sentinel (TelemetryErr TelErrInvalid)"
abbreviation tel_unavailable :: go_error where
  "tel_unavailable \<equiv> Sentinel (TelemetryErr TelErrUnavailable)"

subsection \<open>Early returns\<close>

text \<open>\<open>if err := a; err != nil { return err }; b\<close> for two error-only computations.\<close>

definition err_then :: "go_error option \<Rightarrow> go_error option \<Rightarrow> go_error option" where
  "err_then a b = (case a of Some e \<Rightarrow> Some e | None \<Rightarrow> b)"

lemma err_then_None [simp]: "err_then a b = None \<longleftrightarrow> a = None \<and> b = None"
  by (auto simp: err_then_def split: option.splits)

lemma err_then_simps [simp]:
  "err_then None b = b"
  "err_then (Some e) b = Some e"
  by (simp_all add: err_then_def)

text \<open>The same with a value after the check.\<close>

definition guard_err :: "go_error option \<Rightarrow> 'a result \<Rightarrow> 'a result" where
  "guard_err a r = (case a of Some e \<Rightarrow> Inl e | None \<Rightarrow> r)"

lemma guard_err_simps [simp]:
  "guard_err None r = r"
  "guard_err (Some e) r = Inl e"
  by (simp_all add: guard_err_def)

lemma guard_err_Inr [simp]: "guard_err a r = Inr x \<longleftrightarrow> a = None \<and> r = Inr x"
  by (auto simp: guard_err_def split: option.splits)

definition is_ok :: "'a result \<Rightarrow> bool" where
  "is_ok r \<longleftrightarrow> (case r of Inl _ \<Rightarrow> False | Inr _ \<Rightarrow> True)"

lemma is_ok_simps [simp]: "is_ok (Inr x)" "\<not> is_ok (Inl e)"
  by (simp_all add: is_ok_def)

lemma is_ok_iff: "is_ok r \<longleftrightarrow> (\<exists>x. r = Inr x)"
  by (cases r) auto

section \<open>Integers\<close>

text \<open>Go's \<open>int\<close> and \<open>int64\<close> are 64-bit two's complement: the result of an addition or an
  increment that may overflow is wrapped.\<close>

definition wrap64 :: "int \<Rightarrow> int" where
  "wrap64 i = (i + 2 ^ 63) mod 2 ^ 64 - 2 ^ 63"

definition is_int64 :: "int \<Rightarrow> bool" where
  "is_int64 i \<longleftrightarrow> - (2 ^ 63) \<le> i \<and> i < 2 ^ 63"

lemma wrap64_range: "is_int64 (wrap64 i)"
  by (simp add: wrap64_def is_int64_def)

lemma wrap64_id [simp]: "is_int64 i \<Longrightarrow> wrap64 i = i"
  by (simp add: wrap64_def is_int64_def)

lemma wrap64_wrap64_add [simp]: "wrap64 (wrap64 a + b) = wrap64 (a + b)"
  by (simp add: wrap64_def mod_simps algebra_simps)

lemma wrap64_add_wrap64 [simp]: "wrap64 (a + wrap64 b) = wrap64 (a + b)"
  using wrap64_wrap64_add[of b a] by (simp add: add.commute)

text \<open>An increment always changes the value, even when it wraps.\<close>

lemma wrap64_Suc_neq [simp]: "wrap64 (v + 1) \<noteq> v" "wrap64 (1 + v) \<noteq> v"
proof -
  have "(v + 1 + 2 ^ 63) mod 2 ^ 64 \<noteq> v + (2 ^ 63 :: int)"
  proof
    assume eq: "(v + 1 + 2 ^ 63) mod 2 ^ 64 = v + (2 ^ 63 :: int)"
    then have "((v + 1 + 2 ^ 63) - (v + 2 ^ 63)) mod 2 ^ 64 = (0::int)"
      by (metis mod_eq_dvd_iff mod_mod_trivial mod_0_imp_dvd dvd_imp_mod_0)
    then show False by simp
  qed
  then show "wrap64 (v + 1) \<noteq> v" by (simp add: wrap64_def)
  then show "wrap64 (1 + v) \<noteq> v" by (simp add: add.commute)
qed

section \<open>Time\<close>

type_synonym time = int
type_synonym duration = int

abbreviation IsZero :: "time \<Rightarrow> bool" where "IsZero t \<equiv> t = 0"

abbreviation second :: duration where "second \<equiv> 1000000000"
abbreviation minute :: duration where "minute \<equiv> 60000000000"
abbreviation hour :: duration where "hour \<equiv> 3600000000000"

text \<open>\<open>t.Sub(u)\<close> saturates at the extreme durations; \<open>t.Add(d)\<close> is plain addition.\<close>

definition time_Sub :: "time \<Rightarrow> time \<Rightarrow> duration" where
  "time_Sub t u = max (- (2 ^ 63)) (min (2 ^ 63 - 1) (t - u))"

lemma time_Sub_le_iff:
  "d < 2 ^ 63 - 1 \<Longrightarrow> - (2 ^ 63) \<le> d \<Longrightarrow> time_Sub t u \<le> d \<longleftrightarrow> t - u \<le> d"
  by (auto simp: time_Sub_def)

lemma time_Sub_ge_iff:
  "- (2 ^ 63) < d \<Longrightarrow> d \<le> 2 ^ 63 - 1 \<Longrightarrow> d \<le> time_Sub t u \<longleftrightarrow> d \<le> t - u"
  by (auto simp: time_Sub_def)

text \<open>PostgreSQL keeps \<open>timestamptz\<close> values in microseconds; the driver drops the rest.\<close>

definition pg_time :: "time \<Rightarrow> time" where
  "pg_time t = t div 1000 * 1000"

lemma pg_time_le: "pg_time t \<le> t"
  by (simp add: pg_time_def)

lemma pg_time_mono: "a \<le> b \<Longrightarrow> pg_time a \<le> pg_time b"
  by (simp add: pg_time_def zdiv_mono1)

lemma pg_time_idem [simp]: "pg_time (pg_time t) = pg_time t"
  by (simp add: pg_time_def)

section \<open>Floating point\<close>

text \<open>A float64 is NaN, an infinity or a rational; only comparisons are used, and a comparison
  with NaN is false.\<close>

datatype float64 = NaN | PosInf | NegInf | Fin rat

instantiation float64 :: ord
begin

fun less_float64 :: "float64 \<Rightarrow> float64 \<Rightarrow> bool" where
  "less_float64 NaN _ \<longleftrightarrow> False"
| "less_float64 _ NaN \<longleftrightarrow> False"
| "less_float64 PosInf _ \<longleftrightarrow> False"
| "less_float64 _ NegInf \<longleftrightarrow> False"
| "less_float64 NegInf _ \<longleftrightarrow> True"
| "less_float64 _ PosInf \<longleftrightarrow> True"
| "less_float64 (Fin a) (Fin b) \<longleftrightarrow> a < b"

definition less_eq_float64 :: "float64 \<Rightarrow> float64 \<Rightarrow> bool" where
  "less_eq_float64 a b \<longleftrightarrow> a < b \<or> a = b \<and> a \<noteq> NaN"

instance ..

end

abbreviation IsNaN :: "float64 \<Rightarrow> bool" where "IsNaN f \<equiv> f = NaN"
abbreviation IsInf :: "float64 \<Rightarrow> bool" where "IsInf f \<equiv> f = PosInf \<or> f = NegInf"

lemma float64_not_less: "a \<noteq> NaN \<Longrightarrow> b \<noteq> NaN \<Longrightarrow> \<not> a < b \<longleftrightarrow> b \<le> (a :: float64)"
  by (cases a; cases b) (auto simp: less_eq_float64_def)

section \<open>Strings\<close>

text \<open>
  \<open>strings.TrimSpace\<close> drops leading and trailing Unicode white space. On the bytes of a string
  these are the six ASCII spaces and the UTF-8 encodings of the other \<open>White_Space\<close> code points
  (U+0085, U+00A0, U+1680, U+2000 to U+200A, U+2028, U+2029, U+202F, U+205F, U+3000); an
  encoding starts with the only byte of it that can start a rune, so decoding a first or last
  rune and comparing bytes agree.
\<close>

definition white_space :: "string list" where
  "white_space =
     [[CHR 0x09], [CHR 0x0A], [CHR 0x0B], [CHR 0x0C], [CHR 0x0D], [CHR 0x20],
      [CHR 0xC2, CHR 0x85], [CHR 0xC2, CHR 0xA0], [CHR 0xE1, CHR 0x9A, CHR 0x80],
      [CHR 0xE2, CHR 0x80, CHR 0x80], [CHR 0xE2, CHR 0x80, CHR 0x81],
      [CHR 0xE2, CHR 0x80, CHR 0x82], [CHR 0xE2, CHR 0x80, CHR 0x83],
      [CHR 0xE2, CHR 0x80, CHR 0x84], [CHR 0xE2, CHR 0x80, CHR 0x85],
      [CHR 0xE2, CHR 0x80, CHR 0x86], [CHR 0xE2, CHR 0x80, CHR 0x87],
      [CHR 0xE2, CHR 0x80, CHR 0x88], [CHR 0xE2, CHR 0x80, CHR 0x89],
      [CHR 0xE2, CHR 0x80, CHR 0x8A], [CHR 0xE2, CHR 0x80, CHR 0xA8],
      [CHR 0xE2, CHR 0x80, CHR 0xA9], [CHR 0xE2, CHR 0x80, CHR 0xAF],
      [CHR 0xE2, CHR 0x81, CHR 0x9F], [CHR 0xE3, CHR 0x80, CHR 0x80]]"

fun is_prefix :: "string \<Rightarrow> string \<Rightarrow> bool" where
  "is_prefix [] ys \<longleftrightarrow> True"
| "is_prefix (x # xs) [] \<longleftrightarrow> False"
| "is_prefix (x # xs) (y # ys) \<longleftrightarrow> x = y \<and> is_prefix xs ys"

lemma is_prefix_iff: "is_prefix p s \<longleftrightarrow> (\<exists>t. s = p @ t)"
  by (induction p s rule: is_prefix.induct) auto

text \<open>Drop encodings of \<open>ws\<close> from the front, at most as many times as there are bytes.\<close>

fun trim_front :: "string list \<Rightarrow> nat \<Rightarrow> string \<Rightarrow> string" where
  "trim_front ws 0 s = s"
| "trim_front ws (Suc n) s =
     (case find (\<lambda>p. is_prefix p s) ws of
        None \<Rightarrow> s
      | Some p \<Rightarrow> trim_front ws n (drop (length p) s))"

definition TrimLeft :: "string \<Rightarrow> string" where
  "TrimLeft s = trim_front white_space (length s) s"

definition TrimRight :: "string \<Rightarrow> string" where
  "TrimRight s = rev (trim_front (map rev white_space) (length s) (rev s))"

definition TrimSpace :: "string \<Rightarrow> string" where
  "TrimSpace s = TrimRight (TrimLeft s)"

abbreviation blank :: "string \<Rightarrow> bool" where "blank s \<equiv> TrimSpace s = []"

lemma length_trim_front: "length (trim_front ws n s) \<le> length s"
  by (induction ws n s rule: trim_front.induct)
    (auto split: option.splits intro: le_trans)

lemma length_TrimSpace: "length (TrimSpace s) \<le> length s"
  using length_trim_front[of "map rev white_space" "length (TrimLeft s)" "rev (TrimLeft s)"]
    length_trim_front[of white_space "length s" s]
  by (simp add: TrimSpace_def TrimRight_def TrimLeft_def)

lemma trim_front_Nil [simp]: "trim_front ws n [] = []"
  by (induction n) (auto split: option.splits simp: find_Some_iff is_prefix_iff)

lemma TrimSpace_Nil [simp]: "TrimSpace [] = []"
  by (simp add: TrimSpace_def TrimRight_def TrimLeft_def)

text \<open>\<open>strings.Contains\<close> and \<open>strings.Index\<close>.\<close>

fun Index :: "string \<Rightarrow> string \<Rightarrow> int" where
  "Index [] sub = (if sub = [] then 0 else -1)"
| "Index (c # s) sub =
     (if is_prefix sub (c # s) then 0
      else (let i = Index s sub in if i < 0 then -1 else i + 1))"

definition Contains :: "string \<Rightarrow> string \<Rightarrow> bool" where
  "Contains s sub \<longleftrightarrow> 0 \<le> Index s sub"

lemma Index_nonneg_iff: "0 \<le> Index s sub \<longleftrightarrow> (\<exists>a b. s = a @ sub @ b)"
proof (induction s)
  case Nil
  then show ?case by auto
next
  case (Cons c s)
  have "(\<exists>a b. c # s = a @ sub @ b) \<longleftrightarrow>
      (\<exists>b. c # s = sub @ b) \<or> (\<exists>a b. s = a @ sub @ b)"
    by (metis append_Cons append_Nil list.exhaust list.inject)
  with Cons show ?case
    by (auto simp: is_prefix_iff Let_def)
qed

lemma Contains_iff: "Contains s sub \<longleftrightarrow> (\<exists>a b. s = a @ sub @ b)"
  by (simp add: Contains_def Index_nonneg_iff)

text \<open>\<open>strings.Join(parts, "\x00")\<close>, the separator of every composite key of the code.\<close>

fun join_nul :: "string list \<Rightarrow> string" where
  "join_nul [] = []"
| "join_nul [x] = x"
| "join_nul (x # y # ys) = x @ CHR 0x00 # join_nul (y # ys)"

definition nul_free :: "string \<Rightarrow> bool" where
  "nul_free s \<longleftrightarrow> CHR 0x00 \<notin> set s"

lemma append_sep_eq:
  "c \<notin> set a \<Longrightarrow> c \<notin> set b \<Longrightarrow> a @ c # x = b @ c # y \<longleftrightarrow> a = b \<and> x = y"
  by (induction a arbitrary: b) (case_tac b; auto)+

lemma join_nul_inject:
  "length xs = length ys \<Longrightarrow> list_all nul_free xs \<Longrightarrow> list_all nul_free ys \<Longrightarrow>
   join_nul xs = join_nul ys \<longleftrightarrow> xs = ys"
proof (induction xs ys rule: list_induct2)
  case Nil
  then show ?case by simp
next
  case (Cons x xs y ys)
  then show ?case
    by (cases xs; cases ys) (auto simp: nul_free_def append_sep_eq)
qed

text \<open>\<open>hex.EncodeToString\<close>.\<close>

definition hex_digit :: "nat \<Rightarrow> char" where
  "hex_digit n = ''0123456789abcdef'' ! n"

fun hex_encode :: "string \<Rightarrow> string" where
  "hex_encode [] = []"
| "hex_encode (c # cs) =
     hex_digit (of_char c div 16) # hex_digit (of_char c mod 16) # hex_encode cs"

lemma hex_digit_not_quote: "n < 16 \<Longrightarrow> hex_digit n \<noteq> CHR 0x22"
proof -
  assume "n < 16"
  then have "hex_digit n \<in> set ''0123456789abcdef''" unfolding hex_digit_def by (intro nth_mem) simp
  then show ?thesis by auto
qed

lemma of_char_less_256: "(of_char c :: nat) < 256"
  by (cases c) (simp only: of_char_Char, auto intro: order.strict_trans1 [OF _ horner_sum_of_bool_2_less])

lemma hex_encode_no_quote: "CHR 0x22 \<notin> set (hex_encode s)"
  by (induction s) (use of_char_less_256 in \<open>auto simp: hex_digit_not_quote[symmetric] div_less_iff_less_mult
      dest: sym\<close>)

lemma hex_digit_inject: "m < 16 \<Longrightarrow> n < 16 \<Longrightarrow> hex_digit m = hex_digit n \<longleftrightarrow> m = n"
  unfolding hex_digit_def by (subst nth_eq_iff_index_eq) simp_all

lemma hex_encode_inject: "hex_encode s = hex_encode t \<longleftrightarrow> s = t"
proof (induction s arbitrary: t)
  case Nil
  then show ?case by (cases t) auto
next
  case (Cons c s)
  show ?case
  proof (cases t)
    case Nil
    then show ?thesis by simp
  next
    case (Cons d u)
    have eq: "c = d" if "of_char c div 16 = (of_char d div 16 :: nat)"
      "of_char c mod 16 = (of_char d mod 16 :: nat)"
    proof -
      have "of_char c = (of_char d :: nat)" using that by (metis div_mult_mod_eq)
      then show ?thesis by simp
    qed
    have dig: "(of_char x :: nat) div 16 < 16" for x using of_char_less_256[of x] by (simp add: div_less_iff_less_mult)
    show ?thesis using eq Cons Cons.IH by (auto simp: hex_digit_inject dig)
  qed
qed

lemma hex_encode_Nil: "hex_encode s = [] \<longleftrightarrow> s = []" "[] = hex_encode s \<longleftrightarrow> s = []"
  by (cases s; auto)+

section \<open>Stable sorting\<close>

text \<open>\<open>sort.SliceStable(xs, lt)\<close>: for a strict weak order the stable result is unique, so it is
  given by insertion.\<close>

fun insert_stable :: "('a \<Rightarrow> 'a \<Rightarrow> bool) \<Rightarrow> 'a \<Rightarrow> 'a list \<Rightarrow> 'a list" where
  "insert_stable lt x [] = [x]"
| "insert_stable lt x (y # ys) =
     (if lt y x then y # insert_stable lt x ys else x # y # ys)"

fun sort_stable :: "('a \<Rightarrow> 'a \<Rightarrow> bool) \<Rightarrow> 'a list \<Rightarrow> 'a list" where
  "sort_stable lt [] = []"
| "sort_stable lt (x # xs) = insert_stable lt x (sort_stable lt xs)"

lemma mset_insert_stable [simp]: "mset (insert_stable lt x ys) = add_mset x (mset ys)"
  by (induction ys) auto

lemma mset_sort_stable [simp]: "mset (sort_stable lt xs) = mset xs"
  by (induction xs) auto

lemma set_sort_stable [simp]: "set (sort_stable lt xs) = set xs"
  by (metis mset_sort_stable set_mset_mset)

lemma length_sort_stable [simp]: "length (sort_stable lt xs) = length xs"
  by (metis mset_sort_stable size_mset)

text \<open>What a comparator passed to the sort has to satisfy, and what the sort then promises.\<close>

locale strict_weak =
  fixes lt :: "'a \<Rightarrow> 'a \<Rightarrow> bool"
  assumes less_asym: "lt x y \<Longrightarrow> \<not> lt y x"
    and less_negtrans: "\<not> lt x y \<Longrightarrow> \<not> lt y z \<Longrightarrow> \<not> lt x z"
begin

abbreviation ordered :: "'a list \<Rightarrow> bool" where
  "ordered \<equiv> sorted_wrt (\<lambda>a b. \<not> lt b a)"

lemma ordered_insert: "ordered ys \<Longrightarrow> ordered (insert_stable lt x ys)"
proof (induction ys)
  case Nil
  then show ?case by simp
next
  case (Cons y ys)
  have set_ins: "set (insert_stable lt x ys) = insert x (set ys)"
    by (metis mset_insert_stable set_mset_add_mset_insert set_mset_mset)
  show ?case
  proof (cases "lt y x")
    case True
    with Cons show ?thesis by (auto simp: set_ins dest: less_asym)
  next
    case False
    have "\<not> lt b x" if "b \<in> set ys" for b
      using that Cons.prems False less_negtrans[of b y x] by auto
    with Cons False show ?thesis by auto
  qed
qed

lemma ordered_sort: "ordered (sort_stable lt xs)"
  by (induction xs) (auto intro: ordered_insert)

text \<open>Stability: elements that compare equal to \<open>z\<close> keep their relative order.\<close>

lemma equiv_insert:
  assumes "\<not> lt x z" "\<not> lt z x" "ordered ys"
  shows "filter (\<lambda>y. \<not> lt y z \<and> \<not> lt z y) (insert_stable lt x ys) =
    x # filter (\<lambda>y. \<not> lt y z \<and> \<not> lt z y) ys"
  using assms(3)
proof (induction ys)
  case Nil
  then show ?case using assms by simp
next
  case (Cons y ys)
  have "lt y z" if "lt y x"
    using that assms less_negtrans[of y z x] by blast
  with Cons assms show ?case by auto
qed

lemma not_equiv_insert:
  assumes "lt x z \<or> lt z x"
  shows "filter (\<lambda>y. \<not> lt y z \<and> \<not> lt z y) (insert_stable lt x ys) =
    filter (\<lambda>y. \<not> lt y z \<and> \<not> lt z y) ys"
  using assms by (induction ys) auto

lemma sort_stable_equiv:
  "filter (\<lambda>y. \<not> lt y z \<and> \<not> lt z y) (sort_stable lt xs) =
   filter (\<lambda>y. \<not> lt y z \<and> \<not> lt z y) xs"
  by (induction xs) (auto simp: equiv_insert not_equiv_insert ordered_sort)

end

section \<open>Lists as tables and slices\<close>

text \<open>\<open>xs[a:b]\<close> for in-range bounds.\<close>

definition slice :: "int \<Rightarrow> int \<Rightarrow> 'a list \<Rightarrow> 'a list" where
  "slice a b xs = take (nat (b - a)) (drop (nat a) xs)"

lemma length_slice: "length (slice a b xs) \<le> nat (b - a)"
  by (simp add: slice_def)

lemma set_slice: "set (slice a b xs) \<subseteq> set xs"
  by (auto simp: slice_def dest: in_set_takeD in_set_dropD)

lemma sorted_wrt_slice: "sorted_wrt P xs \<Longrightarrow> sorted_wrt P (slice a b xs)"
  by (simp add: slice_def sorted_wrt_take sorted_wrt_drop)

lemma filter_map_upd:
  "(\<And>x. P (f x) \<longleftrightarrow> P x) \<Longrightarrow> filter P (map f xs) = map f (filter P xs)"
  by (induction xs) auto

lemma filter_id_at_most_one:
  "distinct (map k xs) \<Longrightarrow> length (filter (\<lambda>x. k x = i \<and> P x) xs) \<le> 1"
proof (induction xs)
  case Nil
  then show ?case by simp
next
  case (Cons x xs)
  have "filter (\<lambda>y. k y = i \<and> P y) xs = []" if "k x = i"
  proof -
    have "k y \<noteq> i" if "y \<in> set xs" for y
      using Cons.prems that \<open>k x = i\<close> by (auto simp: image_iff)
    then show ?thesis by (auto simp: filter_empty_conv)
  qed
  with Cons show ?case by (cases "k x = i") auto
qed

section \<open>Numbers that fall\<close>

text \<open>For step relations: how a sum over the components changes with one of them, and how many steps
  there are when every step makes a number smaller.\<close>

lemma sum_list_update_map:
  fixes f :: "'a \<Rightarrow> nat"
  assumes "i < length xs"
  shows "sum_list (map f (xs[i := y])) + f (xs ! i) = sum_list (map f xs) + f y"
  using assms by (induction xs arbitrary: i) (auto split: nat.split)

lemma falling_steps:
  fixes left :: "'s \<Rightarrow> nat"
  assumes "\<And>p q. step p q \<Longrightarrow> left q < left p" "(step ^^ n) p q"
  shows "n + left q \<le> left p"
  using assms(2)
proof (induction n arbitrary: q)
  case (Suc n)
  then obtain r where r: "(step ^^ n) p r" "step r q" by auto
  show ?case using Suc.IH[OF r(1)] assms(1)[OF r(2)] by linarith
qed simp

end
