(* ===== verification/Contracts.thy ===== *)
theory Contracts
  imports Go_Prelude
begin

text \<open>
  The interfaces between components, as locales: what a client of a lifecycle table, of a lease,
  of a capacity counter, of a put-if-absent store and of a versioned record may rely on, with the
  client's lemmas proved once. The components interpret these locales on their own definitions.
\<close>

section \<open>Lifecycle tables\<close>

text \<open>A transition table whose moves climb a rank: no state is entered twice, a run is no longer
  than the rank range, and a state of top rank is final.\<close>

locale lifecycle =
  fixes can_move :: "'st \<Rightarrow> 'st \<Rightarrow> bool"
    and rank :: "'st \<Rightarrow> nat"
    and top :: nat
  assumes rank_less: "can_move a b \<Longrightarrow> rank a < rank b"
    and rank_top: "rank a \<le> top"
begin

lemma top_final: "rank a = top \<Longrightarrow> \<not> can_move a b"
  using rank_less[of a b] rank_top[of b] by auto

lemma trancl_rank: "can_move\<^sup>+\<^sup>+ a b \<Longrightarrow> rank a < rank b"
  by (induction rule: tranclp_induct) (auto dest: rank_less)

lemma no_return: "can_move\<^sup>+\<^sup>+ a b \<Longrightarrow> a \<noteq> b"
  using trancl_rank by fastforce

lemma run_length: "successively can_move (a # as) \<Longrightarrow> rank a + length as \<le> top"
proof (induction as arbitrary: a)
  case Nil
  then show ?case by (simp add: rank_top)
next
  case (Cons b as)
  then have "rank a < rank b" "rank b + length as \<le> top"
    by (auto dest: rank_less)
  then show ?case by simp
qed

lemma run_ranks: "successively can_move (a # as) \<Longrightarrow> b \<in> set as \<Longrightarrow> rank a < rank b"
proof (induction as arbitrary: a)
  case Nil
  then show ?case by simp
next
  case (Cons c as)
  then have "rank a < rank c" by (auto dest: rank_less)
  with Cons show ?case by fastforce
qed

lemma run_distinct: "successively can_move as \<Longrightarrow> distinct as"
proof (induction as)
  case Nil
  then show ?case by simp
next
  case (Cons a as)
  then have "distinct as" by (cases as) auto
  with Cons.prems show ?case using run_ranks by fastforce
qed

end

section \<open>Leases\<close>

text \<open>
  A lease names one owner until an instant. \<open>holds s o t\<close>: owner \<open>o\<close> holds the lease at \<open>t\<close>.
  Acquiring is refused, and changes nothing, while somebody else holds it.
\<close>

datatype lease_op = LeaseAcquire string time duration | LeaseRelease string

locale exclusive_lease =
  fixes acquire :: "'s \<Rightarrow> string \<Rightarrow> time \<Rightarrow> duration \<Rightarrow> 's \<times> bool"
    and holds :: "'s \<Rightarrow> string \<Rightarrow> time \<Rightarrow> bool"
  assumes acquire_holds:
      "acquire s w t d = (s', True) \<Longrightarrow> holds s' w u \<longleftrightarrow> u < t + d"
    and acquire_live: "acquire s w t d = (s', True) \<Longrightarrow> 0 < d"
    and acquire_excluded:
      "holds s v t \<Longrightarrow> w \<noteq> v \<Longrightarrow> acquire s w t d = (s, False)"
    and acquire_refused: "acquire s w t d = (s', False) \<Longrightarrow> s' = s"
    and holds_until: "holds s w t \<Longrightarrow> u \<le> t \<Longrightarrow> holds s w u"
    and holds_unique: "holds s v t \<Longrightarrow> holds s w t \<Longrightarrow> v = w"
begin

lemma acquire_gives_hold: "acquire s w t d = (s', True) \<Longrightarrow> holds s' w t"
  using acquire_holds acquire_live by fastforce

lemma acquire_ousts: "acquire s w t d = (s', True) \<Longrightarrow> v \<noteq> w \<Longrightarrow> \<not> holds s' v t"
  using acquire_gives_hold holds_unique by blast

text \<open>Requests by others before the deadline leave the holder's lease as it is.\<close>

lemma foreign_acquires:
  "holds s v u \<Longrightarrow> \<forall>(w, t, d) \<in> set reqs. w \<noteq> v \<and> t \<le> u \<Longrightarrow>
   foldl (\<lambda>s (w, t, d). fst (acquire s w t d)) s reqs = s"
proof (induction reqs arbitrary: s)
  case Nil
  then show ?case by simp
next
  case (Cons r reqs)
  obtain w t d where r: "r = (w, t, d)" by (cases r)
  with Cons.prems have "holds s v t" "w \<noteq> v" by (auto intro: holds_until)
  then have "acquire s w t d = (s, False)" by (rule acquire_excluded)
  with Cons r show ?case by simp
qed

end

locale releasable_lease = exclusive_lease +
  fixes release :: "'s \<Rightarrow> string \<Rightarrow> 's \<times> bool"
  assumes release_foreign: "holds s v t \<Longrightarrow> w \<noteq> v \<Longrightarrow> release s w = (s, False)"
    and release_own: "holds s v t \<Longrightarrow> release s v = (s', b) \<Longrightarrow> b \<and> \<not> holds s' w u"
begin

definition lease_step :: "'s \<Rightarrow> lease_op \<Rightarrow> 's" where
  "lease_step s x =
     (case x of LeaseAcquire w t d \<Rightarrow> fst (acquire s w t d)
      | LeaseRelease w \<Rightarrow> fst (release s w))"

definition foreign_until :: "string \<Rightarrow> time \<Rightarrow> lease_op \<Rightarrow> bool" where
  "foreign_until v u x =
     (case x of LeaseAcquire w t d \<Rightarrow> w \<noteq> v \<and> t \<le> u | LeaseRelease w \<Rightarrow> w \<noteq> v)"

lemma foreign_step: "holds s v u \<Longrightarrow> foreign_until v u x \<Longrightarrow> lease_step s x = s"
proof (cases x)
  case (LeaseAcquire w t d)
  moreover assume "holds s v u" "foreign_until v u x"
  ultimately show ?thesis
    using acquire_excluded[of s v t w d] holds_until
    by (auto simp: lease_step_def foreign_until_def)
next
  case (LeaseRelease w)
  moreover assume "holds s v u" "foreign_until v u x"
  ultimately show ?thesis
    using release_foreign by (auto simp: lease_step_def foreign_until_def)
qed

text \<open>No sequence of operations of other owners takes a lease before its deadline.\<close>

lemma foreign_run:
  "holds s v u \<Longrightarrow> list_all (foreign_until v u) xs \<Longrightarrow> foldl lease_step s xs = s"
  by (induction xs) (auto simp: foreign_step)

end

section \<open>Capacity counters\<close>

locale slot_counter =
  fixes reserve :: "'s \<Rightarrow> string \<Rightarrow> int \<Rightarrow> go_error option \<times> 's"
    and used :: "'s \<Rightarrow> string \<Rightarrow> int"
  assumes reserve_ok: "reserve s k l = (None, s') \<Longrightarrow>
      used s k < l \<and> (\<forall>j. used s' j = used s j + (if j = k then 1 else 0))"
    and reserve_full: "k \<noteq> [] \<Longrightarrow> 0 < l \<Longrightarrow> l \<le> used s k \<Longrightarrow> fst (reserve s k l) \<noteq> None"
    and reserve_free: "k \<noteq> [] \<Longrightarrow> 0 < l \<Longrightarrow> used s k < l \<Longrightarrow> fst (reserve s k l) = None"
    and reserve_err: "reserve s k l = (Some e, s') \<Longrightarrow> s' = s"
begin

definition reserve_all :: "'s \<Rightarrow> (string \<times> int) list \<Rightarrow> 's" where
  "reserve_all s = foldl (\<lambda>s (k, l). snd (reserve s k l)) s"

lemma reserve_all_Cons: "reserve_all s ((k, l) # rs) = reserve_all (snd (reserve s k l)) rs"
  by (simp add: reserve_all_def)

text \<open>Whatever is requested, a counter never passes the greatest limit asked for.\<close>

lemma never_oversubscribed:
  "used s k \<le> m \<Longrightarrow> \<forall>(j, l) \<in> set rs. j = k \<longrightarrow> l \<le> m \<Longrightarrow> used (reserve_all s rs) k \<le> m"
proof (induction rs arbitrary: s)
  case Nil
  then show ?case by (simp add: reserve_all_def)
next
  case (Cons r rs)
  obtain j l where r: "r = (j, l)" by (cases r)
  obtain x s' where res: "reserve s j l = (x, s')" by (cases "reserve s j l")
  have "used s' k \<le> m"
  proof (cases x)
    case None
    then have "used s j < l" "used s' k = used s k + (if k = j then 1 else 0)"
      using res reserve_ok by auto
    then show ?thesis using Cons.prems r by auto
  next
    case (Some e)
    then have "s' = s" using res reserve_err by blast
    then show ?thesis using Cons.prems by simp
  qed
  then show ?case using Cons r res by (simp add: reserve_all_Cons)
qed

text \<open>\<open>n\<close> requests for one scope with one limit: exactly the free places are given.\<close>

lemma exact_fill:
  "k \<noteq> [] \<Longrightarrow> 0 < l \<Longrightarrow> used s k \<le> l \<Longrightarrow>
   used (reserve_all s (replicate n (k, l))) k = min l (used s k + int n)"
proof (induction n arbitrary: s)
  case 0
  then show ?case by (simp add: reserve_all_def)
next
  case (Suc n)
  obtain x s' where res: "reserve s k l = (x, s')" by (cases "reserve s k l")
  show ?case
  proof (cases "used s k < l")
    case True
    then have "x = None" using reserve_free[of k l s] Suc.prems res by simp
    then have "used s' k = used s k + 1" using reserve_ok res by auto
    then show ?thesis
      using Suc.IH[of s'] Suc.prems True res by (simp add: reserve_all_Cons)
  next
    case False
    then obtain e where "x = Some e" using reserve_full[of k l s] Suc.prems res by auto
    then have "s' = s" using reserve_err res by simp
    then show ?thesis
      using Suc.IH[of s] Suc.prems False res by (simp add: reserve_all_Cons)
  qed
qed

end

section \<open>Put-if-absent stores\<close>

locale first_write =
  fixes put :: "'s \<Rightarrow> 'k \<Rightarrow> 'v \<Rightarrow> 's \<times> bool"
    and get :: "'s \<Rightarrow> 'k \<Rightarrow> 'v option"
  assumes put_new: "get s k = None \<Longrightarrow> put s k v = (s', b) \<Longrightarrow>
      b \<and> (\<forall>j. get s' j = (if j = k then Some v else get s j))"
    and put_old: "get s k \<noteq> None \<Longrightarrow> put s k v = (s, False)"
begin

definition put_all :: "'s \<Rightarrow> ('k \<times> 'v) list \<Rightarrow> 's" where
  "put_all s = foldl (\<lambda>s (k, v). fst (put s k v)) s"

lemma put_all_Cons: "put_all s ((k, v) # xs) = put_all (fst (put s k v)) xs"
  by (simp add: put_all_def)

lemma get_put: "get (fst (put s k v)) j =
    (if j = k \<and> get s k = None then Some v else get s j)"
proof (cases "get s k")
  case None
  then show ?thesis using put_new[of s k v] by (cases "put s k v") auto
next
  case (Some w)
  then show ?thesis by (simp add: put_old)
qed

lemma put_result: "snd (put s k v) \<longleftrightarrow> get s k = None"
  using put_new[of s k v] put_old[of s k v] by (cases "put s k v"; cases "get s k") auto

lemma stays: "get s k = Some v \<Longrightarrow> get (put_all s xs) k = Some v"
proof (induction xs arbitrary: s)
  case Nil
  then show ?case by (simp add: put_all_def)
next
  case (Cons x xs)
  obtain j w where x: "x = (j, w)" by (cases x)
  have "get (fst (put s j w)) k = Some v" using Cons.prems by (auto simp: get_put)
  then show ?case using Cons.IH x by (simp add: put_all_Cons)
qed

text \<open>After any sequence of writes a key holds the first value written to it.\<close>

lemma first_value: "get s k = None \<Longrightarrow> get (put_all s xs) k = map_of xs k"
proof (induction xs arbitrary: s)
  case Nil
  then show ?case by (simp add: put_all_def)
next
  case (Cons x xs)
  obtain j v where x: "x = (j, v)" by (cases x)
  show ?case
  proof (cases "j = k")
    case True
    then have "get (fst (put s k v)) k = Some v" using Cons.prems by (simp add: get_put)
    then show ?thesis using True x by (simp add: put_all_Cons stays)
  next
    case False
    then have "get (fst (put s j v)) k = None" using Cons.prems by (simp add: get_put)
    then show ?thesis using Cons.IH x False by (simp add: put_all_Cons)
  qed
qed

end

section \<open>Versioned records\<close>

text \<open>
  Optimistic concurrency: a commit names the version it has read. It goes through only on that
  version, which it replaces by another one; otherwise it changes nothing.
\<close>

locale versioned =
  fixes commit :: "'s \<Rightarrow> 'k \<Rightarrow> int \<Rightarrow> 'u \<Rightarrow> 's \<times> bool"
    and version :: "'s \<Rightarrow> 'k \<Rightarrow> int option"
    and inv :: "'s \<Rightarrow> bool"
  assumes commit_ok: "inv s \<Longrightarrow> commit s k v u = (s', True) \<Longrightarrow>
      version s k = Some v \<and> version s' k \<noteq> Some v"
    and commit_fail: "commit s k v u = (s', False) \<Longrightarrow> s' = s"
    and commit_inv: "inv s \<Longrightarrow> commit s k v u = (s', b) \<Longrightarrow> inv s'"
begin

fun commits :: "'s \<Rightarrow> 'k \<Rightarrow> int \<Rightarrow> 'u list \<Rightarrow> nat" where
  "commits s k v [] = 0"
| "commits s k v (u # us) =
     (case commit s k v u of (s', b) \<Rightarrow> (if b then 1 else 0) + commits s' k v us)"

lemma stale_refused: "inv s \<Longrightarrow> version s k \<noteq> Some v \<Longrightarrow> commit s k v u = (s, False)"
  using commit_ok commit_fail by (metis (full_types) surj_pair)

lemma stale_all_refused: "inv s \<Longrightarrow> version s k \<noteq> Some v \<Longrightarrow> commits s k v us = 0"
  by (induction us) (auto simp: stale_refused)

text \<open>Of all writers that have read the same version, at most one wins.\<close>

lemma one_winner: "inv s \<Longrightarrow> commits s k v us \<le> 1"
proof (induction us arbitrary: s)
  case Nil
  then show ?case by simp
next
  case (Cons u us)
  obtain s' b where c: "commit s k v u = (s', b)" by (cases "commit s k v u")
  then have inv': "inv s'" using Cons.prems commit_inv by blast
  show ?case
  proof (cases b)
    case True
    then have "version s' k \<noteq> Some v" using c Cons.prems commit_ok[of s k v u s'] by simp
    then have "commits s' k v us = 0" using inv' stale_all_refused by blast
    then show ?thesis using c by simp
  next
    case False
    then show ?thesis using Cons.IH[OF inv'] c by simp
  qed
qed

end

end
