(* ===== verification/Domain_Status.thy ===== *)
theory Domain_Status
  imports Contracts
begin

text \<open>
  \<open>internal/domain\<close>: the status types and their transition tables (\<open>status.go\<close>), survey
  missions and buoys (\<open>plan.go\<close>) and the rules for recovery jobs (\<open>recovery_job_rules.go\<close>,
  \<open>permissions.go\<close> aside). A Go status type is a string type with named constants, so a status
  is a string and the constants are abbreviations; the \<open>default\<close> branches of the code then cover
  unknown values as they do in Go.
\<close>

section \<open>Survey missions\<close>

type_synonym SurveyMissionStatus = string

abbreviation SurveyMissionDraft :: SurveyMissionStatus where
  "SurveyMissionDraft \<equiv> ''draft''"
abbreviation SurveyMissionScheduled :: SurveyMissionStatus where
  "SurveyMissionScheduled \<equiv> ''scheduled''"
abbreviation SurveyMissionActive :: SurveyMissionStatus where
  "SurveyMissionActive \<equiv> ''active''"
abbreviation SurveyMissionClosed :: SurveyMissionStatus where
  "SurveyMissionClosed \<equiv> ''closed''"

definition SurveyMission_CanMoveTo :: "SurveyMissionStatus \<Rightarrow> SurveyMissionStatus \<Rightarrow> bool" where
  "SurveyMission_CanMoveTo s next \<longleftrightarrow>
     (if s = SurveyMissionDraft then next = SurveyMissionScheduled
      else if s = SurveyMissionScheduled
        then next = SurveyMissionActive \<or> next = SurveyMissionClosed
      else if s = SurveyMissionActive then next = SurveyMissionClosed
      else False)"

record SurveyMission =
  sm_ID :: string
  sm_Code :: string
  sm_Name :: string
  sm_Status :: SurveyMissionStatus
  sm_Timezone :: string
  sm_StartsAt :: time
  sm_EndsAt :: time
  sm_Version :: int
  sm_CreatedBy :: string

definition ValidateWindow :: "SurveyMission \<Rightarrow> time \<Rightarrow> go_error option" where
  "ValidateWindow p now =
     (if sm_EndsAt p < sm_StartsAt p \<or> sm_EndsAt p = sm_StartsAt p
        then Some (Errorf ''survey_mission end must be after start'' conflict)
      else if sm_Timezone p = '''' then Some (Errorf ''timezone is required'' conflict)
      else if sm_EndsAt p < now \<and> sm_Status p \<noteq> SurveyMissionClosed
        then Some (Errorf ''survey_mission window has elapsed'' expired)
      else None)"

definition SurveyMissionExecutionAllowed :: "SurveyMission \<Rightarrow> time \<Rightarrow> bool" where
  "SurveyMissionExecutionAllowed p now \<longleftrightarrow>
     (if sm_Status p \<noteq> SurveyMissionActive then False
      else if now < sm_StartsAt p then False
      else now < sm_EndsAt p)"

definition CanExecuteAt :: "SurveyMission \<Rightarrow> time \<Rightarrow> bool" where
  "CanExecuteAt p now \<longleftrightarrow>
     sm_Status p = SurveyMissionActive \<and> \<not> now < sm_StartsAt p \<and> now < sm_EndsAt p"

definition RemainingWindow :: "SurveyMission \<Rightarrow> time \<Rightarrow> duration" where
  "RemainingWindow p now = (if sm_EndsAt p < now then 0 else time_Sub (sm_EndsAt p) now)"

record AcousticBuoy =
  ab_ID :: string
  ab_SurveyMissionID :: string
  ab_Code :: string
  ab_ArrayOpsLane :: string
  ab_RequiredSuccesses :: int
  ab_Completed :: int

definition AcousticBuoy_Validate :: "AcousticBuoy \<Rightarrow> go_error option" where
  "AcousticBuoy_Validate s =
     (if blank (ab_Code s) \<or> blank (ab_ArrayOpsLane s)
        then Some (Errorf ''acoustic_buoy code and arrayops_lane are required'' conflict)
      else if ab_RequiredSuccesses s < 1
        then Some (Errorf ''acoustic_buoy requires at least one task'' conflict)
      else if ab_Completed s < 0 \<or> ab_RequiredSuccesses s < ab_Completed s
        then Some (Errorf ''acoustic_buoy completed task count is invalid'' conflict)
      else None)"

section \<open>Recovery jobs\<close>

type_synonym RecoveryJobStatus = string

abbreviation RecoveryJobQueued :: RecoveryJobStatus where
  "RecoveryJobQueued \<equiv> ''queued''"
abbreviation RecoveryJobCompleted :: RecoveryJobStatus where
  "RecoveryJobCompleted \<equiv> ''completed''"
abbreviation RecoveryJobActivationPending :: RecoveryJobStatus where
  "RecoveryJobActivationPending \<equiv> ''activation_pending''"
abbreviation RecoveryJobAccepted :: RecoveryJobStatus where
  "RecoveryJobAccepted \<equiv> ''accepted''"
abbreviation RecoveryJobInProgress :: RecoveryJobStatus where
  "RecoveryJobInProgress \<equiv> ''in_progress''"
abbreviation RecoveryJobVerified :: RecoveryJobStatus where
  "RecoveryJobVerified \<equiv> ''verified''"
abbreviation RecoveryJobRejected :: RecoveryJobStatus where
  "RecoveryJobRejected \<equiv> ''rejected''"
abbreviation RecoveryJobArchived :: RecoveryJobStatus where
  "RecoveryJobArchived \<equiv> ''archived''"

definition RecoveryJob_CanMoveTo :: "RecoveryJobStatus \<Rightarrow> RecoveryJobStatus \<Rightarrow> bool" where
  "RecoveryJob_CanMoveTo s next \<longleftrightarrow>
     (if s = RecoveryJobQueued then next = RecoveryJobCompleted
      else if s = RecoveryJobCompleted then next = RecoveryJobActivationPending
      else if s = RecoveryJobActivationPending then next = RecoveryJobAccepted
      else if s = RecoveryJobAccepted then next = RecoveryJobInProgress
      else if s = RecoveryJobInProgress
        then next = RecoveryJobVerified \<or> next = RecoveryJobRejected
      else if s = RecoveryJobRejected then next = RecoveryJobArchived
      else if s = RecoveryJobVerified then next = RecoveryJobArchived
      else False)"

record RecoveryJob =
  rj_ID :: string
  rj_SurveyMissionID :: string
  rj_AcousticBuoyID :: string
  rj_TaskCode :: string
  rj_Status :: RecoveryJobStatus
  rj_CompletedAt :: "time option"
  rj_AcceptedAt :: "time option"
  rj_ExpiresAt :: time
  rj_Version :: int

definition EligibleForExecution :: "RecoveryJobStatus \<Rightarrow> time \<Rightarrow> time \<Rightarrow> bool" where
  "EligibleForExecution status expiresAt now \<longleftrightarrow>
     (if status \<noteq> RecoveryJobAccepted then False
      else if expiresAt < now then False
      else True)"

text \<open>The struct \<open>Move\<close> returns on success: status, version and time stamps written.\<close>

definition moved_job :: "RecoveryJob \<Rightarrow> RecoveryJobStatus \<Rightarrow> time \<Rightarrow> RecoveryJob" where
  "moved_job s next now =
     s\<lparr>rj_Status := next, rj_Version := wrap64 (rj_Version s + 1),
       rj_CompletedAt := (if next = RecoveryJobCompleted then Some now else rj_CompletedAt s),
       rj_AcceptedAt := (if next = RecoveryJobAccepted then Some now else rj_AcceptedAt s)\<rparr>"

definition RecoveryJob_Move ::
  "RecoveryJob \<Rightarrow> RecoveryJobStatus \<Rightarrow> time \<Rightarrow> RecoveryJob result" where
  "RecoveryJob_Move s next now =
     (if \<not> RecoveryJob_CanMoveTo (rj_Status s) next
        then Inl (Errorf (rj_Status s @ '' -> '' @ next) invalid_transition)
      else if rj_ExpiresAt s < now \<and> next \<noteq> RecoveryJobArchived
        then Inl (Errorf (''task '' @ rj_TaskCode s @ '' expired'') expired)
      else Inr (moved_job s next now))"

definition CanBePerformed :: "RecoveryJob \<Rightarrow> time \<Rightarrow> go_error option" where
  "CanBePerformed s now =
     (if rj_Status s \<noteq> RecoveryJobAccepted
        then Some (Errorf ''task is not accepted'' invalid_transition)
      else if rj_ExpiresAt s < now then Some expired
      else None)"

definition CanBeArchived :: "RecoveryJob \<Rightarrow> bool" where
  "CanBeArchived s \<longleftrightarrow> rj_Status s = RecoveryJobVerified \<or> rj_Status s = RecoveryJobRejected"

record Activation =
  ac_RecoveryJobID :: string
  ac_From :: string
  ac_To :: string
  ac_Location :: string
  ac_RecordedAt :: time

text \<open>\<open>Activation.Validate\<close> reads the wall clock itself; the reading is the argument \<open>wall\<close>.\<close>

definition Activation_Validate :: "time \<Rightarrow> Activation \<Rightarrow> go_error option" where
  "Activation_Validate wall c =
     (if blank (ac_RecoveryJobID c) \<or> blank (ac_To c) \<or> blank (ac_Location c)
        then Some (Errorf ''activation task, receiver and location are required'' conflict)
      else if \<not> IsZero (ac_RecordedAt c) \<and> wall + 5 * minute < ac_RecordedAt c
        then Some (Errorf ''activation timestamp is in the future'' conflict)
      else None)"

section \<open>Dive windows and reports\<close>

type_synonym DiveWindowStatus = string

abbreviation DiveWindowQueued :: DiveWindowStatus where "DiveWindowQueued \<equiv> ''queued''"
abbreviation DiveWindowRunning :: DiveWindowStatus where "DiveWindowRunning \<equiv> ''running''"
abbreviation DiveWindowCompleted :: DiveWindowStatus where "DiveWindowCompleted \<equiv> ''completed''"
abbreviation DiveWindowCancelled :: DiveWindowStatus where "DiveWindowCancelled \<equiv> ''cancelled''"

definition DiveWindow_CanMoveTo :: "DiveWindowStatus \<Rightarrow> DiveWindowStatus \<Rightarrow> bool" where
  "DiveWindow_CanMoveTo s next \<longleftrightarrow>
     (if s = DiveWindowQueued then next = DiveWindowRunning \<or> next = DiveWindowCancelled
      else if s = DiveWindowRunning
        then next = DiveWindowCompleted \<or> next = DiveWindowCancelled
      else False)"

type_synonym SignalRecoveryReportStatus = string

abbreviation SignalRecoveryReportPending :: SignalRecoveryReportStatus where
  "SignalRecoveryReportPending \<equiv> ''pending''"
abbreviation SignalRecoveryReportVerified :: SignalRecoveryReportStatus where
  "SignalRecoveryReportVerified \<equiv> ''verified''"
abbreviation SignalRecoveryReportRejected :: SignalRecoveryReportStatus where
  "SignalRecoveryReportRejected \<equiv> ''rejected''"

definition Outcome ::
  "SignalRecoveryReportStatus \<Rightarrow> float64 \<Rightarrow> float64 \<Rightarrow> SignalRecoveryReportStatus" where
  "Outcome r riskScore alertThreshold =
     (if alertThreshold < riskScore then SignalRecoveryReportRejected
      else SignalRecoveryReportVerified)"

definition SignalRecoveryReportDecision ::
  "float64 \<Rightarrow> float64 \<Rightarrow> SignalRecoveryReportStatus result" where
  "SignalRecoveryReportDecision riskScore alertThreshold =
     (if alertThreshold < Fin 0
        then Inl (Errorf ''alert threshold cannot be negative'' conflict)
      else if alertThreshold < riskScore then Inr SignalRecoveryReportRejected
      else Inr SignalRecoveryReportVerified)"

section \<open>Lifecycles\<close>

lemmas CanMoveTo_defs =
  SurveyMission_CanMoveTo_def RecoveryJob_CanMoveTo_def DiveWindow_CanMoveTo_def

definition mission_rank :: "SurveyMissionStatus \<Rightarrow> nat" where
  "mission_rank s =
     (if s = SurveyMissionDraft then 0 else if s = SurveyMissionScheduled then 1
      else if s = SurveyMissionActive then 2 else 3)"

definition job_rank :: "RecoveryJobStatus \<Rightarrow> nat" where
  "job_rank s =
     (if s = RecoveryJobQueued then 0 else if s = RecoveryJobCompleted then 1
      else if s = RecoveryJobActivationPending then 2 else if s = RecoveryJobAccepted then 3
      else if s = RecoveryJobInProgress then 4
      else if s = RecoveryJobVerified \<or> s = RecoveryJobRejected then 5 else 6)"

definition window_rank :: "DiveWindowStatus \<Rightarrow> nat" where
  "window_rank s = (if s = DiveWindowQueued then 0 else if s = DiveWindowRunning then 1 else 2)"

text \<open>The edges of the tables, one disjunct each.\<close>

lemma mission_edges: "SurveyMission_CanMoveTo a b \<longleftrightarrow>
    a = SurveyMissionDraft \<and> b = SurveyMissionScheduled \<or>
    a = SurveyMissionScheduled \<and> b = SurveyMissionActive \<or>
    a = SurveyMissionScheduled \<and> b = SurveyMissionClosed \<or>
    a = SurveyMissionActive \<and> b = SurveyMissionClosed"
  unfolding SurveyMission_CanMoveTo_def by simp

lemma job_edges: "RecoveryJob_CanMoveTo a b \<longleftrightarrow>
    a = RecoveryJobQueued \<and> b = RecoveryJobCompleted \<or>
    a = RecoveryJobCompleted \<and> b = RecoveryJobActivationPending \<or>
    a = RecoveryJobActivationPending \<and> b = RecoveryJobAccepted \<or>
    a = RecoveryJobAccepted \<and> b = RecoveryJobInProgress \<or>
    a = RecoveryJobInProgress \<and> b = RecoveryJobVerified \<or>
    a = RecoveryJobInProgress \<and> b = RecoveryJobRejected \<or>
    a = RecoveryJobRejected \<and> b = RecoveryJobArchived \<or>
    a = RecoveryJobVerified \<and> b = RecoveryJobArchived"
  unfolding RecoveryJob_CanMoveTo_def by simp

lemma window_edges: "DiveWindow_CanMoveTo a b \<longleftrightarrow>
    a = DiveWindowQueued \<and> b = DiveWindowRunning \<or>
    a = DiveWindowQueued \<and> b = DiveWindowCancelled \<or>
    a = DiveWindowRunning \<and> b = DiveWindowCompleted \<or>
    a = DiveWindowRunning \<and> b = DiveWindowCancelled"
  unfolding DiveWindow_CanMoveTo_def by simp

interpretation mission_life: lifecycle SurveyMission_CanMoveTo mission_rank 3
  by unfold_locales
    (unfold mission_edges, (elim disjE conjE; simp add: mission_rank_def)?, simp add: mission_rank_def)

interpretation job_life: lifecycle RecoveryJob_CanMoveTo job_rank 6
  by unfold_locales
    (unfold job_edges, (elim disjE conjE; simp add: job_rank_def)?, simp add: job_rank_def)

interpretation window_life: lifecycle DiveWindow_CanMoveTo window_rank 2
  by unfold_locales
    (unfold window_edges, (elim disjE conjE; simp add: window_rank_def)?, simp add: window_rank_def)

section \<open>Rules\<close>

lemma Move_Inr: "RecoveryJob_Move s next now = Inr t \<longleftrightarrow>
    RecoveryJob_CanMoveTo (rj_Status s) next \<and>
    (now \<le> rj_ExpiresAt s \<or> next = RecoveryJobArchived) \<and> t = moved_job s next now"
  by (simp add: RecoveryJob_Move_def linorder_not_less eq_commute)

lemma moved_job_simps [simp]:
  "rj_ID (moved_job s next now) = rj_ID s"
  "rj_SurveyMissionID (moved_job s next now) = rj_SurveyMissionID s"
  "rj_AcousticBuoyID (moved_job s next now) = rj_AcousticBuoyID s"
  "rj_TaskCode (moved_job s next now) = rj_TaskCode s"
  "rj_ExpiresAt (moved_job s next now) = rj_ExpiresAt s"
  "rj_Status (moved_job s next now) = next"
  "rj_Version (moved_job s next now) = wrap64 (rj_Version s + 1)"
  by (simp_all add: moved_job_def)

lemma Move_error:
  "RecoveryJob_Move s next now = Inl e \<Longrightarrow>
   errors_Is e (DomainErr ErrInvalidTransition) \<and> \<not> RecoveryJob_CanMoveTo (rj_Status s) next \<or>
   errors_Is e (DomainErr ErrExpired) \<and> rj_ExpiresAt s < now"
  by (auto simp: RecoveryJob_Move_def split: if_splits)

section \<open>Histories of a recovery job\<close>

text \<open>A sequence of moves, each on the job the previous one returned.\<close>

fun move_run ::
  "RecoveryJob \<Rightarrow> (RecoveryJobStatus \<times> time) list \<Rightarrow> RecoveryJob result" where
  "move_run s [] = Inr s"
| "move_run s ((next, now) # moves) =
     (case RecoveryJob_Move s next now of
        Inl err \<Rightarrow> Inl err
      | Inr s' \<Rightarrow> move_run s' moves)"

definition in_time :: "RecoveryJob \<Rightarrow> (RecoveryJobStatus \<times> time) list \<Rightarrow> bool" where
  "in_time s = list_all (\<lambda>(next, now). now \<le> rj_ExpiresAt s \<or> next = RecoveryJobArchived)"

lemma move_run_Cons: "move_run s ((nx, now) # moves) = Inr t \<longleftrightarrow>
    RecoveryJob_CanMoveTo (rj_Status s) nx \<and> (now \<le> rj_ExpiresAt s \<or> nx = RecoveryJobArchived) \<and>
    move_run (moved_job s nx now) moves = Inr t"
  by (simp add: RecoveryJob_Move_def linorder_not_less)

declare move_run.simps(2) [simp del]

lemma in_time_moved [simp]: "in_time (moved_job s next now) = in_time s"
  by (simp add: in_time_def)

lemma move_run_possible: "(\<exists>t. move_run s moves = Inr t) \<longleftrightarrow>
    successively RecoveryJob_CanMoveTo (rj_Status s # map fst moves) \<and> in_time s moves"
proof (induction moves arbitrary: s)
  case Nil
  then show ?case by (simp add: in_time_def)
next
  case (Cons m moves)
  obtain nx now where m: "m = (nx, now)" by (cases m)
  show ?case
    using Cons.IH[of "moved_job s nx now"] unfolding m move_run_Cons
    by (auto simp: in_time_def)
qed

lemma move_run_result: "move_run s moves = Inr t \<Longrightarrow> is_int64 (rj_Version s) \<Longrightarrow>
    rj_ID t = rj_ID s \<and> rj_AcousticBuoyID t = rj_AcousticBuoyID s \<and>
    rj_ExpiresAt t = rj_ExpiresAt s \<and>
    rj_Status t = last (rj_Status s # map fst moves) \<and>
    rj_Version t = wrap64 (rj_Version s + int (length moves))"
proof (induction moves arbitrary: s)
  case Nil
  then show ?case by simp
next
  case (Cons m moves)
  obtain nx now where m: "m = (nx, now)" by (cases m)
  have "move_run (moved_job s nx now) moves = Inr t"
    using Cons.prems unfolding m move_run_Cons by simp
  from Cons.IH[OF this] show ?case by (auto simp: m wrap64_range algebra_simps)
qed

section \<open>Properties\<close>

text \<open>C10: a sequence of moves of a recovery job goes through exactly when it follows the transition
  table and every move but archiving happens before the job expires. Then no status is entered
  twice, there are at most six moves, the version counts them, and identity, buoy and expiry are
  as they were.\<close>

theorem job_history:
  "((\<exists>t. move_run s moves = Inr t) \<longleftrightarrow>
      successively RecoveryJob_CanMoveTo (rj_Status s # map fst moves) \<and> in_time s moves) \<and>
   (move_run s moves = Inr t \<longrightarrow> is_int64 (rj_Version s) \<longrightarrow>
      distinct (rj_Status s # map fst moves) \<and> length moves \<le> 6 \<and>
      rj_Version t = wrap64 (rj_Version s + int (length moves)) \<and>
      rj_Status t = last (rj_Status s # map fst moves) \<and>
      rj_ID t = rj_ID s \<and> rj_AcousticBuoyID t = rj_AcousticBuoyID s \<and>
      rj_ExpiresAt t = rj_ExpiresAt s)"
proof -
  have path: "successively RecoveryJob_CanMoveTo (rj_Status s # map fst moves)"
    if "move_run s moves = Inr t"
    using that move_run_possible by blast
  have "distinct (rj_Status s # map fst moves)" "length moves \<le> 6"
    if "move_run s moves = Inr t"
    using job_life.run_distinct[OF path[OF that]] job_life.run_length[OF path[OF that]] by simp_all
  then show ?thesis using move_run_possible move_run_result by simp
qed

definition sample_job :: RecoveryJob where
  "sample_job =
     \<lparr>rj_ID = ''j1'', rj_SurveyMissionID = ''m1'', rj_AcousticBuoyID = ''b1'', rj_TaskCode = ''T-1'',
      rj_Status = RecoveryJobQueued, rj_CompletedAt = None, rj_AcceptedAt = None,
      rj_ExpiresAt = 100, rj_Version = 1\<rparr>"

definition sample_moves :: "(RecoveryJobStatus \<times> time) list" where
  "sample_moves =
     [(RecoveryJobCompleted, 10), (RecoveryJobActivationPending, 20), (RecoveryJobAccepted, 30),
      (RecoveryJobInProgress, 40), (RecoveryJobVerified, 50), (RecoveryJobArchived, 200)]"

theorem job_history_witness:
  "\<exists>t. move_run sample_job sample_moves = Inr t \<and> rj_Version t = 7 \<and> rj_Status t = ''archived''"
proof -
  have run: "\<exists>t. move_run sample_job sample_moves = Inr t"
    using conjunct1[OF job_history[of sample_job sample_moves]]
    by (simp add: sample_job_def sample_moves_def in_time_def job_edges)
  then obtain t where t: "move_run sample_job sample_moves = Inr t" by blast
  have "is_int64 (rj_Version sample_job)" by (simp add: sample_job_def is_int64_def)
  then show ?thesis
    using conjunct2[OF job_history[of sample_job sample_moves t]] t
    by (auto simp: sample_job_def sample_moves_def wrap64_def)
qed

text \<open>The three checks of whether a job may be worked on agree: the predicate, the check with an
  error, and the move to \<open>in_progress\<close>; the job must be accepted and not expired.\<close>

theorem execution_checks_agree:
  "(EligibleForExecution (rj_Status s) (rj_ExpiresAt s) now \<longleftrightarrow> CanBePerformed s now = None) \<and>
   (CanBePerformed s now = None \<longleftrightarrow>
      is_ok (RecoveryJob_Move s RecoveryJobInProgress now)) \<and>
   (CanBePerformed s now = None \<longleftrightarrow> rj_Status s = RecoveryJobAccepted \<and> now \<le> rj_ExpiresAt s)"
proof -
  have "is_ok (RecoveryJob_Move s RecoveryJobInProgress now) \<longleftrightarrow>
      rj_Status s = RecoveryJobAccepted \<and> now \<le> rj_ExpiresAt s"
    unfolding is_ok_iff Move_Inr by (simp add: job_edges)
  then show ?thesis by (simp add: EligibleForExecution_def CanBePerformed_def linorder_not_less)
qed

end
