(* ===== verification/State_Graph.thy ===== *)
theory State_Graph
  imports Domain_Status
begin

text \<open>
  \<open>internal/domain/state_machine.go\<close> and \<open>transition.go\<close>: transition graphs given by edge
  lists, path validation, breadth-first reachability, and the three default machines.
\<close>

section \<open>Graphs\<close>

text \<open>\<open>map[string]map[string]struct{}\<close>: each source state with its set of destinations, the set
  kept as a list without repetitions. Go visits a set in no fixed order; \<open>Reachable_eq\<close> below
  shows that the answer depends on the edges only.\<close>

record StateMachine =
  states :: "(string \<times> string list) list"

definition NewStateMachine :: "(string \<times> string list) list \<Rightarrow> StateMachine" where
  "NewStateMachine edges =
     \<lparr>states = map (\<lambda>(from, destinations). (from, remdups destinations)) edges\<rparr>"

definition Allows :: "StateMachine \<Rightarrow> string \<Rightarrow> string \<Rightarrow> bool" where
  "Allows m from to =
     (case map_of (states m) from of
        None \<Rightarrow> False
      | Some destinations \<Rightarrow> to \<in> set destinations)"

text \<open>\<open>for i := 1; i < len(path); i++\<close> over adjacent pairs.\<close>

fun path_steps :: "StateMachine \<Rightarrow> string list \<Rightarrow> go_error option" where
  "path_steps m (a # b # path) =
     (if \<not> Allows m a b
        then Some (Errorf (a @ '' -> '' @ b @ '' is not allowed'') invalid_transition)
      else path_steps m (b # path))"
| "path_steps m _ = None"

definition ValidatePath :: "StateMachine \<Rightarrow> string list \<Rightarrow> go_error option" where
  "ValidatePath m path =
     (if length path < 2
        then Some (Errorf ''state path needs at least two states'' invalid_transition)
      else path_steps m path)"

text \<open>The inner loop of \<open>Reachable\<close>: mark and enqueue the destinations not yet visited.\<close>

fun visit_next :: "string list \<Rightarrow> string list \<Rightarrow> string list \<Rightarrow> string list \<times> string list" where
  "visit_next [] visited queue = (visited, queue)"
| "visit_next (next # rest) visited queue =
     (if next \<notin> set visited then visit_next rest (next # visited) (queue @ [next])
      else visit_next rest visited queue)"

definition destinations :: "StateMachine \<Rightarrow> string \<Rightarrow> string list" where
  "destinations m a = (case map_of (states m) a of None \<Rightarrow> [] | Some ds \<Rightarrow> ds)"

definition nodes :: "StateMachine \<Rightarrow> string set" where
  "nodes m = (\<Union>(a, ds) \<in> set (states m). set ds)"

lemma finite_nodes [simp]: "finite (nodes m)"
  by (auto simp: nodes_def)

lemma destinations_nodes: "set (destinations m a) \<subseteq> nodes m"
proof (cases "map_of (states m) a")
  case None
  then show ?thesis by (simp add: destinations_def)
next
  case (Some ds)
  then have "(a, ds) \<in> set (states m)" by (rule map_of_SomeD)
  with Some show ?thesis by (force simp: destinations_def nodes_def)
qed

lemma visit_next_visited:
  "visit_next ds visited queue = (v, q) \<Longrightarrow> set v = set visited \<union> set ds"
  by (induction ds visited queue rule: visit_next.induct) (auto split: if_splits)

lemma visit_next_queue:
  "visit_next ds visited queue = (v, q) \<Longrightarrow>
   set q = set queue \<union> (set ds - set visited)"
  by (induction ds visited queue rule: visit_next.induct) (auto split: if_splits)

lemma visit_next_distinct:
  "visit_next ds visited queue = (v, q) \<Longrightarrow> distinct visited \<Longrightarrow> distinct v"
  by (induction ds visited queue rule: visit_next.induct) (auto split: if_splits)

lemma visit_next_same:
  "visit_next ds visited queue = (v, q) \<Longrightarrow> set ds \<subseteq> set visited \<Longrightarrow> v = visited \<and> q = queue"
  by (induction ds visited queue rule: visit_next.induct) (auto split: if_splits)

lemma visit_next_progress:
  assumes vis: "visit_next (destinations m a) visited queue = (v, q)"
    and new: "\<not> set (destinations m a) \<subseteq> set visited"
  shows "card (nodes m - set v) < card (nodes m - set visited)"
proof -
  have "nodes m - set v \<subset> nodes m - set visited"
    using visit_next_visited[OF vis] destinations_nodes[of m a] new by auto
  then show ?thesis by (intro psubset_card_mono) auto
qed

text \<open>The outer loop. Every round either marks a new node or shortens the queue.\<close>

function bfs :: "StateMachine \<Rightarrow> string list \<Rightarrow> string list \<Rightarrow> string list" where
  "bfs m visited [] = visited"
| "bfs m visited (current # queue) =
     (case visit_next (destinations m current) visited queue of
        (v, q) \<Rightarrow> bfs m v q)"
  by pat_completeness auto

termination
proof (relation "measures [\<lambda>(m, visited, queue). card (nodes m - set visited),
    \<lambda>(m, visited, queue). length queue]", goal_cases)
  case 1
  then show ?case by simp
next
  case (2 m visited current queue v q)
  then have vis: "visit_next (destinations m current) visited queue = (v, q)" by (simp add: eq_commute)
  show ?case
    using visit_next_same[OF vis] visit_next_progress[OF vis]
    by (cases "set (destinations m current) \<subseteq> set visited") auto
qed

declare bfs.simps(2) [simp del]

lemma bfs_step:
  "visit_next (destinations m current) visited queue = (v, q) \<Longrightarrow>
   bfs m visited (current # queue) = bfs m v q"
  by (simp add: bfs.simps(2))

definition Reachable :: "StateMachine \<Rightarrow> string \<Rightarrow> string list" where
  "Reachable m start = sort (bfs m [start] [start])"

section \<open>Correctness\<close>

definition edge :: "StateMachine \<Rightarrow> (string \<times> string) set" where
  "edge m = {(a, b). b \<in> set (destinations m a)}"

lemma edge_Allows: "(a, b) \<in> edge m \<longleftrightarrow> Allows m a b"
  by (auto simp: edge_def destinations_def Allows_def split: option.splits)

lemma path_steps_None: "path_steps m path = None \<longleftrightarrow> successively (Allows m) path"
  by (induction m path rule: path_steps.induct) auto

lemma ValidatePath_None:
  "ValidatePath m path = None \<longleftrightarrow> 2 \<le> length path \<and> successively (Allows m) path"
  by (auto simp: ValidatePath_def path_steps_None)

lemma bfs_distinct: "distinct visited \<Longrightarrow> distinct (bfs m visited queue)"
proof (induction m visited queue rule: bfs.induct)
  case (1 m visited)
  then show ?case by simp
next
  case (2 m visited current queue)
  obtain v q where vis: "visit_next (destinations m current) visited queue = (v, q)"
    by (cases "visit_next (destinations m current) visited queue")
  show ?case
    using 2(1)[OF vis[symmetric]] visit_next_distinct[OF vis 2(2)] bfs_step[OF vis] by simp
qed

text \<open>Everything marked is reachable from what was marked before.\<close>

lemma bfs_sound:
  "set queue \<subseteq> set visited \<Longrightarrow>
   set (bfs m visited queue) \<subseteq> (edge m)\<^sup>* `` set visited"
proof (induction m visited queue rule: bfs.induct)
  case (1 m visited)
  then show ?case by auto
next
  case (2 m visited current queue)
  obtain v q where vis: "visit_next (destinations m current) visited queue = (v, q)"
    by (cases "visit_next (destinations m current) visited queue")
  have v: "set v = set visited \<union> set (destinations m current)"
    using visit_next_visited[OF vis] .
  have "set q \<subseteq> set v" using 2(2) visit_next_queue[OF vis] v by auto
  then have "set (bfs m v q) \<subseteq> (edge m)\<^sup>* `` set v" using 2(1)[OF vis[symmetric]] by simp
  moreover have "set v \<subseteq> (edge m)\<^sup>* `` set visited"
    using v 2(2) by (auto simp: edge_def Image_iff)
  then have "(edge m)\<^sup>* `` set v \<subseteq> (edge m)\<^sup>* `` set visited"
    by (auto simp: Image_iff subset_iff) (meson rtrancl_trans)
  ultimately show ?case using bfs_step[OF vis] by auto
qed

text \<open>A marked node that is not queued has all its successors marked.\<close>

lemma bfs_closed:
  "\<forall>a \<in> set visited. a \<notin> set queue \<longrightarrow> set (destinations m a) \<subseteq> set visited \<Longrightarrow>
   set visited \<subseteq> set (bfs m visited queue) \<and>
   (\<forall>a \<in> set (bfs m visited queue). set (destinations m a) \<subseteq> set (bfs m visited queue))"
proof (induction m visited queue rule: bfs.induct)
  case (1 m visited)
  then show ?case by simp
next
  case (2 m visited current queue)
  obtain v q where vis: "visit_next (destinations m current) visited queue = (v, q)"
    by (cases "visit_next (destinations m current) visited queue")
  have v: "set v = set visited \<union> set (destinations m current)"
    and q: "set q = set queue \<union> (set (destinations m current) - set visited)"
    using visit_next_visited[OF vis] visit_next_queue[OF vis] by auto
  have "\<forall>a \<in> set v. a \<notin> set q \<longrightarrow> set (destinations m a) \<subseteq> set v"
    using 2(2) v q by auto
  then show ?case using 2(1)[OF vis[symmetric]] bfs_step[OF vis] v by auto
qed

lemma bfs_reachable: "set (bfs m [start] [start]) = {b. (start, b) \<in> (edge m)\<^sup>*}"
proof
  show "set (bfs m [start] [start]) \<subseteq> {b. (start, b) \<in> (edge m)\<^sup>*}"
    using bfs_sound[of "[start]" "[start]" m] by auto
  let ?R = "set (bfs m [start] [start])"
  have closed: "start \<in> ?R" "\<And>a. a \<in> ?R \<Longrightarrow> set (destinations m a) \<subseteq> ?R"
    using bfs_closed[of "[start]" "[start]" m] by auto
  have "b \<in> ?R" if "(start, b) \<in> (edge m)\<^sup>*" for b
    using that
  proof (induction rule: rtrancl_induct)
    case base
    then show ?case by (rule closed(1))
  next
    case (step a b)
    then show ?case using closed(2) by (auto simp: edge_def)
  qed
  then show "{b. (start, b) \<in> (edge m)\<^sup>*} \<subseteq> ?R" by blast
qed

text \<open>C11: \<open>Reachable\<close> terminates and lists, sorted and without repetition, exactly the states
  that a path of allowed transitions leads to from the start (the start included); so the answer
  does not depend on the order in which Go's maps are visited.\<close>

theorem Reachable_eq:
  "sorted (Reachable m start) \<and> distinct (Reachable m start) \<and>
   set (Reachable m start) = {b. (Allows m)\<^sup>*\<^sup>* start b}"
proof -
  have "edge m = {(a, b). Allows m a b}" using edge_Allows by auto
  then show ?thesis
    by (simp add: Reachable_def bfs_distinct bfs_reachable rtranclp_rtrancl_eq)
qed

section \<open>The default machines\<close>

definition DefaultSurveyMissionMachine :: StateMachine where
  "DefaultSurveyMissionMachine = NewStateMachine
     [(''draft'', [''scheduled'']), (''scheduled'', [''active'', ''closed'']),
      (''active'', [''closed''])]"

definition DefaultRecoveryJobMachine :: StateMachine where
  "DefaultRecoveryJobMachine = NewStateMachine
     [(''queued'', [''completed'']), (''completed'', [''activation_pending'']),
      (''activation_pending'', [''accepted'']), (''accepted'', [''in_progress'']),
      (''in_progress'', [''verified'', ''rejected'']), (''verified'', [''archived'']),
      (''rejected'', [''archived''])]"

definition DefaultDiveWindowMachine :: StateMachine where
  "DefaultDiveWindowMachine = NewStateMachine
     [(''queued'', [''running'', ''cancelled'']), (''running'', [''completed'', ''cancelled''])]"

lemma Allows_New: "Allows (NewStateMachine es) a b \<longleftrightarrow>
    (case map_of es a of None \<Rightarrow> False | Some ds \<Rightarrow> b \<in> set ds)"
  by (induction es) (auto simp: Allows_def NewStateMachine_def)

text \<open>The graph machines and the \<open>CanMoveTo\<close> methods are the same relations, on every pair
  of strings, known statuses or not.\<close>

theorem default_machines_agree:
  "Allows DefaultSurveyMissionMachine = SurveyMission_CanMoveTo \<and>
   Allows DefaultRecoveryJobMachine = RecoveryJob_CanMoveTo \<and>
   Allows DefaultDiveWindowMachine = DiveWindow_CanMoveTo"
proof (intro conjI ext)
  fix a b
  show "Allows DefaultSurveyMissionMachine a b = SurveyMission_CanMoveTo a b"
    by (simp add: DefaultSurveyMissionMachine_def Allows_New SurveyMission_CanMoveTo_def)
  show "Allows DefaultRecoveryJobMachine a b = RecoveryJob_CanMoveTo a b"
    by (simp add: DefaultRecoveryJobMachine_def Allows_New RecoveryJob_CanMoveTo_def)
  show "Allows DefaultDiveWindowMachine a b = DiveWindow_CanMoveTo a b"
    by (simp add: DefaultDiveWindowMachine_def Allows_New DiveWindow_CanMoveTo_def)
qed

section \<open>Transition records\<close>

record Transition =
  tr_From :: string
  tr_To :: string
  tr_Actor :: string
  tr_RequestID :: string

definition Transition_Validate :: "Transition \<Rightarrow> go_error option" where
  "Transition_Validate t =
     (if tr_From t = '''' \<or> tr_To t = '''' \<or> tr_Actor t = '''' \<or> tr_RequestID t = ''''
        then Some (Errorf ''transition metadata is incomplete'' conflict)
      else if tr_From t = tr_To t
        then Some (Errorf ''transition must change state'' invalid_transition)
      else None)"

fun TransitionPath :: "string \<Rightarrow> string list \<Rightarrow> go_error option" where
  "TransitionPath previous [] = None"
| "TransitionPath previous (step # steps) =
     (if step = '''' \<or> step = previous
        then Some (Errorf ''invalid transition path'' invalid_transition)
      else TransitionPath step steps)"

lemma TransitionPath_None:
  "TransitionPath start steps = None \<longleftrightarrow>
   '''' \<notin> set steps \<and> successively (\<noteq>) (start # steps)"
  by (induction start steps rule: TransitionPath.induct) auto

end
