(* ===== verification/Audit_Trail.thy ===== *)
theory Audit_Trail
  imports Go_Prelude
begin

text \<open>
  \<open>internal/audit\<close> (events, filters, the hash chain and the CSV export) and
  \<open>internal/idempotency\<close> (request fingerprints).

  The \<open>Detail\<close> map of an event holds arbitrary values; its type is \<open>'d\<close>. \<open>encoding/json\<close>'s
  encoding of an event is the argument \<open>json_event\<close> (an encoding or an error), SHA-256 is the
  argument \<open>sha256\<close>; hexadecimal text and the framing of the chain are written out.
\<close>

section \<open>Events\<close>

record 'd Event =
  ev_RequestID :: string
  ev_ArrayOperatorID :: "string option"
  ev_ObjectType :: string
  ev_ObjectID :: string
  ev_Action :: string
  ev_Outcome :: string
  ev_Detail :: "'d option"
  ev_CreatedAt :: time

definition Event_Validate :: "'d Event \<Rightarrow> go_error option" where
  "Event_Validate e =
     (if blank (ev_RequestID e) \<or> blank (ev_ObjectType e) \<or> blank (ev_ObjectID e)
        then Some (NewError ''audit identity is required'')
      else if blank (ev_Action e) \<or> blank (ev_Outcome e)
        then Some (NewError ''audit action and outcome are required'')
      else None)"

text \<open>\<open>if e.Detail == nil { e.Detail = map[string]any{} }\<close>\<close>

definition with_detail :: "'d \<Rightarrow> 'd Event \<Rightarrow> 'd Event" where
  "with_detail empty_map e =
     (case ev_Detail e of None \<Rightarrow> e\<lparr>ev_Detail := Some empty_map\<rparr> | Some _ \<Rightarrow> e)"

definition Event_JSON ::
  "('d option \<Rightarrow> string result) \<Rightarrow> 'd \<Rightarrow> 'd Event \<Rightarrow> string result" where
  "Event_JSON json_detail empty_map e =
     (case Event_Validate e of
        Some err \<Rightarrow> Inl err
      | None \<Rightarrow> json_detail (ev_Detail (with_detail empty_map e)))"

record audit_filter =
  af_ObjectType :: string
  af_ObjectID :: string
  af_Action :: string
  af_Outcome :: string

definition audit_Match :: "audit_filter \<Rightarrow> 'd Event \<Rightarrow> bool" where
  "audit_Match f event \<longleftrightarrow>
     (if af_ObjectType f \<noteq> '''' \<and> ev_ObjectType event \<noteq> af_ObjectType f then False
      else if af_ObjectID f \<noteq> '''' \<and> ev_ObjectID event \<noteq> af_ObjectID f then False
      else if af_Action f \<noteq> '''' \<and> ev_Action event \<noteq> af_Action f then False
      else if af_Outcome f \<noteq> '''' \<and> ev_Outcome event \<noteq> af_Outcome f then False
      else \<not> blank (ev_RequestID event))"

fun filter_events_loop :: "'d Event list \<Rightarrow> audit_filter \<Rightarrow> 'd Event list \<Rightarrow> 'd Event list" where
  "filter_events_loop [] f out = out"
| "filter_events_loop (event # events) f out =
     filter_events_loop events f (if audit_Match f event then out @ [event] else out)"

definition FilterEvents :: "'d Event list \<Rightarrow> audit_filter \<Rightarrow> 'd Event list" where
  "FilterEvents events f = filter_events_loop events f []"

lemma filter_events_loop_eq: "filter_events_loop es f out = out @ filter (audit_Match f) es"
  by (induction es f out rule: filter_events_loop.induct) auto

lemma FilterEvents_eq: "FilterEvents es f = filter (audit_Match f) es"
  by (simp add: FilterEvents_def filter_events_loop_eq)

section \<open>The hash chain\<close>

text \<open>The second \<open>json.Marshal\<close> of \<open>Append\<close> encodes a struct of the previous head, hexadecimal
  text that needs no escape, and of the event's encoding as \<open>json.RawMessage\<close>, which is copied;
  it cannot fail.\<close>

definition chain_payload :: "string \<Rightarrow> string \<Rightarrow> string" where
  \<open>chain_payload previous body =
     ''{"previous":"'' @ previous @ ''","event":'' @ body @ ''}''\<close>

record Chain =
  ch_previous :: string

definition Chain_Append ::
  "(string \<Rightarrow> string) \<Rightarrow> ('d Event \<Rightarrow> string result) \<Rightarrow> 'd \<Rightarrow> Chain \<Rightarrow> 'd Event \<Rightarrow>
   Chain \<times> string result" where
  "Chain_Append sha256 json_event empty_map c event =
     (case Event_Validate event of
        Some err \<Rightarrow> (c, Inl err)
      | None \<Rightarrow>
          (case json_event (with_detail empty_map event) of
             Inl err \<Rightarrow> (c, Inl (Errorf ''marshal audit event'' err))
           | Inr body \<Rightarrow>
               (let h = hex_encode (sha256 (chain_payload (ch_previous c) body))
                in (c\<lparr>ch_previous := h\<rparr>, Inr h))))"

definition Chain_Head :: "Chain \<Rightarrow> string" where
  "Chain_Head c = ch_previous c"

definition chain_run ::
  "(string \<Rightarrow> string) \<Rightarrow> ('d Event \<Rightarrow> string result) \<Rightarrow> 'd \<Rightarrow> 'd Event list \<Rightarrow> Chain" where
  "chain_run sha256 json_event empty_map =
     foldl (\<lambda>c e. fst (Chain_Append sha256 json_event empty_map c e)) \<lparr>ch_previous = []\<rparr>"

text \<open>The encodings of the events the chain has accepted.\<close>

fun chain_bodies :: "('d Event \<Rightarrow> string result) \<Rightarrow> 'd \<Rightarrow> 'd Event list \<Rightarrow> string list" where
  "chain_bodies json_event empty_map [] = []"
| "chain_bodies json_event empty_map (e # es) =
     (if Event_Validate e \<noteq> None then chain_bodies json_event empty_map es
      else case json_event (with_detail empty_map e) of
          Inl _ \<Rightarrow> chain_bodies json_event empty_map es
        | Inr body \<Rightarrow> body # chain_bodies json_event empty_map es)"

definition chain_link :: "(string \<Rightarrow> string) \<Rightarrow> string \<Rightarrow> string \<Rightarrow> string" where
  "chain_link sha256 previous body = hex_encode (sha256 (chain_payload previous body))"

lemma chain_fold: "ch_previous (foldl (\<lambda>c e. fst (Chain_Append sha json em c e)) c es) =
    foldl (chain_link sha) (ch_previous c) (chain_bodies json em es)"
  by (induction es arbitrary: c)
    (auto simp: Chain_Append_def chain_link_def Let_def split: option.splits sum.splits)

lemma Head_chain_run:
  "Chain_Head (chain_run sha json em es) = foldl (chain_link sha) [] (chain_bodies json em es)"
  by (simp add: Chain_Head_def chain_run_def chain_fold)

lemma chain_payload_inject:
  "CHR 0x22 \<notin> set p \<Longrightarrow> CHR 0x22 \<notin> set q \<Longrightarrow>
   chain_payload p b = chain_payload q c \<longleftrightarrow> p = q \<and> b = c"
  by (auto simp: chain_payload_def append_sep_eq)

lemma chain_links_quote: "CHR 0x22 \<notin> set p \<Longrightarrow> CHR 0x22 \<notin> set (foldl (chain_link sha) p bs)"
  by (induction bs arbitrary: p) (auto simp: chain_link_def hex_encode_no_quote)

text \<open>What is hashed when bodies are linked one after the other to a head: nothing else of the hash
  plays a part in the chain.\<close>

fun chain_inputs :: "(string \<Rightarrow> string) \<Rightarrow> string \<Rightarrow> string list \<Rightarrow> string list" where
  "chain_inputs sha256 previous [] = []"
| "chain_inputs sha256 previous (body # bodies) =
     chain_payload previous body # chain_inputs sha256 (chain_link sha256 previous body) bodies"

lemma chain_inputs_append [simp]:
  "chain_inputs sha p (bs @ [b]) =
     chain_inputs sha p bs @ [chain_payload (foldl (chain_link sha) p bs) b]"
  by (induction bs arbitrary: p) auto

lemma chain_inputs_all:
  "(\<forall>x \<in> set (chain_inputs sha p bs). sha' x = sha x) \<Longrightarrow>
   foldl (chain_link sha') p bs = foldl (chain_link sha) p bs"
  by (induction bs arbitrary: p) (auto simp: chain_link_def)

text \<open>The inputs of the hash over a whole run.\<close>

definition chain_hashed ::
  "(string \<Rightarrow> string) \<Rightarrow> ('d Event \<Rightarrow> string result) \<Rightarrow> 'd \<Rightarrow> 'd Event list \<Rightarrow> string set" where
  "chain_hashed sha256 json_event empty_map es =
     set (chain_inputs sha256 [] (chain_bodies json_event empty_map es))"

lemma chain_hashed_all:
  assumes "\<forall>x \<in> chain_hashed sha json em es. sha' x = sha x"
  shows "Chain_Head (chain_run sha' json em es) = Chain_Head (chain_run sha json em es)"
  using chain_inputs_all[of sha "[]" "chain_bodies json em es" sha'] assms
  by (simp add: chain_hashed_def Head_chain_run)

lemma chain_link_eq: "chain_link sha p b = chain_link sha q c \<longleftrightarrow>
    sha (chain_payload p b) = sha (chain_payload q c)"
  by (simp add: chain_link_def hex_encode_inject)

text \<open>Equal heads have equal bodies behind them, or two different inputs among those hashed on the way
  have one digest.\<close>

lemma chain_heads_eq:
  assumes "\<And>x. sha x \<noteq> []"
  shows "foldl (chain_link sha) [] bs = foldl (chain_link sha) [] cs \<Longrightarrow>
    bs = cs \<or> (\<exists>x \<in> set (chain_inputs sha [] bs). \<exists>y \<in> set (chain_inputs sha [] cs).
      x \<noteq> y \<and> sha x = sha y)"
proof (induction bs arbitrary: cs rule: rev_induct)
  case Nil
  show ?case
  proof (cases cs rule: rev_cases)
    case Nil
    then show ?thesis by simp
  next
    case (snoc ds d)
    then show ?thesis
      using Nil assms by (auto simp: chain_link_def hex_encode_Nil)
  qed
next
  case (snoc b bs)
  show ?case
  proof (cases cs rule: rev_cases)
    case Nil
    then show ?thesis
      using snoc.prems assms by (auto simp: chain_link_def hex_encode_Nil)
  next
    case (snoc ds d)
    let ?x = "chain_payload (foldl (chain_link sha) [] bs) b"
    let ?y = "chain_payload (foldl (chain_link sha) [] ds) d"
    have same: "sha ?x = sha ?y"
      using snoc.prems snoc by (simp add: chain_link_eq)
    have "?x = ?y \<longleftrightarrow> foldl (chain_link sha) [] bs = foldl (chain_link sha) [] ds \<and> b = d"
      by (intro chain_payload_inject chain_links_quote) auto
    then show ?thesis
      using snoc same snoc.IH[of ds] by (cases "?x = ?y") auto
  qed
qed

section \<open>CSV export\<close>

text \<open>\<open>write\<close> is the \<open>Write\<close> of a \<open>csv.Writer\<close> on its state, \<open>flush\<close> its \<open>Flush\<close> and \<open>Error\<close>,
  \<open>rfc3339\<close> the time layout.\<close>

fun export_rows ::
  "('w \<Rightarrow> string list \<Rightarrow> 'w \<times> go_error option) \<Rightarrow> (time \<Rightarrow> string) \<Rightarrow> 'd Event list \<Rightarrow> 'w \<Rightarrow>
   'w \<times> go_error option" where
  "export_rows write rfc3339 [] w = (w, None)"
| "export_rows write rfc3339 (event # events) w =
     (case Event_Validate event of
        Some err \<Rightarrow> (w, Some err)
      | None \<Rightarrow>
          (case write w [ev_RequestID event, ev_ObjectType event, ev_ObjectID event,
                 ev_Action event, ev_Outcome event, rfc3339 (ev_CreatedAt event)] of
             (w', Some err) \<Rightarrow> (w', Some (Errorf ''write audit row'' err))
           | (w', None) \<Rightarrow> export_rows write rfc3339 events w'))"

definition ExportCSV ::
  "('w \<Rightarrow> string list \<Rightarrow> 'w \<times> go_error option) \<Rightarrow> ('w \<Rightarrow> 'w \<times> go_error option) \<Rightarrow>
   (time \<Rightarrow> string) \<Rightarrow> 'd Event list \<Rightarrow> 'w \<Rightarrow> 'w \<times> go_error option" where
  "ExportCSV write flush rfc3339 events w =
     (case write w [''request_id'', ''object_type'', ''object_id'', ''action'', ''outcome'',
                    ''created_at''] of
        (w', Some err) \<Rightarrow> (w', Some (Errorf ''write audit header'' err))
      | (w', None) \<Rightarrow>
          (case export_rows write rfc3339 events w' of
             (w'', Some err) \<Rightarrow> (w'', Some err)
           | (w'', None) \<Rightarrow> flush w''))"

section \<open>Idempotency records\<close>

record Record =
  rc_Key :: string
  rc_RequestHash :: string
  rc_ResponseCode :: int
  rc_ResponseBody :: string

definition HashRequest :: "(string \<Rightarrow> string) \<Rightarrow> string \<Rightarrow> string" where
  "HashRequest sha256 body = hex_encode (sha256 body)"

definition NewRecord ::
  "(string \<Rightarrow> string) \<Rightarrow> ('r \<Rightarrow> string result) \<Rightarrow> string \<Rightarrow> string \<Rightarrow> int \<Rightarrow> 'r \<Rightarrow> Record result" where
  "NewRecord sha256 marshal key body code response =
     (if key = '''' then Inl (NewError ''idempotency key is required'')
      else case marshal response of
          Inl err \<Rightarrow> Inl (Errorf ''marshal response'' err)
        | Inr payload \<Rightarrow>
            Inr \<lparr>rc_Key = key, rc_RequestHash = HashRequest sha256 body, rc_ResponseCode = code,
                 rc_ResponseBody = payload\<rparr>)"

definition Record_Matches :: "(string \<Rightarrow> string) \<Rightarrow> Record \<Rightarrow> string \<Rightarrow> bool" where
  "Record_Matches sha256 r body \<longleftrightarrow> rc_RequestHash r = HashRequest sha256 body"

lemma NewRecord_Matches:
  "NewRecord sha marshal key body code response = Inr r \<Longrightarrow>
   Record_Matches sha r other \<longleftrightarrow> sha other = sha body"
  by (auto simp: NewRecord_def Record_Matches_def HashRequest_def hex_encode_inject
      split: if_splits sum.splits)

section \<open>Properties\<close>

text \<open>C13: the head of the audit chain commits to the whole history. If two histories of events lead
  to the same head, then the encodings of the accepted events are the same, in the same order, or
  the two runs themselves have hashed two different inputs, one each, with the same digest: whoever
  replaces a history by another with the same head has found a collision of SHA-256 and can read it
  off the two. That a digest is not empty is all that is assumed of the hash.\<close>

theorem chain_commits:
  assumes "\<And>x. sha x \<noteq> []"
    and "Chain_Head (chain_run sha json em es) = Chain_Head (chain_run sha json em fs)"
  shows "chain_bodies json em es = chain_bodies json em fs \<or>
    (\<exists>x \<in> chain_hashed sha json em es. \<exists>y \<in> chain_hashed sha json em fs. x \<noteq> y \<and> sha x = sha y)"
  using chain_heads_eq[of sha "chain_bodies json em es" "chain_bodies json em fs"] assms
  by (simp add: Head_chain_run chain_hashed_def)

text \<open>A digest that is its input behind a marker has no collisions.\<close>

definition sample_digest :: "string \<Rightarrow> string" where
  "sample_digest s = CHR ''#'' # s"

definition sample_event :: "unit Event" where
  "sample_event =
     \<lparr>ev_RequestID = ''r'', ev_ArrayOperatorID = None, ev_ObjectType = ''t'', ev_ObjectID = ''o'',
      ev_Action = ''a'', ev_Outcome = ''success'', ev_Detail = None, ev_CreatedAt = 1\<rparr>"

theorem chain_commits_witness:
  "chain_bodies (\<lambda>e :: unit Event. Inr (ev_RequestID e)) ()
     [sample_event, sample_event\<lparr>ev_RequestID := [CHR 0x20]\<rparr>] =
   chain_bodies (\<lambda>e. Inr (ev_RequestID e)) () [sample_event]"
proof -
  let ?json = "\<lambda>e :: unit Event. Inr (ev_RequestID e)"
  have "Chain_Head (chain_run sample_digest ?json ()
      [sample_event, sample_event\<lparr>ev_RequestID := [CHR 0x20]\<rparr>]) =
    Chain_Head (chain_run sample_digest ?json () [sample_event])"
    by code_simp
  moreover have "sample_digest x \<noteq> []" for x by (simp add: sample_digest_def)
  moreover have "\<not> (\<exists>x y. x \<noteq> y \<and> sample_digest x = sample_digest y)"
    by (simp add: sample_digest_def)
  ultimately show ?thesis using chain_commits[of sample_digest ?json "()"] by metis
qed

end
