(* ===== verification/ArrayOps_Policy.thy ===== *)
theory ArrayOps_Policy
  imports Contracts
begin

text \<open>
  \<open>internal/arrayops\<close>: the data types (\<open>types.go\<close>), keys and policies (\<open>policy.go\<close>), sessions
  (\<open>security.go\<close>), the classification of errors (\<open>errors.go\<close>) and the copies (\<open>copy.go\<close>).
  Types whose name the domain package also uses carry the prefix \<open>Arr_\<close>.
\<close>

section \<open>Types\<close>

record CalibrationBundle =
  cb_ID :: string
  cb_TenantID :: string
  cb_Version :: string
  cb_Digest :: string
  cb_BuoyClasses :: "string list"
  cb_Labels :: "string \<rightharpoonup> string"
  cb_Signed :: bool

record Buoy =
  by_ID :: string
  by_TenantID :: string
  by_Class :: string
  by_CurrentVersion :: string
  by_PreviousVersion :: string
  by_Generation :: int
  by_Quarantined :: bool

record Arr_SurveyMission =
  am_ID :: string
  am_TenantID :: string
  am_CalibrationBundleID :: string
  am_State :: string
  am_RequiredHealthy :: int
  am_Healthy :: int
  am_Failed :: int
  am_BuoyIDs :: "string list"
  am_ApprovedDigest :: string
  am_Version :: int

record Callback =
  ck_TenantID :: string
  ck_BuoyID :: string
  ck_CalibrationBundleID :: string
  ck_EventID :: string
  ck_Status :: string
  ck_At :: time

record Session =
  se_Token :: string
  se_TenantID :: string
  se_UserID :: string
  se_Role :: string
  se_ExpiresAt :: time
  se_RevokedAt :: "time option"

record Arr_Event =
  ae_TenantID :: string
  ae_RequestID :: string
  ae_ObjectID :: string
  ae_Action :: string
  ae_Digest :: string
  ae_At :: time

record Arr_Query =
  aq_TenantID :: string
  aq_State :: string
  aq_Class :: string
  aq_Limit :: int
  aq_Offset :: int

record 'a Arr_Page =
  ap_Items :: "'a list"
  ap_Total :: int

section \<open>Keys\<close>

definition IdempotencyKey ::
  "string \<Rightarrow> string \<Rightarrow> string \<Rightarrow> string \<Rightarrow> string result" where
  "IdempotencyKey tenantID method path key =
     (let values = [tenantID, method, path, key] in
      if list_ex blank values
        then Inl (Errorf ''idempotency scope is incomplete'' arr_invalid)
      else Inr (join_nul values))"

definition CallbackKey :: "Callback \<Rightarrow> string result" where
  "CallbackKey callback =
     (if ck_TenantID callback = '''' \<or> ck_BuoyID callback = '''' \<or>
        ck_CalibrationBundleID callback = '''' \<or> ck_EventID callback = ''''
        then Inl (Errorf ''callback identity is incomplete'' arr_invalid)
      else Inr (join_nul [ck_TenantID callback, ck_BuoyID callback,
                 ck_CalibrationBundleID callback, ck_EventID callback]))"

text \<open>Scopes without NUL bytes never share a key.\<close>

lemma IdempotencyKey_inject:
  assumes "IdempotencyKey t m p k = Inr key" "IdempotencyKey t' m' p' k' = Inr key"
    and "list_all nul_free [t, m, p, k]" "list_all nul_free [t', m', p', k']"
  shows "t = t' \<and> m = m' \<and> p = p' \<and> k = k'"
proof -
  have "join_nul [t, m, p, k] = join_nul [t', m', p', k']"
    using assms(1,2) unfolding IdempotencyKey_def Let_def by (metis Inl_Inr_False Inr_inject)
  then show ?thesis using join_nul_inject[OF _ assms(3,4)] by simp
qed

lemma CallbackKey_inject:
  assumes "CallbackKey c = Inr key" "CallbackKey d = Inr key"
    and "list_all nul_free [ck_TenantID c, ck_BuoyID c, ck_CalibrationBundleID c, ck_EventID c]"
      "list_all nul_free [ck_TenantID d, ck_BuoyID d, ck_CalibrationBundleID d, ck_EventID d]"
  shows "ck_TenantID c = ck_TenantID d \<and> ck_BuoyID c = ck_BuoyID d \<and>
    ck_CalibrationBundleID c = ck_CalibrationBundleID d \<and> ck_EventID c = ck_EventID d"
proof -
  have "join_nul [ck_TenantID c, ck_BuoyID c, ck_CalibrationBundleID c, ck_EventID c] =
      join_nul [ck_TenantID d, ck_BuoyID d, ck_CalibrationBundleID d, ck_EventID d]"
    using assms(1,2) unfolding CallbackKey_def by (metis Inl_Inr_False Inr_inject)
  then show ?thesis using join_nul_inject[OF _ assms(3,4)] by simp
qed

section \<open>Policies\<close>

definition CalibrationBundleSupports :: "CalibrationBundle \<Rightarrow> Buoy \<Rightarrow> go_error option" where
  "CalibrationBundleSupports b buoy =
     (if cb_TenantID b \<noteq> by_TenantID buoy
        then Some (Errorf ''calibration_bundle and buoy tenants differ'' arr_conflict)
      else if \<not> cb_Signed b \<or> cb_Digest b = ''''
        then Some (Errorf ''calibration_bundle signature is not verified'' arr_conflict)
      else if by_Class buoy \<notin> set (cb_BuoyClasses b)
        then Some (Errorf (''calibration_bundle does not support buoy class '' @ by_Class buoy)
               arr_conflict)
      else None)"

definition CanDispatch :: "Arr_SurveyMission \<Rightarrow> go_error option" where
  "CanDispatch m =
     (if am_State m \<noteq> ''running''
        then Some (Errorf (''survey_mission '' @ am_ID m @ '' cannot dispatch from '' @ am_State m)
               arr_conflict)
      else if am_ApprovedDigest m = ''''
        then Some (Errorf (''survey_mission '' @ am_ID m @
               '' has no approved calibration_bundle digest'') arr_conflict)
      else None)"

definition CanPromote :: "Arr_SurveyMission \<Rightarrow> go_error option" where
  "CanPromote m =
     (if am_State m \<noteq> ''running''
        then Some (Errorf (''survey_mission '' @ am_ID m @ '' is not running'') arr_conflict)
      else if 0 < am_Failed m \<or> am_Healthy m < am_RequiredHealthy m
        then Some (Errorf ''pilot_dive health gate is not satisfied'' arr_conflict)
      else None)"

definition RollbackVersion :: "Buoy \<Rightarrow> string result" where
  "RollbackVersion buoy =
     (if by_PreviousVersion buoy = '''' \<or> by_PreviousVersion buoy = by_CurrentVersion buoy
        then Inl (Errorf (''buoy '' @ by_ID buoy @ '' has no rollback target'') arr_conflict)
      else Inr (by_PreviousVersion buoy))"

definition CheckGeneration :: "Buoy \<Rightarrow> int \<Rightarrow> go_error option" where
  "CheckGeneration buoy expected =
     (if expected \<le> 0 \<or> by_Generation buoy \<noteq> expected
        then Some (Errorf ''buoy generation changed'' arr_conflict) else None)"

definition CanCloseAlert :: "Arr_SurveyMission \<Rightarrow> int \<Rightarrow> go_error option" where
  "CanCloseAlert m openAlerts =
     (if openAlerts < 0 then Some (Errorf ''open alert count is invalid'' arr_invalid)
      else if 0 < openAlerts \<or> am_State m = ''rolling_back''
        then Some (Errorf ''survey_mission still has unresolved safety work'' arr_conflict)
      else None)"

section \<open>Sessions\<close>

definition AuthorizeSession :: "Session \<Rightarrow> string \<Rightarrow> string \<Rightarrow> time \<Rightarrow> go_error option" where
  "AuthorizeSession session tenantID requiredRole now =
     (if se_Token session = '''' \<or> se_TenantID session \<noteq> tenantID
        then Some (Errorf ''session tenant does not match'' arr_unauthorized)
      else if se_RevokedAt session \<noteq> None \<or> \<not> now < se_ExpiresAt session
        then Some (Errorf ''session is no longer active'' arr_unauthorized)
      else if se_Role session \<noteq> requiredRole
        then Some (Errorf ''session role cannot perform operation'' arr_unauthorized)
      else None)"

definition RotateRole :: "Session \<Rightarrow> string \<Rightarrow> Session result" where
  "RotateRole session nextRole =
     (if nextRole = '''' \<or> nextRole = se_Role session
        then Inl (Errorf ''new role is invalid'' arr_conflict)
      else Inr (session\<lparr>se_Role := nextRole\<rparr>))"

lemma AuthorizeSession_None: "AuthorizeSession s tenant role now = None \<longleftrightarrow>
    se_Token s \<noteq> [] \<and> se_TenantID s = tenant \<and> se_RevokedAt s = None \<and>
    now < se_ExpiresAt s \<and> se_Role s = role"
  by (auto simp: AuthorizeSession_def)

section \<open>Errors\<close>

definition arr_ClassifyError :: "go_error \<Rightarrow> int \<times> string" where
  "arr_ClassifyError err =
     (if errors_As_signature err then (422, ''signature_invalid'')
      else if errors_Is err (ArrayOpsErr ArrErrUnauthorized) then (403, ''forbidden'')
      else if errors_Is err (ArrayOpsErr ArrErrConflict) then (409, ''conflict'')
      else if errors_Is err (ArrayOpsErr ArrErrInvalid) then (400, ''invalid_request'')
      else if errors_Is err (ArrayOpsErr ArrErrUnavailable) then (503, ''unavailable'')
      else (500, ''internal_error''))"

definition WrapOperation :: "string \<Rightarrow> go_error option \<Rightarrow> go_error option" where
  "WrapOperation operation err =
     (case err of None \<Rightarrow> None | Some e \<Rightarrow> Some (Errorf (operation @ '' failed'') e))"

text \<open>Wrapping does not change the class, and 500 is only for errors outside the package.\<close>

lemma Classify_Wrap:
  "WrapOperation s (Some e) = Some f \<Longrightarrow> arr_ClassifyError f = arr_ClassifyError e"
  by (auto simp: WrapOperation_def arr_ClassifyError_def)

lemma Classify_internal: "fst (arr_ClassifyError e) = 500 \<longleftrightarrow>
    \<not> errors_As_signature e \<and> (\<forall>s. \<not> errors_Is e (ArrayOpsErr s))"
proof -
  have "(\<forall>s. \<not> errors_Is e (ArrayOpsErr s)) \<longleftrightarrow>
      \<not> errors_Is e (ArrayOpsErr ArrErrUnauthorized) \<and> \<not> errors_Is e (ArrayOpsErr ArrErrConflict) \<and>
      \<not> errors_Is e (ArrayOpsErr ArrErrInvalid) \<and> \<not> errors_Is e (ArrayOpsErr ArrErrUnavailable)"
    by (metis arrayops_error.exhaust)
  then show ?thesis by (simp add: arr_ClassifyError_def)
qed

section \<open>Copies\<close>

text \<open>Slices and maps are values here, so a clone is the value itself.\<close>

definition CloneCalibrationBundle :: "CalibrationBundle \<Rightarrow> CalibrationBundle" where
  "CloneCalibrationBundle value =
     value\<lparr>cb_BuoyClasses := cb_BuoyClasses value, cb_Labels := cb_Labels value\<rparr>"

definition CloneSurveyMission :: "Arr_SurveyMission \<Rightarrow> Arr_SurveyMission" where
  "CloneSurveyMission value = value\<lparr>am_BuoyIDs := am_BuoyIDs value\<rparr>"

definition CloneBuoys :: "Buoy list \<Rightarrow> Buoy list" where
  "CloneBuoys values = values"

definition RestoreLabels :: "(string \<rightharpoonup> string) \<Rightarrow> (string \<rightharpoonup> string)" where
  "RestoreLabels snapshot = snapshot"

lemmas clone_defs = CloneCalibrationBundle_def CloneSurveyMission_def CloneBuoys_def
  RestoreLabels_def

lemma clone_ids [simp]:
  "CloneCalibrationBundle b = b" "CloneSurveyMission m = m" "CloneBuoys bs = bs"
  by (simp_all add: clone_defs)

end
