(* ===== verification/ArrayOps_Store.thy ===== *)
theory ArrayOps_Store
  imports ArrayOps_Policy "HOL-Library.AList"
begin

text \<open>
  \<open>internal/arrayops/store.go\<close>: the in-memory store. Every operation holds the store's mutex from
  beginning to end, so operations are atomic and a concurrent run is a sequence of them. The
  buoys are enumerated by \<open>QueryBuoys\<close>, so their map is an association list in the order Go
  visits it.
\<close>

section \<open>Operations\<close>

record Store =
  st_calibration_bundles :: "string \<rightharpoonup> CalibrationBundle"
  st_buoys :: "(string \<times> Buoy) list"
  st_survey_missions :: "string \<rightharpoonup> Arr_SurveyMission"
  st_callbacks :: "string \<rightharpoonup> Callback"
  st_idempotency :: "string \<rightharpoonup> string"
  st_sessions :: "string \<rightharpoonup> Session"
  st_events :: "Arr_Event list"

definition NewStore :: Store where
  "NewStore =
     \<lparr>st_calibration_bundles = Map.empty, st_buoys = [], st_survey_missions = Map.empty,
      st_callbacks = Map.empty, st_idempotency = Map.empty, st_sessions = Map.empty,
      st_events = []\<rparr>"

definition PutCalibrationBundle :: "Store \<Rightarrow> CalibrationBundle \<Rightarrow> Store \<times> go_error option" where
  "PutCalibrationBundle s b =
     (if cb_ID b = '''' \<or> cb_TenantID b = ''''
        then (s, Some (Errorf ''calibration_bundle identity is missing'' arr_invalid))
      else (s\<lparr>st_calibration_bundles :=
               (st_calibration_bundles s)(cb_ID b \<mapsto> CloneCalibrationBundle b)\<rparr>, None))"

definition get_CalibrationBundle :: "Store \<Rightarrow> string \<Rightarrow> CalibrationBundle option" where
  "get_CalibrationBundle s i = map_option CloneCalibrationBundle (st_calibration_bundles s i)"

definition PutBuoy :: "Store \<Rightarrow> Buoy \<Rightarrow> Store \<times> go_error option" where
  "PutBuoy s buoy =
     (if by_ID buoy = '''' \<or> by_TenantID buoy = ''''
        then (s, Some (Errorf ''buoy identity is missing'' arr_invalid))
      else (s\<lparr>st_buoys := AList.update (by_ID buoy) buoy (st_buoys s)\<rparr>, None))"

definition get_Buoy :: "Store \<Rightarrow> string \<Rightarrow> Buoy option" where
  "get_Buoy s i = map_of (st_buoys s) i"

definition PutSurveyMission :: "Store \<Rightarrow> Arr_SurveyMission \<Rightarrow> Store \<times> go_error option" where
  "PutSurveyMission s m =
     (if am_ID m = '''' \<or> am_TenantID m = ''''
        then (s, Some (Errorf ''survey_mission identity is missing'' arr_invalid))
      else (s\<lparr>st_survey_missions := (st_survey_missions s)(am_ID m \<mapsto> CloneSurveyMission m)\<rparr>,
            None))"

definition get_SurveyMission :: "Store \<Rightarrow> string \<Rightarrow> Arr_SurveyMission option" where
  "get_SurveyMission s i = map_option CloneSurveyMission (st_survey_missions s i)"

text \<open>The callback \<open>update\<close> gets a copy of the mission and returns it changed, or an error.\<close>

definition UpdateSurveyMission ::
  "Store \<Rightarrow> string \<Rightarrow> int \<Rightarrow> (Arr_SurveyMission \<Rightarrow> Arr_SurveyMission result) \<Rightarrow>
   Store \<times> go_error option" where
  "UpdateSurveyMission s i expected update =
     (case st_survey_missions s i of
        None \<Rightarrow> (s, Some (Errorf ''survey_mission not found'' arr_conflict))
      | Some m \<Rightarrow>
          if am_Version m \<noteq> expected
            then (s, Some (Errorf ''survey_mission version changed'' arr_conflict))
          else (case update m of
              Inl err \<Rightarrow> (s, Some err)
            | Inr m' \<Rightarrow>
                (s\<lparr>st_survey_missions := (st_survey_missions s)
                     (i \<mapsto> CloneSurveyMission (m'\<lparr>am_Version := wrap64 (am_Version m' + 1)\<rparr>))\<rparr>,
                 None)))"

definition RecordCallback :: "Store \<Rightarrow> Callback \<Rightarrow> Store \<times> bool result" where
  "RecordCallback s callback =
     (case CallbackKey callback of
        Inl err \<Rightarrow> (s, Inl err)
      | Inr key \<Rightarrow>
          (case st_callbacks s key of
             Some _ \<Rightarrow> (s, Inr False)
           | None \<Rightarrow> (s\<lparr>st_callbacks := (st_callbacks s)(key \<mapsto> callback)\<rparr>, Inr True)))"

definition SaveIdempotent :: "Store \<Rightarrow> string \<Rightarrow> string \<Rightarrow> Store \<times> bool" where
  "SaveIdempotent s key body =
     (case st_idempotency s key of
        Some _ \<Rightarrow> (s, False)
      | None \<Rightarrow> (s\<lparr>st_idempotency := (st_idempotency s)(key \<mapsto> body)\<rparr>, True))"

definition Idempotent :: "Store \<Rightarrow> string \<Rightarrow> string option" where
  "Idempotent s key = st_idempotency s key"

definition PutSession :: "Store \<Rightarrow> Session \<Rightarrow> Store \<times> go_error option" where
  "PutSession s session =
     (if se_Token session = '''' \<or> se_TenantID session = '''' \<or> se_UserID session = ''''
        then (s, Some (Errorf ''session identity is missing'' arr_invalid))
      else (s\<lparr>st_sessions := (st_sessions s)(se_Token session \<mapsto> session)\<rparr>, None))"

definition get_Session :: "Store \<Rightarrow> string \<Rightarrow> Session option" where
  "get_Session s token = st_sessions s token"

definition RevokeSession :: "Store \<Rightarrow> string \<Rightarrow> time \<Rightarrow> Store \<times> bool" where
  "RevokeSession s token at_time =
     (case st_sessions s token of
        None \<Rightarrow> (s, False)
      | Some session \<Rightarrow>
          if se_RevokedAt session \<noteq> None then (s, False)
          else (s\<lparr>st_sessions := (st_sessions s)(token \<mapsto> session\<lparr>se_RevokedAt := Some at_time\<rparr>)\<rparr>,
                True))"

definition AppendEvent :: "Store \<Rightarrow> Arr_Event \<Rightarrow> Store \<times> go_error option" where
  "AppendEvent s event =
     (if ae_TenantID event = '''' \<or> ae_RequestID event = '''' \<or> ae_ObjectID event = '''' \<or>
        ae_Action event = ''''
        then (s, Some (Errorf ''audit correlation is incomplete'' arr_invalid))
      else (s\<lparr>st_events := st_events s @ [event]\<rparr>, None))"

definition compareString :: "string \<Rightarrow> string \<Rightarrow> int" where
  "compareString left right = (if left < right then -1 else if left > right then 1 else 0)"

text \<open>\<open>QueryBuoys\<close> is \<open>None\<close> where the slice expression panics. The sum \<open>start+limit\<close> wraps.\<close>

definition query_match :: "Arr_Query \<Rightarrow> Buoy \<Rightarrow> bool" where
  "query_match query buoy \<longleftrightarrow>
     \<not> (by_TenantID buoy \<noteq> aq_TenantID query \<or>
        aq_Class query \<noteq> '''' \<and> by_Class buoy \<noteq> aq_Class query)"

definition query_filtered :: "Store \<Rightarrow> Arr_Query \<Rightarrow> Buoy list" where
  "query_filtered s query =
     sort_stable (\<lambda>left right. compareString (by_ID left) (by_ID right) < 0)
       (filter (query_match query) (map snd (st_buoys s)))"

definition QueryBuoys :: "Store \<Rightarrow> Arr_Query \<Rightarrow> Buoy Arr_Page option" where
  "QueryBuoys s query =
     (let filtered = query_filtered s query;
          len = int (length filtered);
          start = min (max (aq_Offset query) 0) len;
          limit = (if aq_Limit query \<le> 0 then 50 else aq_Limit query);
          end_index = min (wrap64 (start + limit)) len
      in if end_index < start then None
         else Some \<lparr>ap_Items = CloneBuoys (slice start end_index filtered), ap_Total = len\<rparr>)"

section \<open>The store invariant\<close>

text \<open>Every entry is kept under its own identity, identities are present, and no key repeats.\<close>

definition store_ok :: "Store \<Rightarrow> bool" where
  "store_ok s \<longleftrightarrow>
     distinct (map fst (st_buoys s)) \<and>
     (\<forall>(k, b) \<in> set (st_buoys s). by_ID b = k \<and> k \<noteq> [] \<and> by_TenantID b \<noteq> []) \<and>
     (\<forall>k b. st_calibration_bundles s k = Some b \<longrightarrow> cb_ID b = k \<and> k \<noteq> [] \<and> cb_TenantID b \<noteq> []) \<and>
     (\<forall>k e. st_sessions s k = Some e \<longrightarrow> se_Token e = k \<and> k \<noteq> [] \<and> se_TenantID e \<noteq> []) \<and>
     (\<forall>k c. st_callbacks s k = Some c \<longrightarrow> CallbackKey c = Inr k) \<and>
     (\<forall>e \<in> set (st_events s). ae_TenantID e \<noteq> [] \<and> ae_RequestID e \<noteq> [])"

lemma store_ok_New [simp]: "store_ok NewStore"
  by (simp add: store_ok_def NewStore_def)

lemma set_AList_update: "set (AList.update k v al) \<subseteq> insert (k, v) (set al)"
  by (induction al) auto

lemma store_ok_PutBuoy: "store_ok s \<Longrightarrow> store_ok (fst (PutBuoy s b))"
  using set_AList_update[of "by_ID b" b "st_buoys s"]
  by (auto simp: store_ok_def PutBuoy_def distinct_update)

lemma store_ok_puts:
  assumes "store_ok s"
  shows "store_ok (fst (PutCalibrationBundle s b))" "store_ok (fst (PutSurveyMission s m))"
    "store_ok (fst (UpdateSurveyMission s i v u))" "store_ok (fst (SaveIdempotent s k body))"
    "store_ok (fst (PutSession s e))" "store_ok (fst (AppendEvent s ev))"
  using assms
  by (auto simp: store_ok_def PutCalibrationBundle_def PutSurveyMission_def SaveIdempotent_def
      PutSession_def AppendEvent_def UpdateSurveyMission_def split: option.splits sum.splits)

lemma store_ok_RecordCallback: "store_ok s \<Longrightarrow> store_ok (fst (RecordCallback s c))"
  by (auto simp: store_ok_def RecordCallback_def split: option.splits sum.splits)

lemma store_ok_RevokeSession: "store_ok s \<Longrightarrow> store_ok (fst (RevokeSession s k t))"
  by (auto simp: store_ok_def RevokeSession_def split: option.splits)

lemmas store_ok_ops = store_ok_PutBuoy store_ok_puts store_ok_RecordCallback store_ok_RevokeSession

section \<open>Idempotency and callbacks\<close>

interpretation idem: first_write SaveIdempotent Idempotent
  by unfold_locales (auto simp: SaveIdempotent_def Idempotent_def split: option.splits)

lemma RecordCallback_again:
  "RecordCallback s c = (s', Inr b) \<Longrightarrow> RecordCallback s' d =
     (case CallbackKey d of Inl e \<Rightarrow> (s', Inl e)
      | Inr k \<Rightarrow> if CallbackKey c = Inr k then (s', Inr False) else RecordCallback s' d)"
  by (auto simp: RecordCallback_def split: sum.splits option.splits if_splits)

section \<open>Queries\<close>

lemma compareString_less: "compareString a b < 0 \<longleftrightarrow> a < b"
  by (auto simp: compareString_def)

interpretation buoy_order: strict_weak "\<lambda>left right. compareString (by_ID left) (by_ID right) < 0"
  by unfold_locales (auto simp: compareString_less)

lemma set_query_filtered: "set (query_filtered s q) = {b \<in> snd ` set (st_buoys s). query_match q b}"
  by (auto simp: query_filtered_def)

lemma query_filtered_sorted:
  assumes "store_ok s"
  shows "sorted_wrt (\<lambda>a b. by_ID a < by_ID b) (query_filtered s q)"
proof -
  let ?xs = "query_filtered s q"
  have keys: "map by_ID (map snd (st_buoys s)) = map fst (st_buoys s)"
    using assms by (auto simp: store_ok_def)
  have "distinct (map by_ID (map snd (st_buoys s)))"
    unfolding keys using assms by (simp add: store_ok_def)
  then have "distinct (map by_ID (filter (query_match q) (map snd (st_buoys s))))"
    by (rule distinct_map_filter)
  moreover have "mset (map by_ID ?xs) = mset (map by_ID (filter (query_match q) (map snd (st_buoys s))))"
    by (simp only: query_filtered_def mset_map mset_sort_stable)
  ultimately have "distinct (map by_ID ?xs)" using mset_eq_imp_distinct_iff by blast
  moreover have "sorted_wrt (\<lambda>a b. \<not> by_ID b < by_ID a) ?xs"
    using buoy_order.ordered_sort by (simp add: query_filtered_def compareString_less)
  then have "sorted (map by_ID ?xs)" by (simp add: sorted_wrt_map linorder_not_less)
  ultimately have "sorted_wrt (<) (map by_ID ?xs)" by (simp add: strict_sorted_iff)
  then show ?thesis by (simp add: sorted_wrt_map)
qed

lemma QueryBuoys_Some:
  assumes "aq_Limit q < 2 ^ 62" "length (query_filtered s q) < 2 ^ 62"
  shows "QueryBuoys s q = Some
    \<lparr>ap_Items = take (nat (if aq_Limit q \<le> 0 then 50 else aq_Limit q))
                 (drop (nat (aq_Offset q)) (query_filtered s q)),
     ap_Total = int (length (query_filtered s q))\<rparr>"
proof -
  define xs where "xs = query_filtered s q"
  define start where "start = min (max (aq_Offset q) 0) (int (length xs))"
  define limit where "limit = (if aq_Limit q \<le> 0 then 50 else aq_Limit q)"
  have len: "int (length xs) < 2 ^ 62" using assms(2) by (simp add: xs_def)
  have lim: "0 < limit" "limit < 2 ^ 62" using assms(1) by (auto simp: limit_def)
  have start: "0 \<le> start" "start \<le> int (length xs)" by (auto simp: start_def)
  have "is_int64 (start + limit)" using len lim start by (simp add: is_int64_def)
  then have wrap: "wrap64 (start + limit) = start + limit" by simp
  have "slice start (min (start + limit) (int (length xs))) xs =
      take (nat limit) (drop (nat (aq_Offset q)) xs)"
  proof (cases "aq_Offset q \<le> int (length xs)")
    case True
    then have s: "nat start = nat (aq_Offset q)" by (auto simp: start_def)
    have "nat (min (start + limit) (int (length xs)) - start) = min (nat limit) (length xs - nat start)"
      using start lim by (auto simp: min_def)
    then show ?thesis by (simp add: slice_def s min_def)
  next
    case False
    then show ?thesis by (auto simp: slice_def start_def)
  qed
  moreover have "\<not> min (start + limit) (int (length xs)) < start" using start lim by auto
  ultimately show ?thesis
    unfolding QueryBuoys_def Let_def xs_def[symmetric] start_def[symmetric] limit_def[symmetric] wrap
    by simp
qed

end
