(* ===== verification/ArrayOps_Runtime.thy ===== *)
theory ArrayOps_Runtime
  imports Contracts
begin

text \<open>
  \<open>internal/arrayops/runtime.go\<close> and \<open>worker.go\<close>: leases, capacities, retried steps, the fan-out
  of \<open>CollectResults\<close> and \<open>OnceStep\<close>.

  A context is known to the code by its answers: \<open>ctx_err k\<close> is what \<open>ctx.Err()\<close> returns at the
  \<open>k\<close>-th look, and a \<open>select\<close> between \<open>ctx.Done()\<close> and a timer has the outcome the environment
  gives it. Loops over attempts are bounded, so no fuel is needed.
\<close>

section \<open>Waiting and retrying\<close>

datatype select_outcome = TimerFired | CtxDone go_error

definition WaitBackoff :: "select_outcome \<Rightarrow> go_error option" where
  "WaitBackoff outcome = (case outcome of CtxDone err \<Rightarrow> Some err | TimerFired \<Rightarrow> None)"

text \<open>\<open>run_steps_loop \<dots> n\<close> is the loop with \<open>n\<close> attempts left; the step threads the state it works
  on.\<close>

fun run_steps_loop ::
  "(nat \<Rightarrow> go_error option) \<Rightarrow> (nat \<Rightarrow> select_outcome) \<Rightarrow> ('s \<Rightarrow> nat \<Rightarrow> 's \<times> go_error option) \<Rightarrow>
   nat \<Rightarrow> nat \<Rightarrow> 's \<Rightarrow> go_error option \<Rightarrow> 's \<times> go_error option" where
  "run_steps_loop ctx_err waits step attempts 0 s last_err = (s, last_err)"
| "run_steps_loop ctx_err waits step attempts (Suc n) s last_err =
     (let attempt = attempts - n in
      case ctx_err attempt of
        Some err \<Rightarrow> (s, Some err)
      | None \<Rightarrow>
          (case step s attempt of
             (s', None) \<Rightarrow> (s', None)
           | (s', Some err) \<Rightarrow>
               if attempt < attempts
                 then (case WaitBackoff (waits attempt) of
                     Some werr \<Rightarrow> (s', Some werr)
                   | None \<Rightarrow> run_steps_loop ctx_err waits step attempts n s' (Some err))
               else run_steps_loop ctx_err waits step attempts n s' (Some err)))"

definition RunSteps ::
  "(nat \<Rightarrow> go_error option) \<Rightarrow> (nat \<Rightarrow> select_outcome) \<Rightarrow> int \<Rightarrow>
   ('s \<Rightarrow> nat \<Rightarrow> 's \<times> go_error option) option \<Rightarrow> 's \<Rightarrow> 's \<times> go_error option" where
  "RunSteps ctx_err waits attempts step s =
     (case step of
        None \<Rightarrow> (s, Some (Errorf ''worker retry policy is invalid'' arr_invalid))
      | Some step' \<Rightarrow>
          if attempts \<le> 0 then (s, Some (Errorf ''worker retry policy is invalid'' arr_invalid))
          else run_steps_loop ctx_err waits step' (nat attempts) (nat attempts) s None)"

text \<open>A step that records its attempts and fails as \<open>f\<close> says.\<close>

definition traced :: "(nat \<Rightarrow> go_error option) \<Rightarrow> nat list \<Rightarrow> nat \<Rightarrow> nat list \<times> go_error option" where
  "traced f tr k = (tr @ [k], f k)"

lemma upt_snoc: "a \<le> b \<Longrightarrow> [a..<Suc b] = [a..<b] @ [b]"
  by simp

lemma run_steps_loop_trace:
  "n \<le> a \<Longrightarrow> (\<forall>j \<in> {1..a - n}. f j \<noteq> None) \<Longrightarrow> (n = a \<longrightarrow> last_err = None) \<Longrightarrow>
   (n < a \<longrightarrow> last_err \<noteq> None) \<Longrightarrow>
   run_steps_loop ctx_err waits (traced f) a n [1..<Suc (a - n)] last_err = (tr, r) \<Longrightarrow> 0 < a \<Longrightarrow>
   \<exists>k. tr = [1..<Suc k] \<and> k \<le> a \<and> (\<forall>j. 1 \<le> j \<and> j < k \<longrightarrow> f j \<noteq> None) \<and>
     (r = None \<longleftrightarrow> 1 \<le> k \<and> f k = None)"
proof (induction n arbitrary: last_err)
  case 0
  then have "f a \<noteq> None" "last_err \<noteq> None" "tr = [1..<Suc a]" "r = last_err"
    "\<forall>j. 1 \<le> j \<and> j < a \<longrightarrow> f j \<noteq> None" by auto
  note facts = this
  show ?case by (rule exI[of _ a]) (intro conjI facts(3,5) order_refl, simp add: facts(1,2,4))
next
  case (Suc n)
  define k where "k = a - n"
  have k: "a - Suc n = k - 1" "Suc (k - 1) = k" "1 \<le> k" "k \<le> a" using Suc.prems by (auto simp: k_def)
  have tr': "[1..<Suc (a - Suc n)] @ [k] = [1..<Suc k]" unfolding k(1,2) using k(3) by (simp add: upt_snoc)
  show ?case
  proof (cases "ctx_err k")
    case (Some e)
    then have "tr = [1..<k]" "r = Some e"
      using Suc.prems(5) k by (auto simp: Let_def k_def[symmetric])
    then show ?thesis using Suc.prems(2) k by (intro exI[of _ "k - 1"]) auto
  next
    case None
    show ?thesis
    proof (cases "f k")
      case None': None
      then have "tr = [1..<Suc k]" "r = None"
        using Suc.prems(5) None tr' by (auto simp: Let_def k_def[symmetric] traced_def[abs_def])
      then show ?thesis using Suc.prems(2) k None' by (intro exI[of _ k]) auto
    next
      case (Some e)
      have fail: "\<forall>j \<in> {1..k}. f j \<noteq> None"
        using Suc.prems(2) Some k by (metis One_nat_def Suc_pred atLeastAtMost_iff le_SucE le_add_diff_inverse
            less_eq_Suc_le option.distinct(1) plus_1_eq_Suc)
      show ?thesis
      proof (cases "k < a \<and> WaitBackoff (waits k) \<noteq> None")
        case True
        then obtain w where "WaitBackoff (waits k) = Some w" by blast
        then have "tr = [1..<Suc k]" "r \<noteq> None"
          using Suc.prems(5) None Some tr' True by (auto simp: Let_def k_def[symmetric] traced_def[abs_def])
        then show ?thesis using fail k Some by (intro exI[of _ k]) auto
      next
        case False
        then have "run_steps_loop ctx_err waits (traced f) a n [1..<Suc k] (Some e) = (tr, r)"
          using Suc.prems(5) None Some tr' by (auto simp: Let_def k_def[symmetric] traced_def[abs_def] split: if_splits)
        then show ?thesis
          using Suc.IH[of "Some e"] Suc.prems fail by (simp add: k_def)
      qed
    qed
  qed
qed

section \<open>Leases and capacities\<close>

record arr_lease =
  al_owner :: string
  al_expiresAt :: time

definition arr_lease_zero :: arr_lease where
  "arr_lease_zero = \<lparr>al_owner = '''', al_expiresAt = 0\<rparr>"

definition arr_Lease_Acquire :: "arr_lease \<Rightarrow> string \<Rightarrow> time \<Rightarrow> duration \<Rightarrow> arr_lease \<times> bool" where
  "arr_Lease_Acquire l owner now ttl =
     (if owner = '''' \<or> ttl \<le> 0 then (l, False)
      else if al_owner l \<noteq> '''' \<and> now < al_expiresAt l \<and> al_owner l \<noteq> owner then (l, False)
      else (l\<lparr>al_owner := owner, al_expiresAt := now + ttl\<rparr>, True))"

definition arr_Lease_Renew :: "arr_lease \<Rightarrow> string \<Rightarrow> time \<Rightarrow> duration \<Rightarrow> arr_lease \<times> bool" where
  "arr_Lease_Renew l owner now ttl =
     (if owner = '''' \<or> owner \<noteq> al_owner l \<or> \<not> now < al_expiresAt l \<or> ttl \<le> 0 then (l, False)
      else (l\<lparr>al_expiresAt := now + ttl\<rparr>, True))"

definition arr_Lease_Release :: "arr_lease \<Rightarrow> string \<Rightarrow> arr_lease \<times> bool" where
  "arr_Lease_Release l owner =
     (if owner = '''' \<or> owner \<noteq> al_owner l then (l, False)
      else (l\<lparr>al_owner := '''', al_expiresAt := 0\<rparr>, True))"

definition arr_holds :: "arr_lease \<Rightarrow> string \<Rightarrow> time \<Rightarrow> bool" where
  "arr_holds l owner t \<longleftrightarrow> owner \<noteq> '''' \<and> al_owner l = owner \<and> t < al_expiresAt l"

interpretation arr_lease: releasable_lease arr_Lease_Acquire arr_holds arr_Lease_Release
  by unfold_locales
    (auto simp: arr_Lease_Acquire_def arr_Lease_Release_def arr_holds_def split: if_splits)

lemma arr_Renew_iff: "snd (arr_Lease_Renew l w t d) \<longleftrightarrow> arr_holds l w t \<and> 0 < d"
  by (auto simp: arr_Lease_Renew_def arr_holds_def)

lemma arr_Renew_holds:
  "arr_Lease_Renew l w t d = (l', True) \<Longrightarrow> arr_holds l' v u \<longleftrightarrow> v = w \<and> u < t + d"
  by (auto simp: arr_Lease_Renew_def arr_holds_def split: if_splits)

text \<open>A counter is incremented only while it is below a limit that is itself an \<open>int\<close>, so the
  increment cannot wrap.\<close>

record arr_capacity =
  ac_used :: "string \<Rightarrow> int"

definition arr_NewCapacity :: arr_capacity where
  "arr_NewCapacity = \<lparr>ac_used = (\<lambda>_. 0)\<rparr>"

definition arr_Reserve :: "arr_capacity \<Rightarrow> string \<Rightarrow> int \<Rightarrow> go_error option \<times> arr_capacity" where
  "arr_Reserve c key limit =
     (if key = '''' \<or> limit \<le> 0
        then (Some (Errorf ''capacity input is invalid'' arr_invalid), c)
      else if limit \<le> ac_used c key
        then (Some (Errorf ''capacity exhausted'' arr_conflict), c)
      else (None, c\<lparr>ac_used := (ac_used c)(key := ac_used c key + 1)\<rparr>))"

definition arr_Used :: "arr_capacity \<Rightarrow> string \<Rightarrow> int" where
  "arr_Used c key = ac_used c key"

interpretation arr_slots: slot_counter arr_Reserve arr_Used
  by unfold_locales (auto simp: arr_Reserve_def arr_Used_def split: if_splits)

section \<open>Fan-out\<close>

text \<open>
  \<open>CollectResults\<close>: one goroutine per job sends its result into a channel with room for all of
  them; a closer waits for the goroutines and closes the channel; the caller receives until the
  channel is closed and drained. A send may only happen while the channel has room.
\<close>

record ('j, 'r) collect =
  co_room :: nat
  co_running :: "'j list"
  co_buffer :: "'r list"
  co_closed :: bool
  co_collected :: "'r list"

definition collect_start :: "'j list \<Rightarrow> ('j, 'r) collect" where
  "collect_start jobs =
     \<lparr>co_room = length jobs, co_running = jobs, co_buffer = [], co_closed = False,
      co_collected = []\<rparr>"

inductive collect_step ::
  "('j \<Rightarrow> 'r) \<Rightarrow> ('j, 'r) collect \<Rightarrow> ('j, 'r) collect \<Rightarrow> bool" for run where
  send: "co_running c = js @ j # ks \<Longrightarrow> length (co_buffer c) < co_room c \<Longrightarrow>
    collect_step run c (c\<lparr>co_running := js @ ks, co_buffer := co_buffer c @ [run j]\<rparr>)"
| close: "co_running c = [] \<Longrightarrow> \<not> co_closed c \<Longrightarrow> collect_step run c (c\<lparr>co_closed := True\<rparr>)"
| receive: "co_buffer c = r # rs \<Longrightarrow>
    collect_step run c (c\<lparr>co_buffer := rs, co_collected := co_collected c @ [r]\<rparr>)"

definition collect_done :: "('j, 'r) collect \<Rightarrow> bool" where
  "collect_done c \<longleftrightarrow> co_closed c \<and> co_buffer c = []"

definition collect_inv :: "('j \<Rightarrow> 'r) \<Rightarrow> 'j list \<Rightarrow> ('j, 'r) collect \<Rightarrow> bool" where
  "collect_inv run jobs c \<longleftrightarrow> co_room c = length jobs \<and>
     mset (co_collected c) + mset (co_buffer c) + mset (map run (co_running c)) = mset (map run jobs) \<and>
     (co_closed c \<longrightarrow> co_running c = [])"

lemma collect_inv_start: "collect_inv run jobs (collect_start jobs)"
  by (simp add: collect_inv_def collect_start_def)

lemma collect_inv_step: "collect_step run c c' \<Longrightarrow> collect_inv run jobs c \<Longrightarrow> collect_inv run jobs c'"
  by (induction rule: collect_step.induct) (auto simp: collect_inv_def)

lemma collect_inv_reachable:
  "(collect_step run)\<^sup>*\<^sup>* (collect_start jobs) c \<Longrightarrow> collect_inv run jobs c"
  by (induction rule: rtranclp_induct) (auto intro: collect_inv_start collect_inv_step)

text \<open>Every step makes this number smaller, so every run ends.\<close>

definition collect_left :: "('j, 'r) collect \<Rightarrow> nat" where
  "collect_left c =
     2 * length (co_running c) + length (co_buffer c) + (if co_closed c then 0 else 1)"

lemma collect_left_decreases: "collect_step run c c' \<Longrightarrow> collect_left c' < collect_left c"
  by (induction rule: collect_step.induct) (auto simp: collect_left_def)

lemma collect_inv_length:
  "collect_inv run jobs c \<Longrightarrow>
   length (co_collected c) + length (co_buffer c) + length (co_running c) = length jobs"
proof -
  assume inv: "collect_inv run jobs c"
  then have "size (mset (co_collected c) + mset (co_buffer c) + mset (map run (co_running c))) =
      size (mset (map run jobs))"
    by (simp only: collect_inv_def)
  then show ?thesis by simp
qed

lemma collect_progress:
  assumes "collect_inv run jobs c" "\<not> collect_done c"
  shows "\<exists>c'. collect_step run c c'"
proof (cases "co_buffer c")
  case (Cons r rs)
  show ?thesis by (rule exI, rule collect_step.receive[OF Cons])
next
  case Nil
  show ?thesis
  proof (cases "co_running c")
    case Nil': Nil
    then have "\<not> co_closed c" using assms(2) Nil by (simp add: collect_done_def)
    with Nil' show ?thesis by (intro exI, rule collect_step.close)
  next
    case (Cons j ks)
    then have "0 < co_room c"
      using collect_inv_length[OF assms(1)] assms(1) Nil by (auto simp: collect_inv_def)
    then show ?thesis
      using Cons Nil by (intro exI[of _ "c\<lparr>co_running := [] @ ks, co_buffer := co_buffer c @ [run j]\<rparr>"]
          collect_step.send[of c "[]" j ks]) simp_all
  qed
qed

text \<open>C20: \<open>CollectResults\<close> cannot get stuck: in every state a run can get into, either the channel is
  closed and drained or some goroutine can take a step, and every step makes a bounded measure
  smaller. At the end every job's result has been collected exactly once.\<close>

theorem collect_results:
  assumes "(collect_step run)\<^sup>*\<^sup>* (collect_start jobs) c"
  shows "(collect_done c \<or> (\<exists>c'. collect_step run c c')) \<and>
    (collect_done c \<longrightarrow> mset (co_collected c) = mset (map run jobs)) \<and>
    (collect_step run c c' \<longrightarrow> collect_left c' < collect_left c) \<and>
    collect_left c \<le> 2 * length jobs + 1"
proof -
  have inv: "collect_inv run jobs c" by (rule collect_inv_reachable[OF assms])
  moreover have "collect_left c \<le> 2 * length jobs + 1"
    using collect_inv_length[OF inv] by (simp add: collect_left_def)
  ultimately show ?thesis
    using collect_progress collect_left_decreases
    by (auto simp: collect_done_def collect_inv_def)
qed

theorem collect_results_witness:
  "collect_done \<lparr>co_room = 1, co_running = [], co_buffer = [], co_closed = True, co_collected = [7::nat]\<rparr> \<and>
   mset [7::nat] = mset (map (\<lambda>j. j + 2) [5])"
proof -
  let ?run = "\<lambda>j :: nat. j + 2"
  let ?c = "\<lambda>buf cl out. \<lparr>co_room = 1, co_running = [], co_buffer = buf, co_closed = cl, co_collected = out\<rparr>"
  have "collect_step ?run (collect_start [5]) (?c [7] False [])"
    using collect_step.send[of "collect_start [5]" "[]" 5 "[]" ?run] by (simp add: collect_start_def)
  moreover have "collect_step ?run (?c [7] False []) (?c [7] True [])"
    using collect_step.close[of "?c [7] False []" ?run] by simp
  moreover have "collect_step ?run (?c [7] True []) (?c [] True [7])"
    using collect_step.receive[of "?c [7] True []" 7 "[]" ?run] by simp
  ultimately have "(collect_step ?run)\<^sup>*\<^sup>* (collect_start [5]) (?c [] True [7])"
    by (meson converse_rtranclp_into_rtranclp rtranclp.rtrancl_refl)
  then show ?thesis
    using collect_results[of ?run "[5]" "?c [] True [7]"] by (simp add: collect_done_def)
qed

section \<open>OnceStep\<close>

text \<open>One call of \<open>Run\<close> with nothing in between: the state is the set of keys seen and what the
  callback works on.\<close>

definition OnceStep_Run ::
  "('s \<Rightarrow> string \<Rightarrow> 's \<times> go_error option) \<Rightarrow> string set \<times> 's \<Rightarrow> string \<Rightarrow>
   (string set \<times> 's) \<times> go_error option" where
  "OnceStep_Run execute st key =
     (case st of (seen, s) \<Rightarrow>
        if key \<in> seen then ((seen, s), None)
        else (case execute s key of
            (s', Some err) \<Rightarrow> ((seen, s'), Some err)
          | (s', None) \<Rightarrow> ((insert key seen, s'), None)))"

text \<open>The same with the mutex held only as long as the code holds it: the look-up, the callback and
  the recording are separate steps of a thread. \<open>on_log\<close> lists the calls of the callback.\<close>

datatype once_pc = OnceStart string | OnceExecute string | OnceRecord string | OnceReturned

record once =
  on_seen :: "string set"
  on_pc :: "nat \<Rightarrow> once_pc"
  on_log :: "string list"

inductive once_step :: "once \<Rightarrow> once \<Rightarrow> bool" where
  known: "on_pc c t = OnceStart k \<Longrightarrow> k \<in> on_seen c \<Longrightarrow>
    once_step c (c\<lparr>on_pc := (on_pc c)(t := OnceReturned)\<rparr>)"
| unknown: "on_pc c t = OnceStart k \<Longrightarrow> k \<notin> on_seen c \<Longrightarrow>
    once_step c (c\<lparr>on_pc := (on_pc c)(t := OnceExecute k)\<rparr>)"
| executed: "on_pc c t = OnceExecute k \<Longrightarrow>
    once_step c (c\<lparr>on_pc := (on_pc c)(t := OnceRecord k), on_log := on_log c @ [k]\<rparr>)"
| failed: "on_pc c t = OnceExecute k \<Longrightarrow>
    once_step c (c\<lparr>on_pc := (on_pc c)(t := OnceReturned), on_log := on_log c @ [k]\<rparr>)"
| recorded: "on_pc c t = OnceRecord k \<Longrightarrow>
    once_step c (c\<lparr>on_pc := (on_pc c)(t := OnceReturned), on_seen := insert k (on_seen c)\<rparr>)"

definition once_start :: "(nat \<Rightarrow> string) \<Rightarrow> once" where
  "once_start keys = \<lparr>on_seen = {}, on_pc = (\<lambda>t. OnceStart (keys t)), on_log = []\<rparr>"

lemma once_race:
  "\<exists>c. once_step\<^sup>*\<^sup>* (once_start (\<lambda>_. k)) c \<and> on_log c = [k, k]"
proof -
  let ?c = "\<lambda>p q log. \<lparr>on_seen = {}, on_pc = (\<lambda>_. OnceStart k)(0 := p, Suc 0 := q), on_log = log\<rparr>"
  have start: "once_start (\<lambda>_. k) = ?c (OnceStart k) (OnceStart k) []"
    by (auto simp: once_start_def)
  have "once_step (?c (OnceStart k) (OnceStart k) []) (?c (OnceExecute k) (OnceStart k) [])"
    using once_step.unknown[of "?c (OnceStart k) (OnceStart k) []" 0 k] by (simp add: fun_upd_twist)
  moreover have "once_step (?c (OnceExecute k) (OnceStart k) []) (?c (OnceExecute k) (OnceExecute k) [])"
    using once_step.unknown[of "?c (OnceExecute k) (OnceStart k) []" "Suc 0" k] by simp
  moreover have "once_step (?c (OnceExecute k) (OnceExecute k) []) (?c (OnceRecord k) (OnceExecute k) [k])"
    using once_step.executed[of "?c (OnceExecute k) (OnceExecute k) []" 0 k] by (simp add: fun_upd_twist)
  moreover have "once_step (?c (OnceRecord k) (OnceExecute k) [k]) (?c (OnceRecord k) (OnceRecord k) [k, k])"
    using once_step.executed[of "?c (OnceRecord k) (OnceExecute k) [k]" "Suc 0" k] by simp
  ultimately have "once_step\<^sup>*\<^sup>* (once_start (\<lambda>_. k)) (?c (OnceRecord k) (OnceRecord k) [k, k])"
    unfolding start by (meson converse_rtranclp_into_rtranclp rtranclp.rtrancl_refl)
  then show ?thesis by (intro exI[of _ "?c (OnceRecord k) (OnceRecord k) [k, k]"]) simp
qed

section \<open>Properties of the runtime\<close>

text \<open>C21: \<open>OnceStep\<close> runs its callback once per key when calls do not overlap: after a call that
  succeeded, a later call for the key returns at once and changes nothing, and a failed call can
  be repeated. Two overlapping calls, however, both pass the look-up before either records the
  key, and the callback runs twice.\<close>

theorem once_step_overlap:
  "(OnceStep_Run execute st k = (st', None) \<longrightarrow> OnceStep_Run execute st' k = (st', None)) \<and>
   (OnceStep_Run execute st k = (st', Some err) \<longrightarrow> fst st' = fst st \<and> k \<notin> fst st) \<and>
   (\<exists>c. once_step\<^sup>*\<^sup>* (once_start (\<lambda>_. k)) c \<and> on_log c = [k, k])"
proof -
  have "OnceStep_Run execute st' k = (st', None)" if "OnceStep_Run execute st k = (st', None)"
    using that by (auto simp: OnceStep_Run_def split: prod.splits if_splits option.splits)
  moreover have "fst st' = fst st \<and> k \<notin> fst st" if "OnceStep_Run execute st k = (st', Some err)"
    using that by (auto simp: OnceStep_Run_def split: prod.splits if_splits option.splits)
  ultimately show ?thesis using once_race by blast
qed

theorem once_step_overlap_witness:
  "OnceStep_Run (\<lambda>n k. (Suc n, None)) ({''a''}, 1 :: nat) ''a'' = (({''a''}, 1), None)"
  using once_step_overlap[of "\<lambda>n k. (Suc n, None)" "({}, 0)" "''a''" "({''a''}, 1)"]
  by (simp add: OnceStep_Run_def)

text \<open>A retried step is called at most as often as the policy allows, with the attempt numbers 1,
  2, 3 in this order; a further attempt is made only after a failure, and the result is success
  exactly if the last call made succeeded. A policy without attempts calls nothing and fails.\<close>

theorem RunSteps_attempts:
  "(RunSteps ctx_err waits attempts (Some (traced f)) [] = (tr, r) \<longrightarrow>
     (\<exists>k. tr = [1..<Suc k] \<and> int k \<le> max 0 attempts \<and> (\<forall>j. 1 \<le> j \<and> j < k \<longrightarrow> f j \<noteq> None) \<and>
        (r = None \<longleftrightarrow> 1 \<le> k \<and> f k = None))) \<and>
   (attempts \<le> 0 \<longrightarrow> snd (RunSteps ctx_err waits attempts step s) \<noteq> None \<and>
      fst (RunSteps ctx_err waits attempts step s) = s)"
proof -
  have "\<exists>k. tr = [1..<Suc k] \<and> int k \<le> max 0 attempts \<and> (\<forall>j. 1 \<le> j \<and> j < k \<longrightarrow> f j \<noteq> None) \<and>
        (r = None \<longleftrightarrow> 1 \<le> k \<and> f k = None)"
    if run: "RunSteps ctx_err waits attempts (Some (traced f)) [] = (tr, r)"
  proof (cases "attempts \<le> 0")
    case True
    then show ?thesis using run by (intro exI[of _ 0]) (auto simp: RunSteps_def)
  next
    case False
    then have "run_steps_loop ctx_err waits (traced f) (nat attempts) (nat attempts) [] None = (tr, r)"
      using run by (simp add: RunSteps_def)
    then have "\<exists>k. tr = [1..<Suc k] \<and> k \<le> nat attempts \<and> (\<forall>j. 1 \<le> j \<and> j < k \<longrightarrow> f j \<noteq> None) \<and>
        (r = None \<longleftrightarrow> 1 \<le> k \<and> f k = None)"
      using False
      by (intro run_steps_loop_trace[where n = "nat attempts" and last_err = None
            and ctx_err = ctx_err and waits = waits]) simp_all
    then obtain k where k: "tr = [1..<Suc k]" "k \<le> nat attempts"
      "\<forall>j. 1 \<le> j \<and> j < k \<longrightarrow> f j \<noteq> None" "r = None \<longleftrightarrow> 1 \<le> k \<and> f k = None"
      by blast
    have "int k \<le> max 0 attempts" using k(2) by linarith
    with k show ?thesis by blast
  qed
  then show ?thesis by (auto simp: RunSteps_def split: option.splits)
qed

theorem RunSteps_attempts_witness:
  "RunSteps (\<lambda>_. None) (\<lambda>_. TimerFired) 3
     (Some (traced (\<lambda>k. if k < 2 then Some (NewError ''busy'') else None))) [] = ([1, 2], None) \<and>
   (\<exists>k. [1, 2] = [1..<Suc k] \<and> int k \<le> 3)"
proof -
  let ?f = "\<lambda>k :: nat. if k < 2 then Some (NewError ''busy'') else None"
  have run: "RunSteps (\<lambda>_. None) (\<lambda>_. TimerFired) 3 (Some (traced ?f)) [] = ([1, 2], None)"
    by code_simp
  then show ?thesis
    using RunSteps_attempts[of "\<lambda>_. None" "\<lambda>_. TimerFired" 3 ?f "[1, 2]" None] by auto
qed

text \<open>While somebody holds a lease no other owner can take, renew or release it: any sequence of
  requests of others, made before the deadline, leaves the lease as it is. Acquiring gives the
  lease until the deadline and to nobody else, renewing needs to hold it, and the holder's release
  frees it.\<close>

theorem arr_lease_exclusive:
  assumes "arr_holds l v u" "list_all (arr_lease.foreign_until v u) reqs"
  shows "foldl arr_lease.lease_step l reqs = l \<and>
    (w \<noteq> v \<and> t \<le> u \<longrightarrow> \<not> snd (arr_Lease_Acquire l w t d) \<and> \<not> snd (arr_Lease_Renew l w t d)) \<and>
    snd (arr_Lease_Release l v) \<and> \<not> arr_holds (fst (arr_Lease_Release l v)) w t"
  using arr_lease.foreign_run[OF assms] assms(1)
  by (auto simp: arr_holds_def arr_Lease_Acquire_def arr_Lease_Renew_def arr_Lease_Release_def)

theorem arr_lease_exclusive_witness:
  "\<not> snd (arr_Lease_Acquire \<lparr>al_owner = ''a'', al_expiresAt = 9\<rparr> ''b'' 5 1)"
  using arr_lease_exclusive[of "\<lparr>al_owner = ''a'', al_expiresAt = 9\<rparr>" "''a''" 8
      "[LeaseAcquire ''b'' 3 4, LeaseRelease ''b'']" "''b''" 5 1]
  by (simp add: arr_holds_def arr_lease.foreign_until_def)

end
