(* ===== verification/Acoustic_Control.thy ===== *)
theory Acoustic_Control
  imports ArrayOps_Store ArrayOps_Runtime
begin

text \<open>
  \<open>internal/service/acoustic_control.go\<close>: the control surface over the array store, the lane
  capacities and the worker lease. \<open>ChangeRole\<close> and \<open>EnrollBuoy\<close> call the store twice and let go
  of its mutex in between; the race this opens is stated below.
\<close>

section \<open>Operations\<close>

record AcousticControl =
  ct_store :: Store
  ct_capacity :: arr_capacity
  ct_lease :: arr_lease

definition NewAcousticControl :: "Store option \<Rightarrow> AcousticControl" where
  "NewAcousticControl store =
     \<lparr>ct_store = (case store of None \<Rightarrow> NewStore | Some s \<Rightarrow> s),
      ct_capacity = arr_NewCapacity, ct_lease = arr_lease_zero\<rparr>"

text \<open>A call that goes to the store only.\<close>

definition on_store :: "AcousticControl \<Rightarrow> Store \<times> 'a \<Rightarrow> AcousticControl \<times> 'a" where
  "on_store c r = (c\<lparr>ct_store := fst r\<rparr>, snd r)"

definition SaveIdempotentResponse ::
  "AcousticControl \<Rightarrow> string \<Rightarrow> string \<Rightarrow> string \<Rightarrow> string \<Rightarrow> string \<Rightarrow>
   AcousticControl \<times> bool result" where
  "SaveIdempotentResponse c tenantID method path key response =
     (case IdempotencyKey tenantID method path key of
        Inl err \<Rightarrow> (c, Inl err)
      | Inr scope \<Rightarrow>
          (case SaveIdempotent (ct_store c) scope response of
             (s, saved) \<Rightarrow> (c\<lparr>ct_store := s\<rparr>, Inr saved)))"

definition LoadIdempotentResponse ::
  "AcousticControl \<Rightarrow> string \<Rightarrow> string \<Rightarrow> string \<Rightarrow> string \<Rightarrow> string option result" where
  "LoadIdempotentResponse c tenantID method path key =
     (case IdempotencyKey tenantID method path key of
        Inl err \<Rightarrow> Inl err
      | Inr scope \<Rightarrow> Inr (Idempotent (ct_store c) scope))"

definition RegisterCallback :: "AcousticControl \<Rightarrow> Callback \<Rightarrow> AcousticControl \<times> bool result" where
  "RegisterCallback c callback = on_store c (RecordCallback (ct_store c) callback)"

definition EnrollBuoy ::
  "AcousticControl \<Rightarrow> CalibrationBundle \<Rightarrow> Buoy \<Rightarrow> AcousticControl \<times> go_error option" where
  "EnrollBuoy c bundle buoy =
     (case CalibrationBundleSupports bundle buoy of
        Some err \<Rightarrow> (c, Some err)
      | None \<Rightarrow>
          (case PutCalibrationBundle (ct_store c) bundle of
             (s, Some err) \<Rightarrow> (c\<lparr>ct_store := s\<rparr>, Some err)
           | (s, None) \<Rightarrow> on_store c (PutBuoy s buoy)))"

definition ApproveSurveyMission ::
  "AcousticControl \<Rightarrow> Arr_SurveyMission \<Rightarrow> CalibrationBundle \<Rightarrow>
   AcousticControl \<times> go_error option" where
  "ApproveSurveyMission c m bundle =
     (if am_TenantID m \<noteq> cb_TenantID bundle \<or> am_CalibrationBundleID m \<noteq> cb_ID bundle \<or>
        \<not> cb_Signed bundle
        then (c, Some (Errorf ''survey_mission calibration_bundle approval is invalid'' arr_conflict))
      else on_store c (PutSurveyMission (ct_store c) (m\<lparr>am_ApprovedDigest := cb_Digest bundle\<rparr>)))"

definition dispatch_update :: "Arr_SurveyMission \<Rightarrow> Arr_SurveyMission result" where
  "dispatch_update m = guard_err (CanDispatch m) (Inr (m\<lparr>am_State := ''dispatching''\<rparr>))"

definition promote_update :: "Arr_SurveyMission \<Rightarrow> Arr_SurveyMission result" where
  "promote_update m = guard_err (CanPromote m) (Inr (m\<lparr>am_State := ''promoted''\<rparr>))"

definition Dispatch :: "AcousticControl \<Rightarrow> string \<Rightarrow> int \<Rightarrow> AcousticControl \<times> go_error option" where
  "Dispatch c missionID expectedVersion =
     on_store c (UpdateSurveyMission (ct_store c) missionID expectedVersion dispatch_update)"

definition Promote :: "AcousticControl \<Rightarrow> string \<Rightarrow> int \<Rightarrow> AcousticControl \<times> go_error option" where
  "Promote c missionID expectedVersion =
     on_store c (UpdateSurveyMission (ct_store c) missionID expectedVersion promote_update)"

definition lane_key :: "string \<Rightarrow> string \<Rightarrow> string" where
  "lane_key tenantID lane = tenantID @ CHR 0x00 # lane"

definition ReserveLane ::
  "AcousticControl \<Rightarrow> string \<Rightarrow> string \<Rightarrow> int \<Rightarrow> AcousticControl \<times> go_error option" where
  "ReserveLane c tenantID lane limit =
     (if tenantID = '''' \<or> lane = ''''
        then (c, Some (Errorf ''arrayops lane scope is missing'' arr_invalid))
      else (case arr_Reserve (ct_capacity c) (lane_key tenantID lane) limit of
          (err, cap) \<Rightarrow> (c\<lparr>ct_capacity := cap\<rparr>, err)))"

definition LaneUsage :: "AcousticControl \<Rightarrow> string \<Rightarrow> string \<Rightarrow> int" where
  "LaneUsage c tenantID lane = arr_Used (ct_capacity c) (lane_key tenantID lane)"

definition AcquireWorker ::
  "AcousticControl \<Rightarrow> string \<Rightarrow> time \<Rightarrow> duration \<Rightarrow> AcousticControl \<times> bool" where
  "AcquireWorker c owner now ttl =
     (case arr_Lease_Acquire (ct_lease c) owner now ttl of (l, b) \<Rightarrow> (c\<lparr>ct_lease := l\<rparr>, b))"

definition RenewWorker ::
  "AcousticControl \<Rightarrow> string \<Rightarrow> time \<Rightarrow> duration \<Rightarrow> AcousticControl \<times> bool" where
  "RenewWorker c owner now ttl =
     (case arr_Lease_Renew (ct_lease c) owner now ttl of (l, b) \<Rightarrow> (c\<lparr>ct_lease := l\<rparr>, b))"

definition ReleaseWorker :: "AcousticControl \<Rightarrow> string \<Rightarrow> AcousticControl \<times> bool" where
  "ReleaseWorker c owner =
     (case arr_Lease_Release (ct_lease c) owner of (l, b) \<Rightarrow> (c\<lparr>ct_lease := l\<rparr>, b))"

definition Authenticate ::
  "AcousticControl \<Rightarrow> string \<Rightarrow> string \<Rightarrow> string \<Rightarrow> time \<Rightarrow> go_error option" where
  "Authenticate c token tenantID role now =
     (case get_Session (ct_store c) token of
        None \<Rightarrow> Some (Errorf ''session not found'' arr_unauthorized)
      | Some session \<Rightarrow> AuthorizeSession session tenantID role now)"

text \<open>\<open>ChangeRole\<close> after its look-up, which has released the mutex.\<close>

definition change_role_commit ::
  "AcousticControl \<Rightarrow> Session \<Rightarrow> string \<Rightarrow> AcousticControl \<times> go_error option" where
  "change_role_commit c session nextRole =
     (case RotateRole session nextRole of
        Inl err \<Rightarrow> (c, Some err)
      | Inr next_session \<Rightarrow> on_store c (PutSession (ct_store c) next_session))"

definition ChangeRole :: "AcousticControl \<Rightarrow> string \<Rightarrow> string \<Rightarrow> AcousticControl \<times> go_error option" where
  "ChangeRole c token nextRole =
     (case get_Session (ct_store c) token of
        None \<Rightarrow> (c, Some (Errorf ''session not found'' arr_unauthorized))
      | Some session \<Rightarrow> change_role_commit c session nextRole)"

definition Logout :: "AcousticControl \<Rightarrow> string \<Rightarrow> time \<Rightarrow> AcousticControl \<times> bool" where
  "Logout c token now = on_store c (RevokeSession (ct_store c) token now)"

definition Buoys :: "AcousticControl \<Rightarrow> Arr_Query \<Rightarrow> Buoy Arr_Page option" where
  "Buoys c query = QueryBuoys (ct_store c) query"

definition RecordAudit :: "AcousticControl \<Rightarrow> Arr_Event \<Rightarrow> AcousticControl \<times> go_error option" where
  "RecordAudit c event = on_store c (AppendEvent (ct_store c) event)"

definition SnapshotCalibrationBundle :: "AcousticControl \<Rightarrow> string \<Rightarrow> CalibrationBundle option" where
  "SnapshotCalibrationBundle c i = get_CalibrationBundle (ct_store c) i"

definition SnapshotSurveyMission :: "AcousticControl \<Rightarrow> string \<Rightarrow> Arr_SurveyMission option" where
  "SnapshotSurveyMission c i = get_SurveyMission (ct_store c) i"

definition ErrorResponse :: "go_error \<Rightarrow> int \<times> string" where
  "ErrorResponse err = arr_ClassifyError err"

definition CloseSafetyAlert :: "AcousticControl \<Rightarrow> string \<Rightarrow> int \<Rightarrow> go_error option" where
  "CloseSafetyAlert c missionID openAlerts =
     (case get_SurveyMission (ct_store c) missionID of
        None \<Rightarrow> Some (Errorf ''survey_mission not found'' arr_conflict)
      | Some m \<Rightarrow> CanCloseAlert m openAlerts)"

definition RollbackTarget :: "AcousticControl \<Rightarrow> string \<Rightarrow> int \<Rightarrow> string result" where
  "RollbackTarget c buoyID expectedGeneration =
     (case get_Buoy (ct_store c) buoyID of
        None \<Rightarrow> Inl (Errorf ''buoy not found'' arr_conflict)
      | Some buoy \<Rightarrow> guard_err (CheckGeneration buoy expectedGeneration) (RollbackVersion buoy))"

section \<open>Runs of operations\<close>

datatype control_op =
    OpSaveResponse string string string string string
  | OpCallback Callback
  | OpEnroll CalibrationBundle Buoy
  | OpApprove Arr_SurveyMission CalibrationBundle
  | OpDispatch string int
  | OpPromote string int
  | OpReserveLane string string int
  | OpAcquireWorker string time duration
  | OpRenewWorker string time duration
  | OpReleaseWorker string
  | OpChangeRole string string
  | OpLogout string time
  | OpRecordAudit Arr_Event

fun control_apply :: "AcousticControl \<Rightarrow> control_op \<Rightarrow> AcousticControl" where
  "control_apply c (OpSaveResponse t m p k r) = fst (SaveIdempotentResponse c t m p k r)"
| "control_apply c (OpCallback cb) = fst (RegisterCallback c cb)"
| "control_apply c (OpEnroll b buoy) = fst (EnrollBuoy c b buoy)"
| "control_apply c (OpApprove m b) = fst (ApproveSurveyMission c m b)"
| "control_apply c (OpDispatch i v) = fst (Dispatch c i v)"
| "control_apply c (OpPromote i v) = fst (Promote c i v)"
| "control_apply c (OpReserveLane t l n) = fst (ReserveLane c t l n)"
| "control_apply c (OpAcquireWorker w t d) = fst (AcquireWorker c w t d)"
| "control_apply c (OpRenewWorker w t d) = fst (RenewWorker c w t d)"
| "control_apply c (OpReleaseWorker w) = fst (ReleaseWorker c w)"
| "control_apply c (OpChangeRole tok r) = fst (ChangeRole c tok r)"
| "control_apply c (OpLogout tok t) = fst (Logout c tok t)"
| "control_apply c (OpRecordAudit e) = fst (RecordAudit c e)"

definition control_run :: "AcousticControl \<Rightarrow> control_op list \<Rightarrow> AcousticControl" where
  "control_run = foldl control_apply"

lemma on_store_simps [simp]:
  "ct_store (fst (on_store c r)) = fst r" "snd (on_store c r) = snd r"
  "ct_capacity (fst (on_store c r)) = ct_capacity c" "ct_lease (fst (on_store c r)) = ct_lease c"
  by (simp_all add: on_store_def)

lemmas control_defs = SaveIdempotentResponse_def RegisterCallback_def EnrollBuoy_def
  ApproveSurveyMission_def Dispatch_def Promote_def ReserveLane_def AcquireWorker_def
  RenewWorker_def ReleaseWorker_def ChangeRole_def change_role_commit_def Logout_def RecordAudit_def

text \<open>What an operation does to the store is a short sequence of store operations.\<close>

inductive store_steps :: "Store \<Rightarrow> Store \<Rightarrow> bool" where
  none: "store_steps s s"
| calibrate: "store_steps s (fst (PutCalibrationBundle s b))"
| enroll: "store_steps s (fst (PutBuoy (fst (PutCalibrationBundle s b)) buoy))"
| mission: "store_steps s (fst (PutSurveyMission s m))"
| update: "store_steps s (fst (UpdateSurveyMission s i v u))"
| callback: "store_steps s (fst (RecordCallback s cb))"
| save: "store_steps s (fst (SaveIdempotent s k body))"
| rotate: "get_Session s tok = Some e \<Longrightarrow> RotateRole e r = Inr e' \<Longrightarrow>
    store_steps s (fst (PutSession s e'))"
| revoke: "store_steps s (fst (RevokeSession s tok t))"
| event: "store_steps s (fst (AppendEvent s ev))"

lemma control_store_steps: "store_steps (ct_store c) (ct_store (control_apply c op))"
  by (cases op)
    (auto simp: control_defs store_steps.none store_steps.mission store_steps.update
      store_steps.callback store_steps.revoke store_steps.event
      intro: store_steps.rotate
      split: option.splits sum.splits prod.splits if_splits
      dest!: arg_cong[where f = fst] intro: store_steps.save store_steps.calibrate store_steps.enroll)

lemma store_steps_ok: "store_steps s s' \<Longrightarrow> store_ok s \<Longrightarrow> store_ok s'"
  by (induction rule: store_steps.induct) (auto intro: store_ok_ops)

lemma store_steps_idempotent:
  "store_steps s s' \<Longrightarrow> Idempotent s k = Some v \<Longrightarrow> Idempotent s' k = Some v"
  by (induction rule: store_steps.induct)
    (auto simp: Idempotent_def PutCalibrationBundle_def PutBuoy_def PutSurveyMission_def
      UpdateSurveyMission_def RecordCallback_def SaveIdempotent_def PutSession_def RevokeSession_def
      AppendEvent_def split: option.splits sum.splits)

lemma store_steps_events: "store_steps s s' \<Longrightarrow> \<exists>evs. st_events s' = st_events s @ evs"
  by (induction rule: store_steps.induct)
    (auto simp: PutCalibrationBundle_def PutBuoy_def PutSurveyMission_def
      UpdateSurveyMission_def RecordCallback_def SaveIdempotent_def PutSession_def RevokeSession_def
      AppendEvent_def split: option.splits sum.splits)

definition revoked :: "Store \<Rightarrow> string \<Rightarrow> bool" where
  "revoked s tok \<longleftrightarrow> (\<exists>e. get_Session s tok = Some e \<and> se_RevokedAt e \<noteq> None)"

lemma RotateRole_Inr: "RotateRole e r = Inr e' \<longleftrightarrow> r \<noteq> [] \<and> r \<noteq> se_Role e \<and> e' = e\<lparr>se_Role := r\<rparr>"
  by (auto simp: RotateRole_def)

lemma store_steps_revoked:
  "store_steps s s' \<Longrightarrow> store_ok s \<Longrightarrow> revoked s tok \<Longrightarrow> revoked s' tok"
proof (induction rule: store_steps.induct)
  case (rotate s tok' e r e')
  have "se_Token e = tok'" using rotate by (auto simp: store_ok_def get_Session_def)
  then show ?case
    using rotate by (auto simp: revoked_def get_Session_def PutSession_def RotateRole_Inr)
qed (auto simp: revoked_def get_Session_def PutCalibrationBundle_def PutBuoy_def PutSurveyMission_def
      UpdateSurveyMission_def RecordCallback_def SaveIdempotent_def RevokeSession_def
      AppendEvent_def split: option.splits sum.splits)

lemma control_run_ok: "store_ok (ct_store c) \<Longrightarrow> store_ok (ct_store (control_run c ops))"
  by (induction ops arbitrary: c)
    (auto simp: control_run_def intro: store_steps_ok[OF control_store_steps])

lemma control_run_idempotent: "Idempotent (ct_store c) k = Some v \<Longrightarrow>
    Idempotent (ct_store (control_run c ops)) k = Some v"
  by (induction ops arbitrary: c)
    (auto simp: control_run_def intro: store_steps_idempotent[OF control_store_steps])

lemma control_run_revoked: "store_ok (ct_store c) \<Longrightarrow> revoked (ct_store c) tok \<Longrightarrow>
    revoked (ct_store (control_run c ops)) tok"
  by (induction ops arbitrary: c)
    (auto simp: control_run_def intro: store_steps_revoked[OF control_store_steps]
      store_steps_ok[OF control_store_steps])

lemma control_run_events: "\<exists>evs. st_events (ct_store (control_run c ops)) = st_events (ct_store c) @ evs"
proof (induction ops arbitrary: c)
  case Nil
  then show ?case by (simp add: control_run_def)
next
  case (Cons op ops)
  obtain evs where "st_events (ct_store (control_apply c op)) = st_events (ct_store c) @ evs"
    using store_steps_events[OF control_store_steps[of c op]] by blast
  then show ?case using Cons[of "control_apply c op"] by (auto simp: control_run_def)
qed

lemma revoked_Authenticate: "revoked (ct_store c) tok \<Longrightarrow> Authenticate c tok tenant role now \<noteq> None"
  by (auto simp: revoked_def Authenticate_def AuthorizeSession_def)

section \<open>Properties\<close>

text \<open>C16: idempotent replies. Once a reply has been saved for a scope, every later look-up of the
  scope returns it, whatever operations come between, and saving again is refused; and a scope
  made of four other NUL-free parts never sees it.\<close>

theorem idempotent_replay:
  assumes "SaveIdempotentResponse c t m p k response = (c', Inr True)"
  shows "LoadIdempotentResponse (control_run c' ops) t m p k = Inr (Some response) \<and>
    snd (SaveIdempotentResponse (control_run c' ops) t m p k other) = Inr False \<and>
    (list_all nul_free [t, m, p, k, t', m', p', k'] \<and> [t', m', p', k'] \<noteq> [t, m, p, k] \<longrightarrow>
       LoadIdempotentResponse c' t' m' p' k' = LoadIdempotentResponse c t' m' p' k')"
proof -
  obtain key where key: "IdempotencyKey t m p k = Inr key"
    and c': "c' = c\<lparr>ct_store := fst (SaveIdempotent (ct_store c) key response)\<rparr>"
    and saved: "snd (SaveIdempotent (ct_store c) key response)"
    using assms by (auto simp: SaveIdempotentResponse_def split: sum.splits prod.splits)
  have get: "Idempotent (ct_store c') j =
      (if j = key then Some response else Idempotent (ct_store c) j)" for j
    using saved by (simp add: c' idem.get_put idem.put_result)
  then have run: "Idempotent (ct_store (control_run c' ops)) key = Some response"
    by (intro control_run_idempotent) simp
  have "LoadIdempotentResponse c' t' m' p' k' = LoadIdempotentResponse c t' m' p' k'"
    if other: "list_all nul_free [t, m, p, k, t', m', p', k']" "[t', m', p', k'] \<noteq> [t, m, p, k]"
  proof (cases "IdempotencyKey t' m' p' k'")
    case (Inr key')
    have "key' \<noteq> key" using IdempotencyKey_inject[OF key, of t' m' p' k'] Inr other by auto
    with Inr get show ?thesis by (simp add: LoadIdempotentResponse_def)
  qed (simp add: LoadIdempotentResponse_def)
  moreover have "snd (SaveIdempotentResponse (control_run c' ops) t m p k other) = Inr False"
    using run by (simp add: SaveIdempotentResponse_def key SaveIdempotent_def Idempotent_def)
  ultimately show ?thesis using run by (simp add: LoadIdempotentResponse_def key)
qed

theorem idempotent_replay_witness:
  "LoadIdempotentResponse
     (control_run (fst (SaveIdempotentResponse (NewAcousticControl None) ''t'' ''POST'' ''/x'' ''k'' ''ok''))
        [OpSaveResponse ''t'' ''POST'' ''/x'' ''k'' ''other''])
     ''t'' ''POST'' ''/x'' ''k'' = Inr (Some ''ok'')"
proof -
  have blanks: "\<not> blank ''t''" "\<not> blank ''POST''" "\<not> blank ''/x''" "\<not> blank ''k''" by code_simp+
  let ?r = "SaveIdempotentResponse (NewAcousticControl None) ''t'' ''POST'' ''/x'' ''k'' ''ok''"
  have "snd ?r = Inr True"
    using blanks by (simp add: SaveIdempotentResponse_def IdempotencyKey_def NewAcousticControl_def
        NewStore_def SaveIdempotent_def)
  then have "?r = (fst ?r, Inr True)" by (simp add: prod_eq_iff)
  then show ?thesis by (rule conjunct1[OF idempotent_replay])
qed

text \<open>C17: a logout is final: after it no sequence of control operations lets the session
  authenticate again for any tenant, role or time. The exception is a role change that looked the
  session up before the logout and stores it after: it brings the session back to life.\<close>

theorem logout_final:
  "(store_ok (ct_store c) \<and> Logout c tok t = (c', True) \<longrightarrow>
      Authenticate (control_run c' ops) tok tenant role now \<noteq> None) \<and>
   (\<exists>c0 session. store_ok (ct_store c0) \<and> get_Session (ct_store c0) ''s'' = Some session \<and>
      snd (Logout c0 ''s'' 1) \<and>
      Authenticate (fst (change_role_commit (fst (Logout c0 ''s'' 1)) session ''admin''))
        ''s'' ''t'' ''admin'' 2 = None)"
proof -
  have "Authenticate (control_run c' ops) tok tenant role now \<noteq> None"
    if "store_ok (ct_store c)" "Logout c tok t = (c', True)"
  proof (intro revoked_Authenticate control_run_revoked)
    have c': "ct_store c' = fst (RevokeSession (ct_store c) tok t)" "snd (RevokeSession (ct_store c) tok t)"
      using that(2) by (auto simp: Logout_def on_store_def)
    then show "store_ok (ct_store c')" using that(1) by (simp add: store_ok_RevokeSession)
    show "revoked (ct_store c') tok"
      using c' by (auto simp: RevokeSession_def revoked_def get_Session_def split: option.splits if_splits)
  qed
  moreover define e where "e = \<lparr>se_Token = ''s'', se_TenantID = ''t'', se_UserID = ''u'',
    se_Role = ''viewer'', se_ExpiresAt = 10, se_RevokedAt = None\<rparr>"
  define c0 where "c0 = (NewAcousticControl None)\<lparr>ct_store := NewStore\<lparr>st_sessions := [''s'' \<mapsto> e]\<rparr>\<rparr>"
  have "store_ok (ct_store c0)" by (simp add: c0_def e_def store_ok_def NewStore_def)
  moreover have "get_Session (ct_store c0) ''s'' = Some e" by (simp add: c0_def get_Session_def)
  moreover have "snd (Logout c0 ''s'' 1)"
    by (simp add: Logout_def RevokeSession_def c0_def e_def)
  moreover have "Authenticate (fst (change_role_commit (fst (Logout c0 ''s'' 1)) e ''admin''))
      ''s'' ''t'' ''admin'' 2 = None"
    by (simp add: change_role_commit_def RotateRole_def PutSession_def Authenticate_def get_Session_def
        AuthorizeSession_def e_def)
  ultimately show ?thesis by blast
qed

theorem logout_final_witness:
  "\<exists>c. Authenticate (control_run c [OpChangeRole ''s'' ''admin'']) ''s'' ''t'' ''admin'' 2 \<noteq> None"
proof -
  let ?c = "(NewAcousticControl None)\<lparr>ct_store := NewStore\<lparr>st_sessions := [''s'' \<mapsto>
    \<lparr>se_Token = ''s'', se_TenantID = ''t'', se_UserID = ''u'', se_Role = ''viewer'',
     se_ExpiresAt = 10, se_RevokedAt = None\<rparr>]\<rparr>\<rparr>"
  have "store_ok (ct_store ?c)" by (simp add: store_ok_def NewStore_def)
  moreover have "Logout ?c ''s'' 1 = (fst (Logout ?c ''s'' 1), True)"
    by (simp add: Logout_def RevokeSession_def prod_eq_iff)
  ultimately show ?thesis
    using logout_final[of ?c "''s''" 1 "fst (Logout ?c ''s'' 1)" "[OpChangeRole ''s'' ''admin'']"
        "''t''" "''admin''" 2] by blast
qed

section \<open>Missions, buoys and lanes\<close>

text \<open>A writer that has read version \<open>v\<close> and dispatches (\<open>False\<close>) or promotes (\<open>True\<close>).\<close>

definition mission_commit :: "AcousticControl \<Rightarrow> string \<Rightarrow> int \<Rightarrow> bool \<Rightarrow> AcousticControl \<times> bool" where
  "mission_commit c i v promote =
     (case (if promote then Promote c i v else Dispatch c i v) of (c', err) \<Rightarrow> (c', err = None))"

definition mission_version :: "AcousticControl \<Rightarrow> string \<Rightarrow> int option" where
  "mission_version c i = map_option am_Version (SnapshotSurveyMission c i)"

lemma updates_Inr:
  "dispatch_update m = Inr m' \<longleftrightarrow> CanDispatch m = None \<and> m' = m\<lparr>am_State := ''dispatching''\<rparr>"
  "promote_update m = Inr m' \<longleftrightarrow> CanPromote m = None \<and> m' = m\<lparr>am_State := ''promoted''\<rparr>"
  by (auto simp: dispatch_update_def promote_update_def)

lemma UpdateSurveyMission_ok: "UpdateSurveyMission s i v u = (s', None) \<longleftrightarrow>
    (\<exists>m m'. st_survey_missions s i = Some m \<and> am_Version m = v \<and> u m = Inr m' \<and>
       s' = s\<lparr>st_survey_missions := (st_survey_missions s)
              (i \<mapsto> m'\<lparr>am_Version := wrap64 (am_Version m' + 1)\<rparr>)\<rparr>)"
  by (auto simp: UpdateSurveyMission_def split: option.splits sum.splits)

lemma UpdateSurveyMission_err:
  "snd (UpdateSurveyMission s i v u) = Some e \<Longrightarrow> fst (UpdateSurveyMission s i v u) = s"
  by (auto simp: UpdateSurveyMission_def split: option.splits sum.splits if_splits)

lemma mission_commit_ok: "mission_commit c i v p = (c', True) \<Longrightarrow>
    \<exists>m. SnapshotSurveyMission c i = Some m \<and> am_Version m = v \<and> am_State m = ''running'' \<and>
      (if p then CanPromote m else CanDispatch m) = None \<and>
      SnapshotSurveyMission c' = (SnapshotSurveyMission c)
        (i \<mapsto> m\<lparr>am_State := if p then ''promoted'' else ''dispatching'',
               am_Version := wrap64 (am_Version m + 1)\<rparr>)"
proof -
  assume ok: "mission_commit c i v p = (c', True)"
  then have "UpdateSurveyMission (ct_store c) i v (if p then promote_update else dispatch_update) =
      (ct_store c', None)"
    by (cases p) (auto simp: mission_commit_def Promote_def Dispatch_def on_store_def prod_eq_iff)
  then show ?thesis
    unfolding UpdateSurveyMission_ok
    by (cases p)
      (auto simp: updates_Inr SnapshotSurveyMission_def[abs_def] get_SurveyMission_def option.map_id0 fun_eq_iff
        CanPromote_def CanDispatch_def split: if_splits)
qed

lemma mission_commit_fail: "mission_commit c i v p = (c', False) \<Longrightarrow> c' = c"
  by (cases p)
    (auto simp: mission_commit_def Promote_def Dispatch_def on_store_def prod_eq_iff
      UpdateSurveyMission_err)

interpretation missions: versioned mission_commit mission_version "\<lambda>_. True"
proof
  fix c i v p c'
  show "mission_version c i = Some v \<and> mission_version c' i \<noteq> Some v"
    if "mission_commit c i v p = (c', True)"
    using mission_commit_ok[OF that] by (auto simp: mission_version_def)
  show "c' = c" if "mission_commit c i v p = (c', False)"
    using mission_commit_fail[OF that] .
qed auto

text \<open>C18: of all writers that have read the same version of a mission at most one dispatches or
  promotes it. Only a running mission is dispatched, with an approved digest, or promoted, with no
  failure and enough healthy buoys; then its state and version change, nothing else does, and a
  refused attempt changes nothing.\<close>

theorem mission_commits:
  "missions.commits c i v us \<le> 1 \<and>
   (mission_commit c i v promote = (c', True) \<longrightarrow>
      (\<exists>m. SnapshotSurveyMission c i = Some m \<and> am_Version m = v \<and> am_State m = ''running'' \<and>
         (promote \<longrightarrow> am_Failed m \<le> 0 \<and> am_RequiredHealthy m \<le> am_Healthy m) \<and>
         (\<not> promote \<longrightarrow> am_ApprovedDigest m \<noteq> '''') \<and>
         SnapshotSurveyMission c' = (SnapshotSurveyMission c)
           (i \<mapsto> m\<lparr>am_State := if promote then ''promoted'' else ''dispatching'',
                  am_Version := wrap64 (v + 1)\<rparr>))) \<and>
   (mission_commit c i v promote = (c', False) \<longrightarrow> c' = c)"
proof -
  have "\<exists>m. SnapshotSurveyMission c i = Some m \<and> am_Version m = v \<and> am_State m = ''running'' \<and>
         (promote \<longrightarrow> am_Failed m \<le> 0 \<and> am_RequiredHealthy m \<le> am_Healthy m) \<and>
         (\<not> promote \<longrightarrow> am_ApprovedDigest m \<noteq> '''') \<and>
         SnapshotSurveyMission c' = (SnapshotSurveyMission c)
           (i \<mapsto> m\<lparr>am_State := if promote then ''promoted'' else ''dispatching'',
                  am_Version := wrap64 (v + 1)\<rparr>)"
    if ok: "mission_commit c i v promote = (c', True)"
    using mission_commit_ok[OF ok] by (auto simp: CanPromote_def CanDispatch_def split: if_splits)
  then show ?thesis using missions.one_winner[of c i v us] mission_commit_fail by blast
qed

definition sample_mission :: Arr_SurveyMission where
  "sample_mission =
     \<lparr>am_ID = ''m'', am_TenantID = ''t'', am_CalibrationBundleID = ''b'', am_State = ''running'',
      am_RequiredHealthy = 1, am_Healthy = 1, am_Failed = 0, am_BuoyIDs = [],
      am_ApprovedDigest = ''d'', am_Version = 4\<rparr>"

theorem mission_commits_witness:
  "\<exists>c c'. mission_commit c ''m'' 4 False = (c', True) \<and> missions.commits c ''m'' 4 [False, True] \<le> 1 \<and>
     SnapshotSurveyMission c' ''m'' =
       Some (sample_mission\<lparr>am_State := ''dispatching'', am_Version := 5\<rparr>)"
proof -
  let ?c = "(NewAcousticControl None)\<lparr>ct_store := NewStore\<lparr>st_survey_missions := [''m'' \<mapsto> sample_mission]\<rparr>\<rparr>"
  let ?c' = "fst (mission_commit ?c ''m'' 4 False)"
  have "snd (mission_commit ?c ''m'' 4 False)"
    by (simp add: mission_commit_def Dispatch_def on_store_def UpdateSurveyMission_def
        dispatch_update_def CanDispatch_def sample_mission_def)
  then have ok: "mission_commit ?c ''m'' 4 False = (?c', True)" by (simp add: prod_eq_iff)
  have "SnapshotSurveyMission ?c ''m'' = Some sample_mission"
    by (simp add: SnapshotSurveyMission_def get_SurveyMission_def)
  then have "SnapshotSurveyMission ?c' ''m'' =
      Some (sample_mission\<lparr>am_State := ''dispatching'', am_Version := 5\<rparr>)"
    using mission_commits[of ?c "''m''" 4 "[False, True]" False ?c'] ok by (auto simp: wrap64_def)
  then show ?thesis using ok mission_commits[of ?c "''m''" 4 "[False, True]" False ?c'] by blast
qed

lemma store_entry:
  assumes "store_ok s"
  shows "get_Buoy s i = Some b \<longleftrightarrow> (i, b) \<in> set (st_buoys s)" "get_Buoy s i = Some b \<Longrightarrow> by_ID b = i"
    "get_Buoy s (by_ID b) = Some b \<longleftrightarrow> b \<in> snd ` set (st_buoys s)"
proof -
  have key: "(i, b) \<in> set (st_buoys s) \<Longrightarrow> by_ID b = i" for i b
    using assms unfolding store_ok_def by blast
  show mem: "get_Buoy s i = Some b \<longleftrightarrow> (i, b) \<in> set (st_buoys s)" for i b
    using assms by (simp add: store_ok_def get_Buoy_def map_of_eq_Some_iff)
  then show "get_Buoy s i = Some b \<Longrightarrow> by_ID b = i" using key by blast
  show "get_Buoy s (by_ID b) = Some b \<longleftrightarrow> b \<in> snd ` set (st_buoys s)"
    unfolding mem
  proof
    show "b \<in> snd ` set (st_buoys s)" if "(by_ID b, b) \<in> set (st_buoys s)"
      using that by (rule rev_image_eqI) simp
    assume "b \<in> snd ` set (st_buoys s)"
    then obtain i where i: "(i, b) \<in> set (st_buoys s)" by auto
    then show "(by_ID b, b) \<in> set (st_buoys s)" using key[OF i] by simp
  qed
qed

lemma query_total:
  assumes "store_ok s"
  shows "length (query_filtered s q) = card {i. \<exists>b. get_Buoy s i = Some b \<and> query_match q b}"
proof -
  have "by_ID ` set (query_filtered s q) = {i. \<exists>b. get_Buoy s i = Some b \<and> query_match q b}"
  proof (intro set_eqI iffI)
    fix i assume "i \<in> by_ID ` set (query_filtered s q)"
    then show "i \<in> {i. \<exists>b. get_Buoy s i = Some b \<and> query_match q b}"
      using store_entry(3)[OF assms] by (auto simp: set_query_filtered)
  next
    fix i assume "i \<in> {i. \<exists>b. get_Buoy s i = Some b \<and> query_match q b}"
    then obtain b where b: "get_Buoy s i = Some b" "query_match q b" by blast
    then have "by_ID b = i" using store_entry(2)[OF assms] by blast
    with b have "b \<in> set (query_filtered s q)"
      using store_entry(3)[OF assms, of b] by (simp add: set_query_filtered)
    with \<open>by_ID b = i\<close> show "i \<in> by_ID ` set (query_filtered s q)" by blast
  qed
  moreover have "distinct (map by_ID (query_filtered s q))"
    using query_filtered_sorted[OF assms] by (metis sorted_wrt_map strict_sorted_iff)
  ultimately show ?thesis using distinct_card[of "map by_ID (query_filtered s q)"] by simp
qed

text \<open>\<open>start + limit\<close> wraps to a negative end.\<close>

lemma page_overflow:
  assumes "aq_Limit q = 2 ^ 63 - 1" "0 < aq_Offset q" "query_filtered (ct_store c) q \<noteq> []"
    "length (query_filtered (ct_store c) q) < 2 ^ 62"
  shows "Buoys c q = None"
proof -
  define start where
    "start = min (max (aq_Offset q) 0) (int (length (query_filtered (ct_store c) q)))"
  have "1 \<le> start" "start < 2 ^ 62" using assms by (auto simp: start_def Suc_le_eq)
  moreover have "wrap64 (start + (2 ^ 63 - 1)) = start - 1 - 2 ^ 63"
  proof -
    have "(start - 1 + 2 ^ 64) mod 2 ^ 64 = start - 1"
      using calculation by (simp only: mod_add_self2) (simp add: mod_pos_pos_trivial)
    moreover have "start + (2 ^ 63 - 1) + 2 ^ 63 = start - 1 + 2 ^ 64" by simp
    ultimately show ?thesis unfolding wrap64_def by simp
  qed
  ultimately show ?thesis using assms
    unfolding Buoys_def QueryBuoys_def Let_def start_def[symmetric] by simp
qed

text \<open>C19: a page of buoys shows one tenant only. For a store that keeps its invariant, the items are
  buoys of the asked tenant and class, ordered strictly by id, and the total counts all of them.
  With limits and stores below \<open>2^62\<close> the page is the part of that list from the offset on; but a
  limit of \<open>2^63 - 1\<close> behind a positive offset panics.\<close>

theorem buoys_page:
  assumes "store_ok (ct_store c)"
  shows "(Buoys c q = Some page \<longrightarrow>
      sorted_wrt (\<lambda>a b. by_ID a < by_ID b) (ap_Items page) \<and>
      list_all (\<lambda>b. by_TenantID b = aq_TenantID q \<and> (aq_Class q = '''' \<or> by_Class b = aq_Class q) \<and>
        get_Buoy (ct_store c) (by_ID b) = Some b) (ap_Items page) \<and>
      ap_Total page = int (card {i. \<exists>b. get_Buoy (ct_store c) i = Some b \<and> query_match q b})) \<and>
    (aq_Limit q < 2 ^ 62 \<and> length (query_filtered (ct_store c) q) < 2 ^ 62 \<longrightarrow>
      (\<exists>page. Buoys c q = Some page \<and> ap_Items page =
         take (nat (if aq_Limit q \<le> 0 then 50 else aq_Limit q))
           (drop (nat (aq_Offset q)) (query_filtered (ct_store c) q)))) \<and>
    (aq_Limit q = 2 ^ 63 - 1 \<and> 0 < aq_Offset q \<and> query_filtered (ct_store c) q \<noteq> [] \<and>
      length (query_filtered (ct_store c) q) < 2 ^ 62 \<longrightarrow> Buoys c q = None)"
proof (intro conjI impI)
  let ?s = "ct_store c" and ?xs = "query_filtered (ct_store c) q"
  {
    assume page: "Buoys c q = Some page"
    then obtain a b where items: "ap_Items page = slice a b ?xs" and n: "ap_Total page = int (length ?xs)"
      by (auto simp: Buoys_def QueryBuoys_def Let_def split: if_splits)
    show "sorted_wrt (\<lambda>a b. by_ID a < by_ID b) (ap_Items page)"
      unfolding items by (rule sorted_wrt_slice[OF query_filtered_sorted[OF assms]])
    show "list_all (\<lambda>b. by_TenantID b = aq_TenantID q \<and> (aq_Class q = '''' \<or> by_Class b = aq_Class q) \<and>
        get_Buoy ?s (by_ID b) = Some b) (ap_Items page)"
      unfolding items list_all_iff store_entry(3)[OF assms] using set_slice[of a b ?xs]
      by (auto simp: set_query_filtered query_match_def)
    show "ap_Total page = int (card {i. \<exists>b. get_Buoy ?s i = Some b \<and> query_match q b})"
      using n query_total[OF assms] by simp
  }
  show "\<exists>page. Buoys c q = Some page \<and> ap_Items page =
      take (nat (if aq_Limit q \<le> 0 then 50 else aq_Limit q)) (drop (nat (aq_Offset q)) ?xs)"
    if "aq_Limit q < 2 ^ 62 \<and> length ?xs < 2 ^ 62"
    using QueryBuoys_Some[of q ?s] that by (simp add: Buoys_def)
  show "Buoys c q = None"
    if "aq_Limit q = 2 ^ 63 - 1 \<and> 0 < aq_Offset q \<and> ?xs \<noteq> [] \<and> length ?xs < 2 ^ 62"
    using that page_overflow by blast
qed

definition sample_buoy :: "string \<Rightarrow> string \<Rightarrow> Buoy" where
  "sample_buoy i tenant =
     \<lparr>by_ID = i, by_TenantID = tenant, by_Class = ''c'', by_CurrentVersion = ''2'',
      by_PreviousVersion = ''1'', by_Generation = 1, by_Quarantined = False\<rparr>"

definition sample_buoys :: AcousticControl where
  "sample_buoys = (NewAcousticControl None)\<lparr>ct_store :=
     NewStore\<lparr>st_buoys := [(''z'', sample_buoy ''z'' ''t''), (''x'', sample_buoy ''x'' ''u''),
       (''a'', sample_buoy ''a'' ''t'')]\<rparr>\<rparr>"

theorem buoys_page_witness:
  "(\<exists>page. Buoys sample_buoys \<lparr>aq_TenantID = ''t'', aq_State = '''', aq_Class = '''', aq_Limit = 0,
       aq_Offset = 1\<rparr> = Some page \<and> ap_Items page = [sample_buoy ''z'' ''t'']) \<and>
   Buoys sample_buoys \<lparr>aq_TenantID = ''t'', aq_State = '''', aq_Class = '''', aq_Limit = 2 ^ 63 - 1,
       aq_Offset = 1\<rparr> = None"
proof -
  have ok: "store_ok (ct_store sample_buoys)"
    by (simp add: store_ok_def NewStore_def sample_buoys_def sample_buoy_def)
  let ?q = "\<lambda>n. \<lparr>aq_TenantID = ''t'', aq_State = '''', aq_Class = '''', aq_Limit = n, aq_Offset = 1\<rparr>"
  have found: "query_filtered (ct_store sample_buoys) (?q n) = [sample_buoy ''a'' ''t'', sample_buoy ''z'' ''t'']" for n
    by (simp add: query_filtered_def query_match_def sample_buoys_def sample_buoy_def
        compareString_less)
  show ?thesis
    using buoys_page[OF ok, of "?q 0"] buoys_page[OF ok, of "?q (2 ^ 63 - 1)"] by (simp add: found)
qed

text \<open>A run of lane reservations.\<close>

definition reserve_lanes :: "AcousticControl \<Rightarrow> (string \<times> string \<times> int) list \<Rightarrow> AcousticControl" where
  "reserve_lanes = foldl (\<lambda>c (t, l, n). fst (ReserveLane c t l n))"

lemma reserve_lanes_capacity: "ct_capacity (reserve_lanes c rs) = arr_slots.reserve_all (ct_capacity c)
    (map (\<lambda>(t, l, n). (lane_key t l, n)) (filter (\<lambda>(t, l, n). t \<noteq> [] \<and> l \<noteq> []) rs))"
  by (induction rs arbitrary: c)
    (auto simp: reserve_lanes_def arr_slots.reserve_all_def ReserveLane_def split: prod.splits)

lemma lane_key_inject:
  "nul_free t \<Longrightarrow> nul_free t' \<Longrightarrow> lane_key t l = lane_key t' l' \<longleftrightarrow> t = t' \<and> l = l'"
  by (simp add: lane_key_def nul_free_def append_sep_eq)

lemma reserve_all_other:
  "list_all (\<lambda>(j, l). j \<noteq> k) rs \<Longrightarrow> arr_Used (arr_slots.reserve_all c rs) k = arr_Used c k"
  by (induction rs arbitrary: c)
    (auto simp: arr_slots.reserve_all_def arr_Reserve_def arr_Used_def)

text \<open>Lanes are never oversubscribed. Whatever is requested, the use of a lane does not pass the
  greatest limit asked for; \<open>n\<close> requests for an unused lane with limit \<open>m\<close> fill exactly
  \<open>min m n\<close> places; and requests for other lanes of tenants whose names have no NUL byte do not
  count.\<close>

theorem lane_capacity:
  "(LaneUsage c t l \<le> m \<and> list_all (\<lambda>(t', l', n). n \<le> m) rs \<longrightarrow>
      LaneUsage (reserve_lanes c rs) t l \<le> m) \<and>
   (t \<noteq> [] \<and> l \<noteq> [] \<and> 0 < m \<and> LaneUsage c t l = 0 \<longrightarrow>
      LaneUsage (reserve_lanes c (replicate n (t, l, m))) t l = min m (int n)) \<and>
   (nul_free t \<and> list_all (\<lambda>(t', l', n). nul_free t' \<and> (t', l') \<noteq> (t, l)) rs \<longrightarrow>
      LaneUsage (reserve_lanes c rs) t l = LaneUsage c t l)"
proof (intro conjI impI)
  let ?reqs = "map (\<lambda>(t, l, n). (lane_key t l, n)) (filter (\<lambda>(t, l, n). t \<noteq> [] \<and> l \<noteq> []) rs)"
  show "LaneUsage (reserve_lanes c rs) t l \<le> m"
    if "LaneUsage c t l \<le> m \<and> list_all (\<lambda>(t', l', n). n \<le> m) rs"
    using that unfolding LaneUsage_def reserve_lanes_capacity
    by (intro arr_slots.never_oversubscribed) (auto simp: list_all_iff)
  show "LaneUsage (reserve_lanes c (replicate n (t, l, m))) t l = min m (int n)"
    if "t \<noteq> [] \<and> l \<noteq> [] \<and> 0 < m \<and> LaneUsage c t l = 0"
  proof -
    have "lane_key t l \<noteq> []" by (simp add: lane_key_def)
    then show ?thesis
      using arr_slots.exact_fill[of "lane_key t l" m "ct_capacity c" n] that
      by (simp add: LaneUsage_def reserve_lanes_capacity filter_replicate)
  qed
  show "LaneUsage (reserve_lanes c rs) t l = LaneUsage c t l"
    if other: "nul_free t \<and> list_all (\<lambda>(t', l', n). nul_free t' \<and> (t', l') \<noteq> (t, l)) rs"
    unfolding LaneUsage_def reserve_lanes_capacity
    by (rule reserve_all_other) (use other in \<open>auto simp: list_all_iff lane_key_inject\<close>)
qed

theorem lane_capacity_witness:
  "LaneUsage (reserve_lanes (NewAcousticControl None) (replicate 5 (''t'', ''l'', 3))) ''t'' ''l'' = 3"
  using lane_capacity[of "NewAcousticControl None" "''t''" "''l''" 3 "[]" 5]
  by (simp add: LaneUsage_def NewAcousticControl_def arr_NewCapacity_def arr_Used_def)

end
