(* ===== verification/Telemetry_Stream.thy ===== *)
theory Telemetry_Stream
  imports Contracts
begin

text \<open>
  \<open>internal/telemetry\<close>: types (\<open>types.go\<close>) and the stream manager (\<open>stream.go\<close>). Every manager
  operation holds the mutex throughout, so it is one step. The segments of a stream are an
  association list from index to segment without repetition. The channel \<open>changed\<close>, closed and
  replaced at every signal, is the number of signals so far: a waiter that has taken the channel
  with number \<open>g\<close> is woken as soon as the number is greater. SHA-256 is the argument \<open>sha256\<close>.
\<close>

section \<open>Types\<close>

record Scope =
  sc_TenantID :: string
  sc_MissionID :: string
  sc_BuoyID :: string
  sc_CaptureID :: string

record Segment =
  sg_Index :: int
  sg_Digest :: string
  sg_Payload :: string

record Stream =
  tm_Key :: string
  tm_Scope :: Scope
  tm_ExpectedSegments :: int
  tm_Segments :: "(int \<times> Segment) list"
  tm_Labels :: "string \<rightharpoonup> string"
  tm_State :: string
  tm_StreamVersion :: int

record SealRecord =
  sl_StreamKey :: string
  sl_Checksum :: string
  sl_Payload :: string
  sl_SealedAt :: time

record Manager =
  mg_streams :: "string \<rightharpoonup> Stream"
  mg_changed :: nat

definition NewManager :: Manager where
  "NewManager = \<lparr>mg_streams = Map.empty, mg_changed = 0\<rparr>"

section \<open>Operations\<close>

definition StreamKey :: "Scope \<Rightarrow> string result" where
  "StreamKey scope =
     (let parts = [sc_TenantID scope, sc_MissionID scope, sc_BuoyID scope, sc_CaptureID scope] in
      if list_ex blank parts then Inl (Errorf ''stream scope is incomplete'' tel_invalid)
      else Inr (join_nul parts))"

definition signalLocked :: "Manager \<Rightarrow> Manager" where
  "signalLocked m = m\<lparr>mg_changed := mg_changed m + 1\<rparr>"

definition put_stream :: "Manager \<Rightarrow> string \<Rightarrow> Stream \<Rightarrow> Manager" where
  "put_stream m key stream = signalLocked (m\<lparr>mg_streams := (mg_streams m)(key \<mapsto> stream)\<rparr>)"

text \<open>The stream values the operations store.\<close>

definition opened :: "string \<Rightarrow> Scope \<Rightarrow> int \<Rightarrow> (string \<rightharpoonup> string) \<Rightarrow> Stream" where
  "opened key scope expected labels =
     \<lparr>tm_Key = key, tm_Scope = scope, tm_ExpectedSegments = expected, tm_Segments = [],
      tm_Labels = labels, tm_State = ''collecting'', tm_StreamVersion = 1\<rparr>"

definition appended :: "Stream \<Rightarrow> int \<Rightarrow> string \<Rightarrow> string \<Rightarrow> Stream" where
  "appended stream index digest payload =
     stream\<lparr>tm_Segments := tm_Segments stream @
              [(index, \<lparr>sg_Index = index, sg_Digest = digest, sg_Payload = payload\<rparr>)],
            tm_StreamVersion := wrap64 (tm_StreamVersion stream + 1)\<rparr>"

definition sealed :: "Stream \<Rightarrow> Stream" where
  "sealed stream =
     stream\<lparr>tm_State := ''sealed'', tm_StreamVersion := wrap64 (tm_StreamVersion stream + 1)\<rparr>"

definition Open ::
  "Manager \<Rightarrow> Scope \<Rightarrow> int \<Rightarrow> (string \<rightharpoonup> string) \<Rightarrow> Manager \<times> Stream result" where
  "Open m scope expected labels =
     (case StreamKey scope of
        Inl err \<Rightarrow> (m, Inl err)
      | Inr key \<Rightarrow>
          if expected \<le> 0
            then (m, Inl (Errorf ''expected segment count must be positive'' tel_invalid))
          else if mg_streams m key \<noteq> None
            then (m, Inl (Errorf ''stream already exists'' tel_conflict))
          else
            (put_stream m key (opened key scope expected labels),
             Inr (opened key scope expected labels)))"

definition Append ::
  "Manager \<Rightarrow> go_error option \<Rightarrow> string \<Rightarrow> int \<Rightarrow> string \<Rightarrow> string \<Rightarrow> Manager \<times> bool result" where
  "Append m ctx_err key index digest payload =
     (case ctx_err of
        Some err \<Rightarrow> (m, Inl err)
      | None \<Rightarrow>
          (case mg_streams m key of
             None \<Rightarrow> (m, Inl (Errorf ''stream not found'' tel_conflict))
           | Some stream \<Rightarrow>
               if tm_State stream \<noteq> ''collecting''
                 then (m, Inl (Errorf ''sealed stream cannot accept segments'' tel_conflict))
               else if index < 0 \<or> tm_ExpectedSegments stream \<le> index \<or> digest = '''' \<or> payload = []
                 then (m, Inl (Errorf ''segment input is invalid'' tel_invalid))
               else (case map_of (tm_Segments stream) index of
                   Some prior \<Rightarrow>
                     if sg_Digest prior = digest then (m, Inr False)
                     else (m, Inl (Errorf ''segment index has different content'' tel_conflict))
                 | None \<Rightarrow>
                     (put_stream m key (appended stream index digest payload), Inr True))))"

definition Snapshot :: "Manager \<Rightarrow> string \<Rightarrow> Stream option" where
  "Snapshot m key = mg_streams m key"

text \<open>\<open>sort.Ints(indexes)\<close>, then the payloads in this order.\<close>

definition assemble :: "Stream \<Rightarrow> string" where
  "assemble stream =
     concat (map (\<lambda>index. case map_of (tm_Segments stream) index of
                      Some segment \<Rightarrow> sg_Payload segment | None \<Rightarrow> [])
       (sort (map fst (tm_Segments stream))))"

definition complete :: "Stream \<Rightarrow> bool" where
  "complete stream \<longleftrightarrow> int (length (tm_Segments stream)) = tm_ExpectedSegments stream"

text \<open>The audit callback threads the state \<open>'a\<close> it writes to; \<open>now\<close> is the reading of the clock.\<close>

definition Finalize ::
  "(string \<Rightarrow> string) \<Rightarrow> time \<Rightarrow> Manager \<Rightarrow> go_error option \<Rightarrow> string \<Rightarrow> int \<Rightarrow> string \<Rightarrow>
   ('a \<Rightarrow> SealRecord \<Rightarrow> 'a \<times> go_error option) option \<Rightarrow> 'a \<Rightarrow>
   Manager \<times> 'a \<times> SealRecord result" where
  "Finalize sha256 now m ctx_err key expectedVersion checksum audit a =
     (case ctx_err of
        Some err \<Rightarrow> (m, a, Inl err)
      | None \<Rightarrow>
          (case mg_streams m key of
             None \<Rightarrow> (m, a, Inl (Errorf ''stream cannot be finalized'' tel_conflict))
           | Some stream \<Rightarrow>
               if tm_State stream \<noteq> ''collecting''
                 then (m, a, Inl (Errorf ''stream cannot be finalized'' tel_conflict))
               else if tm_StreamVersion stream \<noteq> expectedVersion
                 then (m, a, Inl (Errorf ''stream version changed'' tel_conflict))
               else if \<not> complete stream
                 then (m, a, Inl (Errorf ''stream still has missing segments'' tel_conflict))
               else
                 (let payload = assemble stream;
                      actual = hex_encode (sha256 payload) in
                  if checksum = '''' \<or> checksum \<noteq> actual
                    then (m, a, Inl (Errorf ''stream checksum mismatch'' tel_conflict))
                  else
                    (let seal = \<lparr>sl_StreamKey = key, sl_Checksum = actual, sl_Payload = payload,
                                 sl_SealedAt = now\<rparr> in
                     case audit of
                       None \<Rightarrow> (put_stream m key (sealed stream), a, Inr seal)
                     | Some write \<Rightarrow>
                         (case write a seal of
                            (a', Some err) \<Rightarrow> (m, a', Inl (Errorf ''write seal audit'' err))
                          | (a', None) \<Rightarrow> (put_stream m key (sealed stream), a', Inr seal))))))"

section \<open>The manager invariant\<close>

definition segment_ok :: "Stream \<Rightarrow> int \<times> Segment \<Rightarrow> bool" where
  "segment_ok st = (\<lambda>(i, g). 0 \<le> i \<and> i < tm_ExpectedSegments st \<and> sg_Index g = i \<and>
     sg_Digest g \<noteq> '''' \<and> sg_Payload g \<noteq> [])"

definition stream_ok :: "string \<Rightarrow> Stream \<Rightarrow> bool" where
  "stream_ok key st \<longleftrightarrow>
     tm_Key st = key \<and> StreamKey (tm_Scope st) = Inr key \<and> 0 < tm_ExpectedSegments st \<and>
     distinct (map fst (tm_Segments st)) \<and> list_all (segment_ok st) (tm_Segments st) \<and>
     (tm_State st = ''collecting'' \<or> tm_State st = ''sealed'' \<and> complete st) \<and>
     tm_StreamVersion st =
       wrap64 (1 + int (length (tm_Segments st)) + (if tm_State st = ''sealed'' then 1 else 0))"

definition manager_ok :: "Manager \<Rightarrow> bool" where
  "manager_ok m \<longleftrightarrow> (\<forall>key st. mg_streams m key = Some st \<longrightarrow> stream_ok key st)"

lemma manager_ok_New: "manager_ok NewManager"
  by (simp add: manager_ok_def NewManager_def)

lemma put_stream_simps [simp]:
  "mg_streams (put_stream m key st) = (mg_streams m)(key \<mapsto> st)"
  "mg_changed (put_stream m key st) = mg_changed m + 1"
  by (simp_all add: put_stream_def signalLocked_def)

lemma manager_ok_put: "manager_ok m \<Longrightarrow> stream_ok key st \<Longrightarrow> manager_ok (put_stream m key st)"
  by (simp add: manager_ok_def)

lemma Open_Inr: "Open m scope expected labels = (m', Inr st) \<longleftrightarrow>
    (\<exists>key. StreamKey scope = Inr key \<and> 0 < expected \<and> mg_streams m key = None \<and>
       st = opened key scope expected labels \<and> m' = put_stream m key st)"
  by (auto simp: Open_def split: sum.splits)

lemma Open_Inl: "Open m scope expected labels = (m', Inl e) \<Longrightarrow> m' = m"
  by (auto simp: Open_def split: sum.splits if_splits)

lemma Append_True: "Append m ctx_err key index digest payload = (m', Inr True) \<longleftrightarrow>
    (\<exists>st. ctx_err = None \<and> mg_streams m key = Some st \<and> tm_State st = ''collecting'' \<and>
       0 \<le> index \<and> index < tm_ExpectedSegments st \<and> digest \<noteq> [] \<and> payload \<noteq> [] \<and>
       map_of (tm_Segments st) index = None \<and> m' = put_stream m key (appended st index digest payload))"
  by (auto simp: Append_def split: option.splits)

lemma Append_else: "Append m ctx_err key index digest payload = (m', r) \<Longrightarrow> r \<noteq> Inr True \<Longrightarrow> m' = m"
  by (auto simp: Append_def split: option.splits if_splits)

lemma Finalize_Inr: "Finalize sha now m ctx_err key v checksum audit a = (m', a', Inr seal) \<longleftrightarrow>
    (\<exists>st. ctx_err = None \<and> mg_streams m key = Some st \<and> tm_State st = ''collecting'' \<and>
       tm_StreamVersion st = v \<and> complete st \<and> checksum \<noteq> [] \<and>
       checksum = hex_encode (sha (assemble st)) \<and>
       seal = \<lparr>sl_StreamKey = key, sl_Checksum = checksum, sl_Payload = assemble st, sl_SealedAt = now\<rparr> \<and>
       (case audit of None \<Rightarrow> a' = a | Some write \<Rightarrow> write a seal = (a', None)) \<and>
       m' = put_stream m key (sealed st))"
  by (auto simp: Finalize_def Let_def split: option.splits prod.splits)

lemma Finalize_Inl: "Finalize sha now m ctx_err key v checksum audit a = (m', a', Inl e) \<Longrightarrow> m' = m"
  by (auto simp: Finalize_def Let_def split: option.splits prod.splits if_splits)

section \<open>Steps keep the invariant\<close>

lemma stream_ok_opened: "StreamKey scope = Inr key \<Longrightarrow> 0 < expected \<Longrightarrow>
    stream_ok key (opened key scope expected labels)"
  by (simp add: stream_ok_def opened_def wrap64_def)

lemma stream_ok_appended:
  assumes "stream_ok key st" "tm_State st = ''collecting''" "0 \<le> index"
    "index < tm_ExpectedSegments st" "digest \<noteq> []" "payload \<noteq> []" "map_of (tm_Segments st) index = None"
  shows "stream_ok key (appended st index digest payload)"
proof -
  have "index \<notin> fst ` set (tm_Segments st)" using assms(7) by (simp add: map_of_eq_None_iff)
  moreover have "segment_ok (appended st index digest payload) = segment_ok st"
    by (simp add: segment_ok_def appended_def fun_eq_iff)
  ultimately show ?thesis
    using assms by (simp add: stream_ok_def appended_def segment_ok_def algebra_simps)
qed

lemma stream_ok_sealed:
  assumes "stream_ok key st" "tm_State st = ''collecting''" "complete st"
  shows "stream_ok key (sealed st)"
proof -
  have "segment_ok (sealed st) = segment_ok st"
    by (simp add: segment_ok_def sealed_def fun_eq_iff)
  then show ?thesis
    using assms by (simp add: stream_ok_def sealed_def complete_def algebra_simps)
qed

lemma assemble_simps [simp]: "assemble (sealed st) = assemble st"
  by (simp add: assemble_def sealed_def)

lemma sealed_simps [simp]:
  "tm_State (sealed st) = ''sealed''" "tm_Segments (sealed st) = tm_Segments st"
  "complete (sealed st) = complete st" "tm_State (appended st i d p) = tm_State st"
  "tm_State (opened key scope n labels) = ''collecting''"
  by (simp_all add: sealed_def complete_def appended_def opened_def)

text \<open>An audit that appends to a log, or fails without writing.\<close>

definition log_audit :: "bool \<Rightarrow> SealRecord list \<Rightarrow> SealRecord \<Rightarrow> SealRecord list \<times> go_error option" where
  "log_audit fails lg r = (if fails then (lg, Some (NewError ''audit failed'')) else (lg @ [r], None))"

inductive manager_step ::
  "(string \<Rightarrow> string) \<Rightarrow> Manager \<times> SealRecord list \<Rightarrow> Manager \<times> SealRecord list \<Rightarrow> bool"
  for sha where
  open_step: "Open m scope expected labels = (m', r) \<Longrightarrow> manager_step sha (m, lg) (m', lg)"
| append_step: "Append m ctx_err key index digest payload = (m', b) \<Longrightarrow>
    manager_step sha (m, lg) (m', lg)"
| finalize_step: "Finalize sha now m ctx_err key v checksum (Some (log_audit fails)) lg = (m', lg', r) \<Longrightarrow>
    manager_step sha (m, lg) (m', lg')"

text \<open>What a step amounts to.\<close>

lemma manager_step_cases:
  assumes "manager_step sha (m, lg) (m', lg')"
  obtains (stutter) "m' = m" "lg' = lg"
  | (opened) key scope n labels where "StreamKey scope = Inr key" "0 < n" "mg_streams m key = None"
      "m' = put_stream m key (opened key scope n labels)" "lg' = lg"
  | (appended) key st i d p where "mg_streams m key = Some st" "tm_State st = ''collecting''" "0 \<le> i"
      "i < tm_ExpectedSegments st" "d \<noteq> []" "p \<noteq> []" "map_of (tm_Segments st) i = None"
      "m' = put_stream m key (appended st i d p)" "lg' = lg"
  | (sealed) key st now where "mg_streams m key = Some st" "tm_State st = ''collecting''" "complete st"
      "m' = put_stream m key (sealed st)"
      "lg' = lg @ [\<lparr>sl_StreamKey = key, sl_Checksum = hex_encode (sha (assemble st)),
         sl_Payload = assemble st, sl_SealedAt = now\<rparr>]"
  using assms
proof cases
  case (open_step scope expected labels r)
  then show ?thesis
  proof (cases r)
    case (Inl e)
    then show ?thesis using open_step Open_Inl stutter by blast
  next
    case (Inr st)
    then have "Open m scope expected labels = (m', Inr st)" using open_step by simp
    then obtain key where "StreamKey scope = Inr key" "0 < expected" "mg_streams m key = None"
      "m' = put_stream m key (Telemetry_Stream.opened key scope expected labels)"
      unfolding Open_Inr by blast
    then show ?thesis using opened open_step by blast
  qed
next
  case (append_step ctx_err key index digest payload b)
  show ?thesis
  proof (cases "b = Inr True")
    case True
    then have "Append m ctx_err key index digest payload = (m', Inr True)" using append_step by simp
    then obtain st where "mg_streams m key = Some st" "tm_State st = ''collecting''" "0 \<le> index"
      "index < tm_ExpectedSegments st" "digest \<noteq> []" "payload \<noteq> []"
      "map_of (tm_Segments st) index = None"
      "m' = put_stream m key (Telemetry_Stream.appended st index digest payload)"
      unfolding Append_True by blast
    then show ?thesis using appended append_step by blast
  next
    case False
    then show ?thesis using append_step Append_else stutter by blast
  qed
next
  case (finalize_step now ctx_err key v checksum fails r)
  show ?thesis
  proof (cases r)
    case (Inl e)
    then have "m' = m" using finalize_step by (simp add: Finalize_Inl)
    moreover have "lg' = lg"
      using finalize_step Inl
      by (auto simp: Finalize_def Let_def log_audit_def split: option.splits prod.splits if_splits)
    ultimately show ?thesis by (rule stutter)
  next
    case (Inr seal)
    then have fin: "Finalize sha now m ctx_err key v checksum (Some (log_audit fails)) lg =
        (m', lg', Inr seal)"
      using finalize_step by simp
    then obtain st where "mg_streams m key = Some st" "tm_State st = ''collecting''" "complete st"
      "m' = put_stream m key (Telemetry_Stream.sealed st)"
      "lg' = lg @ [\<lparr>sl_StreamKey = key, sl_Checksum = hex_encode (sha (assemble st)),
         sl_Payload = assemble st, sl_SealedAt = now\<rparr>]"
      unfolding Finalize_Inr by (auto simp: log_audit_def split: if_splits)
    then show ?thesis by (rule sealed)
  qed
qed

text \<open>The log has one record per sealed stream, with what the stream holds.\<close>

definition entry_ok :: "(string \<Rightarrow> string) \<Rightarrow> Manager \<Rightarrow> SealRecord \<Rightarrow> bool" where
  "entry_ok sha m r \<longleftrightarrow> (\<exists>st. mg_streams m (sl_StreamKey r) = Some st \<and> tm_State st = ''sealed'' \<and>
     sl_Payload r = assemble st \<and> sl_Checksum r = hex_encode (sha (assemble st)))"

definition log_ok :: "(string \<Rightarrow> string) \<Rightarrow> Manager \<Rightarrow> SealRecord list \<Rightarrow> bool" where
  "log_ok sha m lg \<longleftrightarrow> distinct (map sl_StreamKey lg) \<and> list_all (entry_ok sha m) lg \<and>
     (\<forall>key st. mg_streams m key = Some st \<longrightarrow> tm_State st = ''sealed'' \<longrightarrow>
        key \<in> sl_StreamKey ` set lg)"

definition unsealed :: "Manager \<Rightarrow> string \<Rightarrow> bool" where
  "unsealed m key \<longleftrightarrow> (\<forall>st. mg_streams m key = Some st \<longrightarrow> tm_State st = ''collecting'')"

lemma entry_ok_put: "entry_ok sha m r \<Longrightarrow> unsealed m key \<Longrightarrow>
    entry_ok sha (put_stream m key st) r \<and> sl_StreamKey r \<noteq> key"
  by (auto simp: entry_ok_def unsealed_def)

lemma log_ok_put:
  assumes "log_ok sha m lg" "unsealed m key" "tm_State st = ''collecting''"
  shows "log_ok sha (put_stream m key st) lg"
  using assms entry_ok_put[OF _ assms(2)] by (auto simp: log_ok_def list_all_iff)

lemma log_ok_seal:
  assumes "log_ok sha m lg" "unsealed m key" "tm_State st = ''sealed''"
  shows "log_ok sha (put_stream m key st)
    (lg @ [\<lparr>sl_StreamKey = key, sl_Checksum = hex_encode (sha (assemble st)),
            sl_Payload = assemble st, sl_SealedAt = now\<rparr>])"
proof -
  have "key \<notin> sl_StreamKey ` set lg"
    using assms entry_ok_put[OF _ assms(2)] by (auto simp: log_ok_def list_all_iff)
  then show ?thesis
    using assms entry_ok_put[OF _ assms(2)] by (auto simp: log_ok_def list_all_iff entry_ok_def)
qed

lemma manager_step_ok:
  assumes "manager_step sha (m, lg) (m', lg')" "manager_ok m" "log_ok sha m lg"
  shows "manager_ok m' \<and> log_ok sha m' lg'"
  using assms(1)
proof (cases rule: manager_step_cases)
  case stutter
  then show ?thesis using assms by simp
next
  case (opened key scope n labels)
  moreover have "unsealed m key" using opened(3) by (simp add: unsealed_def)
  ultimately show ?thesis using assms by (simp add: manager_ok_put stream_ok_opened log_ok_put)
next
  case (appended key st i d p)
  moreover have "unsealed m key" using appended(1,2) by (simp add: unsealed_def)
  moreover have "stream_ok key (Telemetry_Stream.appended st i d p)"
    using assms(2) appended by (intro stream_ok_appended) (auto simp: manager_ok_def)
  ultimately show ?thesis using assms by (simp add: manager_ok_put log_ok_put)
next
  case (sealed key st now)
  moreover have "unsealed m key" using sealed(1,2) by (simp add: unsealed_def)
  moreover have "stream_ok key (Telemetry_Stream.sealed st)"
    using assms(2) sealed by (intro stream_ok_sealed) (auto simp: manager_ok_def)
  ultimately show ?thesis
    using assms log_ok_seal[of sha m lg key "Telemetry_Stream.sealed st" now] by (simp add: manager_ok_put)
qed

abbreviation manager_run where "manager_run sha \<equiv> (manager_step sha)\<^sup>*\<^sup>*"

lemma manager_run_ok:
  "manager_run sha (NewManager, []) (m, lg) \<Longrightarrow> manager_ok m \<and> log_ok sha m lg"
proof (induction "(m, lg)" arbitrary: m lg rule: rtranclp_induct)
  case base
  show ?case by (simp add: manager_ok_New) (simp add: log_ok_def NewManager_def)
next
  case (step y)
  then show ?case by (cases y) (use manager_step_ok in blast)
qed

section \<open>Assembly\<close>

definition payload_at :: "Stream \<Rightarrow> int \<Rightarrow> string" where
  "payload_at st i = (case map_of (tm_Segments st) i of Some g \<Rightarrow> sg_Payload g | None \<Rightarrow> [])"

lemma complete_indexes:
  assumes "stream_ok key st" "complete st"
  shows "sort (map fst (tm_Segments st)) = [0..tm_ExpectedSegments st - 1]"
proof -
  let ?is = "map fst (tm_Segments st)" and ?n = "tm_ExpectedSegments st"
  have dist: "distinct ?is" and n: "int (length ?is) = ?n" and pos: "0 < ?n"
    using assms by (auto simp: stream_ok_def complete_def)
  have sub: "set ?is \<subseteq> {0..?n - 1}"
    using assms(1) by (auto simp: stream_ok_def segment_ok_def list_all_iff)
  have "card (set ?is) = card {0..?n - 1}"
    unfolding distinct_card[OF dist] using n pos by auto
  then have "set ?is = {0..?n - 1}" using sub by (intro card_subset_eq) auto
  then show ?thesis
    using dist by (intro sorted_distinct_set_unique) simp_all
qed

lemma assemble_complete:
  "stream_ok key st \<Longrightarrow> complete st \<Longrightarrow>
   assemble st = concat (map (payload_at st) [0..tm_ExpectedSegments st - 1])"
  by (simp add: assemble_def complete_indexes payload_at_def[abs_def])

section \<open>Waiting for a stream\<close>

text \<open>\<open>AwaitComplete\<close> looks at the stream under the mutex and takes the channel of the moment; then it
  sleeps until this channel is closed or the context ends. Between these steps anything may happen
  to the manager.\<close>

datatype waiter = AwCheck | AwSleep nat | AwDone | AwErr go_error

definition complete_in :: "Manager \<Rightarrow> string \<Rightarrow> bool" where
  "complete_in m key \<longleftrightarrow> (case mg_streams m key of None \<Rightarrow> False | Some st \<Rightarrow> complete st)"

inductive await_step ::
  "(string \<Rightarrow> string) \<Rightarrow> string \<Rightarrow> (Manager \<times> SealRecord list) \<times> waiter \<Rightarrow>
   (Manager \<times> SealRecord list) \<times> waiter \<Rightarrow> bool" for sha key where
  other: "manager_step sha m m' \<Longrightarrow> await_step sha key (m, w) (m', w)"
| found: "complete_in (fst m) key \<Longrightarrow> await_step sha key (m, AwCheck) (m, AwDone)"
| sleep: "\<not> complete_in (fst m) key \<Longrightarrow>
    await_step sha key (m, AwCheck) (m, AwSleep (mg_changed (fst m)))"
| wake: "g < mg_changed (fst m) \<Longrightarrow> await_step sha key (m, AwSleep g) (m, AwCheck)"
| cancel: "await_step sha key (m, AwSleep g) (m, AwErr err)"

definition await_inv :: "string \<Rightarrow> Manager \<Rightarrow> waiter \<Rightarrow> bool" where
  "await_inv key m w \<longleftrightarrow>
     (case w of
        AwSleep g \<Rightarrow> g \<le> mg_changed m \<and> (g = mg_changed m \<longrightarrow> \<not> complete_in m key)
      | AwDone \<Rightarrow> complete_in m key
      | _ \<Rightarrow> True)"

lemma manager_step_changed:
  assumes "manager_step sha (m, lg) (m', lg')" "manager_ok m"
  shows "m' = m \<or> mg_changed m' = mg_changed m + 1"
    and "complete_in m key \<Longrightarrow> complete_in m' key"
    and "mg_streams m key = Some st \<Longrightarrow> tm_State st = ''sealed'' \<Longrightarrow> mg_streams m' key = Some st"
  using assms(1)
proof (atomize (full), cases rule: manager_step_cases)
  case (appended k s i d p)
  have "\<not> complete s"
  proof
    assume c: "complete s"
    have "stream_ok k s" using assms(2) appended(1) by (simp add: manager_ok_def)
    then have "i \<in> set (sort (map fst (tm_Segments s)))"
      using complete_indexes[OF _ c] appended(3,4) by auto
    then show False using appended(7) by (auto simp: map_of_eq_None_iff)
  qed
  then show "(m' = m \<or> mg_changed m' = mg_changed m + 1) \<and> (complete_in m key \<longrightarrow> complete_in m' key) \<and>
    (mg_streams m key = Some st \<longrightarrow> tm_State st = ''sealed'' \<longrightarrow> mg_streams m' key = Some st)"
    using appended by (auto simp: complete_in_def)
qed (auto simp: complete_in_def)

lemma await_run_inv:
  "(await_step sha key)\<^sup>*\<^sup>* ((NewManager, []), AwCheck) ((m, lg), w) \<Longrightarrow>
   manager_ok m \<and> log_ok sha m lg \<and> await_inv key m w"
proof (induction "((m, lg), w)" arbitrary: m lg w rule: rtranclp_induct)
  case base
  show ?case using manager_run_ok[of sha NewManager "[]"] by (simp add: await_inv_def)
next
  case (step y)
  obtain m0 lg0 w0 where y: "y = ((m0, lg0), w0)" by (metis prod.collapse)
  note IH = step.hyps(3)[OF y]
  from step.hyps(2) show ?case unfolding y
  proof cases
    case other
    then show ?thesis
      using IH manager_step_ok[of sha m0 lg0 m lg] manager_step_changed(1)[of sha m0 lg0 m lg]
        manager_step_changed(2)[of sha m0 lg0 m lg key]
      by (auto simp: await_inv_def split: waiter.splits)
  qed (use IH in \<open>auto simp: await_inv_def\<close>)
qed

section \<open>Writers\<close>

text \<open>A writer that has read version \<open>v\<close> and finalizes without an audit.\<close>

definition seal_commit ::
  "(string \<Rightarrow> string) \<Rightarrow> time \<Rightarrow> Manager \<Rightarrow> string \<Rightarrow> int \<Rightarrow> string \<Rightarrow> Manager \<times> bool" where
  "seal_commit sha now m key v checksum =
     (case Finalize sha now m None key v checksum None () of (m', _, r) \<Rightarrow> (m', is_ok r))"

definition stream_version :: "Manager \<Rightarrow> string \<Rightarrow> int option" where
  "stream_version m key = map_option tm_StreamVersion (mg_streams m key)"

lemma seal_commit_True: "seal_commit sha now m key v checksum = (m', True) \<longleftrightarrow>
    (\<exists>seal. Finalize sha now m None key v checksum None () = (m', (), Inr seal))"
  by (auto simp: seal_commit_def is_ok_iff split: prod.splits)

lemma seal_commit_False: "seal_commit sha now m key v checksum = (m', False) \<Longrightarrow> m' = m"
  by (auto simp: seal_commit_def is_ok_iff split: prod.splits)
    (metis Finalize_Inl is_ok_iff is_ok_def sum.exhaust)

lemma sealed_version: "tm_StreamVersion (sealed st) \<noteq> tm_StreamVersion st"
  by (simp add: sealed_def)

interpretation seals: versioned "seal_commit sha now" stream_version "\<lambda>_. True"
proof
  fix m key v checksum m'
  show "stream_version m key = Some v \<and> stream_version m' key \<noteq> Some v"
    if "seal_commit sha now m key v checksum = (m', True)"
    using that sealed_version unfolding seal_commit_True Finalize_Inr
    by (auto simp: stream_version_def)
  show "m' = m" if "seal_commit sha now m key v checksum = (m', False)"
    using that by (rule seal_commit_False)
qed auto

section \<open>Properties\<close>

text \<open>C22: every sealed stream is sealed once and for good. After any run of opens, appends and
  finalizations with an audit log that may fail, the log has exactly one record for each sealed
  stream; it holds the payloads of all its segments in index order, whatever order they came in,
  and their checksum; and no later step changes the stream.\<close>

theorem seal_once:
  assumes "manager_run sha (NewManager, []) (m, lg)"
  shows "distinct (map sl_StreamKey lg) \<and>
    sl_StreamKey ` set lg = {key. \<exists>st. mg_streams m key = Some st \<and> tm_State st = ''sealed''} \<and>
    (r \<in> set lg \<and> mg_streams m (sl_StreamKey r) = Some st \<longrightarrow>
       sl_Payload r = concat (map (payload_at st) [0..tm_ExpectedSegments st - 1]) \<and>
       sl_Checksum r = hex_encode (sha (sl_Payload r)) \<and>
       (manager_step sha (m, lg) (m', lg') \<longrightarrow>
          mg_streams m' (sl_StreamKey r) = Some st \<and> r \<in> set lg'))"
proof -
  have ok: "manager_ok m" "log_ok sha m lg" using manager_run_ok[OF assms] by auto
  have keys: "sl_StreamKey ` set lg = {key. \<exists>st. mg_streams m key = Some st \<and> tm_State st = ''sealed''}"
    using ok(2) by (auto simp: log_ok_def list_all_iff entry_ok_def)
  have "sl_Payload r = concat (map (payload_at st) [0..tm_ExpectedSegments st - 1]) \<and>
       sl_Checksum r = hex_encode (sha (sl_Payload r)) \<and>
       (manager_step sha (m, lg) (m', lg') \<longrightarrow>
          mg_streams m' (sl_StreamKey r) = Some st \<and> r \<in> set lg')"
    if r: "r \<in> set lg" "mg_streams m (sl_StreamKey r) = Some st"
  proof (intro conjI impI)
    have st: "tm_State st = ''sealed''" "sl_Payload r = assemble st"
      "sl_Checksum r = hex_encode (sha (assemble st))"
      using r ok(2) by (auto simp: log_ok_def list_all_iff entry_ok_def)
    have "stream_ok (sl_StreamKey r) st" using ok(1) r(2) by (simp add: manager_ok_def)
    moreover from this have "complete st" using st(1) by (simp add: stream_ok_def)
    ultimately show "sl_Payload r = concat (map (payload_at st) [0..tm_ExpectedSegments st - 1])"
      using st(2) by (simp add: assemble_complete)
    show "sl_Checksum r = hex_encode (sha (sl_Payload r))" using st by simp
    assume step: "manager_step sha (m, lg) (m', lg')"
    show "mg_streams m' (sl_StreamKey r) = Some st"
      by (rule manager_step_changed(3)[OF step ok(1) r(2) st(1)])
    show "r \<in> set lg'" using step r(1) by (cases rule: manager_step_cases) auto
  qed
  then show ?thesis using keys ok(2) by (auto simp: log_ok_def)
qed

text \<open>A run on a scope of four one-letter parts.\<close>

definition sample_scope :: Scope where
  "sample_scope = \<lparr>sc_TenantID = ''t'', sc_MissionID = ''m'', sc_BuoyID = ''b'', sc_CaptureID = ''c''\<rparr>"

definition sample_key :: string where
  "sample_key = join_nul [''t'', ''m'', ''b'', ''c'']"

lemma sample_key: "StreamKey sample_scope = Inr sample_key"
proof -
  have "\<not> blank ''t''" "\<not> blank ''m''" "\<not> blank ''b''" "\<not> blank ''c''" by code_simp+
  then show ?thesis by (simp add: StreamKey_def sample_scope_def sample_key_def)
qed

definition sample_manager :: Manager where
  "sample_manager =
     put_stream
       (put_stream
         (put_stream (put_stream NewManager sample_key (opened sample_key sample_scope 2 Map.empty))
           sample_key (appended (opened sample_key sample_scope 2 Map.empty) 1 ''d1'' ''yz''))
         sample_key (appended (appended (opened sample_key sample_scope 2 Map.empty) 1 ''d1'' ''yz'') 0 ''d0'' ''x''))
       sample_key
         (sealed (appended (appended (opened sample_key sample_scope 2 Map.empty) 1 ''d1'' ''yz'') 0 ''d0'' ''x''))"

definition sample_seal :: "(string \<Rightarrow> string) \<Rightarrow> SealRecord" where
  "sample_seal sha =
     \<lparr>sl_StreamKey = sample_key, sl_Checksum = hex_encode (sha ''xyz''), sl_Payload = ''xyz'',
      sl_SealedAt = 7\<rparr>"

lemma sample_run:
  assumes "sha ''xyz'' \<noteq> []"
  shows "manager_run sha (NewManager, []) (sample_manager, [sample_seal sha])"
proof -
  let ?s0 = "opened sample_key sample_scope 2 Map.empty"
  let ?s1 = "appended ?s0 1 ''d1'' ''yz''"
  let ?s2 = "appended ?s1 0 ''d0'' ''x''"
  let ?m1 = "put_stream NewManager sample_key ?s0"
  let ?m2 = "put_stream ?m1 sample_key ?s1"
  let ?m3 = "put_stream ?m2 sample_key ?s2"
  have segs: "tm_ExpectedSegments ?s0 = 2" "tm_Segments ?s0 = []" "tm_ExpectedSegments ?s1 = 2"
    "map fst (tm_Segments ?s1) = [1]" "map fst (tm_Segments ?s2) = [1, 0]" "tm_ExpectedSegments ?s2 = 2"
    "tm_StreamVersion ?s2 = 3"
    by (simp_all add: opened_def appended_def wrap64_def)
  have "Open NewManager sample_scope 2 Map.empty = (?m1, Inr ?s0)"
    unfolding Open_Inr by (simp add: sample_key NewManager_def)
  then have 1: "manager_step sha (NewManager, []) (?m1, [])" by (rule open_step)
  have "Append ?m1 None sample_key 1 ''d1'' ''yz'' = (?m2, Inr True)"
    unfolding Append_True by (simp add: segs)
  then have 2: "manager_step sha (?m1, []) (?m2, [])" by (rule append_step)
  have "map_of (tm_Segments ?s1) 0 = None" using segs(4) by (simp add: map_of_eq_None_iff flip: set_map)
  then have "Append ?m2 None sample_key 0 ''d0'' ''x'' = (?m3, Inr True)"
    unfolding Append_True by (simp add: segs)
  then have 3: "manager_step sha (?m2, []) (?m3, [])" by (rule append_step)
  have asm: "assemble ?s2 = ''xyz''" by (simp add: assemble_def segs(5)) (simp add: appended_def opened_def)
  have "complete ?s2" by (simp add: complete_def appended_def opened_def)
  then have "Finalize sha 7 ?m3 None sample_key 3 (hex_encode (sha ''xyz'')) (Some (log_audit False)) [] =
      (sample_manager, [sample_seal sha], Inr (sample_seal sha))"
    unfolding Finalize_Inr sample_manager_def
    using assms by (simp add: segs asm hex_encode_Nil sample_seal_def log_audit_def)
  then have 4: "manager_step sha (?m3, []) (sample_manager, [sample_seal sha])" by (rule finalize_step)
  show ?thesis using 1 2 3 4 by (meson converse_rtranclp_into_rtranclp rtranclp.rtrancl_refl)
qed

theorem seal_once_witness:
  "sl_StreamKey ` set [sample_seal (\<lambda>s. ''h'')] =
     {key. \<exists>st. mg_streams sample_manager key = Some st \<and> tm_State st = ''sealed''}"
  using seal_once[OF sample_run[of "\<lambda>s. ''h''"]] by simp

text \<open>C23: \<open>AwaitComplete\<close> misses no wake-up. Whatever other goroutines do to the manager between its
  look at the stream and its sleep, a waiter that sleeps although the stream is complete has been
  signalled: it can wake, and then finds the stream complete. It returns success only for a
  complete stream, which stays complete.\<close>

theorem await_wakes:
  assumes "(await_step sha key)\<^sup>*\<^sup>* ((NewManager, []), AwCheck) ((m, lg), w)"
  shows "(w = AwSleep g \<and> complete_in m key \<longrightarrow>
      await_step sha key ((m, lg), w) ((m, lg), AwCheck) \<and>
      await_step sha key ((m, lg), AwCheck) ((m, lg), AwDone)) \<and>
    (w = AwDone \<longrightarrow> complete_in m key) \<and>
    (complete_in m key \<and> manager_step sha (m, lg) (m', lg') \<longrightarrow> complete_in m' key)"
proof -
  have inv: "manager_ok m" "await_inv key m w" using await_run_inv[OF assms] by auto
  have "await_step sha key ((m, lg), w) ((m, lg), AwCheck) \<and>
      await_step sha key ((m, lg), AwCheck) ((m, lg), AwDone)"
    if w: "w = AwSleep g" "complete_in m key"
  proof
    have "g < mg_changed (fst (m, lg))" using inv(2) w by (auto simp: await_inv_def)
    then show "await_step sha key ((m, lg), w) ((m, lg), AwCheck)" unfolding w(1) by (rule await_step.wake)
    show "await_step sha key ((m, lg), AwCheck) ((m, lg), AwDone)"
      by (rule await_step.found) (simp add: w(2))
  qed
  moreover have "complete_in m key" if "w = AwDone" using inv(2) that by (simp add: await_inv_def)
  ultimately show ?thesis using manager_step_changed(2)[of sha m lg m' lg' key] inv(1) by blast
qed

theorem await_wakes_witness:
  "complete_in sample_manager sample_key \<and>
   await_step (\<lambda>s. ''h'') sample_key ((sample_manager, [sample_seal (\<lambda>s. ''h'')]), AwSleep 0)
     ((sample_manager, [sample_seal (\<lambda>s. ''h'')]), AwCheck)"
proof -
  let ?sha = "\<lambda>s. ''h''" and ?lg = "[sample_seal (\<lambda>s. ''h'')]"
  have lift: "(await_step ?sha sample_key)\<^sup>*\<^sup>* (x, w) (y, w)" if "manager_run ?sha x y" for x y w
    using that by (induction rule: rtranclp_induct) (auto intro: rtranclp.rtrancl_into_rtrancl await_step.other)
  have "\<not> complete_in (fst (NewManager, [])) sample_key" by (simp add: complete_in_def NewManager_def)
  from await_step.sleep[OF this, of ?sha]
  have first: "await_step ?sha sample_key ((NewManager, []), AwCheck) ((NewManager, []), AwSleep 0)"
    by (simp add: NewManager_def)
  have rest: "(await_step ?sha sample_key)\<^sup>*\<^sup>* ((NewManager, []), AwSleep 0) ((sample_manager, ?lg), AwSleep 0)"
    by (rule lift) (rule sample_run, simp)
  note run = converse_rtranclp_into_rtranclp[OF first rest]
  have "complete_in sample_manager sample_key"
    by (simp add: sample_manager_def complete_in_def) (simp add: complete_def appended_def opened_def)
  then show ?thesis using await_wakes[OF run, of 0] by simp
qed

text \<open>Writers of a stream do not step on each other. Of all finalizations that name the same
  version at most one goes through; a segment that was taken is never replaced: appending it again
  with its digest changes nothing and is no error, and with another digest it is a conflict, both
  for a stream that still collects; a sealed stream takes no segment.\<close>

theorem stream_writers:
  "seals.commits sha now m key v checksums \<le> 1 \<and>
   (Append m ctx key i digest payload = (m1, Inr True) \<and> other \<noteq> [] \<longrightarrow>
      Append m1 None key i digest other = (m1, Inr False)) \<and>
   (Append m ctx key i digest payload = (m1, Inr True) \<and> digest' \<noteq> digest \<and> digest' \<noteq> [] \<and> other \<noteq> [] \<longrightarrow>
      Append m1 None key i digest' other =
        (m1, Inl (Errorf ''segment index has different content'' tel_conflict))) \<and>
   (mg_streams m key = Some st \<and> tm_State st = ''sealed'' \<longrightarrow>
      (\<exists>e. Append m None key i digest payload = (m, Inl e)))"
proof -
  have app: "Append m1 None key i d other =
      (if d = digest then (m1, Inr False)
       else (m1, Inl (Errorf ''segment index has different content'' tel_conflict)))"
    if ok: "Append m ctx key i digest payload = (m1, Inr True)" and args: "d \<noteq> []" "other \<noteq> []" for d
  proof -
    obtain st' where st: "0 \<le> i" "i < tm_ExpectedSegments st'" "tm_State st' = ''collecting''"
      "digest \<noteq> []" "map_of (tm_Segments st') i = None" "m1 = put_stream m key (appended st' i digest payload)"
      using ok unfolding Append_True by blast
    then have "map_of (tm_Segments (appended st' i digest payload)) i =
        Some \<lparr>sg_Index = i, sg_Digest = digest, sg_Payload = payload\<rparr>"
      by (simp add: appended_def map_add_def)
    moreover have "tm_ExpectedSegments (appended st' i digest payload) = tm_ExpectedSegments st'"
      by (simp add: appended_def)
    ultimately show ?thesis using st args by (simp add: Append_def)
  qed
  have "digest \<noteq> []" if "Append m ctx key i digest payload = (m1, Inr True)"
    using that unfolding Append_True by blast
  moreover have "seals.commits sha now m key v checksums \<le> 1" by (rule seals.one_winner) simp
  ultimately show ?thesis using app by (auto simp: Append_def)
qed

theorem stream_writers_witness:
  "\<exists>e. Append sample_manager None sample_key 0 ''d0'' ''x'' = (sample_manager, Inl e)"
proof -
  obtain st where "mg_streams sample_manager sample_key = Some st" "tm_State st = ''sealed''"
    by (simp add: sample_manager_def)
  then show ?thesis
    using stream_writers[of "\<lambda>s. ''h''" 7 sample_manager sample_key 1 "[]" None 0 "''d0''" "''x''"
        sample_manager] by blast
qed

end
