(* ===== verification/Telemetry_Runtime.thy ===== *)
theory Telemetry_Runtime
  imports Contracts "HOL-Library.Word"
begin

text \<open>
  \<open>internal/telemetry/coordination.go\<close> and \<open>runtime.go\<close>: the fenced lease, capacities, decoding
  with recovery from panics, the limiter, resource tracking, delivery with retries, the worker
  loop and the broadcaster. A context is known by its answers, as in the array runtime.
\<close>

section \<open>The fenced lease\<close>

record FenceLease =
  fe_owner :: string
  fe_token :: "64 word"
  fe_expiresAt :: time

definition fence_zero :: FenceLease where
  "fence_zero = \<lparr>fe_owner = '''', fe_token = 0, fe_expiresAt = 0\<rparr>"

definition Fence_Acquire ::
  "FenceLease \<Rightarrow> string \<Rightarrow> time \<Rightarrow> duration \<Rightarrow> FenceLease \<times> 64 word \<times> bool" where
  "Fence_Acquire l owner now ttl =
     (if owner = '''' \<or> ttl \<le> 0 \<or>
         fe_owner l \<noteq> '''' \<and> now < fe_expiresAt l \<and> fe_owner l \<noteq> owner
        then (l, 0, False)
      else (let t = fe_token l + 1 in
            (\<lparr>fe_owner = owner, fe_token = t, fe_expiresAt = now + ttl\<rparr>, t, True)))"

definition Fence_Commit :: "FenceLease \<Rightarrow> string \<Rightarrow> 64 word \<Rightarrow> time \<Rightarrow> bool" where
  "Fence_Commit l owner token now \<longleftrightarrow>
     owner \<noteq> '''' \<and> owner = fe_owner l \<and> token = fe_token l \<and> now < fe_expiresAt l"

definition fence_take :: "FenceLease \<Rightarrow> string \<Rightarrow> time \<Rightarrow> duration \<Rightarrow> FenceLease \<times> bool" where
  "fence_take l owner now ttl = (case Fence_Acquire l owner now ttl of (l', _, b) \<Rightarrow> (l', b))"

definition fence_holds :: "FenceLease \<Rightarrow> string \<Rightarrow> time \<Rightarrow> bool" where
  "fence_holds l owner t \<longleftrightarrow> Fence_Commit l owner (fe_token l) t"

interpretation fence: exclusive_lease fence_take fence_holds
  by unfold_locales
    (auto simp: fence_take_def Fence_Acquire_def fence_holds_def Fence_Commit_def Let_def split: if_splits)

text \<open>A run of requests, with the number of those granted.\<close>

fun fence_run :: "FenceLease \<Rightarrow> (string \<times> time \<times> duration) list \<Rightarrow> FenceLease \<times> nat" where
  "fence_run l [] = (l, 0)"
| "fence_run l ((w, t, d) # reqs) =
     (case Fence_Acquire l w t d of
        (l', _, granted) \<Rightarrow>
          (case fence_run l' reqs of (l'', n) \<Rightarrow> (l'', (if granted then Suc n else n))))"

lemma Fence_Acquire_cases:
  "Fence_Acquire l w t d = (l', tok, b) \<Longrightarrow>
   (if b then fe_token l' = fe_token l + 1 \<and> tok = fe_token l' else l' = l)"
  by (simp add: Fence_Acquire_def Let_def split: if_splits) auto

lemma fence_run_token: "fence_run l reqs = (l', n) \<Longrightarrow> fe_token l' = fe_token l + of_nat n"
proof (induction reqs arbitrary: l n)
  case Nil
  then show ?case by simp
next
  case (Cons q reqs)
  obtain w t d where q: "q = (w, t, d)" by (cases q)
  obtain l1 tok b where acq: "Fence_Acquire l w t d = (l1, tok, b)" by (cases "Fence_Acquire l w t d")
  obtain l2 k where rest: "fence_run l1 reqs = (l2, k)" by (cases "fence_run l1 reqs")
  have "fe_token l2 = fe_token l1 + of_nat k"
    using Cons.IH[of l1 k] rest Cons.prems acq q by simp
  then show ?case
    using Cons.prems Fence_Acquire_cases[OF acq] acq q rest by (cases b) auto
qed

lemma fence_run_none: "fence_run l reqs = (l', 0) \<Longrightarrow> l' = l"
proof (induction reqs arbitrary: l)
  case Nil
  then show ?case by simp
next
  case (Cons q reqs)
  obtain w t d where q: "q = (w, t, d)" by (cases q)
  obtain l1 tok b where acq: "Fence_Acquire l w t d = (l1, tok, b)" by (cases "Fence_Acquire l w t d")
  obtain l2 k where rest: "fence_run l1 reqs = (l2, k)" by (cases "fence_run l1 reqs")
  have "\<not> b" "fence_run l1 reqs = (l', 0)"
    using Cons.prems acq q rest by (auto split: if_splits)
  then show ?case using Cons.IH[of l1] Fence_Acquire_cases[OF acq] by simp
qed

lemma of_nat_64_nonzero: "0 < n \<Longrightarrow> n < 2 ^ 64 \<Longrightarrow> (of_nat n :: 64 word) \<noteq> 0"
proof -
  have len: "LENGTH(64) = 64" by simp
  assume "0 < n" "n < 2 ^ 64"
  then have "\<not> 2 ^ LENGTH(64) dvd n" unfolding len by (meson nat_dvd_not_less)
  then show ?thesis by (simp only: word_of_nat_eq_0_iff not_False_eq_True)
qed

section \<open>Capacities\<close>

text \<open>As in the array runtime, a counter is incremented only below a limit that is an \<open>int\<close>.\<close>

record tel_capacity =
  tc_used :: "string \<Rightarrow> int"

definition tel_NewCapacity :: tel_capacity where
  "tel_NewCapacity = \<lparr>tc_used = (\<lambda>_. 0)\<rparr>"

definition tel_Reserve :: "tel_capacity \<Rightarrow> string \<Rightarrow> int \<Rightarrow> go_error option \<times> tel_capacity" where
  "tel_Reserve c key limit =
     (if key = '''' \<or> limit \<le> 0
        then (Some (Errorf ''capacity scope is invalid'' tel_invalid), c)
      else if limit \<le> tc_used c key
        then (Some (Errorf ''capacity exhausted'' tel_conflict), c)
      else (None, c\<lparr>tc_used := (tc_used c)(key := tc_used c key + 1)\<rparr>))"

definition tel_Used :: "tel_capacity \<Rightarrow> string \<Rightarrow> int" where
  "tel_Used c key = tc_used c key"

interpretation tel_slots: slot_counter tel_Reserve tel_Used
  by unfold_locales (auto simp: tel_Reserve_def tel_Used_def split: if_splits)

section \<open>Decoding\<close>

text \<open>A call of foreign code returns or panics.\<close>

datatype 'a outcome = Returned 'a | Panicked string

definition Decode ::
  "(string \<Rightarrow> string result outcome) option \<Rightarrow> string \<Rightarrow> string \<Rightarrow> string result" where
  "Decode decoder codec payload =
     (case decoder of
        None \<Rightarrow> Inl (Errorf ''decoder is unavailable'' tel_unavailable)
      | Some decode \<Rightarrow>
          (case decode payload of
             Panicked recovered \<Rightarrow> Inl (DecodeError codec (NewError (''decoder panic: '' @ recovered)))
           | Returned (Inl err) \<Rightarrow> Inl (DecodeError codec err)
           | Returned (Inr out) \<Rightarrow> Inr out))"

definition tel_Classify :: "go_error \<Rightarrow> int \<times> string" where
  "tel_Classify err =
     (if errors_As_decode err then (422, ''decode_failed'')
      else if errors_Is err (TelemetryErr TelErrUnauthorized) then (403, ''forbidden'')
      else if errors_Is err (TelemetryErr TelErrConflict) then (409, ''conflict'')
      else if errors_Is err (TelemetryErr TelErrInvalid) then (400, ''invalid_request'')
      else if errors_Is err (TelemetryErr TelErrUnavailable) then (503, ''unavailable'')
      else (500, ''internal_error''))"

definition tel_Wrap :: "string \<Rightarrow> go_error option \<Rightarrow> go_error option" where
  "tel_Wrap operation err = (case err of None \<Rightarrow> None | Some e \<Rightarrow> Some (Errorf operation e))"

lemma tel_Classify_Wrap: "tel_Wrap s (Some e) = Some f \<Longrightarrow> tel_Classify f = tel_Classify e"
  by (auto simp: tel_Wrap_def tel_Classify_def)

lemma Decode_classified:
  "Decode decoder codec payload = Inl e \<Longrightarrow>
   fst (tel_Classify e) = (if decoder = None then 503 else 422)"
  by (auto simp: Decode_def tel_Classify_def split: option.splits outcome.splits sum.splits)

text \<open>\<open>DecodeBatch\<close>: the release of a resource is not deferred, so it is skipped by a panic, which
  leaves the function. \<open>ctx_err k\<close> is the answer of the context before input \<open>k\<close>.\<close>

fun decode_batch_loop ::
  "(nat \<Rightarrow> go_error option) \<Rightarrow> (string \<Rightarrow> go_error option outcome) \<Rightarrow> nat \<Rightarrow> string list \<Rightarrow> int \<Rightarrow>
   int \<times> go_error option outcome" where
  "decode_batch_loop ctx_err decode k [] tracker = (tracker, Returned None)"
| "decode_batch_loop ctx_err decode k (input # inputs) tracker =
     (case ctx_err k of
        Some err \<Rightarrow> (tracker, Returned (Some err))
      | None \<Rightarrow>
          (case decode input of
             Panicked p \<Rightarrow> (tracker + 1, Panicked p)
           | Returned (Some err) \<Rightarrow> (tracker + 1 - 1, Returned (Some err))
           | Returned None \<Rightarrow> decode_batch_loop ctx_err decode (Suc k) inputs (tracker + 1 - 1)))"

definition DecodeBatch ::
  "(nat \<Rightarrow> go_error option) \<Rightarrow> int \<Rightarrow> string list \<Rightarrow> (string \<Rightarrow> go_error option outcome) \<Rightarrow>
   int \<times> go_error option outcome" where
  "DecodeBatch ctx_err tracker inputs decode = decode_batch_loop ctx_err decode 0 inputs tracker"

lemma decode_batch_loop_open: "decode_batch_loop ctx_err decode k inputs n = (n', r) \<Longrightarrow>
    n' = (case r of Panicked _ \<Rightarrow> n + 1 | Returned _ \<Rightarrow> n)"
  by (induction ctx_err decode k inputs n rule: decode_batch_loop.induct)
    (auto split: option.splits outcome.splits)

lemma decode_batch_loop_None: "snd (decode_batch_loop ctx_err decode k inputs n) = Returned None \<longleftrightarrow>
    (\<forall>i < length inputs. ctx_err (k + i) = None \<and> decode (inputs ! i) = Returned None)"
proof (induction ctx_err decode k inputs n rule: decode_batch_loop.induct)
  case (1 ctx_err decode k tracker)
  then show ?case by simp
next
  case (2 ctx_err decode k input inputs tracker)
  have split: "(\<forall>i < length (input # inputs). P i) \<longleftrightarrow> P 0 \<and> (\<forall>i < length inputs. P (Suc i))" for P
    using less_Suc_eq_0_disj by auto
  show ?case
    unfolding split using 2 by (auto split: option.splits outcome.splits)
qed

section \<open>Limiter\<close>

text \<open>The channel \<open>tokens\<close> holds one token per running operation. Threads enter while there is room,
  leave when their operation returns, and give up when their context ends first.\<close>

record limiter =
  lm_capacity :: nat
  lm_running :: "nat list"
  lm_refused :: "nat list"

definition NewLimiter :: "nat \<Rightarrow> limiter" where
  "NewLimiter n = \<lparr>lm_capacity = n, lm_running = [], lm_refused = []\<rparr>"

inductive limiter_step :: "limiter \<Rightarrow> limiter \<Rightarrow> bool" where
  enter: "length (lm_running l) < lm_capacity l \<Longrightarrow> limiter_step l (l\<lparr>lm_running := t # lm_running l\<rparr>)"
| leave: "t \<in> set (lm_running l) \<Longrightarrow> limiter_step l (l\<lparr>lm_running := remove1 t (lm_running l)\<rparr>)"
| ctx_done: "limiter_step l (l\<lparr>lm_refused := t # lm_refused l\<rparr>)"

definition InUse :: "limiter \<Rightarrow> int" where
  "InUse l = int (length (lm_running l))"

lemma limiter_bound:
  "limiter_step\<^sup>*\<^sup>* (NewLimiter n) l \<Longrightarrow> lm_capacity l = n \<and> length (lm_running l) \<le> n"
proof (induction rule: rtranclp_induct)
  case base
  show ?case by (simp add: NewLimiter_def)
next
  case (step y z)
  from step(2,3) show ?case by cases (auto simp: length_remove1)
qed

section \<open>Delivery and worker loop\<close>

definition WaitRetry :: "go_error option \<Rightarrow> go_error option" where
  "WaitRetry ctx_done_first = ctx_done_first"

text \<open>The sink threads its state. \<open>waits k\<close> is the outcome of the wait after acknowledgement \<open>k\<close>.\<close>

fun ack_loop ::
  "('s \<Rightarrow> 's \<times> go_error option) \<Rightarrow> (nat \<Rightarrow> go_error option) \<Rightarrow> nat \<Rightarrow> nat \<Rightarrow> 's \<Rightarrow> go_error option \<Rightarrow>
   's \<times> go_error option" where
  "ack_loop acknowledge waits attempts 0 s last_err =
     (s, Some (case last_err of Some e \<Rightarrow> Errorf ''acknowledge delivery'' e
                 | None \<Rightarrow> NewError ''acknowledge delivery''))"
| "ack_loop acknowledge waits attempts (Suc n) s last_err =
     (case acknowledge s of
        (s', None) \<Rightarrow> (s', None)
      | (s', Some err) \<Rightarrow>
          if attempts - Suc n + 1 < attempts
            then (case WaitRetry (waits (attempts - Suc n)) of
                Some werr \<Rightarrow> (s', Some werr)
              | None \<Rightarrow> ack_loop acknowledge waits attempts n s' (Some err))
          else ack_loop acknowledge waits attempts n s' (Some err))"

definition Deliver ::
  "('s \<Rightarrow> 's \<times> go_error option) \<Rightarrow> ('s \<Rightarrow> 's \<times> go_error option) \<Rightarrow> (nat \<Rightarrow> go_error option) \<Rightarrow>
   int \<Rightarrow> 's \<Rightarrow> 's \<times> go_error option" where
  "Deliver persist acknowledge waits attempts s =
     (if attempts \<le> 0 then (s, Some (Errorf ''attempt count is invalid'' tel_invalid))
      else (case persist s of
          (s', Some err) \<Rightarrow> (s', Some err)
        | (s', None) \<Rightarrow> ack_loop acknowledge waits (nat attempts) (nat attempts) s' None))"

text \<open>A sink that counts the calls made to it.\<close>

definition count_persist :: "bool \<Rightarrow> nat \<times> nat \<Rightarrow> (nat \<times> nat) \<times> go_error option" where
  "count_persist ok c = ((Suc (fst c), snd c), if ok then None else Some (NewError ''persist''))"

definition count_ack :: "(nat \<Rightarrow> go_error option) \<Rightarrow> nat \<times> nat \<Rightarrow> (nat \<times> nat) \<times> go_error option" where
  "count_ack answer c = ((fst c, Suc (snd c)), answer (snd c))"

lemma ack_loop_counts:
  "ack_loop (count_ack answer) waits a n (p, k) last_err = ((p', k'), r) \<Longrightarrow>
   p' = p \<and> k \<le> k' \<and> k' \<le> k + n \<and> (\<forall>i. k \<le> i \<and> Suc i < k' \<longrightarrow> answer i \<noteq> None) \<and>
   (r = None \<longleftrightarrow> k < k' \<and> answer (k' - 1) = None)"
proof (induction n arbitrary: k last_err)
  case 0
  then show ?case by auto
next
  case (Suc n)
  show ?case
  proof (cases "answer k")
    case None
    then show ?thesis using Suc.prems by (auto simp: count_ack_def)
  next
    case (Some e)
    show ?thesis
    proof (cases "a - Suc n + 1 < a \<and> waits (a - Suc n) \<noteq> None")
      case True
      then show ?thesis using Suc.prems Some by (auto simp: count_ack_def WaitRetry_def)
    next
      case False
      then have "ack_loop (count_ack answer) waits a n (p, Suc k) (Some e) = ((p', k'), r)"
        using Suc.prems Some by (auto simp: count_ack_def[abs_def] WaitRetry_def split: if_splits)
      from Suc.IH[OF this] have IH: "p' = p" "Suc k \<le> k'" "k' \<le> Suc k + n"
        "\<forall>i. Suc k \<le> i \<and> Suc i < k' \<longrightarrow> answer i \<noteq> None"
        "r = None \<longleftrightarrow> Suc k < k' \<and> answer (k' - 1) = None" by auto
      have "answer i \<noteq> None" if "k \<le> i" "Suc i < k'" for i
        using IH(4) that Some by (cases "i = k") auto
      moreover have "Suc k < k' \<and> answer (k' - 1) = None \<longleftrightarrow> k < k' \<and> answer (k' - 1) = None"
        using IH(2) Some by (cases "k' = Suc k") auto
      ultimately show ?thesis using IH by auto
    qed
  qed
qed

text \<open>One round of the worker loop: what the context answers, and what the \<open>select\<close> then takes.\<close>

datatype worker_event = EvCtxDone go_error | EvPayload string | EvClosed

fun RunWorker ::
  "('s \<Rightarrow> string \<Rightarrow> 's \<times> go_error option) \<Rightarrow> (go_error option \<times> worker_event) list \<Rightarrow> 's \<Rightarrow>
   's \<times> go_error option option" where
  "RunWorker handle [] s = (s, None)"
| "RunWorker handle ((ctx_err, event) # rounds) s =
     (case ctx_err of
        Some err \<Rightarrow> (s, Some (Some err))
      | None \<Rightarrow>
          (case event of
             EvCtxDone err \<Rightarrow> (s, Some (Some err))
           | EvClosed \<Rightarrow> (s, Some None)
           | EvPayload payload \<Rightarrow>
               (case handle s payload of
                  (s', Some err) \<Rightarrow> (s', Some (Some err))
                | (s', None) \<Rightarrow> RunWorker handle rounds s')))"

text \<open>The payloads of the rounds up to the first that stops the loop.\<close>

fun handled :: "(string \<Rightarrow> go_error option) \<Rightarrow> (go_error option \<times> worker_event) list \<Rightarrow> string list" where
  "handled f [] = []"
| "handled f ((None, EvPayload p) # rounds) = p # (if f p = None then handled f rounds else [])"
| "handled f (_ # rounds) = []"

lemma RunWorker_handled:
  "fst (RunWorker (\<lambda>tr p. (tr @ [p], f p)) rounds tr) = tr @ handled f rounds"
proof (induction rounds arbitrary: tr)
  case Nil
  then show ?case by simp
next
  case (Cons q rounds)
  obtain c ev where q: "q = (c, ev)" by (cases q)
  show ?case
    using Cons.IH by (cases c; cases ev) (auto simp: q split: option.splits)
qed

section \<open>Broadcaster\<close>

text \<open>
  A channel with its capacity and the values in it. \<open>Publish\<close> holds the mutex while it sends to one
  subscriber after the other; \<open>br_publishing\<close> lists the subscribers still to be served, and is
  \<open>None\<close> when the mutex is free. A send to a full channel waits. \<open>Subscribe\<close> allocates its channel
  while it holds the mutex: a negative buffer panics and leaves the mutex locked. Unsubscribing closes
  the channel; what is in it can still be received (\<open>br_closed\<close>), but sending to it would panic.
\<close>

record channel =
  cn_capacity :: nat
  cn_values :: "string list"

record Broadcaster =
  br_next :: int
  br_subscribers :: "int \<rightharpoonup> channel"
  br_closed :: "int \<rightharpoonup> channel"
  br_publishing :: "(string \<times> int list) option"
  br_dead :: bool

definition NewBroadcaster :: Broadcaster where
  "NewBroadcaster =
     \<lparr>br_next = 0, br_subscribers = Map.empty, br_closed = Map.empty, br_publishing = None,
      br_dead = False\<rparr>"

definition mutex_free :: "Broadcaster \<Rightarrow> bool" where
  "mutex_free b \<longleftrightarrow> br_publishing b = None \<and> \<not> br_dead b"

definition Subscribe :: "Broadcaster \<Rightarrow> int \<Rightarrow> Broadcaster \<times> int option" where
  "Subscribe b buffer =
     (if buffer < 0 then (b\<lparr>br_next := br_next b + 1, br_dead := True\<rparr>, None)
      else (b\<lparr>br_next := br_next b + 1,
              br_subscribers := (br_subscribers b)
                (br_next b \<mapsto> \<lparr>cn_capacity = nat buffer, cn_values = []\<rparr>)\<rparr>,
            Some (br_next b)))"

text \<open>The function that \<open>Subscribe\<close> returns. Its \<open>sync.Once\<close> makes a second call do nothing.\<close>

definition Unsubscribe :: "Broadcaster \<Rightarrow> int \<Rightarrow> Broadcaster" where
  "Unsubscribe b i =
     (case br_subscribers b i of
        None \<Rightarrow> b
      | Some c \<Rightarrow> b\<lparr>br_subscribers := (br_subscribers b)(i := None),
                    br_closed := (br_closed b)(i \<mapsto> c)\<rparr>)"

text \<open>
  Steps are labelled with what happens at the channels. A send to a channel with room puts the event
  at its end. A channel without buffer never has room: there the publication and a receiver meet,
  the event goes from one to the other, and the channel is as before. A receiver of a full
  buffered channel takes its first value, after which the waiting send has room.
\<close>

datatype bus_event =
  Ev_Subscribe int
| Ev_Unsubscribe int
| Ev_Publish string
| Ev_Send int string
| Ev_Meet int string
| Ev_Published
| Ev_Receive int string

inductive bus_step :: "Broadcaster \<Rightarrow> bus_event \<Rightarrow> Broadcaster \<Rightarrow> bool" where
  subscribe: "mutex_free b \<Longrightarrow> bus_step b (Ev_Subscribe n) (fst (Subscribe b n))"
| unsubscribe: "mutex_free b \<Longrightarrow> bus_step b (Ev_Unsubscribe i) (Unsubscribe b i)"
| publish: "mutex_free b \<Longrightarrow> distinct ids \<Longrightarrow> set ids = dom (br_subscribers b) \<Longrightarrow>
    bus_step b (Ev_Publish event) (b\<lparr>br_publishing := Some (event, ids)\<rparr>)"
| send: "br_publishing b = Some (event, i # ids) \<Longrightarrow> br_subscribers b i = Some c \<Longrightarrow>
    length (cn_values c) < cn_capacity c \<Longrightarrow>
    bus_step b (Ev_Send i event)
      (b\<lparr>br_subscribers := (br_subscribers b)(i \<mapsto> c\<lparr>cn_values := cn_values c @ [event]\<rparr>),
         br_publishing := Some (event, ids)\<rparr>)"
| meet: "br_publishing b = Some (event, i # ids) \<Longrightarrow> br_subscribers b i = Some c \<Longrightarrow>
    cn_capacity c = 0 \<Longrightarrow>
    bus_step b (Ev_Meet i event) (b\<lparr>br_publishing := Some (event, ids)\<rparr>)"
| published: "br_publishing b = Some (event, []) \<Longrightarrow>
    bus_step b Ev_Published (b\<lparr>br_publishing := None\<rparr>)"
| receive: "br_subscribers b i = Some c \<Longrightarrow> cn_values c = v # vs \<Longrightarrow>
    bus_step b (Ev_Receive i v)
      (b\<lparr>br_subscribers := (br_subscribers b)(i \<mapsto> c\<lparr>cn_values := vs\<rparr>)\<rparr>)"
| drain: "br_closed b i = Some c \<Longrightarrow> cn_values c = v # vs \<Longrightarrow>
    bus_step b (Ev_Receive i v) (b\<lparr>br_closed := (br_closed b)(i \<mapsto> c\<lparr>cn_values := vs\<rparr>)\<rparr>)"

inductive_cases bus_stepE: "bus_step b ev b'"

inductive bus_run :: "Broadcaster \<Rightarrow> bus_event list \<Rightarrow> Broadcaster \<Rightarrow> bool" where
  bus_start: "bus_run b [] b"
| bus_next: "bus_run b evs b1 \<Longrightarrow> bus_step b1 ev b2 \<Longrightarrow> bus_run b (evs @ [ev]) b2"

definition bus_ok :: "Broadcaster \<Rightarrow> bool" where
  "bus_ok b \<longleftrightarrow>
     (\<forall>i c. br_subscribers b i = Some c \<longrightarrow>
        0 \<le> i \<and> i < br_next b \<and> length (cn_values c) \<le> cn_capacity c \<and> br_closed b i = None) \<and>
     (\<forall>i c. br_closed b i = Some c \<longrightarrow> i < br_next b \<and> length (cn_values c) \<le> cn_capacity c) \<and>
     (\<forall>event ids. br_publishing b = Some (event, ids) \<longrightarrow>
        distinct ids \<and> set ids \<subseteq> dom (br_subscribers b)) \<and> 0 \<le> br_next b"

lemma bus_ok_fresh:
  assumes "bus_ok b"
  shows "br_subscribers b (br_next b) = None" "br_closed b (br_next b) = None"
  using assms unfolding bus_ok_def by (meson less_irrefl not_None_eq)+

lemma bus_ok_step: "bus_step b ev b' \<Longrightarrow> bus_ok b \<Longrightarrow> bus_ok b'"
proof (induction rule: bus_step.induct)
  case (subscribe b n)
  then have "br_closed b (br_next b) = None" by (simp add: bus_ok_fresh)
  moreover have "\<forall>i c. br_subscribers b i = Some c \<longrightarrow> i < br_next b + 1"
    "\<forall>i c. br_closed b i = Some c \<longrightarrow> i < br_next b + 1"
    using subscribe by (fastforce simp: bus_ok_def)+
  ultimately show ?case using subscribe by (auto simp: bus_ok_def Subscribe_def mutex_free_def)
next
  case (unsubscribe b i)
  then show ?case
    by (cases "br_subscribers b i") (auto simp: bus_ok_def Unsubscribe_def mutex_free_def)
next
  case (send b event i ids c)
  then show ?case by (auto simp: bus_ok_def)
next
  case (receive b i c v vs)
  then have "length vs < cn_capacity c" by (fastforce simp: bus_ok_def)
  with receive show ?case by (auto simp: bus_ok_def)
next
  case (drain b i c v vs)
  then have "length vs < cn_capacity c" "br_subscribers b i = None"
    by (fastforce simp: bus_ok_def, cases "br_subscribers b i") (auto simp: bus_ok_def)
  with drain show ?case by (auto simp: bus_ok_def)
qed (auto simp: bus_ok_def mutex_free_def)

lemma bus_ok_run: "bus_run b evs b' \<Longrightarrow> bus_ok b \<Longrightarrow> bus_ok b'"
  by (induction rule: bus_run.induct) (auto dest: bus_ok_step)

lemma NewBroadcaster_ok: "bus_ok NewBroadcaster"
  by (simp add: bus_ok_def NewBroadcaster_def)

text \<open>What a run has handed to the channel of a subscriber, what has been received from it, and what
  waits in it.\<close>

definition handed :: "int \<Rightarrow> bus_event list \<Rightarrow> string list" where
  "handed i evs = concat (map (\<lambda>ev. case ev of
     Ev_Send j v \<Rightarrow> if j = i then [v] else []
   | Ev_Meet j v \<Rightarrow> if j = i then [v] else []
   | _ \<Rightarrow> []) evs)"

definition received :: "int \<Rightarrow> bus_event list \<Rightarrow> string list" where
  "received i evs = concat (map (\<lambda>ev. case ev of
     Ev_Receive j v \<Rightarrow> if j = i then [v] else []
   | Ev_Meet j v \<Rightarrow> if j = i then [v] else []
   | _ \<Rightarrow> []) evs)"

definition waiting :: "Broadcaster \<Rightarrow> int \<Rightarrow> string list" where
  "waiting b i =
     (case br_subscribers b i of
        Some c \<Rightarrow> cn_values c
      | None \<Rightarrow> (case br_closed b i of Some c \<Rightarrow> cn_values c | None \<Rightarrow> []))"

lemma handed_simps [simp]:
  "handed i [] = []" "handed i (evs @ evs') = handed i evs @ handed i evs'"
  by (simp_all add: handed_def)

lemma received_simps [simp]:
  "received i [] = []" "received i (evs @ evs') = received i evs @ received i evs'"
  by (simp_all add: received_def)

text \<open>One step: what was waiting and is now handed in, is received or waits.\<close>

lemma waiting_step:
  "bus_step b ev b' \<Longrightarrow> bus_ok b \<Longrightarrow>
   waiting b i @ handed i [ev] = received i [ev] @ waiting b' i"
proof (induction rule: bus_step.induct)
  case (subscribe b n)
  then have "br_subscribers b (br_next b) = None" "br_closed b (br_next b) = None"
    by (simp_all add: bus_ok_fresh)
  then show ?case
    by (auto simp: waiting_def Subscribe_def handed_def received_def cong: option.case_cong)
next
  case (unsubscribe b j)
  then show ?case
    by (cases "br_subscribers b j")
      (auto simp: waiting_def Unsubscribe_def handed_def received_def cong: option.case_cong)
next
  case (meet b event j ids c)
  then have "length (cn_values c) \<le> cn_capacity c" by (fastforce simp: bus_ok_def)
  with meet show ?case by (auto simp: waiting_def handed_def received_def cong: option.case_cong)
next
  case (drain b j c v vs)
  then have "br_subscribers b j = None"
    by (cases "br_subscribers b j") (auto simp: bus_ok_def)
  with drain show ?case by (auto simp: waiting_def handed_def received_def cong: option.case_cong)
qed (auto simp: waiting_def handed_def received_def cong: option.case_cong)

lemma waiting_run:
  assumes "bus_run NewBroadcaster evs b"
  shows "handed i evs = received i evs @ waiting b i"
proof -
  have "bus_run a evs b \<Longrightarrow> a = NewBroadcaster \<Longrightarrow>
      bus_ok b \<and> handed i evs = received i evs @ waiting b i" for a
  proof (induction rule: bus_run.induct)
    case (bus_start b)
    then show ?case by (simp add: NewBroadcaster_ok) (simp add: NewBroadcaster_def waiting_def)
  next
    case (bus_next a evs b1 ev b2)
    then show ?case using bus_ok_step waiting_step[of b1 ev b2 i] by auto
  qed
  then show ?thesis using assms by blast
qed

section \<open>Properties\<close>

text \<open>C24: a fencing token is good for one grant only. After \<open>n\<close> further grants, to anybody, with
  \<open>0 < n < 2^64\<close>, a commit with an older token is refused, at any time and for any owner; while
  the token is the last one its owner commits until the deadline and nobody else does. And while
  the lease is held, requests of others do not take it.\<close>

theorem fence_tokens:
  assumes "Fence_Acquire l w t d = (l1, token, True)"
  shows "(fence_run l1 reqs = (l2, n) \<and> 0 < n \<and> n < 2 ^ 64 \<longrightarrow> \<not> Fence_Commit l2 v token u) \<and>
    (fence_run l1 reqs = (l2, 0) \<longrightarrow> (Fence_Commit l2 v token u \<longleftrightarrow> v = w \<and> u < t + d)) \<and>
    (v \<noteq> w \<and> u < t + d \<longrightarrow> Fence_Acquire l1 v u d' = (l1, 0, False))"
proof -
  have l1: "fe_owner l1 = w" "fe_token l1 = token" "fe_expiresAt l1 = t + d" "w \<noteq> []"
    using assms by (auto simp: Fence_Acquire_def Let_def split: if_splits)
  have "\<not> Fence_Commit l2 v token u" if "fence_run l1 reqs = (l2, n)" "0 < n" "n < 2 ^ 64"
  proof
    assume "Fence_Commit l2 v token u"
    then have "fe_token l2 = fe_token l1" by (simp add: Fence_Commit_def l1)
    then have "(of_nat n :: 64 word) = 0" using fence_run_token[OF that(1)] by simp
    then show False using of_nat_64_nonzero[OF that(2,3)] by simp
  qed
  moreover have "Fence_Commit l2 v token u \<longleftrightarrow> v = w \<and> u < t + d" if "fence_run l1 reqs = (l2, 0)"
    using fence_run_none[OF that] l1 by (auto simp: Fence_Commit_def)
  moreover have "Fence_Acquire l1 v u d' = (l1, 0, False)" if "v \<noteq> w" "u < t + d"
    using that l1 by (simp add: Fence_Acquire_def)
  ultimately show ?thesis by blast
qed

theorem fence_tokens_witness:
  "\<not> Fence_Commit \<lparr>fe_owner = ''b'', fe_token = 2, fe_expiresAt = 30\<rparr> ''a'' 1 5"
proof -
  have "Fence_Acquire fence_zero ''a'' 1 9 = (\<lparr>fe_owner = ''a'', fe_token = 1, fe_expiresAt = 10\<rparr>, 1, True)"
    by (simp add: Fence_Acquire_def fence_zero_def)
  from fence_tokens[OF this, of "[(''b'', 3, 5), (''b'', 20, 10)]"
      "\<lparr>fe_owner = ''b'', fe_token = 2, fe_expiresAt = 30\<rparr>" 1 "''a''" 5]
  show ?thesis by (simp add: Fence_Acquire_def)
qed

text \<open>C25: a batch of inputs is decoded one after the other, and a resource is held only during its
  decode: the number of open resources is as before, unless a decoder panics, which leaves one of
  them open for good. The batch succeeds exactly if no decoder fails or panics and the context
  stays alive before every input. A decoder behind \<open>Decode\<close> cannot panic out of it: whatever it
  does, the caller gets a payload or an error, of class 422, or 503 when there is no decoder.\<close>

theorem decode_errors:
  "(DecodeBatch ctx n inputs decode = (n', r) \<longrightarrow>
      n' = (case r of Panicked _ \<Rightarrow> n + 1 | Returned _ \<Rightarrow> n)) \<and>
   (snd (DecodeBatch ctx n inputs decode) = Returned None \<longleftrightarrow>
      list_all (\<lambda>i. ctx i = None \<and> decode (inputs ! i) = Returned None) [0..<length inputs]) \<and>
   (Decode decoder codec payload = Inl e \<longrightarrow>
      fst (tel_Classify e) = (if decoder = None then 503 else 422)) \<and>
   (Decode decoder codec payload = Inr out \<longleftrightarrow>
      (\<exists>f. decoder = Some f \<and> f payload = Returned (Inr out)))"
proof -
  have "snd (DecodeBatch ctx n inputs decode) = Returned None \<longleftrightarrow>
      list_all (\<lambda>i. ctx i = None \<and> decode (inputs ! i) = Returned None) [0..<length inputs]"
    by (auto simp: DecodeBatch_def decode_batch_loop_None list_all_iff)
  moreover have "Decode decoder codec payload = Inr out \<longleftrightarrow>
      (\<exists>f. decoder = Some f \<and> f payload = Returned (Inr out))"
    by (auto simp: Decode_def split: option.splits outcome.splits sum.splits)
  ultimately show ?thesis
    using decode_batch_loop_open[of ctx decode 0 inputs n n' r] Decode_classified
    by (auto simp: DecodeBatch_def)
qed

theorem decode_errors_witness:
  "DecodeBatch (\<lambda>_. None) 4 [''x''] (\<lambda>_. Panicked ''boom'') = (5, Panicked ''boom'') \<and>
   (4 :: int) + 1 = 5"
  using decode_errors[of "\<lambda>_. None" 4 "[''x'']" "\<lambda>_. Panicked ''boom''" 5 "Panicked ''boom''"]
  by (simp add: DecodeBatch_def)

text \<open>A delivery persists its payload exactly once and then asks for at most \<open>attempts\<close>
  acknowledgements, repeating only after a failed one; it succeeds exactly if the last one asked
  for succeeded. A payload that could not be persisted is not acknowledged, and without attempts
  the sink is not called.\<close>

theorem deliver_once:
  "Deliver (count_persist ok) (count_ack answer) waits attempts (0, 0) = ((p, k), r) \<longrightarrow>
     p = (if attempts \<le> 0 then 0 else 1) \<and> int k \<le> (if ok then max 0 attempts else 0) \<and>
     (\<forall>i. Suc i < k \<longrightarrow> answer i \<noteq> None) \<and>
     (r = None \<longleftrightarrow> 0 < k \<and> answer (k - 1) = None)"
proof
  assume run: "Deliver (count_persist ok) (count_ack answer) waits attempts (0, 0) = ((p, k), r)"
  show "p = (if attempts \<le> 0 then 0 else 1) \<and> int k \<le> (if ok then max 0 attempts else 0) \<and>
     (\<forall>i. Suc i < k \<longrightarrow> answer i \<noteq> None) \<and> (r = None \<longleftrightarrow> 0 < k \<and> answer (k - 1) = None)"
  proof (cases "attempts \<le> 0 \<or> \<not> ok")
    case True
    then show ?thesis using run by (auto simp: Deliver_def count_persist_def split: if_splits)
  next
    case False
    then have "ack_loop (count_ack answer) waits (nat attempts) (nat attempts) (1, 0) None = ((p, k), r)"
      using run by (simp add: Deliver_def count_persist_def)
    from ack_loop_counts[OF this] False show ?thesis by auto
  qed
qed

theorem deliver_once_witness:
  "Deliver (count_persist True) (count_ack (\<lambda>i. if i = 0 then Some (NewError ''busy'') else None))
     (\<lambda>_. None) 3 (0, 0) = ((1, 2), None) \<and> int 2 \<le> 3"
proof -
  have "Deliver (count_persist True) (count_ack (\<lambda>i. if i = 0 then Some (NewError ''busy'') else None))
     (\<lambda>_. None) 3 (0, 0) = ((1, 2), None)"
    by code_simp
  then show ?thesis using deliver_once by auto
qed

text \<open>A publication that has come to a subscriber whose channel has no room.\<close>

definition blocked_on :: "Broadcaster \<Rightarrow> int \<Rightarrow> bool" where
  "blocked_on b i \<longleftrightarrow> (\<exists>event ids c. br_publishing b = Some (event, i # ids) \<and>
     br_subscribers b i = Some c \<and> length (cn_values c) = cn_capacity c)"

lemma blocked_step:
  "bus_step b ev b' \<Longrightarrow> blocked_on b i \<Longrightarrow> bus_ok b \<Longrightarrow>
   dom (br_subscribers b') = dom (br_subscribers b) \<and>
   (\<exists>j v. (ev = Ev_Receive j v \<or> ev = Ev_Meet j v \<and> j = i) \<and> (blocked_on b' i \<longleftrightarrow> j \<noteq> i))"
proof (induction rule: bus_step.induct)
  case (meet b event j ids c)
  then have "j = i" "i \<notin> set ids" by (auto simp: blocked_on_def bus_ok_def)
  then show ?case by (cases ids) (auto simp: blocked_on_def)
next
  case (receive b j c v vs)
  then have "length vs < cn_capacity c" by (fastforce simp: bus_ok_def)
  with receive show ?case by (auto simp: blocked_on_def split: if_splits)
next
  case (drain b j c v vs)
  then have "j \<noteq> i" by (auto simp: blocked_on_def bus_ok_def)
  with drain show ?case by (auto simp: blocked_on_def)
qed (auto simp: blocked_on_def mutex_free_def)

text \<open>One subscriber with a buffer of \<open>n\<close> that never reads: after \<open>n\<close> publications the next one is
  stuck.\<close>

definition silent_bus :: "nat \<Rightarrow> nat \<Rightarrow> (string \<times> int list) option \<Rightarrow> Broadcaster" where
  "silent_bus n k pub =
     \<lparr>br_next = 1, br_subscribers = [0 \<mapsto> \<lparr>cn_capacity = n, cn_values = replicate k ''e''\<rparr>],
      br_closed = Map.empty, br_publishing = pub, br_dead = False\<rparr>"

lemma silent_start: "bus_step NewBroadcaster (Ev_Subscribe (int n)) (silent_bus n 0 None)"
  using bus_step.subscribe[of NewBroadcaster "int n"]
  by (simp add: mutex_free_def Subscribe_def NewBroadcaster_def silent_bus_def)

lemma silent_publish:
  "bus_step (silent_bus n k None) (Ev_Publish ''e'') (silent_bus n k (Some (''e'', [0])))"
  using bus_step.publish[of "silent_bus n k None" "[0]" "''e''"]
  by (simp add: mutex_free_def silent_bus_def)

lemma silent_send:
  "k < n \<Longrightarrow> bus_step (silent_bus n k (Some (''e'', [0]))) (Ev_Send 0 ''e'')
     (silent_bus n (Suc k) (Some (''e'', [])))"
  using bus_step.send[of "silent_bus n k (Some (''e'', [0]))" "''e''" 0 "[]"]
  by (simp add: silent_bus_def replicate_append_same)

lemma silent_published:
  "bus_step (silent_bus n k (Some (''e'', []))) Ev_Published (silent_bus n k None)"
  using bus_step.published[of "silent_bus n k (Some (''e'', []))" "''e''"]
  by (simp add: silent_bus_def)

lemma silent_run:
  "k \<le> n \<Longrightarrow> \<exists>evs. bus_run NewBroadcaster evs (silent_bus n k None) \<and> received 0 evs = []"
proof (induction k)
  case 0
  have "bus_run NewBroadcaster ([] @ [Ev_Subscribe (int n)]) (silent_bus n 0 None)"
    by (rule bus_next[OF bus_start silent_start])
  moreover have "received 0 [Ev_Subscribe (int n)] = []" by (simp add: received_def)
  ultimately show ?case by auto
next
  case (Suc k)
  then obtain evs where evs: "bus_run NewBroadcaster evs (silent_bus n k None)" "received 0 evs = []"
    by auto
  have "bus_run NewBroadcaster (((evs @ [Ev_Publish ''e'']) @ [Ev_Send 0 ''e'']) @ [Ev_Published])
      (silent_bus n (Suc k) None)"
    using Suc.prems by (intro bus_next[OF bus_next[OF bus_next[OF evs(1) silent_publish]
      silent_send] silent_published]) simp
  moreover have "received 0 (((evs @ [Ev_Publish ''e'']) @ [Ev_Send 0 ''e'']) @ [Ev_Published]) = []"
    using evs(2) by simp (simp add: received_def)
  ultimately show ?case by blast
qed

lemma silent_blocked: "blocked_on (silent_bus n n (Some (''e'', [0]))) 0"
  by (simp add: blocked_on_def silent_bus_def)

lemma blocked_reachable:
  "\<exists>evs b. bus_run NewBroadcaster evs b \<and> received 0 evs = [] \<and> blocked_on b 0 \<and>
     map_option cn_capacity (br_subscribers b 0) = Some n"
proof -
  obtain evs where evs: "bus_run NewBroadcaster evs (silent_bus n n None)" "received 0 evs = []"
    using silent_run[of n n] by auto
  have "bus_run NewBroadcaster (evs @ [Ev_Publish ''e'']) (silent_bus n n (Some (''e'', [0])))"
    by (rule bus_next[OF evs(1) silent_publish])
  moreover have "received 0 (evs @ [Ev_Publish ''e'']) = []"
    using evs(2) by simp (simp add: received_def)
  moreover have "map_option cn_capacity (br_subscribers (silent_bus n n (Some (''e'', [0]))) 0) = Some n"
    by (simp add: silent_bus_def)
  ultimately show ?thesis using silent_blocked by blast
qed

text \<open>C26: the broadcaster keeps its books: subscriber ids are fresh, no channel holds more than its
  capacity, and a publication under way goes to subscribers that still exist, never to a closed
  channel. What has been handed to a subscriber is what it has received, in the same order, followed
  by what waits in its channel. But a publication sends while it holds the mutex: once it has come
  to a channel without room, nothing can happen but receives, and only one from that very channel
  lets it go on (a value taken from its buffer, or, at a channel without buffer, the event itself);
  the set of subscribers does not change, so a subscriber that has stopped reading cannot even
  unsubscribe. A subscriber that never reads gets there whatever its buffer.\<close>

theorem broadcast_blocks:
  assumes "bus_run NewBroadcaster evs b"
  shows "bus_ok b \<and> handed k evs = received k evs @ waiting b k \<and>
    (blocked_on b i \<and> bus_step b ev b' \<longrightarrow>
       dom (br_subscribers b') = dom (br_subscribers b) \<and>
       (\<exists>j v. (ev = Ev_Receive j v \<or> ev = Ev_Meet j v \<and> j = i) \<and> (blocked_on b' i \<longleftrightarrow> j \<noteq> i))) \<and>
    (\<exists>evs b. bus_run NewBroadcaster evs b \<and> received 0 evs = [] \<and> blocked_on b 0 \<and>
       map_option cn_capacity (br_subscribers b 0) = Some n)"
  using bus_ok_run[OF assms NewBroadcaster_ok] waiting_run[OF assms] blocked_reachable blocked_step
  by (intro conjI impI; blast)

text \<open>Without a buffer: the first publication is stuck, the subscriber cannot leave, and a receiver
  that comes to the channel lets the publication go on.\<close>

theorem broadcast_blocks_witness:
  "blocked_on (silent_bus 0 0 (Some (''e'', [0]))) 0 \<and>
   (\<nexists>b'. bus_step (silent_bus 0 0 (Some (''e'', [0]))) (Ev_Unsubscribe 0) b') \<and>
   bus_step (silent_bus 0 0 (Some (''e'', [0]))) (Ev_Meet 0 ''e'') (silent_bus 0 0 (Some (''e'', []))) \<and>
   \<not> blocked_on (silent_bus 0 0 (Some (''e'', []))) 0"
proof -
  let ?b = "silent_bus 0 0 (Some (''e'', [0]))"
  have run: "bus_run NewBroadcaster (([] @ [Ev_Subscribe 0]) @ [Ev_Publish ''e'']) ?b"
    using bus_next[OF bus_next[OF bus_start silent_start[of 0]] silent_publish] by simp
  have meet: "bus_step ?b (Ev_Meet 0 ''e'') (silent_bus 0 0 (Some (''e'', [])))"
    using bus_step.meet[of ?b "''e''" 0 "[]"] by (simp add: silent_bus_def)
  have "\<not> blocked_on (silent_bus 0 0 (Some (''e'', []))) 0"
    using broadcast_blocks[OF run] meet silent_blocked[of 0] by blast
  moreover have "\<not> bus_step ?b (Ev_Unsubscribe 0) b'" for b'
    using broadcast_blocks[OF run] silent_blocked[of 0] by blast
  ultimately show ?thesis using meet silent_blocked[of 0] by blast
qed

end
