(* ===== verification/Telemetry_Control.thy ===== *)
theory Telemetry_Control
  imports Telemetry_Stream Telemetry_Runtime
begin

text \<open>
  \<open>internal/service/telemetry_control.go\<close>: the control surface over the stream manager, the
  channel capacities, the fenced worker lease and the broadcaster. The operations that only pass
  their arguments on (\<open>RunLimited\<close>, \<open>DecodeBatch\<close>, \<open>Deliver\<close>, \<open>RunWorker\<close>, \<open>WaitRetry\<close>) are those of
  the theories this one imports.
\<close>

record TelemetryControl =
  tl_manager :: Manager
  tl_capacity :: tel_capacity
  tl_lease :: FenceLease
  tl_bus :: Broadcaster

definition NewTelemetryControl :: "Manager option \<Rightarrow> TelemetryControl" where
  "NewTelemetryControl manager =
     \<lparr>tl_manager = (case manager of None \<Rightarrow> NewManager | Some m \<Rightarrow> m),
      tl_capacity = tel_NewCapacity, tl_lease = fence_zero, tl_bus = NewBroadcaster\<rparr>"

definition control_Open ::
  "TelemetryControl \<Rightarrow> Scope \<Rightarrow> int \<Rightarrow> (string \<rightharpoonup> string) \<Rightarrow> TelemetryControl \<times> Stream result" where
  "control_Open c scope expected labels =
     (case Open (tl_manager c) scope expected labels of (m, r) \<Rightarrow> (c\<lparr>tl_manager := m\<rparr>, r))"

definition control_Append ::
  "TelemetryControl \<Rightarrow> go_error option \<Rightarrow> string \<Rightarrow> int \<Rightarrow> string \<Rightarrow> string \<Rightarrow>
   TelemetryControl \<times> bool result" where
  "control_Append c ctx_err key index digest payload =
     (case Append (tl_manager c) ctx_err key index digest payload of
        (m, r) \<Rightarrow> (c\<lparr>tl_manager := m\<rparr>, r))"

definition control_Snapshot :: "TelemetryControl \<Rightarrow> string \<Rightarrow> Stream option" where
  "control_Snapshot c key = Snapshot (tl_manager c) key"

definition control_Finalize ::
  "(string \<Rightarrow> string) \<Rightarrow> time \<Rightarrow> TelemetryControl \<Rightarrow> go_error option \<Rightarrow> string \<Rightarrow> int \<Rightarrow> string \<Rightarrow>
   ('a \<Rightarrow> SealRecord \<Rightarrow> 'a \<times> go_error option) option \<Rightarrow> 'a \<Rightarrow>
   TelemetryControl \<times> 'a \<times> SealRecord result" where
  "control_Finalize sha256 now c ctx_err key version checksum audit a =
     (case Finalize sha256 now (tl_manager c) ctx_err key version checksum audit a of
        (m, a', r) \<Rightarrow> (c\<lparr>tl_manager := m\<rparr>, a', r))"

text \<open>\<open>Decode\<close> looks at the derived context once before it decodes.\<close>

definition control_Decode ::
  "go_error option \<Rightarrow> (string \<Rightarrow> string result outcome) option \<Rightarrow> string \<Rightarrow> string \<Rightarrow> string result" where
  "control_Decode decode_ctx_err decoder codec payload =
     (case decode_ctx_err of Some err \<Rightarrow> Inl err | None \<Rightarrow> Decode decoder codec payload)"

definition ReserveChannel ::
  "TelemetryControl \<Rightarrow> string \<Rightarrow> int \<Rightarrow> TelemetryControl \<times> go_error option" where
  "ReserveChannel c scope limit =
     (case tel_Reserve (tl_capacity c) scope limit of (err, cap) \<Rightarrow> (c\<lparr>tl_capacity := cap\<rparr>, err))"

definition ChannelUsage :: "TelemetryControl \<Rightarrow> string \<Rightarrow> int" where
  "ChannelUsage c scope = tel_Used (tl_capacity c) scope"

definition control_AcquireWorker ::
  "TelemetryControl \<Rightarrow> string \<Rightarrow> time \<Rightarrow> duration \<Rightarrow> TelemetryControl \<times> 64 word \<times> bool" where
  "control_AcquireWorker c owner now ttl =
     (case Fence_Acquire (tl_lease c) owner now ttl of
        (l, token, granted) \<Rightarrow> (c\<lparr>tl_lease := l\<rparr>, token, granted))"

definition CommitWorker :: "TelemetryControl \<Rightarrow> string \<Rightarrow> 64 word \<Rightarrow> time \<Rightarrow> bool" where
  "CommitWorker c owner token now = Fence_Commit (tl_lease c) owner token now"

definition WrapAndClassify :: "string \<Rightarrow> go_error option \<Rightarrow> int \<times> string" where
  "WrapAndClassify operation err =
     (case tel_Wrap operation err of None \<Rightarrow> (500, ''internal_error'') | Some e \<Rightarrow> tel_Classify e)"

definition control_Subscribe :: "TelemetryControl \<Rightarrow> int \<Rightarrow> TelemetryControl \<times> int option" where
  "control_Subscribe c buffer =
     (case Subscribe (tl_bus c) buffer of (b, i) \<Rightarrow> (c\<lparr>tl_bus := b\<rparr>, i))"

section \<open>Facts of the control surface\<close>

lemma WrapAndClassify_Some: "WrapAndClassify operation (Some e) = tel_Classify e"
  using tel_Classify_Wrap by (simp add: WrapAndClassify_def tel_Wrap_def)

text \<open>Requests for one channel fill exactly the free places.\<close>

lemma ReserveChannel_exact:
  assumes "scope \<noteq> []" "0 < limit" "ChannelUsage c scope \<le> limit"
  shows "ChannelUsage (foldl (\<lambda>c (s, l). fst (ReserveChannel c s l)) c (replicate n (scope, limit))) scope =
    min limit (ChannelUsage c scope + int n)"
proof -
  have "tl_capacity (foldl (\<lambda>c (s, l). fst (ReserveChannel c s l)) c rs) =
      tel_slots.reserve_all (tl_capacity c) rs" for rs
    by (induction rs arbitrary: c)
      (auto simp: tel_slots.reserve_all_def ReserveChannel_def split: prod.splits)
  then show ?thesis
    using tel_slots.exact_fill[of scope limit "tl_capacity c" n] assms by (simp add: ChannelUsage_def)
qed

text \<open>Two workers never both hold a lease.\<close>

lemma CommitWorker_unique:
  "CommitWorker c v t now \<Longrightarrow> CommitWorker c w t' now \<Longrightarrow> v = w \<and> t = t'"
  by (simp add: CommitWorker_def Fence_Commit_def)

end
