(* ===== verification/Transactions.thy ===== *)
theory Transactions
  imports Contracts
begin

text \<open>
  \<open>internal/repository\<close>: transactions (\<open>postgres.go\<close> \<open>InTx\<close>, \<open>transaction.go\<close>,
  \<open>transaction_policy.go\<close>) and the effects of the code that runs in them.

  A computation takes the environment and the world and returns its result and the new world. The
  world is the committed or pending database, of any type here, with the counters that number the
  readings of the environment. The environment is what the code cannot decide: fresh UUIDs, clock
  readings, what is valid JSON or a time zone, how PostgreSQL reads a UUID or a jsonb value, lowers and orders
  text (\<open>en_collate\<close> is the sort key of the collation), breaks ties of an ORDER BY, or fails. Any statement, BEGIN
  or COMMIT may fail with any error: \<open>en_fault\<close> says which do. When a COMMIT, or a statement outside
  a transaction, fails, its effect may have been applied all the same: \<open>en_applied\<close> says so.
  Transactions are executed one after the other.
\<close>

named_theorems keeps_rules "which computations keep a relation between databases"

section \<open>Computations\<close>

text \<open>The pool runs every statement in a transaction of its own; a \<open>pgx.Tx\<close> in the open one.\<close>

datatype sqler = Pool | Tx

record env =
  en_uuid :: "nat \<Rightarrow> string"
  en_now :: "nat \<Rightarrow> time"
  en_dbnow :: "nat \<Rightarrow> time"
  en_fault :: "nat \<Rightarrow> go_error option"
  en_applied :: "nat \<Rightarrow> bool"
  en_context :: "nat \<Rightarrow> go_error option"
  en_uuid_in :: "string \<Rightarrow> string option"
  en_json_valid :: "string \<Rightarrow> bool"
  en_jsonb_in :: "string \<Rightarrow> string option"
  en_location :: "string \<Rightarrow> bool"
  en_lower :: "string \<Rightarrow> string"
  en_collate :: "string \<Rightarrow> string"
  en_tie :: "nat \<Rightarrow> string \<Rightarrow> nat"

record 'd world =
  w_db :: 'd
  w_step :: nat
  w_txn :: nat
  w_broken :: bool

type_synonym ('d, 'a) io = "env \<Rightarrow> 'd world \<Rightarrow> 'a result \<times> 'd world"

definition io_return :: "'a \<Rightarrow> ('d, 'a) io" where
  "io_return x env w = (Inr x, w)"

definition io_throw :: "go_error \<Rightarrow> ('d, 'a) io" where
  "io_throw e env w = (Inl e, w)"

definition io_bind :: "('d, 'a) io \<Rightarrow> ('a \<Rightarrow> ('d, 'b) io) \<Rightarrow> ('d, 'b) io" where
  "io_bind m f env w =
     (case m env w of (Inl e, w') \<Rightarrow> (Inl e, w') | (Inr x, w') \<Rightarrow> f x env w')"

definition io_then :: "('d, 'a) io \<Rightarrow> ('d, 'b) io \<Rightarrow> ('d, 'b) io" where
  "io_then m k = io_bind m (\<lambda>_. k)"

text \<open>\<open>if err := e; err != nil { return err }\<close>, and \<open>return fmt.Errorf("...", err)\<close> for the
  error of a call.\<close>

definition io_check :: "go_error option \<Rightarrow> ('d, unit) io" where
  "io_check e = (case e of Some err \<Rightarrow> io_throw err | None \<Rightarrow> io_return ())"

definition io_lift :: "'a result \<Rightarrow> ('d, 'a) io" where
  "io_lift r = (case r of Inl e \<Rightarrow> io_throw e | Inr x \<Rightarrow> io_return x)"

definition io_wrap :: "(go_error \<Rightarrow> go_error) \<Rightarrow> ('d, 'a) io \<Rightarrow> ('d, 'a) io" where
  "io_wrap f m env w = (case m env w of (Inl e, w') \<Rightarrow> (Inl (f e), w') | r \<Rightarrow> r)"

text \<open>A reading of the environment: a clock or \<open>uuid.NewString\<close>.\<close>

definition io_read :: "(env \<Rightarrow> nat \<Rightarrow> 'a) \<Rightarrow> ('d, 'a) io" where
  "io_read f env w = (Inr (f env (w_step w)), w\<lparr>w_step := w_step w + 1\<rparr>)"

abbreviation service_now :: "('d, time) io" where "service_now \<equiv> io_read en_now"
abbreviation NewString :: "('d, string) io" where "NewString \<equiv> io_read en_uuid"

fun io_for :: "('a \<Rightarrow> ('d, unit) io) \<Rightarrow> 'a list \<Rightarrow> ('d, unit) io" where
  "io_for f [] = io_return ()"
| "io_for f (x # xs) = io_then (f x) (io_for f xs)"

fun io_collect :: "('a \<Rightarrow> ('d, 'b) io) \<Rightarrow> 'a list \<Rightarrow> ('d, 'b list) io" where
  "io_collect f [] = io_return []"
| "io_collect f (x # xs) =
     io_bind (f x) (\<lambda>y. io_bind (io_collect f xs) (\<lambda>ys. io_return (y # ys)))"

text \<open>A call of which only the effect matters.\<close>

definition drop_result :: "('d, 'a) io \<Rightarrow> ('d, unit) io" where
  "drop_result m = io_then m (io_return ())"

section \<open>Statements\<close>

text \<open>
  A statement reads the environment (with the number of this reading for its tie breaks), the
  transaction's \<open>now()\<close> and the database, and gives an error or a result and a new database. After
  an error inside a transaction PostgreSQL refuses every further statement until ROLLBACK.
\<close>

type_synonym ('d, 'a) stmt = "env \<Rightarrow> nat \<Rightarrow> time \<Rightarrow> 'd \<Rightarrow> go_error + 'a \<times> 'd"

definition exec_tx :: "('d, 'a) stmt \<Rightarrow> ('d, 'a) io" where
  "exec_tx st env w =
     (let n = w_step w; w1 = w\<lparr>w_step := n + 1\<rparr> in
      if w_broken w then (Inl (PgError ''25P02''), w1)
      else case en_fault env n of
          Some e \<Rightarrow> (Inl e, w1\<lparr>w_broken := True\<rparr>)
        | None \<Rightarrow>
            (case st env n (en_dbnow env (w_txn w)) (w_db w) of
               Inl e \<Rightarrow> (Inl e, w1\<lparr>w_broken := True\<rparr>)
             | Inr (x, d) \<Rightarrow> (Inr x, w1\<lparr>w_db := d\<rparr>)))"

definition exec_pool :: "('d, 'a) stmt \<Rightarrow> ('d, 'a) io" where
  "exec_pool st env w =
     (let n = w_step w; w1 = w\<lparr>w_step := n + 1, w_txn := w_txn w + 1\<rparr> in
      case st env n (en_dbnow env (w_txn w1)) (w_db w) of
        Inl e \<Rightarrow> (Inl (case en_fault env n of Some e' \<Rightarrow> e' | None \<Rightarrow> e), w1)
      | Inr (x, d) \<Rightarrow>
          (case en_fault env n of
             None \<Rightarrow> (Inr x, w1\<lparr>w_db := d\<rparr>)
           | Some e \<Rightarrow> (Inl e, if en_applied env n then w1\<lparr>w_db := d\<rparr> else w1)))"

definition exec_stmt :: "sqler \<Rightarrow> ('d, 'a) stmt \<Rightarrow> ('d, 'a) io" where
  "exec_stmt q st = (case q of Pool \<Rightarrow> exec_pool st | Tx \<Rightarrow> exec_tx st)"

section \<open>Transactions\<close>

text \<open>\<open>Commit\<close> of a transaction that PostgreSQL has aborted rolls back and reports that.\<close>

definition tx_begun :: "'d world \<Rightarrow> 'd world" where
  "tx_begun w = w\<lparr>w_step := w_step w + 1, w_txn := w_txn w + 1, w_broken := False\<rparr>"

definition tx_end :: "'d \<Rightarrow> 'd world \<Rightarrow> 'd world" where
  "tx_end d w = w\<lparr>w_db := d, w_step := w_step w + 1, w_broken := False\<rparr>"

definition run_tx :: "string \<Rightarrow> string \<Rightarrow> ('d, 'a) io \<Rightarrow> ('d, 'a) io" where
  "run_tx begin_text commit_text fn env w =
     (case en_fault env (w_step w) of
        Some err \<Rightarrow> (Inl (Errorf begin_text err), w\<lparr>w_step := w_step w + 1\<rparr>)
      | None \<Rightarrow>
          (case fn env (tx_begun w) of
             (Inl err, w1) \<Rightarrow> (Inl err, tx_end (w_db w) w1)
           | (Inr x, w1) \<Rightarrow>
               if w_broken w1 then
                 (Inl (Errorf commit_text
                    (NewError ''commit unexpectedly resulted in rollback'')), tx_end (w_db w) w1)
               else case en_fault env (w_step w1) of
                   None \<Rightarrow> (Inr x, tx_end (w_db w1) w1)
                 | Some err \<Rightarrow>
                     (Inl (Errorf commit_text err),
                      tx_end (if en_applied env (w_step w1) then w_db w1 else w_db w) w1)))"

definition InTx :: "sqler \<Rightarrow> ('d, 'a) io \<Rightarrow> ('d, 'a) io" where
  "InTx q fn =
     (case q of
        Pool \<Rightarrow> run_tx ''begin transaction'' ''commit transaction'' fn
      | Tx \<Rightarrow> io_throw (NewError ''nested transaction''))"

definition InSerializable :: "('d, 'a) io \<Rightarrow> ('d, 'a) io" where
  "InSerializable fn =
     run_tx ''begin serializable transaction'' ''commit serializable transaction'' fn"

definition WithReadOnly :: "(sqler \<Rightarrow> ('d, 'a) io) \<Rightarrow> ('d, 'a) io" where
  "WithReadOnly fn = InTx Pool (fn Tx)"

section \<open>Retries\<close>

record TransactionPolicy =
  tp_Timeout :: duration
  tp_Serializable :: bool
  tp_RetryAttempts :: int

definition TransactionPolicy_Validate :: "TransactionPolicy \<Rightarrow> go_error option" where
  "TransactionPolicy_Validate p =
     (if tp_Timeout p \<le> 0 then Some (NewError ''transaction timeout must be positive'')
      else if tp_RetryAttempts p < 1
        then Some (NewError ''transaction retry attempts must be positive'')
      else None)"

definition retryableTransactionError :: "go_error \<Rightarrow> bool" where
  "retryableTransactionError err =
     (case errors_As_pg err of
        None \<Rightarrow> False
      | Some code \<Rightarrow> code = ''40001'' \<or> code = ''40P01'')"

text \<open>The loop of \<open>RunWithPolicy\<close>, by the attempts left. The \<open>select\<close> between the context and
  the timer is a reading of the environment: an error is \<open>ctx.Err()\<close>, nothing is the timer. That
  the transaction context of an attempt runs out shows as a fault of its statements.\<close>

fun run_attempts :: "nat \<Rightarrow> ('d, 'a) io \<Rightarrow> ('d, 'a) io" where
  "run_attempts 0 attempt = io_throw (NewError ''transaction policy exhausted'')"
| "run_attempts (Suc left_over) attempt = (\<lambda>env w.
     (case attempt env w of
        (Inr x, w1) \<Rightarrow> (Inr x, w1)
      | (Inl err, w1) \<Rightarrow>
          if \<not> retryableTransactionError err \<or> left_over = 0 then (Inl err, w1)
          else io_bind (io_read en_context) (\<lambda>ctx_err.
                 case ctx_err of
                   Some e \<Rightarrow> io_throw e
                 | None \<Rightarrow> run_attempts left_over attempt) env w1))"

definition RunWithPolicy :: "TransactionPolicy \<Rightarrow> ('d, 'a) io \<Rightarrow> ('d, 'a) io" where
  "RunWithPolicy policy fn =
     io_then (io_check (TransactionPolicy_Validate policy))
       (run_attempts (nat (tp_RetryAttempts policy))
          (if tp_Serializable policy then InSerializable fn else InTx Pool fn))"

section \<open>What computations keep\<close>

text \<open>
  A reflexive and transitive relation between the database before and after: it holds of a
  computation when it holds of its statements, through every sequence, loop, wrapped error,
  rollback, lost commit and retry. The invariants and histories of the database are interpretations.
\<close>

definition keeps :: "('d \<Rightarrow> 'd \<Rightarrow> bool) \<Rightarrow> env \<Rightarrow> ('d, 'a) io \<Rightarrow> bool" where
  "keeps R env m \<longleftrightarrow> (\<forall>w. R (w_db w) (w_db (snd (m env w))))"

definition keeps_at :: "('d \<Rightarrow> 'd \<Rightarrow> bool) \<Rightarrow> env \<Rightarrow> 'd world \<Rightarrow> ('d, 'a) io \<Rightarrow> bool" where
  "keeps_at R env w m \<longleftrightarrow> R (w_db w) (w_db (snd (m env w)))"

definition stmt_keeps :: "('d \<Rightarrow> 'd \<Rightarrow> bool) \<Rightarrow> env \<Rightarrow> ('d, 'a) stmt \<Rightarrow> bool" where
  "stmt_keeps R env st \<longleftrightarrow> (\<forall>n t d x d'. st env n t d = Inr (x, d') \<longrightarrow> R d d')"

lemma keepsD: "keeps R env m \<Longrightarrow> m env w = (r, w') \<Longrightarrow> R (w_db w) (w_db w')"
  by (metis keeps_def snd_conv)

lemma keepsI: "(\<And>w r w'. m env w = (r, w') \<Longrightarrow> R (w_db w) (w_db w')) \<Longrightarrow> keeps R env m"
  by (simp add: keeps_def prod_eq_iff)

lemma stmt_keepsI:
  "(\<And>n t d x d'. st env n t d = Inr (x, d') \<Longrightarrow> R d d') \<Longrightarrow> stmt_keeps R env st"
  by (simp add: stmt_keeps_def)

lemma stmt_keepsD: "stmt_keeps R env st \<Longrightarrow> st env n t d = Inr (x, d') \<Longrightarrow> R d d'"
  by (simp add: stmt_keeps_def)

lemma tx_db [simp]:
  "w_db (tx_begun w) = w_db w" "w_db (tx_end d w) = d"
  "w_broken (tx_begun w) = False" "w_broken (tx_end d w) = False"
  by (simp_all add: tx_begun_def tx_end_def)

locale db_history =
  fixes R :: "'d \<Rightarrow> 'd \<Rightarrow> bool"
  assumes R_refl: "R d d"
    and R_trans: "R d e \<Longrightarrow> R e f \<Longrightarrow> R d f"
begin

lemma keeps_return [keeps_rules]: "keeps R env (io_return x)"
  by (simp add: keeps_def io_return_def R_refl)

lemma keeps_throw [keeps_rules]: "keeps R env (io_throw e)"
  by (simp add: keeps_def io_throw_def R_refl)

lemma keeps_read [keeps_rules]: "keeps R env (io_read f)"
  by (simp add: keeps_def io_read_def R_refl)

lemma keeps_check [keeps_rules]: "keeps R env (io_check e)"
  by (simp add: io_check_def keeps_return keeps_throw split: option.split)

lemma keeps_lift [keeps_rules]: "keeps R env (io_lift r)"
  by (simp add: io_lift_def keeps_return keeps_throw split: sum.split)

lemma keeps_bind [keeps_rules]:
  assumes "keeps R env m" "\<And>x. keeps R env (f x)"
  shows "keeps R env (io_bind m f)"
proof (rule keepsI)
  fix w r w'
  assume run: "io_bind m f env w = (r, w')"
  obtain s w1 where m: "m env w = (s, w1)" by (cases "m env w")
  have "R (w_db w) (w_db w1)" using keepsD[OF assms(1) m] .
  moreover have "R (w_db w1) (w_db w')"
    using run m keepsD[OF assms(2)] by (cases s) (auto simp: io_bind_def R_refl)
  ultimately show "R (w_db w) (w_db w')" by (rule R_trans)
qed

lemma keeps_then [keeps_rules]:
  "keeps R env m \<Longrightarrow> keeps R env k \<Longrightarrow> keeps R env (io_then m k)"
  by (simp add: io_then_def keeps_bind)

lemma keeps_wrap [keeps_rules]:
  assumes "keeps R env m"
  shows "keeps R env (io_wrap f m)"
proof (rule keepsI)
  fix w r w'
  assume "io_wrap f m env w = (r, w')"
  then obtain s where "m env w = (s, w')"
    by (auto simp: io_wrap_def split: prod.splits sum.splits)
  then show "R (w_db w) (w_db w')" using keepsD[OF assms] by blast
qed

lemma keeps_for [keeps_rules]: "(\<And>x. keeps R env (f x)) \<Longrightarrow> keeps R env (io_for f xs)"
  by (induction xs) (simp_all add: keeps_return keeps_then)

lemma keeps_collect [keeps_rules]:
  "(\<And>x. keeps R env (f x)) \<Longrightarrow> keeps R env (io_collect f xs)"
  by (induction xs) (simp_all add: keeps_return keeps_bind)

lemma keeps_if [keeps_rules]:
  "(c \<Longrightarrow> keeps R env m) \<Longrightarrow> (\<not> c \<Longrightarrow> keeps R env k) \<Longrightarrow> keeps R env (if c then m else k)"
  by simp

lemma keeps_option [keeps_rules]:
  "(x = None \<Longrightarrow> keeps R env m) \<Longrightarrow> (\<And>y. x = Some y \<Longrightarrow> keeps R env (f y)) \<Longrightarrow>
   keeps R env (case x of None \<Rightarrow> m | Some y \<Rightarrow> f y)"
  by (cases x) simp_all

lemma keeps_exec [keeps_rules]:
  assumes "stmt_keeps R env st"
  shows "keeps R env (exec_stmt q st)"
proof (rule keepsI)
  fix w r w'
  assume run: "exec_stmt q st env w = (r, w')"
  show "R (w_db w) (w_db w')"
    using run stmt_keepsD[OF assms]
    by (cases q)
      (auto simp: exec_stmt_def exec_tx_def exec_pool_def Let_def R_refl
        split: if_splits option.splits sum.splits)
qed

lemma keeps_run_tx:
  assumes "keeps R env fn"
  shows "keeps R env (run_tx b c fn)"
proof (rule keepsI)
  fix w r w'
  assume run: "run_tx b c fn env w = (r, w')"
  obtain s w1 where fn: "fn env (tx_begun w) = (s, w1)" by (cases "fn env (tx_begun w)")
  have "R (w_db w) (w_db w1)" using keepsD[OF assms fn] by simp
  then show "R (w_db w) (w_db w')"
    using run fn by (auto simp: run_tx_def R_refl split: if_splits option.splits sum.splits)
qed

lemma keeps_InTx [keeps_rules]: "keeps R env fn \<Longrightarrow> keeps R env (InTx q fn)"
  by (cases q) (simp_all add: InTx_def keeps_run_tx keeps_throw)

lemma keeps_InSerializable [keeps_rules]: "keeps R env fn \<Longrightarrow> keeps R env (InSerializable fn)"
  by (simp add: InSerializable_def keeps_run_tx)

lemma keeps_attempts: "keeps R env m \<Longrightarrow> keeps R env (run_attempts n m)"
proof (induction n)
  case 0
  then show ?case by (simp add: keeps_throw)
next
  case (Suc n)
  have tail: "keeps R env (io_bind (io_read en_context) (\<lambda>ctx_err.
      case ctx_err of Some e \<Rightarrow> io_throw e | None \<Rightarrow> run_attempts n m))"
    using Suc by (intro keeps_bind keeps_read) (auto split: option.split intro: keeps_throw)
  show ?case
  proof (rule keepsI)
    fix w r w'
    assume run: "run_attempts (Suc n) m env w = (r, w')"
    obtain s w1 where m: "m env w = (s, w1)" by (cases "m env w")
    have "R (w_db w) (w_db w1)" using keepsD[OF Suc.prems m] .
    moreover have "R (w_db w1) (w_db w')"
      using run m keepsD[OF tail] by (auto simp: R_refl split: sum.splits if_splits)
    ultimately show "R (w_db w) (w_db w')" by (rule R_trans)
  qed
qed

text \<open>The same from one state: after readings the rest of a computation may rely on what they
  have found.\<close>

lemma keeps_at_keeps: "keeps R env m \<Longrightarrow> keeps_at R env w m"
  by (simp add: keeps_def keeps_at_def)

lemma keeps_at_return: "keeps_at R env w (io_return x)"
  by (rule keeps_at_keeps[OF keeps_return])

lemma keeps_at_exec:
  "(\<And>n t x d'. st env n t (w_db w) = Inr (x, d') \<Longrightarrow> R (w_db w) d') \<Longrightarrow>
   keeps_at R env w (exec_stmt q st)"
  by (cases q) (auto simp: keeps_at_def exec_stmt_def exec_tx_def exec_pool_def Let_def R_refl
      split: option.split sum.split)

lemma keeps_at_wrap: "keeps_at R env w m \<Longrightarrow> keeps_at R env w (io_wrap f m)"
  by (auto simp: keeps_at_def io_wrap_def split: prod.split sum.split)

lemma keeps_at_bind:
  "keeps_at R env w m \<Longrightarrow> (\<And>x w1. m env w = (Inr x, w1) \<Longrightarrow> keeps_at R env w1 (f x)) \<Longrightarrow>
   keeps_at R env w (io_bind m f)"
  by (cases "m env w"; cases "fst (m env w)")
    (auto simp: keeps_at_def io_bind_def intro: R_trans)

lemma keeps_at_step:
  "keeps_at R env w m \<Longrightarrow> (\<And>x. keeps R env (f x)) \<Longrightarrow> keeps_at R env w (io_bind m f)"
  by (rule keeps_at_bind, assumption, rule keeps_at_keeps)

lemma keeps_at_then:
  "keeps_at R env w m \<Longrightarrow> keeps R env k \<Longrightarrow> keeps_at R env w (io_then m k)"
  unfolding io_then_def by (rule keeps_at_step)

lemma keeps_at_read:
  assumes "keeps (=) env m"
    and "\<And>x w1. m env w = (Inr x, w1) \<Longrightarrow> w_db w1 = w_db w \<Longrightarrow> keeps_at R env w1 (f x)"
  shows "keeps_at R env w (io_bind m f)"
proof (rule keeps_at_bind)
  have same: "w_db (snd (m env w)) = w_db w" using assms(1) by (metis keeps_def)
  then show "keeps_at R env w m" by (simp add: keeps_at_def R_refl)
  fix x w1
  assume m: "m env w = (Inr x, w1)"
  then show "keeps_at R env w1 (f x)" using assms(2)[OF m] same by simp
qed

lemma keeps_all: "(\<And>w. keeps_at R env w m) \<Longrightarrow> keeps R env m"
  by (simp add: keeps_def keeps_at_def)

lemma keeps_RunWithPolicy: "keeps R env fn \<Longrightarrow> keeps R env (RunWithPolicy policy fn)"
  by (auto simp: RunWithPolicy_def
      intro!: keeps_then keeps_check keeps_attempts keeps_InSerializable keeps_InTx)

end

text \<open>A computation that keeps equality only reads.\<close>

interpretation reads: db_history "(=) :: 'd \<Rightarrow> 'd \<Rightarrow> bool"
  by unfold_locales auto

section \<open>Properties of transactions\<close>

text \<open>The two ways a transaction can end: nothing has happened, or the body ran to its end on the
  database as it was and all its effect is there.\<close>

definition all_or_nothing ::
  "env \<Rightarrow> ('d, 'a) io \<Rightarrow> 'd world \<Rightarrow> 'd world \<Rightarrow> bool" where
  "all_or_nothing env fn w w' \<longleftrightarrow>
     w_db w' = w_db w \<or>
     (\<exists>w0 x w1. w_db w0 = w_db w \<and> \<not> w_broken w0 \<and> fn env w0 = (Inr x, w1) \<and>
        \<not> w_broken w1 \<and> w_db w' = w_db w1)"

lemma run_tx_cases:
  assumes "run_tx b c fn env w = (r, w')"
  obtains (begin_failed) err where "r = Inl (Errorf b err)" "w_db w' = w_db w"
      "w_txn w' = w_txn w"
    | (rolled_back) e w1 where "fn env (tx_begun w) = (Inl e, w1)" "r = Inl e" "w_db w' = w_db w"
      "w_txn w' = w_txn w1"
    | (committed) x w1 where "fn env (tx_begun w) = (Inr x, w1)" "\<not> w_broken w1" "r = Inr x"
      "w_db w' = w_db w1" "w_txn w' = w_txn w1"
    | (commit_failed) x w1 err where "fn env (tx_begun w) = (Inr x, w1)" "r = Inl (Errorf c err)"
      "w_db w' = w_db w" "w_txn w' = w_txn w1"
    | (commit_lost) x w1 err where "fn env (tx_begun w) = (Inr x, w1)" "\<not> w_broken w1"
      "r = Inl (Errorf c err)" "en_fault env (w_step w1) = Some err" "en_applied env (w_step w1)"
      "w_db w' = w_db w1" "w_txn w' = w_txn w1"
proof (cases "en_fault env (w_step w)")
  case (Some e)
  then show thesis using assms begin_failed by (auto simp: run_tx_def)
next
  case None
  obtain s w1 where fn: "fn env (tx_begun w) = (s, w1)" by (cases "fn env (tx_begun w)")
  show thesis
  proof (cases s)
    case (Inl e)
    then show thesis using assms None fn rolled_back by (auto simp: run_tx_def tx_end_def)
  next
    case (Inr x)
    note run = assms[unfolded run_tx_def None option.case fn Inr prod.case sum.case]
    show thesis
    proof (cases "w_broken w1")
      case True
      then show thesis using run fn Inr commit_failed by (auto simp: tx_end_def)
    next
      case False
      show thesis
      proof (cases "en_fault env (w_step w1)")
        case None
        then show thesis using run fn Inr False committed by (auto simp: tx_end_def)
      next
        case (Some err)
        then show thesis
          using run fn Inr False commit_failed commit_lost
          by (cases "en_applied env (w_step w1)") (auto simp: tx_end_def)
      qed
    qed
  qed
qed

lemma run_tx_all_or_nothing: "run_tx b c fn env w = (r, w') \<Longrightarrow> all_or_nothing env fn w w'"
  by (erule run_tx_cases) (auto simp: all_or_nothing_def intro!: exI[of _ "tx_begun w"])

text \<open>Statements inside a transaction use up readings only.\<close>

definition one_txn :: "env \<Rightarrow> ('d, 'a) io \<Rightarrow> bool" where
  "one_txn env m \<longleftrightarrow> (\<forall>w. w_txn (snd (m env w)) = w_txn w)"

lemma one_txn_basic:
  "one_txn env (io_return x)" "one_txn env (io_throw e)" "one_txn env (io_read f)"
  "one_txn env (exec_stmt Tx st)"
  by (auto simp: one_txn_def io_return_def io_throw_def io_read_def exec_stmt_def exec_tx_def
      Let_def split: option.split sum.split)

lemma one_txn_bind:
  "one_txn env m \<Longrightarrow> (\<And>x. one_txn env (f x)) \<Longrightarrow> one_txn env (io_bind m f)"
  by (auto simp: one_txn_def io_bind_def split: prod.split sum.split) (metis snd_conv)+

text \<open>PostgreSQL reports a serialization failure or a deadlock only for a transaction it has rolled
  back.\<close>

definition conflicts_roll_back :: "env \<Rightarrow> bool" where
  "conflicts_roll_back env \<longleftrightarrow>
     (\<forall>n e. en_fault env n = Some e \<longrightarrow> retryableTransactionError e \<longrightarrow> \<not> en_applied env n)"

lemma retryable_Errorf [simp]:
  "retryableTransactionError (Errorf s e) = retryableTransactionError e"
  by (simp add: retryableTransactionError_def)

lemma run_tx_retryable:
  assumes "run_tx b c fn env w = (Inl err, w')" "retryableTransactionError err"
    and "conflicts_roll_back env"
  shows "w_db w' = w_db w"
  using assms(1)
proof (cases rule: run_tx_cases)
  case (commit_lost x w1 e)
  then show ?thesis using assms(2,3) by (simp add: conflicts_roll_back_def)
qed simp_all

lemma run_tx_txn:
  assumes "run_tx b c fn env w = (r, w')" "one_txn env fn"
  shows "w_txn w' \<le> w_txn w + 1"
proof -
  have body: "w_txn w1 = w_txn w + 1" if "fn env (tx_begun w) = (s, w1)" for s w1
  proof -
    have "w_txn (snd (fn env (tx_begun w))) = w_txn (tx_begun w)"
      using assms(2) by (simp add: one_txn_def)
    then show ?thesis using that by (simp add: tx_begun_def)
  qed
  show ?thesis using assms(1) by (cases rule: run_tx_cases) (auto dest: body)
qed

lemma run_attempts_tx:
  assumes "conflicts_roll_back env" "one_txn env fn"
    and "run_attempts k (run_tx b c fn) env w = (r, w')"
  shows "all_or_nothing env fn w w' \<and> w_txn w' \<le> w_txn w + k"
  using assms(3)
proof (induction k arbitrary: w)
  case 0
  then show ?case by (auto simp: io_throw_def all_or_nothing_def)
next
  case (Suc k)
  obtain s w1 where m: "run_tx b c fn env w = (s, w1)" by (cases "run_tx b c fn env w")
  have first: "all_or_nothing env fn w w1" "w_txn w1 \<le> w_txn w + 1"
    using run_tx_all_or_nothing[OF m] run_tx_txn[OF m assms(2)] by auto
  define w2 where "w2 = w1\<lparr>w_step := w_step w1 + 1\<rparr>"
  have w2: "w_db w2 = w_db w1" "w_txn w2 = w_txn w1" by (simp_all add: w2_def)
  consider (stop) "w' = w1" | (context_done) err where "s = Inl err" "w' = w2"
    | (again) err where "s = Inl err" "retryableTransactionError err"
      "run_attempts k (run_tx b c fn) env w2 = (r, w')"
    using Suc.prems m
    by (auto simp: io_bind_def io_read_def io_throw_def w2_def
        split: sum.splits if_splits option.splits)
  then show ?case
  proof cases
    case stop
    then show ?thesis using first by simp
  next
    case context_done
    then show ?thesis using first w2 by (simp add: all_or_nothing_def)
  next
    case again
    have same: "w_db w1 = w_db w" using run_tx_retryable m again assms(1) by blast
    show ?thesis using Suc.IH[OF again(3)] w2 same first(2) by (simp add: all_or_nothing_def)
  qed
qed

text \<open>C28: a transaction is atomic whatever fails: when \<open>InTx\<close> reports success the body has run to its
  end and exactly its effect is committed; when it reports an error nothing has changed, unless the
  error is a failed COMMIT that the server had already carried out, and then too the effect is
  that of the whole body.\<close>

theorem InTx_atomic:
  "case InTx Pool fn env w of
     (Inr x, w') \<Rightarrow> \<exists>w1. fn env (tx_begun w) = (Inr x, w1) \<and> w_db w' = w_db w1
   | (Inl e, w') \<Rightarrow>
       w_db w' = w_db w \<or>
       (\<exists>x w1 err. fn env (tx_begun w) = (Inr x, w1) \<and> w_db w' = w_db w1 \<and>
          e = Errorf ''commit transaction'' err \<and>
          en_fault env (w_step w1) = Some err \<and> en_applied env (w_step w1))"
proof -
  obtain r w' where run: "run_tx ''begin transaction'' ''commit transaction'' fn env w = (r, w')"
    by (cases "run_tx ''begin transaction'' ''commit transaction'' fn env w")
  show ?thesis
    unfolding InTx_def sqler.case run prod.case
    using run by (cases rule: run_tx_cases) auto
qed

text \<open>C29: a transaction that is retried under a policy takes effect at most once and is begun at
  most \<open>RetryAttempts\<close> times: the database is unchanged, or it is what one complete run of the body
  makes of the original. Assumed: a conflict PostgreSQL reports has been rolled back, and the body
  begins no transaction of its own.\<close>

theorem RunWithPolicy_once:
  assumes "conflicts_roll_back env" "one_txn env fn"
    and "RunWithPolicy policy fn env w = (r, w')"
  shows "all_or_nothing env fn w w' \<and> w_txn w' \<le> w_txn w + nat (tp_RetryAttempts policy)"
proof (cases "TransactionPolicy_Validate policy")
  case (Some e)
  then show ?thesis
    using assms(3)
    by (auto simp: RunWithPolicy_def io_then_def io_bind_def io_check_def io_throw_def
        all_or_nothing_def)
next
  case None
  obtain b c where "(if tp_Serializable policy then InSerializable fn else InTx Pool fn) =
      run_tx b c fn"
    by (cases "tp_Serializable policy") (auto simp: InSerializable_def InTx_def)
  then have "run_attempts (nat (tp_RetryAttempts policy)) (run_tx b c fn) env w = (r, w')"
    using assms(3)
    by (simp add: RunWithPolicy_def None io_then_def io_bind_def io_check_def io_return_def)
  then show ?thesis by (rule run_attempts_tx[OF assms(1,2)])
qed

text \<open>An environment for the witnesses: everything works, identifiers are runs of a letter. And one
  whose second reading, the first statement of a transaction, meets a serialization failure.\<close>

definition calm_env :: env where
  "calm_env = \<lparr>en_uuid = (\<lambda>n. replicate (Suc n) (CHR ''u'')), en_now = (\<lambda>_. 10 * hour),
     en_dbnow = (\<lambda>_. 10 * hour), en_fault = (\<lambda>_. None), en_applied = (\<lambda>_. True),
     en_context = (\<lambda>_. None), en_uuid_in = (\<lambda>s. if s = [] then None else Some s),
     en_json_valid = (\<lambda>_. True), en_jsonb_in = Some, en_location = (\<lambda>_. True), en_lower = (\<lambda>s. s),
     en_collate = (\<lambda>s. s), en_tie = (\<lambda>_ _. 0)\<rparr>"

definition rough_env :: env where
  "rough_env = calm_env\<lparr>en_fault := (\<lambda>n. if n = 1 then Some (PgError ''40001'') else None),
     en_applied := (\<lambda>_. False)\<rparr>"

definition fresh_world :: "'d \<Rightarrow> 'd world" where
  "fresh_world d = \<lparr>w_db = d, w_step = 0, w_txn = 0, w_broken = False\<rparr>"

lemma calm_simps [simp]:
  "en_fault calm_env n = None" "en_uuid calm_env n = replicate (Suc n) (CHR ''u'')"
  "en_now calm_env n = 10 * hour" "en_dbnow calm_env n = 10 * hour"
  "en_uuid_in calm_env s = (if s = [] then None else Some s)" "en_tie calm_env n s = 0"
  "en_applied calm_env n" "en_json_valid calm_env s" "en_jsonb_in calm_env s = Some s"
  "en_location calm_env s" "en_lower calm_env s = s" "en_collate calm_env s = s"
  by (simp_all add: calm_env_def)

lemma RunWithPolicy_once_witness:
  "all_or_nothing rough_env (exec_stmt Tx (\<lambda>_ _ _ d. Inr ((), d + 1))) (fresh_world (5::int))
     (snd (RunWithPolicy \<lparr>tp_Timeout = second, tp_Serializable = True, tp_RetryAttempts = 2\<rparr>
       (exec_stmt Tx (\<lambda>_ _ _ d. Inr ((), d + 1))) rough_env (fresh_world 5))) \<and>
   w_db (snd (RunWithPolicy \<lparr>tp_Timeout = second, tp_Serializable = True, tp_RetryAttempts = 2\<rparr>
       (exec_stmt Tx (\<lambda>_ _ _ d. Inr ((), d + 1))) rough_env (fresh_world (5::int)))) = 6"
proof -
  let ?fn = "exec_stmt Tx (\<lambda>_ _ _ d. Inr ((), d + (1::int)))"
  let ?run = "RunWithPolicy \<lparr>tp_Timeout = second, tp_Serializable = True, tp_RetryAttempts = 2\<rparr>
       ?fn rough_env (fresh_world 5)"
  have rollback: "conflicts_roll_back rough_env"
    by (simp add: conflicts_roll_back_def rough_env_def)
  have "w_db (snd ?run) = 6"
    by (simp add: RunWithPolicy_def TransactionPolicy_Validate_def io_then_def io_bind_def
        io_check_def io_return_def io_read_def InSerializable_def run_tx_def tx_begun_def tx_end_def
        exec_stmt_def exec_tx_def fresh_world_def rough_env_def calm_env_def numeral_2_eq_2
        retryableTransactionError_def)
  then show ?thesis
    using RunWithPolicy_once[OF rollback one_txn_basic(4), of _ _ "fresh_world 5" "fst ?run"
        "snd ?run"] by simp
qed

section \<open>What a successful run has done\<close>

lemma exec_pool_ok:
  "exec_stmt Pool st env w = (Inr x, w1) \<longleftrightarrow>
     en_fault env (w_step w) = None \<and>
     (\<exists>d. st env (w_step w) (en_dbnow env (w_txn w + 1)) (w_db w) = Inr (x, d) \<and>
       w1 = w\<lparr>w_db := d, w_step := w_step w + 1, w_txn := w_txn w + 1\<rparr>)"
  by (auto simp: exec_stmt_def exec_pool_def Let_def split: sum.split option.split)

lemma io_wrap_ok: "io_wrap f m env w = (Inr x, w1) \<longleftrightarrow> m env w = (Inr x, w1)"
  by (auto simp: io_wrap_def split: prod.split sum.split)

lemma io_bind_ok:
  "io_bind m f env w = (Inr y, w2) \<longleftrightarrow> (\<exists>x w1. m env w = (Inr x, w1) \<and> f x env w1 = (Inr y, w2))"
  by (auto simp: io_bind_def split: prod.split sum.split)

lemma io_return_ok: "io_return x env w = (Inr y, w1) \<longleftrightarrow> y = x \<and> w1 = w"
  by (auto simp: io_return_def)

lemma io_throw_ok: "io_throw e env w = (Inr y, w1) \<longleftrightarrow> False"
  by (simp add: io_throw_def)

lemma io_lift_ok: "io_lift r env w = (Inr y, w1) \<longleftrightarrow> r = Inr y \<and> w1 = w"
  by (auto simp: io_lift_def io_return_def io_throw_def split: sum.split)

lemma io_read_ok:
  "io_read f env w = (Inr y, w1) \<longleftrightarrow>
     y = f env (w_step w) \<and> w1 = w\<lparr>w_step := w_step w + 1\<rparr>"
  by (auto simp: io_read_def)

lemma exec_tx_ok:
  "exec_stmt Tx st env w = (Inr x, w1) \<Longrightarrow>
   \<exists>n t d. st env n t (w_db w) = Inr (x, d) \<and> w_db w1 = d"
  by (fastforce simp: exec_stmt_def exec_tx_def Let_def split: if_splits option.splits sum.splits)

lemmas io_ok = io_wrap_ok io_bind_ok io_return_ok io_throw_ok io_lift_ok io_read_ok io_then_def

end
