(* ===== verification/Domain_Operators.thy ===== *)
theory Domain_Operators
  imports Domain_Status
begin

text \<open>
  \<open>internal/domain\<close>: array operators, their roles and permissions (\<open>array_operator.go\<close>,
  \<open>permissions.go\<close>, \<open>array_operator_rules.go\<close>) and buoy assignments (\<open>assignment.go\<close>).
\<close>

section \<open>Roles and permissions\<close>

type_synonym ArrayOperatorRole = string

abbreviation RoleAcousticBuoyOperator :: ArrayOperatorRole where
  "RoleAcousticBuoyOperator \<equiv> ''acoustic_buoy_operator''"
abbreviation RoleInstallationOperator :: ArrayOperatorRole where
  "RoleInstallationOperator \<equiv> ''signal_recovery_report_array_operator''"
abbreviation RoleQualityReviewer :: ArrayOperatorRole where
  "RoleQualityReviewer \<equiv> ''quality_reviewer''"
abbreviation RoleSafetySupervisor :: ArrayOperatorRole where
  "RoleSafetySupervisor \<equiv> ''safety_supervisor''"

record ArrayOperator =
  op_ID :: string
  op_Name :: string
  op_Role :: ArrayOperatorRole

definition ArrayOperator_Validate :: "ArrayOperator \<Rightarrow> go_error option" where
  "ArrayOperator_Validate p =
     (if blank (op_ID p) \<or> blank (op_Name p)
        then Some (Errorf ''array_operator identity is required'' conflict)
      else if op_Role p = RoleAcousticBuoyOperator \<or> op_Role p = RoleInstallationOperator \<or>
        op_Role p = RoleQualityReviewer \<or> op_Role p = RoleSafetySupervisor
        then None
      else Some (Errorf ''unknown array_operator role'' conflict))"

definition CanRecordSignalRecoveryReport :: "ArrayOperator \<Rightarrow> bool" where
  "CanRecordSignalRecoveryReport p \<longleftrightarrow>
     (if ArrayOperator_Validate p \<noteq> None then False
      else if op_Role p = RoleInstallationOperator \<or> op_Role p = RoleSafetySupervisor then True
      else False)"

definition ArrayOperator_Can :: "ArrayOperator \<Rightarrow> string \<Rightarrow> bool" where
  "ArrayOperator_Can p action \<longleftrightarrow>
     (if action = ''complete'' \<or> action = ''activation''
        then op_Role p = RoleAcousticBuoyOperator \<or> op_Role p = RoleSafetySupervisor
      else if action = ''record_signal_recovery_report''
        then op_Role p = RoleInstallationOperator \<or> op_Role p = RoleSafetySupervisor
      else if action = ''review_signal_recovery_report''
        then op_Role p = RoleQualityReviewer \<or> op_Role p = RoleSafetySupervisor
      else if action = ''close_survey_mission'' \<or> action = ''archive''
        then op_Role p = RoleSafetySupervisor
      else False)"

type_synonym Permission = string

abbreviation PermissionSurveyMissionWrite :: Permission where
  "PermissionSurveyMissionWrite \<equiv> ''survey_mission:write''"
abbreviation PermissionRecoveryJobComplete :: Permission where
  "PermissionRecoveryJobComplete \<equiv> ''recovery_job:complete''"
abbreviation PermissionSignalRecoveryReportRecord :: Permission where
  "PermissionSignalRecoveryReportRecord \<equiv> ''signal_recovery_report:record''"
abbreviation PermissionSignalRecoveryReportReview :: Permission where
  "PermissionSignalRecoveryReportReview \<equiv> ''signal_recovery_report:review''"
abbreviation PermissionIntegrityIncidentClose :: Permission where
  "PermissionIntegrityIncidentClose \<equiv> ''integrity_incident:close''"

definition Permissions :: "ArrayOperator \<Rightarrow> Permission list" where
  "Permissions p =
     (if op_Role p = RoleAcousticBuoyOperator then [PermissionRecoveryJobComplete]
      else if op_Role p = RoleInstallationOperator then [PermissionSignalRecoveryReportRecord]
      else if op_Role p = RoleQualityReviewer then [PermissionSignalRecoveryReportReview]
      else if op_Role p = RoleSafetySupervisor
        then [PermissionSurveyMissionWrite, PermissionRecoveryJobComplete,
              PermissionSignalRecoveryReportRecord, PermissionSignalRecoveryReportReview,
              PermissionIntegrityIncidentClose]
      else [])"

fun has_item :: "Permission list \<Rightarrow> Permission \<Rightarrow> bool" where
  "has_item [] permission = False"
| "has_item (item # items) permission =
     (if item = permission then True else has_item items permission)"

definition Has :: "ArrayOperator \<Rightarrow> Permission \<Rightarrow> bool" where
  "Has p permission = has_item (Permissions p) permission"

lemma has_item_iff: "has_item items x \<longleftrightarrow> x \<in> set items"
  by (induction items) auto

lemma Has_iff: "Has p x \<longleftrightarrow> x \<in> set (Permissions p)"
  by (simp add: Has_def has_item_iff)

text \<open>The supervisor has every permission there is.\<close>

lemma supervisor_has_all:
  "op_Role p = RoleSafetySupervisor \<Longrightarrow> Has q x \<Longrightarrow> Has p x"
  by (auto simp: Has_iff Permissions_def split: if_splits)

section \<open>Assignments\<close>

record Assignment =
  as_ID :: string
  as_SurveyMissionID :: string
  as_AcousticBuoyID :: string
  as_ArrayOperatorID :: string
  as_StartsAt :: time
  as_EndsAt :: time
  as_Status :: string

definition Assignment_Validate :: "Assignment \<Rightarrow> go_error option" where
  "Assignment_Validate a =
     (if as_ID a = '''' \<or> as_SurveyMissionID a = '''' \<or> as_AcousticBuoyID a = '''' \<or>
        as_ArrayOperatorID a = ''''
        then Some (Errorf ''assignment ids are required'' conflict)
      else if \<not> as_StartsAt a < as_EndsAt a
        then Some (Errorf ''assignment window is invalid'' conflict)
      else if as_Status a \<noteq> ''queued'' \<and> as_Status a \<noteq> ''active'' \<and>
        as_Status a \<noteq> ''completed'' \<and> as_Status a \<noteq> ''cancelled''
        then Some (Errorf ''assignment status is invalid'' conflict)
      else None)"

definition Assignment_ActiveAt :: "Assignment \<Rightarrow> time \<Rightarrow> bool" where
  "Assignment_ActiveAt a now \<longleftrightarrow>
     as_Status a = ''active'' \<and> \<not> now < as_StartsAt a \<and> now < as_EndsAt a"

text \<open>\<open>(sources, true)\<close> is \<open>Some sources\<close>, \<open>(nil, false)\<close> is \<open>None\<close>.\<close>

definition AssignmentSourcesFor :: "string \<Rightarrow> string list option" where
  "AssignmentSourcesFor next =
     map_of [(''active'', [''queued'']), (''completed'', [''active'']),
             (''cancelled'', [''queued'', ''active''])] next"

definition Assignment_CanMoveTo :: "string \<Rightarrow> string \<Rightarrow> bool" where
  "Assignment_CanMoveTo status next \<longleftrightarrow>
     (if status = ''queued'' then next = ''active'' \<or> next = ''cancelled''
      else if status = ''active'' then next = ''completed'' \<or> next = ''cancelled''
      else False)"

lemma assignment_edges: "Assignment_CanMoveTo a b \<longleftrightarrow>
    a = ''queued'' \<and> b = ''active'' \<or> a = ''queued'' \<and> b = ''cancelled'' \<or>
    a = ''active'' \<and> b = ''completed'' \<or> a = ''active'' \<and> b = ''cancelled''"
  unfolding Assignment_CanMoveTo_def by simp

definition assignment_rank :: "string \<Rightarrow> nat" where
  "assignment_rank s = (if s = ''queued'' then 0 else if s = ''active'' then 1 else 2)"

interpretation assignment_life: lifecycle Assignment_CanMoveTo assignment_rank 2
  by unfold_locales
    (unfold assignment_edges, (elim disjE conjE; simp add: assignment_rank_def)?,
      simp add: assignment_rank_def)

lemma sources_CanMoveTo:
  "Assignment_CanMoveTo a b \<longleftrightarrow> (\<exists>srcs. AssignmentSourcesFor b = Some srcs \<and> a \<in> set srcs)"
  unfolding assignment_edges AssignmentSourcesFor_def by simp

lemma sources_None: "AssignmentSourcesFor b = None \<longleftrightarrow> (\<nexists>a. Assignment_CanMoveTo a b)"
  unfolding assignment_edges AssignmentSourcesFor_def by (simp add: ex_disj_distrib)

section \<open>Rules across operators, assignments and reports\<close>

definition CanAssign :: "ArrayOperator \<Rightarrow> Assignment \<Rightarrow> go_error option" where
  "CanAssign array_operator assignment =
     (case ArrayOperator_Validate array_operator of
        Some err \<Rightarrow> Some err
      | None \<Rightarrow>
          if as_ArrayOperatorID assignment \<noteq> op_ID array_operator
            then Some (Errorf ''assignment array_operator mismatch'' conflict)
          else if op_Role array_operator \<noteq> RoleAcousticBuoyOperator \<and>
            op_Role array_operator \<noteq> RoleSafetySupervisor
            then Some (Errorf ''array operator cannot receive a buoy assignment'' conflict)
          else Assignment_Validate assignment)"

definition CanReview :: "ArrayOperator \<Rightarrow> SignalRecoveryReportStatus \<Rightarrow> go_error option" where
  "CanReview array_operator signal_recovery_report =
     (if \<not> Has array_operator PermissionSignalRecoveryReportReview
        then Some (Errorf ''array_operator cannot review signal_recovery_reports'' conflict)
      else if signal_recovery_report \<noteq> SignalRecoveryReportPending
        then Some (Errorf ''signal_recovery_report is already reviewed'' conflict)
      else None)"

text \<open>Permissions and \<open>Can\<close> are two tables over the same roles; they agree wherever a permission
  and an action name the same thing.\<close>

lemma Permissions_agree:
  "Has p PermissionRecoveryJobComplete \<longleftrightarrow> ArrayOperator_Can p ''complete''"
  "Has p PermissionSignalRecoveryReportRecord \<longleftrightarrow>
     ArrayOperator_Can p ''record_signal_recovery_report''"
  "Has p PermissionSignalRecoveryReportReview \<longleftrightarrow>
     ArrayOperator_Can p ''review_signal_recovery_report''"
  "Has p PermissionSurveyMissionWrite \<longleftrightarrow> ArrayOperator_Can p ''close_survey_mission''"
  by (auto simp: Has_iff Permissions_def ArrayOperator_Can_def)

lemma CanRecord_iff: "CanRecordSignalRecoveryReport p \<longleftrightarrow>
    ArrayOperator_Validate p = None \<and> ArrayOperator_Can p ''record_signal_recovery_report''"
  by (auto simp: CanRecordSignalRecoveryReport_def ArrayOperator_Can_def)

lemma CanAssign_None: "CanAssign p a = None \<longleftrightarrow>
    ArrayOperator_Validate p = None \<and> Assignment_Validate a = None \<and>
    as_ArrayOperatorID a = op_ID p \<and> ArrayOperator_Can p ''complete''"
  by (auto simp: CanAssign_def ArrayOperator_Can_def split: option.splits)

section \<open>Properties\<close>

text \<open>The permission list, the action table and the review and assignment rules say the same
  about a role: an operator may review exactly if the action table says so and the report is
  pending; a valid operator may take a valid assignment in its own name exactly if the action
  table lets it complete jobs; and a role the program does not know has no rights at all.\<close>

theorem role_rules_agree:
  "(CanReview p r = None \<longleftrightarrow>
      ArrayOperator_Can p ''review_signal_recovery_report'' \<and> r = SignalRecoveryReportPending) \<and>
   (CanAssign p a = None \<longleftrightarrow>
      ArrayOperator_Validate p = None \<and> Assignment_Validate a = None \<and>
      as_ArrayOperatorID a = op_ID p \<and> ArrayOperator_Can p ''complete'') \<and>
   (Has p PermissionSurveyMissionWrite \<longleftrightarrow> ArrayOperator_Can p ''close_survey_mission'') \<and>
   (ArrayOperator_Can p action \<or> Has p x \<longrightarrow>
      op_Role p \<in> {RoleAcousticBuoyOperator, RoleInstallationOperator, RoleQualityReviewer,
        RoleSafetySupervisor})"
proof -
  have "CanReview p r = None \<longleftrightarrow>
      ArrayOperator_Can p ''review_signal_recovery_report'' \<and> r = SignalRecoveryReportPending"
    unfolding CanReview_def Permissions_agree by simp
  moreover have "ArrayOperator_Can p action \<or> Has p x \<longrightarrow>
      op_Role p \<in> {RoleAcousticBuoyOperator, RoleInstallationOperator, RoleQualityReviewer,
        RoleSafetySupervisor}"
    by (auto simp: ArrayOperator_Can_def Has_iff Permissions_def split: if_splits)
  ultimately show ?thesis using CanAssign_None Permissions_agree(4) by blast
qed

theorem role_rules_agree_witness:
  "op_Role \<lparr>op_ID = ''o'', op_Name = ''n'', op_Role = ''quality_reviewer''\<rparr> \<in>
     {RoleAcousticBuoyOperator, RoleInstallationOperator, RoleQualityReviewer, RoleSafetySupervisor}"
  using role_rules_agree[of "\<lparr>op_ID = ''o'', op_Name = ''n'', op_Role = ''quality_reviewer''\<rparr>"
      "''pending''" _ "''review_signal_recovery_report''" "''''"]
  by (simp add: ArrayOperator_Can_def)

text \<open>The source lists the repository's update is guarded with are the transition table of
  assignments read backwards: a status is among the sources of another exactly if the table lets
  an assignment go from the one to the other, and a status without sources is never entered. No
  assignment changes its status more than twice.\<close>

theorem assignment_sources:
  "(Assignment_CanMoveTo a b \<longleftrightarrow> (\<exists>srcs. AssignmentSourcesFor b = Some srcs \<and> a \<in> set srcs)) \<and>
   (AssignmentSourcesFor b = None \<longleftrightarrow> (\<nexists>c. Assignment_CanMoveTo c b)) \<and>
   (successively Assignment_CanMoveTo (a # path) \<longrightarrow> distinct (a # path) \<and> length path \<le> 2)"
  using sources_CanMoveTo sources_None assignment_life.run_distinct[of "a # path"]
    assignment_life.run_length[of a path] by auto

theorem assignment_sources_witness:
  "length [''active'', ''completed''] \<le> 2 \<and> Assignment_CanMoveTo ''active'' ''completed''"
  using assignment_sources[of "''queued''" "''active''" "[''active'', ''completed'']"]
  by (simp add: assignment_edges)

end
