(* ===== verification/Domain_Rules.thy ===== *)
theory Domain_Rules
  imports Domain_Operators
begin

text \<open>
  \<open>internal/domain\<close>: the validation rules. Bulk registration (\<open>bulk.go\<close>), constraint sets
  (\<open>constraints.go\<close>), dive windows (\<open>round.go\<close>), integrity incidents (\<open>intervention.go\<close>),
  chamber loads and release evidence (\<open>link_policy.go\<close>), \<open>limits.go\<close> and \<open>validation.go\<close>.
\<close>

section \<open>Bulk registration\<close>

record RecoveryJobRequest =
  rq_SurveyMissionID :: string
  rq_AcousticBuoyID :: string
  rq_TaskCode :: string
  rq_ExpiresAt :: time

record BulkItemResult =
  bi_Index :: nat
  bi_TaskCode :: string
  bi_RecoveryJobID :: string
  bi_Error :: string

definition RecoveryJobRequest_Validate :: "RecoveryJobRequest \<Rightarrow> time \<Rightarrow> go_error option" where
  "RecoveryJobRequest_Validate r now =
     (if blank (rq_SurveyMissionID r) \<or> blank (rq_AcousticBuoyID r) \<or> blank (rq_TaskCode r)
        then Some (Errorf ''task survey_mission, acoustic_buoy and code are required'' conflict)
      else if rq_ExpiresAt r < now then Some expired
      else None)"

fun validate_bulk_loop ::
  "string set \<Rightarrow> RecoveryJobRequest list \<Rightarrow> time \<Rightarrow> go_error option" where
  "validate_bulk_loop seen [] now = None"
| "validate_bulk_loop seen (request # requests) now =
     (case RecoveryJobRequest_Validate request now of
        Some err \<Rightarrow> Some err
      | None \<Rightarrow>
          if rq_TaskCode request \<in> seen
            then Some (Errorf (''duplicate external code '' @ rq_TaskCode request) conflict)
          else validate_bulk_loop (insert (rq_TaskCode request) seen) requests now)"

definition ValidateBulkRequests :: "RecoveryJobRequest list \<Rightarrow> time \<Rightarrow> go_error option" where
  "ValidateBulkRequests requests now = validate_bulk_loop {} requests now"

lemma validate_bulk_loop_None:
  "validate_bulk_loop seen requests now = None \<longleftrightarrow>
     (\<forall>r \<in> set requests. RecoveryJobRequest_Validate r now = None) \<and>
     distinct (map rq_TaskCode requests) \<and> seen \<inter> rq_TaskCode ` set requests = {}"
  by (induction seen requests now rule: validate_bulk_loop.induct) (auto split: option.splits)

lemma ValidateBulkRequests_None:
  "ValidateBulkRequests requests now = None \<longleftrightarrow>
     (\<forall>r \<in> set requests. RecoveryJobRequest_Validate r now = None) \<and>
     distinct (map rq_TaskCode requests)"
  by (simp add: ValidateBulkRequests_def validate_bulk_loop_None)

section \<open>Constraint sets\<close>

record ConstraintSet =
  cs_MaxRecoveryJobsPerDiveWindow :: int
  cs_MinimumRemainingTTL :: duration
  cs_RequireActivationChain :: bool

definition ConstraintSet_Validate :: "ConstraintSet \<Rightarrow> go_error option" where
  "ConstraintSet_Validate c =
     (if cs_MaxRecoveryJobsPerDiveWindow c < 1
        then Some (Errorf ''max recovery_jobs per dive_window must be positive'' conflict)
      else if cs_MinimumRemainingTTL c < 0
        then Some (Errorf ''minimum ttl cannot be negative'' conflict)
      else None)"

definition AllowsRecoveryJob :: "ConstraintSet \<Rightarrow> RecoveryJob \<Rightarrow> time \<Rightarrow> bool" where
  "AllowsRecoveryJob c task now \<longleftrightarrow>
     (if rj_Status task \<noteq> RecoveryJobAccepted then False
      else cs_MinimumRemainingTTL c \<le> time_Sub (rj_ExpiresAt task) now)"

fun same_mission_loop :: "string \<Rightarrow> RecoveryJob list \<Rightarrow> bool" where
  "same_mission_loop survey_mission [] = True"
| "same_mission_loop survey_mission (task # tasks) =
     (if rj_SurveyMissionID task \<noteq> survey_mission then False
      else same_mission_loop survey_mission tasks)"

definition SameSurveyMission :: "RecoveryJob list \<Rightarrow> bool" where
  "SameSurveyMission recovery_jobs =
     (if length recovery_jobs < 2 then True
      else same_mission_loop (rj_SurveyMissionID (hd recovery_jobs)) (tl recovery_jobs))"

lemma same_mission_loop_iff: "same_mission_loop m js \<longleftrightarrow> (\<forall>j \<in> set js. rj_SurveyMissionID j = m)"
  by (induction m js rule: same_mission_loop.induct) auto

lemma SameSurveyMission_iff:
  "SameSurveyMission js \<longleftrightarrow>
     (\<forall>a \<in> set js. \<forall>b \<in> set js. rj_SurveyMissionID a = rj_SurveyMissionID b)"
  by (cases js) (auto simp: SameSurveyMission_def same_mission_loop_iff less_Suc_eq)

text \<open>A valid constraint set lets through only jobs that \<open>CanBePerformed\<close> lets through too.\<close>

lemma AllowsRecoveryJob_performable:
  "ConstraintSet_Validate c = None \<Longrightarrow> AllowsRecoveryJob c task now \<Longrightarrow>
   CanBePerformed task now = None"
  by (auto simp: ConstraintSet_Validate_def AllowsRecoveryJob_def CanBePerformed_def time_Sub_def
      split: if_splits)

section \<open>Dive windows\<close>

record DiveWindow =
  dw_ID :: string
  dw_Code :: string
  dw_Status :: DiveWindowStatus
  dw_Method :: string
  dw_Capacity :: int
  dw_RecoveryJobs :: "string list"
  dw_Version :: int

definition DiveWindow_Validate :: "DiveWindow \<Rightarrow> go_error option" where
  "DiveWindow_Validate b =
     (if blank (dw_Code b) \<or> blank (dw_Method b)
        then Some (Errorf ''acoustic_buoy round code and method are required'' conflict)
      else if dw_Capacity b < 1
        then Some (Errorf ''acoustic_buoy round capacity must be positive'' conflict)
      else if dw_Capacity b < int (length (dw_RecoveryJobs b)) then Some capacity_exceeded
      else None)"

fun add_jobs_loop :: "string set \<Rightarrow> string list \<Rightarrow> go_error option" where
  "add_jobs_loop seen [] = None"
| "add_jobs_loop seen (i # ids) =
     (if blank i then Some (Errorf ''task id is empty'' conflict)
      else if i \<in> seen
        then Some (Errorf ''duplicate task in acoustic_buoy round'' conflict)
      else add_jobs_loop (insert i seen) ids)"

definition AddRecoveryJobs :: "DiveWindow \<Rightarrow> string list \<Rightarrow> DiveWindow result" where
  "AddRecoveryJobs b ids =
     guard_err (add_jobs_loop (set (dw_RecoveryJobs b)) ids)
       (if dw_Capacity b < int (length (dw_RecoveryJobs b) + length ids)
          then Inl capacity_exceeded
        else Inr (b\<lparr>dw_RecoveryJobs := dw_RecoveryJobs b @ ids\<rparr>))"

lemma add_jobs_loop_None: "add_jobs_loop seen ids = None \<longleftrightarrow>
    (\<forall>i \<in> set ids. \<not> blank i) \<and> distinct ids \<and> seen \<inter> set ids = {}"
  by (induction seen ids rule: add_jobs_loop.induct) auto

lemma AddRecoveryJobs_Inr: "AddRecoveryJobs b ids = Inr b' \<longleftrightarrow>
    (\<forall>i \<in> set ids. \<not> blank i) \<and> distinct ids \<and> set (dw_RecoveryJobs b) \<inter> set ids = {} \<and>
    int (length (dw_RecoveryJobs b) + length ids) \<le> dw_Capacity b \<and>
    b' = b\<lparr>dw_RecoveryJobs := dw_RecoveryJobs b @ ids\<rparr>"
  unfolding AddRecoveryJobs_def guard_err_Inr add_jobs_loop_None
  by (simp add: linorder_not_less eq_commute)

section \<open>Integrity incidents\<close>

type_synonym IntegrityIncidentStatus = string

abbreviation IntegrityIncidentOpen :: IntegrityIncidentStatus where
  "IntegrityIncidentOpen \<equiv> ''open''"
abbreviation IntegrityIncidentInProgress :: IntegrityIncidentStatus where
  "IntegrityIncidentInProgress \<equiv> ''in_progress''"
abbreviation IntegrityIncidentClosed :: IntegrityIncidentStatus where
  "IntegrityIncidentClosed \<equiv> ''closed''"

record IntegrityIncident =
  ii_ID :: string
  ii_RecoveryJobID :: string
  ii_Kind :: string
  ii_Status :: IntegrityIncidentStatus
  ii_Reason :: string
  ii_DueAt :: time
  ii_ClosedAt :: "time option"

definition IntegrityIncident_Validate :: "IntegrityIncident \<Rightarrow> time \<Rightarrow> go_error option" where
  "IntegrityIncident_Validate d now =
     (if ii_RecoveryJobID d = '''' \<or> blank (ii_Kind d) \<or> blank (ii_Reason d)
        then Some (Errorf ''safety_alert fields are required'' conflict)
      else if \<not> (ii_Kind d = ''reassess'' \<or> ii_Kind d = ''repeat_acoustic_buoy'' \<or>
        ii_Kind d = ''safety_adjustment'' \<or> ii_Kind d = ''close_record'')
        then Some (Errorf ''safety_alert kind is invalid'' conflict)
      else if ii_DueAt d < now + (- 24 * hour)
        then Some (Errorf ''safety_alert due time is too old'' conflict)
      else if ii_Status d = IntegrityIncidentClosed \<and> ii_ClosedAt d = None
        then Some (Errorf ''closed safety_alert needs closed_at'' conflict)
      else None)"

definition IsDue :: "IntegrityIncident \<Rightarrow> time \<Rightarrow> bool" where
  "IsDue d now \<longleftrightarrow> ii_Status d \<noteq> IntegrityIncidentClosed \<and> \<not> now < ii_DueAt d"

section \<open>Chamber loads and release evidence\<close>

definition EnsureLimit :: "int \<Rightarrow> int \<Rightarrow> string \<Rightarrow> go_error option" where
  "EnsureLimit value limit name =
     (if value < 0 \<or> limit < value
        then Some (Errorf (name @ '' exceeds limit'') capacity_exceeded)
      else None)"

type_synonym SpecimenMaterial = string

abbreviation MaterialPaper :: SpecimenMaterial where "MaterialPaper \<equiv> ''paper''"
abbreviation MaterialTextile :: SpecimenMaterial where "MaterialTextile \<equiv> ''textile''"
abbreviation MaterialWood :: SpecimenMaterial where "MaterialWood \<equiv> ''wood''"
abbreviation MaterialMetal :: SpecimenMaterial where "MaterialMetal \<equiv> ''metal''"
abbreviation MaterialWet :: SpecimenMaterial where "MaterialWet \<equiv> ''wet''"

record ChamberLoad =
  cl_LotID :: string
  cl_Material :: SpecimenMaterial
  cl_VolumeLitres :: int
  cl_RequiresAnoxia :: bool

record ReleaseEvidence =
  re_CycleID :: string
  re_TreatmentPPM :: float64
  re_ResidualPPM :: float64
  re_TreatmentMeasuredAt :: time
  re_ResidualMeasuredAt :: time
  re_OperatorID :: string
  re_ReviewerID :: string

text \<open>The loop over the loads returns the total, an \<open>int\<close> that wraps like the code's.\<close>

fun chamber_loop :: "bool \<Rightarrow> string set \<Rightarrow> int \<Rightarrow> ChamberLoad list \<Rightarrow> int result" where
  "chamber_loop mode seen acc [] = Inr acc"
| "chamber_loop mode seen acc (load # loads) =
     (if blank (cl_LotID load) \<or> cl_VolumeLitres load \<le> 0
        then Inl (Errorf ''invalid specimen lot'' conflict)
      else if cl_LotID load \<in> seen
        then Inl (Errorf (''duplicate specimen lot '' @ cl_LotID load) conflict)
      else if cl_Material load = MaterialWet \<or> cl_RequiresAnoxia load \<noteq> mode
        then Inl (Errorf (''lot '' @ cl_LotID load @ '' cannot share this cycle'')
               (Sentinel (PolicyErr ErrIncompatibleLoad)))
      else chamber_loop mode (insert (cl_LotID load) seen)
             (wrap64 (acc + cl_VolumeLitres load)) loads)"

definition ValidateChamberLoad :: "int \<Rightarrow> ChamberLoad list \<Rightarrow> go_error option" where
  "ValidateChamberLoad capacityLitres loads =
     (if capacityLitres \<le> 0 \<or> loads = []
        then Some (Errorf ''invalid chamber loading plan'' conflict)
      else case chamber_loop (cl_RequiresAnoxia (hd loads)) {} 0 loads of
          Inl err \<Rightarrow> Some err
        | Inr acc \<Rightarrow>
            if capacityLitres < acc
              then Some (Errorf ''planned volume exceeds chamber capacity'' conflict)
            else None)"

definition load_ok :: "bool \<Rightarrow> ChamberLoad \<Rightarrow> bool" where
  "load_ok mode load \<longleftrightarrow> \<not> blank (cl_LotID load) \<and> 0 < cl_VolumeLitres load \<and>
     cl_Material load \<noteq> MaterialWet \<and> cl_RequiresAnoxia load = mode"

definition load_total :: "ChamberLoad list \<Rightarrow> int" where
  "load_total loads = sum_list (map cl_VolumeLitres loads)"

lemma chamber_loop_Inr: "is_int64 acc \<Longrightarrow>
    chamber_loop mode seen acc loads = Inr t \<longleftrightarrow>
    list_all (load_ok mode) loads \<and> distinct (map cl_LotID loads) \<and>
    seen \<inter> cl_LotID ` set loads = {} \<and> t = wrap64 (acc + load_total loads)"
proof (induction mode seen acc loads rule: chamber_loop.induct)
  case (1 mode seen acc)
  then show ?case by (auto simp: load_total_def)
next
  case (2 mode seen acc load loads)
  show ?case
  proof (cases "load_ok mode load \<and> cl_LotID load \<notin> seen")
    case True
    then have step: "chamber_loop mode seen acc (load # loads) =
        chamber_loop mode (insert (cl_LotID load) seen) (wrap64 (acc + cl_VolumeLitres load)) loads"
      by (simp add: load_ok_def)
    have rest: "chamber_loop mode (insert (cl_LotID load) seen)
        (wrap64 (acc + cl_VolumeLitres load)) loads = Inr t \<longleftrightarrow>
      list_all (load_ok mode) loads \<and> distinct (map cl_LotID loads) \<and>
      insert (cl_LotID load) seen \<inter> cl_LotID ` set loads = {} \<and>
      t = wrap64 (wrap64 (acc + cl_VolumeLitres load) + load_total loads)"
    proof (rule 2(1))
      show "\<not> (blank (cl_LotID load) \<or> cl_VolumeLitres load \<le> 0)" "cl_LotID load \<notin> seen"
        "\<not> (cl_Material load = MaterialWet \<or> cl_RequiresAnoxia load \<noteq> mode)"
        using True by (auto simp: load_ok_def)
    qed (rule wrap64_range)
    have sum: "wrap64 (wrap64 (acc + cl_VolumeLitres load) + load_total loads) =
        wrap64 (acc + load_total (load # loads))"
      by (simp add: load_total_def add.assoc)
    show ?thesis unfolding step rest sum using True by auto
  next
    case False
    then show ?thesis by (auto simp: load_ok_def)
  qed
qed

lemma ValidateChamberLoad_None: "ValidateChamberLoad capacity loads = None \<longleftrightarrow>
    0 < capacity \<and> loads \<noteq> [] \<and>
    list_all (load_ok (cl_RequiresAnoxia (hd loads))) loads \<and>
    distinct (map cl_LotID loads) \<and> wrap64 (load_total loads) \<le> capacity"
proof -
  let ?run = "chamber_loop (cl_RequiresAnoxia (hd loads)) {} 0 loads"
  have "is_int64 0" by (simp add: is_int64_def)
  note run = chamber_loop_Inr[OF this, of "cl_RequiresAnoxia (hd loads)" "{}" loads]
  show ?thesis
  proof (cases ?run)
    case (Inl e)
    then show ?thesis using run[of "wrap64 (load_total loads)"] by (auto simp: ValidateChamberLoad_def)
  next
    case (Inr t)
    then have "list_all (load_ok (cl_RequiresAnoxia (hd loads))) loads" "distinct (map cl_LotID loads)"
      and t: "t = wrap64 (load_total loads)"
      using run[of t] by auto
    with Inr show ?thesis by (auto simp: ValidateChamberLoad_def)
  qed
qed

lemma load_total_pos: "list_all (load_ok mode) loads \<Longrightarrow> 0 \<le> load_total loads"
  by (induction loads) (auto simp: load_total_def load_ok_def)

definition ValidateReleaseEvidence :: "time \<Rightarrow> ReleaseEvidence \<Rightarrow> go_error option" where
  "ValidateReleaseEvidence now evidence =
     (if blank (re_CycleID evidence) \<or> blank (re_OperatorID evidence) \<or>
        blank (re_ReviewerID evidence)
        then Some (Errorf ''release evidence is incomplete'' conflict)
      else if re_OperatorID evidence = re_ReviewerID evidence
        then Some (Errorf ''release requires an independent reviewer''
               (Sentinel (PolicyErr ErrReleaseBlocked)))
      else if re_TreatmentPPM evidence < Fin 450 \<or> Fin 1 < re_ResidualPPM evidence
        then Some (Errorf ''installation readings do not satisfy release thresholds''
               (Sentinel (PolicyErr ErrReleaseBlocked)))
      else if IsZero (re_TreatmentMeasuredAt evidence) \<or> IsZero (re_ResidualMeasuredAt evidence) \<or>
        re_ResidualMeasuredAt evidence < re_TreatmentMeasuredAt evidence
        then Some (Errorf ''gas sample chronology is invalid''
               (Sentinel (PolicyErr ErrReleaseBlocked)))
      else if 2 * hour < time_Sub now (re_ResidualMeasuredAt evidence) \<or>
        now + minute < re_ResidualMeasuredAt evidence
        then Some (Errorf ''residual sample is stale or future-dated''
               (Sentinel (PolicyErr ErrReleaseBlocked)))
      else None)"

section \<open>Field validation\<close>

definition code_head :: "char \<Rightarrow> bool" where
  "code_head c \<longleftrightarrow> (CHR ''A'' \<le> c \<and> c \<le> CHR ''Z'') \<or> (CHR ''0'' \<le> c \<and> c \<le> CHR ''9'')"

text \<open>\<open>^[A-Z0-9][A-Z0-9_-]{2,31}$\<close>: every byte of a match is ASCII, so bytes and runes agree.\<close>

definition codePattern_MatchString :: "string \<Rightarrow> bool" where
  "codePattern_MatchString s \<longleftrightarrow>
     (case s of
        [] \<Rightarrow> False
      | c # cs \<Rightarrow> code_head c \<and> 2 \<le> length cs \<and> length cs \<le> 31 \<and>
          list_all (\<lambda>d. code_head d \<or> d = CHR ''_'' \<or> d = CHR ''-'') cs)"

definition ValidateBusinessCode :: "string \<Rightarrow> go_error option" where
  "ValidateBusinessCode value =
     (if \<not> codePattern_MatchString (TrimSpace value)
        then Some (Errorf (''business code '' @ TrimSpace value @ '' is invalid'') conflict)
      else None)"

text \<open>\<open>time.Time\<close> with its location: only whether it is \<open>time.UTC\<close> is looked at.\<close>

record located_time =
  lt_Instant :: time
  lt_UTC :: bool

definition ValidateUTCWindow :: "located_time \<Rightarrow> located_time \<Rightarrow> go_error option" where
  "ValidateUTCWindow start end_time =
     (if IsZero (lt_Instant start) \<or> IsZero (lt_Instant end_time)
        then Some (Errorf ''window endpoints are required'' conflict)
      else if \<not> lt_Instant start < lt_Instant end_time
        then Some (Errorf ''window end must be after start'' conflict)
      else if \<not> lt_UTC start \<or> \<not> lt_UTC end_time
        then Some (Errorf ''window must use UTC'' conflict)
      else None)"

definition ValidatePositiveVersion :: "int \<Rightarrow> go_error option" where
  "ValidatePositiveVersion version =
     (if version < 1 then Some (Errorf ''version must be positive'' conflict) else None)"

definition ValidatePage :: "int \<Rightarrow> int \<Rightarrow> go_error option" where
  "ValidatePage offset limit =
     (if offset < 0 \<or> limit < 1 \<or> 100 < limit
        then Some (Errorf ''page bounds are invalid'' conflict) else None)"

definition ValidateSignalRecoveryReport ::
  "float64 \<Rightarrow> float64 \<Rightarrow> string \<Rightarrow> go_error option" where
  "ValidateSignalRecoveryReport riskScore alertThreshold scale =
     (if IsNaN riskScore \<or> IsNaN alertThreshold \<or> IsInf riskScore \<or> IsInf alertThreshold \<or>
        riskScore < Fin 0 \<or> alertThreshold < Fin 0
        then Some (Errorf ''signal_recovery_report scores cannot be negative'' conflict)
      else if blank scale then Some (Errorf ''signal_recovery_report scale is required'' conflict)
      else None)"

definition ValidateReason :: "string \<Rightarrow> go_error option" where
  "ValidateReason reason =
     (if length (TrimSpace reason) < 3 then Some (Errorf ''reason is too short'' conflict)
      else None)"

lemma ValidateSignalRecoveryReport_None:
  "ValidateSignalRecoveryReport risk threshold scale = None \<longleftrightarrow>
   (\<exists>a b. risk = Fin a \<and> threshold = Fin b \<and> 0 \<le> a \<and> 0 \<le> b) \<and> \<not> blank scale"
  by (cases risk; cases threshold) (auto simp: ValidateSignalRecoveryReport_def)

text \<open>On validated scores the decision on a report never fails and is the comparison of the two
  numbers.\<close>

lemma Decision_valid:
  "ValidateSignalRecoveryReport (Fin a) (Fin b) scale = None \<Longrightarrow>
   SignalRecoveryReportDecision (Fin a) (Fin b) =
     Inr (if b < a then SignalRecoveryReportRejected else SignalRecoveryReportVerified)"
  by (auto simp: ValidateSignalRecoveryReport_None SignalRecoveryReportDecision_def)

section \<open>Properties\<close>

text \<open>A bulk request is accepted exactly if each of its items is valid on its own and no two
  items carry the same task code.\<close>

theorem bulk_requests_valid:
  "ValidateBulkRequests requests now = None \<longleftrightarrow>
     list_all (\<lambda>r. RecoveryJobRequest_Validate r now = None) requests \<and>
     distinct (map rq_TaskCode requests)"
  by (simp add: ValidateBulkRequests_None list_all_iff)

text \<open>Jobs are added to a dive window exactly if their ids are not blank, new and pairwise
  different, and fit the capacity. The result lists the old jobs and then the new ones, keeps
  every other field, and a valid window with distinct jobs stays one.\<close>

theorem add_jobs_correct:
  "(AddRecoveryJobs b ids = Inr b' \<longleftrightarrow>
      list_all (\<lambda>i. \<not> blank i) ids \<and> distinct ids \<and> set (dw_RecoveryJobs b) \<inter> set ids = {} \<and>
      int (length (dw_RecoveryJobs b) + length ids) \<le> dw_Capacity b \<and>
      b' = b\<lparr>dw_RecoveryJobs := dw_RecoveryJobs b @ ids\<rparr>) \<and>
   (AddRecoveryJobs b ids = Inr b' \<longrightarrow> DiveWindow_Validate b = None \<longrightarrow>
      distinct (dw_RecoveryJobs b) \<longrightarrow>
      DiveWindow_Validate b' = None \<and> distinct (dw_RecoveryJobs b'))"
proof -
  have "DiveWindow_Validate b' = None \<and> distinct (dw_RecoveryJobs b')"
    if "AddRecoveryJobs b ids = Inr b'" "DiveWindow_Validate b = None" "distinct (dw_RecoveryJobs b)"
    using that unfolding AddRecoveryJobs_Inr by (auto simp: DiveWindow_Validate_def split: if_splits)
  then show ?thesis by (simp add: AddRecoveryJobs_Inr list_all_iff)
qed

theorem add_jobs_correct_witness:
  "distinct [''a'', ''b'', ''c'']"
  using add_jobs_correct[of
      "\<lparr>dw_ID = ''w'', dw_Code = ''W-1'', dw_Status = ''queued'', dw_Method = ''dive'',
        dw_Capacity = 3, dw_RecoveryJobs = [''a''], dw_Version = 1\<rparr>"
      "[''b'', ''c'']"
      "\<lparr>dw_ID = ''w'', dw_Code = ''W-1'', dw_Status = ''queued'', dw_Method = ''dive'',
        dw_Capacity = 3, dw_RecoveryJobs = [''a'', ''b'', ''c''], dw_Version = 1\<rparr>"]
  by simp

text \<open>C14: what a chamber load plan has to satisfy to be accepted. The volume is compared after an
  addition that wraps: a plan whose true volume fits in an \<open>int\<close> is accepted only within the
  capacity, but two lots of \<open>2^62\<close> litres are accepted for a chamber of one litre.\<close>

theorem chamber_load_valid:
  "(ValidateChamberLoad capacity loads = None \<longleftrightarrow>
      0 < capacity \<and> loads \<noteq> [] \<and> list_all (load_ok (cl_RequiresAnoxia (hd loads))) loads \<and>
      distinct (map cl_LotID loads) \<and> wrap64 (load_total loads) \<le> capacity) \<and>
   (load_total loads < 2 ^ 63 \<longrightarrow> ValidateChamberLoad capacity loads = None \<longrightarrow>
      load_total loads \<le> capacity) \<and>
   ValidateChamberLoad 1
     [\<lparr>cl_LotID = ''a'', cl_Material = MaterialWood, cl_VolumeLitres = 2 ^ 62, cl_RequiresAnoxia = True\<rparr>,
      \<lparr>cl_LotID = ''b'', cl_Material = MaterialWood, cl_VolumeLitres = 2 ^ 62, cl_RequiresAnoxia = True\<rparr>]
     = None"
proof -
  have "load_total loads \<le> capacity"
    if "load_total loads < 2 ^ 63" "ValidateChamberLoad capacity loads = None"
  proof -
    have ok: "list_all (load_ok (cl_RequiresAnoxia (hd loads))) loads"
      "wrap64 (load_total loads) \<le> capacity"
      using that(2) unfolding ValidateChamberLoad_None by auto
    have "is_int64 (load_total loads)"
      using that(1) load_total_pos[OF ok(1)] by (simp add: is_int64_def)
    with ok(2) show ?thesis by simp
  qed
  then show ?thesis
    unfolding ValidateChamberLoad_None by (simp add: load_ok_def load_total_def wrap64_def) code_simp
qed

theorem chamber_load_valid_witness:
  "ValidateChamberLoad 5
     [\<lparr>cl_LotID = ''a'', cl_Material = MaterialWood, cl_VolumeLitres = 3, cl_RequiresAnoxia = True\<rparr>] = None
   \<and> (3::int) \<le> 5"
proof -
  let ?l = "[\<lparr>cl_LotID = ''a'', cl_Material = MaterialWood, cl_VolumeLitres = 3, cl_RequiresAnoxia = True\<rparr>]"
  have ok: "ValidateChamberLoad 5 ?l = None" by code_simp
  have "load_total ?l \<le> 5"
    using chamber_load_valid[of 5 ?l] ok by (simp add: load_total_def)
  then show ?thesis using ok by (simp add: load_total_def)
qed

text \<open>C15: evidence releases a load only if operator and reviewer are both named and differ, the
  residual sample comes after the treatment and is at most two hours old and at most a minute
  ahead of the clock; and a reading that is a number meets its threshold. Whatever is refused on
  one of these grounds but the first is refused as blocked.\<close>

theorem release_evidence_safe:
  "(ValidateReleaseEvidence now e = None \<longrightarrow>
      re_OperatorID e \<noteq> re_ReviewerID e \<and> \<not> blank (re_OperatorID e) \<and> \<not> blank (re_ReviewerID e) \<and>
      re_TreatmentMeasuredAt e \<le> re_ResidualMeasuredAt e \<and>
      now - re_ResidualMeasuredAt e \<le> 2 * hour \<and> re_ResidualMeasuredAt e \<le> now + minute \<and>
      (IsNaN (re_TreatmentPPM e) \<or> Fin 450 \<le> re_TreatmentPPM e) \<and>
      (IsNaN (re_ResidualPPM e) \<or> re_ResidualPPM e \<le> Fin 1)) \<and>
   (ValidateReleaseEvidence now e = Some err \<longrightarrow>
      errors_Is err (PolicyErr ErrReleaseBlocked) \<or>
      blank (re_CycleID e) \<or> blank (re_OperatorID e) \<or> blank (re_ReviewerID e))"
proof -
  have stale: "2 * hour < time_Sub now t \<longleftrightarrow> 2 * hour < now - t" for t
    using time_Sub_le_iff[of "2 * hour" now t] by (simp add: linorder_not_le[symmetric])
  have below: "IsNaN x \<or> Fin 450 \<le> x" if "\<not> x < Fin 450" for x
    using that float64_not_less[of x "Fin 450"] by auto
  have above: "IsNaN x \<or> x \<le> Fin 1" if "\<not> Fin 1 < x" for x
    using that float64_not_less[of "Fin 1" x] by auto
  have "ValidateReleaseEvidence now e = None \<longleftrightarrow>
      \<not> blank (re_CycleID e) \<and> \<not> blank (re_OperatorID e) \<and> \<not> blank (re_ReviewerID e) \<and>
      re_OperatorID e \<noteq> re_ReviewerID e \<and> \<not> re_TreatmentPPM e < Fin 450 \<and>
      \<not> Fin 1 < re_ResidualPPM e \<and> \<not> IsZero (re_TreatmentMeasuredAt e) \<and>
      \<not> IsZero (re_ResidualMeasuredAt e) \<and>
      re_TreatmentMeasuredAt e \<le> re_ResidualMeasuredAt e \<and>
      now - re_ResidualMeasuredAt e \<le> 2 * hour \<and> re_ResidualMeasuredAt e \<le> now + minute"
    unfolding ValidateReleaseEvidence_def stale by (simp add: linorder_not_less linorder_not_le)
  moreover have "errors_Is err (PolicyErr ErrReleaseBlocked) \<or>
      blank (re_CycleID e) \<or> blank (re_OperatorID e) \<or> blank (re_ReviewerID e)"
    if "ValidateReleaseEvidence now e = Some err"
    using that by (auto simp: ValidateReleaseEvidence_def split: if_splits)
  ultimately show ?thesis using below above by blast
qed

theorem release_evidence_safe_witness:
  "''op'' \<noteq> ''rev'' \<and>
   ValidateReleaseEvidence 9000000000000
     \<lparr>re_CycleID = ''c'', re_TreatmentPPM = Fin 500, re_ResidualPPM = Fin (1/2),
      re_TreatmentMeasuredAt = 8000000000000, re_ResidualMeasuredAt = 8500000000000,
      re_OperatorID = ''op'', re_ReviewerID = ''rev''\<rparr> = None"
proof -
  let ?e = "\<lparr>re_CycleID = ''c'', re_TreatmentPPM = Fin 500, re_ResidualPPM = Fin (1/2),
      re_TreatmentMeasuredAt = 8000000000000, re_ResidualMeasuredAt = 8500000000000,
      re_OperatorID = ''op'', re_ReviewerID = ''rev''\<rparr>"
  have "ValidateReleaseEvidence 9000000000000 ?e = None" by code_simp
  then show ?thesis using release_evidence_safe[of 9000000000000 ?e] by simp
qed

end
