(* ===== verification/Domain_Views.thy ===== *)
theory Domain_Views
  imports Domain_Rules
begin

text \<open>
  \<open>internal/domain\<close>: what is computed from stored records. Filters (\<open>filter.go\<close>), search
  (\<open>search.go\<close>), labels, progress, compliance reports, redaction and status counts; and
  \<open>internal/pagination\<close> and \<open>internal/clock\<close>.

  \<open>strings.ToLower\<close> maps runes by the Unicode tables of the Go release; it is the argument
  \<open>lower\<close>, and the results hold for every such mapping.
\<close>

section \<open>Filters and search\<close>

record RecoveryJobFilter =
  fl_SurveyMissionID :: string
  fl_Status :: RecoveryJobStatus
  fl_Search :: string

definition Filter_Normalize :: "(string \<Rightarrow> string) \<Rightarrow> RecoveryJobFilter \<Rightarrow> RecoveryJobFilter" where
  "Filter_Normalize lower f =
     f\<lparr>fl_SurveyMissionID := TrimSpace (fl_SurveyMissionID f),
       fl_Search := TrimSpace (lower (fl_Search f))\<rparr>"

definition Filter_Matches ::
  "(string \<Rightarrow> string) \<Rightarrow> RecoveryJobFilter \<Rightarrow> RecoveryJob \<Rightarrow> bool" where
  "Filter_Matches lower f0 s \<longleftrightarrow>
     (let f = Filter_Normalize lower f0 in
      if fl_SurveyMissionID f \<noteq> '''' \<and> rj_SurveyMissionID s \<noteq> fl_SurveyMissionID f then False
      else if fl_Status f \<noteq> '''' \<and> rj_Status s \<noteq> fl_Status f then False
      else if fl_Search f \<noteq> '''' \<and> \<not> Contains (lower (rj_TaskCode s)) (fl_Search f) then False
      else True)"

type_synonym SortField = string

abbreviation SortCreated :: SortField where "SortCreated \<equiv> ''created_at''"
abbreviation SortExpiry :: SortField where "SortExpiry \<equiv> ''expires_at''"
abbreviation SortCode :: SortField where "SortCode \<equiv> ''task_code''"

record SearchRequest =
  sr_Filter :: RecoveryJobFilter
  sr_Sort :: SortField
  sr_Desc :: bool
  sr_Offset :: int
  sr_Limit :: int

definition SearchRequest_Normalize :: "(string \<Rightarrow> string) \<Rightarrow> SearchRequest \<Rightarrow> SearchRequest" where
  "SearchRequest_Normalize lower r =
     \<lparr>sr_Filter = Filter_Normalize lower (sr_Filter r),
      sr_Sort = (if sr_Sort r = '''' then SortCreated else sr_Sort r),
      sr_Desc = sr_Desc r,
      sr_Offset = (if sr_Offset r < 0 then 0 else sr_Offset r),
      sr_Limit = (if sr_Limit r < 1 \<or> 100 < sr_Limit r then 50 else sr_Limit r)\<rparr>"

definition job_less :: "(string \<Rightarrow> string) \<Rightarrow> SortField \<Rightarrow> RecoveryJob \<Rightarrow> RecoveryJob \<Rightarrow> bool" where
  "job_less lower field a b \<longleftrightarrow>
     (if field = SortExpiry then rj_ExpiresAt a < rj_ExpiresAt b
      else if field = SortCode then lower (rj_TaskCode a) < lower (rj_TaskCode b)
      else rj_ID a < rj_ID b)"

definition search_less :: "(string \<Rightarrow> string) \<Rightarrow> SearchRequest \<Rightarrow> RecoveryJob \<Rightarrow> RecoveryJob \<Rightarrow> bool" where
  "search_less lower request a b \<longleftrightarrow>
     (if sr_Desc request then job_less lower (sr_Sort request) b a
      else job_less lower (sr_Sort request) a b)"

definition SearchRecoveryJobs ::
  "(string \<Rightarrow> string) \<Rightarrow> RecoveryJob list \<Rightarrow> SearchRequest \<Rightarrow> RecoveryJob list" where
  "SearchRecoveryJobs lower items request0 =
     (let request = SearchRequest_Normalize lower request0;
          filtered = filter (Filter_Matches lower (sr_Filter request)) items;
          sorted_items = sort_stable (search_less lower request) filtered;
          len = int (length sorted_items);
          start = min (sr_Offset request) len;
          end_index = min (start + sr_Limit request) len
      in slice start end_index sorted_items)"

interpretation search_order: strict_weak "search_less lower request"
  by unfold_locales (auto simp: search_less_def job_less_def split: if_splits)

lemma SearchRecoveryJobs_slice:
  "SearchRecoveryJobs lower items r =
     (let n = SearchRequest_Normalize lower r in
      take (nat (sr_Limit n)) (drop (nat (sr_Offset n))
        (sort_stable (search_less lower n) (filter (Filter_Matches lower (sr_Filter n)) items))))"
proof -
  define n where "n = SearchRequest_Normalize lower r"
  define xs where "xs = sort_stable (search_less lower n) (filter (Filter_Matches lower (sr_Filter n)) items)"
  have off: "0 \<le> sr_Offset n" and lim: "1 \<le> sr_Limit n"
    by (auto simp: n_def SearchRequest_Normalize_def)
  have "slice (min (sr_Offset n) (int (length xs)))
      (min (min (sr_Offset n) (int (length xs)) + sr_Limit n) (int (length xs))) xs =
    take (nat (sr_Limit n)) (drop (nat (sr_Offset n)) xs)"
  proof (cases "sr_Offset n \<le> int (length xs)")
    case True
    then have "nat (min (sr_Offset n + sr_Limit n) (int (length xs)) - sr_Offset n) =
        min (nat (sr_Limit n)) (length xs - nat (sr_Offset n))"
      using off lim by (auto simp: min_def)
    with True show ?thesis by (simp add: slice_def min_def)
  next
    case False
    then show ?thesis by (simp add: slice_def)
  qed
  then show ?thesis
    unfolding SearchRecoveryJobs_def Let_def n_def[symmetric] xs_def[symmetric] .
qed

section \<open>Labels\<close>

text \<open>\<open>NormalizeLabels\<close> ranges over a map: the pairs of \<open>labels\<close> in the order Go visits them.\<close>

definition normal_pair :: "(string \<Rightarrow> string) \<Rightarrow> string \<times> string \<Rightarrow> string \<times> string" where
  "normal_pair lower kv = (TrimSpace (lower (fst kv)), TrimSpace (snd kv))"

fun normalize_loop ::
  "(string \<Rightarrow> string) \<Rightarrow> (string \<times> string) list \<Rightarrow> (string \<rightharpoonup> string) \<Rightarrow> (string \<rightharpoonup> string)" where
  "normalize_loop lower [] result = result"
| "normalize_loop lower (kv # labels) result =
     (let (k, v) = normal_pair lower kv in
      normalize_loop lower labels (if k \<noteq> '''' \<and> v \<noteq> '''' then result(k \<mapsto> v) else result))"

definition NormalizeLabels ::
  "(string \<Rightarrow> string) \<Rightarrow> (string \<times> string) list \<Rightarrow> (string \<rightharpoonup> string)" where
  "NormalizeLabels lower labels = normalize_loop lower labels Map.empty"

lemma normalize_loop_eq:
  "normalize_loop lower labels result =
     result ++ map_of (rev (filter (\<lambda>(k, v). k \<noteq> '''' \<and> v \<noteq> '''') (map (normal_pair lower) labels)))"
  by (induction lower labels result rule: normalize_loop.induct)
    (auto simp: Let_def split: prod.splits)

lemma NormalizeLabels_eq:
  "NormalizeLabels lower labels =
     map_of (rev (filter (\<lambda>(k, v). k \<noteq> '''' \<and> v \<noteq> '''') (map (normal_pair lower) labels)))"
  by (simp add: NormalizeLabels_def normalize_loop_eq)

text \<open>Where no two keys collide after normalisation, the order of the visit does not matter.\<close>

lemma NormalizeLabels_order:
  assumes "distinct (map (fst \<circ> normal_pair lower) labels)"
    and "mset labels' = mset labels"
  shows "NormalizeLabels lower labels' = NormalizeLabels lower labels"
proof -
  let ?ok = "\<lambda>(k, v). k \<noteq> '''' \<and> v \<noteq> ''''"
  let ?f = "\<lambda>ls. rev (filter ?ok (map (normal_pair lower) ls))"
  have "mset (?f labels') = mset (?f labels)"
    using assms(2) by (simp add: mset_filter)
  then have sets: "set (?f labels') = set (?f labels)" by (rule mset_eq_setD)
  have dist: "distinct (map fst (?f ls))" if "distinct (map (fst \<circ> normal_pair lower) ls)" for ls
    using that by (simp add: rev_map[symmetric] distinct_map_filter)
  have "mset (map (fst \<circ> normal_pair lower) labels') = mset (map (fst \<circ> normal_pair lower) labels)"
    using assms(2) by simp
  then have "distinct (map (fst \<circ> normal_pair lower) labels')"
    using assms(1) mset_eq_imp_distinct_iff by blast
  then have "map_of (?f labels') = map_of (?f labels)"
    using map_of_eqI dist[OF assms(1)] dist sets by (metis map_of_inject_set)
  then show ?thesis by (simp add: NormalizeLabels_eq)
qed

section \<open>Progress and reports\<close>

record SurveyMissionProgress =
  pg_SurveyMissionID :: string
  pg_AcousticBuoys :: int
  pg_Required :: int
  pg_Completed :: int
  pg_Accepted :: int
  pg_InProgress :: int
  pg_Verified :: int
  pg_Rejected :: int
  pg_Archived :: int

definition Progress_Complete :: "SurveyMissionProgress \<Rightarrow> bool" where
  "Progress_Complete p \<longleftrightarrow>
     0 < pg_Required p \<and> pg_Required p \<le> pg_Completed p \<and> pg_Rejected p = 0"

definition Progress_Remaining :: "SurveyMissionProgress \<Rightarrow> int" where
  "Progress_Remaining p =
     (if pg_Required p \<le> pg_Completed p then 0 else wrap64 (pg_Required p - pg_Completed p))"

record ComplianceReport =
  cr_SurveyMissionID :: string
  cr_GeneratedAt :: time
  cr_Progress :: SurveyMissionProgress
  cr_Expiring :: "RecoveryJob list"
  cr_OpenIntegrityIncidents :: int

definition AtRisk :: "ComplianceReport \<Rightarrow> bool" where
  "AtRisk r \<longleftrightarrow>
     0 < length (cr_Expiring r) \<or> 0 < cr_OpenIntegrityIncidents r \<or> 0 < pg_Rejected (cr_Progress r)"

definition Report_Status :: "ComplianceReport \<Rightarrow> string" where
  "Report_Status r =
     (if AtRisk r then ''attention_required''
      else if Progress_Complete (cr_Progress r) then ''complete''
      else ''in_progress'')"

lemma Report_complete_iff: "Report_Status r = ''complete'' \<longleftrightarrow>
    \<not> AtRisk r \<and> Progress_Complete (cr_Progress r)"
  by (simp add: Report_Status_def)

lemma Remaining_zero_iff:
  "0 \<le> pg_Completed p \<Longrightarrow> is_int64 (pg_Required p) \<Longrightarrow>
   Progress_Remaining p = 0 \<longleftrightarrow> pg_Required p \<le> pg_Completed p"
  by (auto simp: Progress_Remaining_def is_int64_def wrap64_def)

fun status_counts_loop :: "RecoveryJob list \<Rightarrow> (string \<Rightarrow> int) \<Rightarrow> (string \<Rightarrow> int)" where
  "status_counts_loop [] counts = counts"
| "status_counts_loop (task # tasks) counts =
     status_counts_loop tasks (counts(rj_Status task := counts (rj_Status task) + 1))"

text \<open>A missing key of the map reads as 0, so the map is a function; a slice holds fewer than
  \<open>2^63\<close> jobs.\<close>

definition StatusCounts :: "RecoveryJob list \<Rightarrow> (string \<Rightarrow> int)" where
  "StatusCounts recovery_jobs = status_counts_loop recovery_jobs (\<lambda>_. 0)"

lemma status_counts_loop_eq: "status_counts_loop tasks counts s =
    counts s + int (length (filter (\<lambda>t. rj_Status t = s) tasks))"
  by (induction tasks arbitrary: counts) auto

lemma StatusCounts_eq:
  "StatusCounts tasks s = int (length (filter (\<lambda>t. rj_Status t = s) tasks))"
  by (simp add: StatusCounts_def status_counts_loop_eq)

section \<open>Redaction\<close>

definition RedactTaskCode :: "string \<Rightarrow> string" where
  "RedactTaskCode value =
     (let v = TrimSpace value in
      if length v \<le> 4 then ''****''
      else take 2 v @ replicate (length v - 4) (CHR ''*'') @ drop (length v - 2) v)"

definition RedactArrayOpsLane :: "string \<Rightarrow> string" where
  "RedactArrayOpsLane value =
     (let v = TrimSpace value in
      if length v \<le> 3 then ''***''
      else take 1 v @ ''***'' @ drop (length v - 1) v)"

lemma RedactTaskCode_nth:
  assumes "4 < length (TrimSpace s)"
  shows "length (RedactTaskCode s) = length (TrimSpace s)"
    and "2 \<le> i \<Longrightarrow> i < length (TrimSpace s) - 2 \<Longrightarrow> RedactTaskCode s ! i = CHR ''*''"
  using assms by (auto simp: RedactTaskCode_def Let_def nth_append min_def)

text \<open>Two codes with the same trimmed length and the same two characters at each end are redacted
  alike: nothing else of the code is shown.\<close>

lemma RedactTaskCode_hides:
  "length (TrimSpace a) = length (TrimSpace b) \<Longrightarrow>
   take 2 (TrimSpace a) = take 2 (TrimSpace b) \<Longrightarrow>
   drop (length (TrimSpace a) - 2) (TrimSpace a) = drop (length (TrimSpace b) - 2) (TrimSpace b) \<Longrightarrow>
   RedactTaskCode a = RedactTaskCode b"
  by (simp add: RedactTaskCode_def Let_def)

record AuditSummary =
  au_ObjectType :: string
  au_ObjectID :: string
  au_Action :: string
  au_Outcome :: string
  au_At :: time

definition Successful :: "AuditSummary \<Rightarrow> bool" where
  "Successful a \<longleftrightarrow> au_Outcome a = ''success''"

section \<open>Pages and clocks\<close>

abbreviation DefaultLimit :: int where "DefaultLimit \<equiv> 50"
abbreviation MaxLimit :: int where "MaxLimit \<equiv> 100"

record page_query =
  pq_Offset :: int
  pq_Limit :: int

definition pagination_Normalize :: "int \<Rightarrow> int \<Rightarrow> page_query" where
  "pagination_Normalize offset limit =
     (let offset' = (if offset < 0 then 0 else offset);
          limit' = (if limit \<le> 0 then DefaultLimit else limit);
          limit'' = (if MaxLimit < limit' then MaxLimit else limit')
      in \<lparr>pq_Offset = offset', pq_Limit = limit''\<rparr>)"

record 'a page =
  pa_Items :: "'a list"
  pa_Total :: int
  pa_Offset :: int
  pa_Limit :: int

definition page_From :: "'a list \<Rightarrow> int \<Rightarrow> page_query \<Rightarrow> 'a page" where
  "page_From items n query =
     \<lparr>pa_Items = items, pa_Total = n, pa_Offset = pq_Offset query, pa_Limit = pq_Limit query\<rparr>"

lemma pagination_Normalize_valid:
  "ValidatePage (pq_Offset (pagination_Normalize f l)) (pq_Limit (pagination_Normalize f l)) = None"
  by (simp add: pagination_Normalize_def ValidatePage_def Let_def)

lemma pagination_Normalize_id:
  "ValidatePage f l = None \<Longrightarrow> pagination_Normalize f l = \<lparr>pq_Offset = f, pq_Limit = l\<rparr>"
  by (auto simp: pagination_Normalize_def ValidatePage_def Let_def split: if_splits)

definition InWindow :: "time \<Rightarrow> time \<Rightarrow> time \<Rightarrow> bool" where
  "InWindow now start end_time \<longleftrightarrow> \<not> now < start \<and> now < end_time"

definition DeadlinePassed :: "time \<Rightarrow> time \<Rightarrow> bool" where
  "DeadlinePassed now deadline \<longleftrightarrow> deadline < now"

lemma CanExecuteAt_InWindow: "CanExecuteAt p now \<longleftrightarrow>
    sm_Status p = SurveyMissionActive \<and> InWindow now (sm_StartsAt p) (sm_EndsAt p)"
  by (simp add: CanExecuteAt_def InWindow_def)

section \<open>Properties\<close>

text \<open>C12: a search returns the page of the matching jobs, in the requested order: with the request
  normalised, the list of all matches is ordered by the comparator, keeps every match as often as
  it occurs and equal elements in their original order; the result is its part from the offset on,
  no longer than the limit, which is between 1 and 100.\<close>

theorem search_correct:
  "\<exists>hits. let r = SearchRequest_Normalize lower request in
     SearchRecoveryJobs lower items request = take (nat (sr_Limit r)) (drop (nat (sr_Offset r)) hits) \<and>
     mset hits = filter_mset (Filter_Matches lower (sr_Filter r)) (mset items) \<and>
     sorted_wrt (\<lambda>a b. \<not> search_less lower r b a) hits \<and>
     filter (\<lambda>a. \<not> search_less lower r a z \<and> \<not> search_less lower r z a) hits =
       filter (\<lambda>a. Filter_Matches lower (sr_Filter r) a \<and>
         \<not> search_less lower r a z \<and> \<not> search_less lower r z a) items \<and>
     0 \<le> sr_Offset r \<and> sr_Limit r \<in> {1..100}"
proof -
  define r where "r = SearchRequest_Normalize lower request"
  let ?hits = "sort_stable (search_less lower r) (filter (Filter_Matches lower (sr_Filter r)) items)"
  have "SearchRecoveryJobs lower items request = take (nat (sr_Limit r)) (drop (nat (sr_Offset r)) ?hits)"
    unfolding SearchRecoveryJobs_slice Let_def r_def ..
  moreover have "0 \<le> sr_Offset r \<and> sr_Limit r \<in> {1..100}"
    by (auto simp: r_def SearchRequest_Normalize_def)
  ultimately show ?thesis
    unfolding Let_def r_def[symmetric]
    by (intro exI[of _ ?hits])
      (simp add: search_order.ordered_sort search_order.sort_stable_equiv mset_filter conj_commute)
qed

text \<open>A redacted task code shows at most the first two and the last two bytes of the trimmed
  code: a code of up to four bytes becomes four stars, a longer one keeps its length and every
  other byte is a star, so two codes that agree in length and at both ends are redacted alike.\<close>

theorem redaction_hides:
  "(length (TrimSpace s) \<le> 4 \<longrightarrow> RedactTaskCode s = ''****'') \<and>
   (4 < length (TrimSpace s) \<longrightarrow>
      length (RedactTaskCode s) = length (TrimSpace s) \<and>
      list_all (\<lambda>i. RedactTaskCode s ! i = CHR ''*'') [2..<length (TrimSpace s) - 2] \<and>
      (length (TrimSpace t) = length (TrimSpace s) \<and> take 2 (TrimSpace t) = take 2 (TrimSpace s) \<and>
       drop (length (TrimSpace s) - 2) (TrimSpace t) = drop (length (TrimSpace s) - 2) (TrimSpace s) \<longrightarrow>
         RedactTaskCode t = RedactTaskCode s))"
  using RedactTaskCode_nth[of s] RedactTaskCode_hides[of t s]
  by (auto simp: list_all_iff RedactTaskCode_def Let_def)

theorem redaction_hides_witness:
  "RedactTaskCode ''AB-12-XY'' = RedactTaskCode ''ABsecrXY''"
proof -
  have "TrimSpace ''AB-12-XY'' = ''AB-12-XY''" "TrimSpace ''ABsecrXY'' = ''ABsecrXY''"
    by code_simp+
  then show ?thesis using redaction_hides[of "''ABsecrXY''" "''AB-12-XY''"] by simp
qed

end
