(* ===== verification/Repository_Schema.thy ===== *)
theory Repository_Schema
  imports Transactions Domain_Views Audit_Trail
begin

text \<open>
  The database of \<open>migrations/001_initial.sql\<close> and \<open>002_ufo_observation_contract.sql\<close>, and the
  parts of SQL the repository uses: INSERT under constraints, UPDATE with a row count, SELECT with
  ORDER BY, LIMIT and OFFSET.

  A table is the list of its rows. A row is the record the code reads it into, extended by the
  columns the code does not read. UUID columns hold the text PostgreSQL gives back for them; a
  parameter that is not a UUID fails with 22P02. Time stamps are in microseconds.
\<close>

section \<open>Tables\<close>

record AssignmentRow = Assignment +
  as_Version :: int

record RecoveryJobRow = RecoveryJob +
  rj_CreatedAt :: time

record ActivationRecord =
  av_ID :: string
  av_RecoveryJobID :: string
  av_From :: "string option"
  av_To :: string
  av_Location :: string
  av_RecordedAt :: time
  av_Note :: string

record DiveWindowRow =
  wr_ID :: string
  wr_Code :: string
  wr_Status :: DiveWindowStatus
  wr_Method :: string
  wr_Capacity :: int
  wr_StartedAt :: "time option"
  wr_CompletedAt :: "time option"
  wr_Version :: int

record DiveWindowItem =
  it_DiveWindowID :: string
  it_RecoveryJobID :: string

record SignalRecoveryReportRow =
  rr_ID :: string
  rr_RecoveryJobID :: string
  rr_DiveWindowID :: string
  rr_RecordedBy :: string
  rr_Status :: SignalRecoveryReportStatus
  rr_RiskScore :: float64
  rr_Scale :: string
  rr_AlertThreshold :: float64
  rr_ObservedAt :: time
  rr_ReviewedAt :: "time option"
  rr_Version :: int

record AuditRow =
  ar_ID :: string
  ar_RequestID :: string
  ar_ArrayOperatorID :: "string option"
  ar_ObjectType :: string
  ar_ObjectID :: string
  ar_Action :: string
  ar_Outcome :: string
  ar_Detail :: string
  ar_CreatedAt :: time

record database =
  db_operators :: "ArrayOperator list"
  db_missions :: "SurveyMission list"
  db_buoys :: "AcousticBuoy list"
  db_assignments :: "AssignmentRow list"
  db_jobs :: "RecoveryJobRow list"
  db_moorings :: "ActivationRecord list"
  db_windows :: "DiveWindowRow list"
  db_items :: "DiveWindowItem list"
  db_reports :: "SignalRecoveryReportRow list"
  db_incidents :: "IntegrityIncident list"
  db_audits :: "AuditRow list"
  db_keys :: "Record list"

definition empty_db :: database where
  "empty_db = \<lparr>db_operators = [], db_missions = [], db_buoys = [], db_assignments = [],
     db_jobs = [], db_moorings = [], db_windows = [], db_items = [], db_reports = [],
     db_incidents = [], db_audits = [], db_keys = []\<rparr>"

text \<open>The CHECK lists of the status columns.\<close>

definition mission_statuses :: "string list" where
  "mission_statuses = [''draft'', ''scheduled'', ''active'', ''closed'']"

definition job_statuses :: "string list" where
  "job_statuses = [''queued'', ''completed'', ''activation_pending'', ''accepted'',
     ''in_progress'', ''verified'', ''rejected'', ''archived'']"

definition window_statuses :: "string list" where
  "window_statuses = [''queued'', ''running'', ''completed'', ''cancelled'']"

definition incident_kinds :: "string list" where
  "incident_kinds = [''reassess'', ''repeat_acoustic_buoy'', ''safety_adjustment'',
     ''close_record'']"

section \<open>Statements\<close>

text \<open>The range of \<open>integer\<close>; a Go int outside it is refused by the driver, with an error that is not
  a \<open>PgError\<close>.\<close>

definition is_int4 :: "int \<Rightarrow> bool" where
  "is_int4 i \<longleftrightarrow> - (2 ^ 31) \<le> i \<and> i < 2 ^ 31"

definition int4_param :: "int \<Rightarrow> int result" where
  "int4_param i = (if is_int4 i then Inr i else Inl (NewError ''unable to encode int4''))"

definition bind_result :: "'a result \<Rightarrow> ('a \<Rightarrow> 'b result) \<Rightarrow> 'b result" where
  "bind_result r f = (case r of Inl e \<Rightarrow> Inl e | Inr x \<Rightarrow> f x)"

lemma bind_result_Inr [simp]: "bind_result r f = Inr y \<longleftrightarrow> (\<exists>x. r = Inr x \<and> f x = Inr y)"
  by (cases r) (simp_all add: bind_result_def)

lemma bind_result_simps [simp]:
  "bind_result (Inr x) f = f x" "bind_result (Inl e) f = Inl e"
  by (simp_all add: bind_result_def)

definition uuid_param :: "env \<Rightarrow> string \<Rightarrow> string result" where
  "uuid_param env s =
     (case en_uuid_in env s of None \<Rightarrow> Inl (PgError ''22P02'') | Some u \<Rightarrow> Inr u)"

lemma uuid_param_Inr [simp]: "uuid_param env s = Inr u \<longleftrightarrow> en_uuid_in env s = Some u"
  by (auto simp: uuid_param_def split: option.split)

text \<open>An INSERT checks its constraints, each with its SQLSTATE, and then adds the row.\<close>

fun violated :: "(string \<times> bool) list \<Rightarrow> string option" where
  "violated [] = None"
| "violated ((code, holds) # cs) = (if holds then violated cs else Some code)"

lemma violated_None [simp]: "violated cs = None \<longleftrightarrow> (\<forall>c \<in> set cs. snd c)"
  by (induction cs rule: violated.induct) auto

definition sql_insert :: "(string \<times> bool) list \<Rightarrow> 'd \<Rightarrow> go_error + unit \<times> 'd" where
  "sql_insert constraints d =
     (case violated constraints of
        Some code \<Rightarrow> Inl (PgError code)
      | None \<Rightarrow> Inr ((), d))"

lemma sql_insert_Inr [simp]:
  "sql_insert cs d = Inr (u, d') \<longleftrightarrow> (\<forall>c \<in> set cs. snd c) \<and> d' = d"
  using violated_None[of cs]
  by (cases "violated cs") (auto simp: sql_insert_def simp del: violated_None)

text \<open>An UPDATE finds its rows by the WHERE clause; a version past the bigint range and a CHECK
  violation fail; otherwise the result is the number of rows it has changed.\<close>

definition max_bigint :: int where "max_bigint = 2 ^ 63 - 1"

definition upd :: "('r \<Rightarrow> bool) \<Rightarrow> ('r \<Rightarrow> 'r) \<Rightarrow> 'r list \<Rightarrow> 'r list" where
  "upd hit change rows = map (\<lambda>r. if hit r then change r else r) rows"

lemma length_upd [simp]: "length (upd hit change rows) = length rows"
  by (simp add: upd_def)

lemma map_upd [simp]: "(\<And>r. f (change r) = f r) \<Longrightarrow> map f (upd hit change rows) = map f rows"
  by (simp add: upd_def)

lemma image_upd [simp]:
  "(\<And>r. f (change r) = f r) \<Longrightarrow> f ` set (upd hit change rows) = f ` set rows"
  using map_upd[of f change hit rows] by (metis set_map)

lemma ball_upd:
  "(\<forall>r \<in> set (upd hit change rows). P r) \<longleftrightarrow>
   (\<forall>r \<in> set rows. if hit r then P (change r) else P r)"
  by (auto simp: upd_def)

lemma upd_none: "(\<And>r. r \<in> set rows \<Longrightarrow> \<not> hit r) \<Longrightarrow> upd hit change rows = rows"
  by (simp add: upd_def map_idI)

definition sql_update ::
  "('r \<Rightarrow> bool) \<Rightarrow> ('r \<Rightarrow> 'r) \<Rightarrow> ('r \<Rightarrow> int) \<Rightarrow> ('r \<Rightarrow> bool) \<Rightarrow> 'r list \<Rightarrow>
   go_error + nat \<times> 'r list" where
  "sql_update hit change version check rows =
     (if \<exists>r \<in> set rows. hit r \<and> version (change r) > max_bigint then Inl (PgError ''22003'')
      else if \<exists>r \<in> set rows. hit r \<and> \<not> check (change r) then Inl (PgError ''23514'')
      else Inr (length (filter hit rows), upd hit change rows))"

lemma sql_update_Inr:
  "sql_update hit change ver check rows = Inr (n, rows') \<longleftrightarrow>
     (\<forall>r \<in> set rows. hit r \<longrightarrow> ver (change r) \<le> max_bigint \<and> check (change r)) \<and>
     n = length (filter hit rows) \<and> rows' = upd hit change rows"
  by (auto simp: sql_update_def linorder_not_less)

text \<open>ORDER BY a key, ties broken as PostgreSQL happens to, then LIMIT and OFFSET.\<close>

definition order_lt :: "('r \<Rightarrow> 'k::linorder) \<Rightarrow> bool \<Rightarrow> ('r \<Rightarrow> nat) \<Rightarrow> 'r \<Rightarrow> 'r \<Rightarrow> bool" where
  "order_lt key descending tie a b \<longleftrightarrow>
     (if descending then key b < key a else key a < key b) \<or> key a = key b \<and> tie a < tie b"

interpretation order_by: strict_weak "order_lt key descending tie"
  by unfold_locales (auto simp: order_lt_def split: if_splits)

definition limit_param :: "string \<Rightarrow> int \<Rightarrow> int result" where
  "limit_param code i = (if i < 0 then Inl (PgError code) else Inr i)"

definition sql_page :: "int \<Rightarrow> int \<Rightarrow> 'r list \<Rightarrow> 'r list" where
  "sql_page limit offset rows = take (nat limit) (drop (nat offset) rows)"

section \<open>Rows over time\<close>

text \<open>A table only grows, and a row that stays stays in its place and changes by \<open>rel\<close>.\<close>

definition grows :: "('r \<Rightarrow> 'r \<Rightarrow> bool) \<Rightarrow> 'r list \<Rightarrow> 'r list \<Rightarrow> bool" where
  "grows rel xs ys \<longleftrightarrow> length xs \<le> length ys \<and> (\<forall>i < length xs. rel (xs ! i) (ys ! i))"

lemma grows_refl: "(\<And>x. rel x x) \<Longrightarrow> grows rel xs xs"
  by (simp add: grows_def)

lemma grows_append: "(\<And>x. rel x x) \<Longrightarrow> grows rel xs (xs @ ys)"
  by (simp add: grows_def nth_append)

lemma grows_update:
  "(\<And>x. rel x x) \<Longrightarrow> (\<And>x. x \<in> set xs \<Longrightarrow> hit x \<Longrightarrow> rel x (change x)) \<Longrightarrow>
   grows rel xs (upd hit change xs)"
  by (simp add: grows_def upd_def)

lemma grows_trans:
  "(\<And>x y z. rel x y \<Longrightarrow> rel y z \<Longrightarrow> rel x z) \<Longrightarrow> grows rel xs ys \<Longrightarrow> grows rel ys zs \<Longrightarrow>
   grows rel xs zs"
  unfolding grows_def by (meson le_trans order_less_le_trans)

text \<open>A versioned row: every increment of the version is one move of the status.\<close>

definition moves ::
  "('st \<Rightarrow> 'st \<Rightarrow> bool) \<Rightarrow> ('r \<Rightarrow> 'st) \<Rightarrow> ('r \<Rightarrow> int) \<Rightarrow> 'r \<Rightarrow> 'r \<Rightarrow> bool" where
  "moves can_move st ver x y \<longleftrightarrow>
     ver x \<le> ver y \<and> (can_move ^^ nat (ver y - ver x)) (st x) (st y)"

lemma moves_refl [simp]: "moves can_move st ver x x"
  by (simp add: moves_def)

lemma moves_one:
  "can_move (st x) (st y) \<Longrightarrow> ver y = ver x + 1 \<Longrightarrow> moves can_move st ver x y"
  by (simp add: moves_def relpowp_1[simplified])

lemma moves_trans:
  assumes "moves can_move st ver x y" "moves can_move st ver y z"
  shows "moves can_move st ver x z"
proof -
  have "nat (ver z - ver x) = nat (ver y - ver x) + nat (ver z - ver y)"
    using assms unfolding moves_def by linarith
  then show ?thesis using assms by (auto simp: moves_def relpowp_add)
qed

lemma moves_path: "moves can_move st ver x y \<Longrightarrow> can_move\<^sup>*\<^sup>* (st x) (st y)"
  by (auto simp: moves_def dest: relpowp_imp_rtranclp)

lemma grows_at:
  "grows rel xs ys \<Longrightarrow> k < length xs \<Longrightarrow> k < length ys \<and> rel (xs ! k) (ys ! k)"
  by (auto simp: grows_def)

lemma grows_prefix: "grows (=) xs ys \<Longrightarrow> \<exists>new. ys = xs @ new"
  by (rule exI[of _ "drop (length xs) ys"])
    (auto simp: grows_def nth_append intro!: nth_equalityI)

definition unique :: "('r \<Rightarrow> 'k) \<Rightarrow> 'r list \<Rightarrow> bool" where
  "unique key rows \<longleftrightarrow> distinct (map key rows)"

definition refers :: "('r \<Rightarrow> 'k) \<Rightarrow> 'r list \<Rightarrow> ('s \<Rightarrow> 'k) \<Rightarrow> 's list \<Rightarrow> bool" where
  "refers f rows g targets \<longleftrightarrow> f ` set rows \<subseteq> g ` set targets"

lemma unique_simps [simp]:
  "unique key []" "unique key (rows @ [r]) \<longleftrightarrow> unique key rows \<and> key r \<notin> key ` set rows"
  by (auto simp: unique_def)

lemma unique_upd [simp]:
  "(\<And>r. key (change r) = key r) \<Longrightarrow> unique key (upd hit change rows) = unique key rows"
  by (simp add: unique_def)

lemma refers_simps [simp]:
  "refers f [] g targets"
  "refers f (rows @ [r]) g targets \<longleftrightarrow> refers f rows g targets \<and> f r \<in> g ` set targets"
  by (auto simp: refers_def)

lemma refers_append [simp]: "refers f rows g targets \<Longrightarrow> refers f rows g (targets @ [t])"
  by (auto simp: refers_def)

lemma refers_upd [simp]:
  "(\<And>r. f (change r) = f r) \<Longrightarrow> refers f (upd hit change rows) g targets = refers f rows g targets"
  "(\<And>r. g (change2 r) = g r) \<Longrightarrow> refers f rows g (upd hit2 change2 targets) = refers f rows g targets"
  by (simp_all add: refers_def)

end
