(* ===== verification/Repository.thy ===== *)
theory Repository
  imports Repository_Schema Domain_Rules
begin

text \<open>
  \<open>internal/repository\<close>: the operations that write, with the lookups they need
  (\<open>repository.go\<close>, \<open>postgres.go\<close>, \<open>array_operators.go\<close>, \<open>array_operators_query.go\<close>,
  \<open>array_operator_roles.go\<close>, \<open>assignment.go\<close>, \<open>assignment_worker.go\<close>, \<open>business_checks.go\<close>,
  \<open>bulk.go\<close>, \<open>intervention.go\<close>, \<open>round.go\<close>, \<open>reconcile.go\<close>, \<open>idempotency.go\<close>). The
  methods of \<open>Postgres\<close> and \<open>transaction\<close> are these functions at the sqlers \<open>Pool\<close> and \<open>Tx\<close>.
\<close>

section \<open>Inputs\<close>

record AcousticBuoyInput =
  bn_SurveyMissionID :: string
  bn_Code :: string
  bn_ArrayOpsLane :: string
  bn_RequiredSuccesses :: int

record RecoveryJobInput =
  jn_SurveyMissionID :: string
  jn_AcousticBuoyID :: string
  jn_TaskCode :: string
  jn_ExpiresAt :: time

record ActivationInput =
  an_RecoveryJobID :: string
  an_From :: "string option"
  an_To :: string
  an_Location :: string
  an_RecordedAt :: time
  an_Note :: string

record DiveWindowInput =
  wn_Code :: string
  wn_Method :: string
  wn_Capacity :: int

record SignalRecoveryReportInput =
  pn_RecoveryJobID :: string
  pn_DiveWindowID :: string
  pn_RecorderID :: string
  pn_RiskScore :: float64
  pn_Scale :: string
  pn_AlertThreshold :: float64
  pn_ObservedAt :: time

record IntegrityIncidentInput =
  cn_RecoveryJobID :: string
  cn_Kind :: string
  cn_Reason :: string
  cn_DueAt :: time

record AuditInput =
  un_RequestID :: string
  un_ArrayOperatorID :: "string option"
  un_ObjectType :: string
  un_ObjectID :: string
  un_Action :: string
  un_Outcome :: string
  un_Detail :: string

section \<open>Errors and row counts\<close>

definition wrapWrite :: "go_error \<Rightarrow> go_error" where
  "wrapWrite err =
     (case errors_As_pg err of
        Some code \<Rightarrow>
          if code \<in> set [''22003'', ''22P02'', ''23502'', ''23503'', ''23505'', ''23514'']
            then Errorf2 ''repository write'' err conflict
          else Errorf ''repository write'' err
      | None \<Rightarrow> Errorf ''repository write'' err)"

definition wrapID :: "(database, unit) io \<Rightarrow> string \<Rightarrow> (database, string) io" where
  "wrapID m i = io_then (io_wrap wrapWrite m) (io_return i)"

definition wrapRecoveryJob ::
  "(database, unit) io \<Rightarrow> RecoveryJob \<Rightarrow> (database, RecoveryJob) io" where
  "wrapRecoveryJob m s = io_then (io_wrap wrapWrite m) (io_return s)"

text \<open>\<open>if result.RowsAffected() != 1 { return err }\<close>\<close>

definition one_row :: "('d, nat) io \<Rightarrow> go_error \<Rightarrow> ('d, unit) io" where
  "one_row m err = io_bind m (\<lambda>n. if n \<noteq> 1 then io_throw err else io_return ())"

text \<open>A query that changes nothing, and \<open>QueryRow\<close> with its \<open>ErrNoRows\<close>.\<close>

definition query :: "(env \<Rightarrow> nat \<Rightarrow> time \<Rightarrow> 'd \<Rightarrow> 'a result) \<Rightarrow> ('d, 'a) stmt" where
  "query f env n t d = bind_result (f env n t d) (\<lambda>x. Inr (x, d))"

definition query_row ::
  "sqler \<Rightarrow> string \<Rightarrow> go_error \<Rightarrow> (env \<Rightarrow> 'd \<Rightarrow> 'a option result) \<Rightarrow> ('d, 'a) io" where
  "query_row q text no_rows f =
     io_bind (io_wrap (\<lambda>err. if errors_Is err (ExternalErr PgxErrNoRows) then no_rows
         else Errorf text err) (exec_stmt q (query (\<lambda>env _ _. f env))))
       (\<lambda>row. case row of None \<Rightarrow> io_throw no_rows | Some x \<Rightarrow> io_return x)"

lemma stmt_reads_query [keeps_rules]: "stmt_keeps (=) env (query f)"
  by (rule stmt_keepsI) (simp add: query_def)

lemma reads_query_row [keeps_rules]: "keeps (=) env (query_row q text no_rows f)"
  unfolding query_row_def by (intro keeps_rules)

lemma one_row_ok: "one_row m err env w = (Inr u, w1) \<longleftrightarrow> m env w = (Inr 1, w1)"
  by (auto simp: one_row_def io_bind_ok io_throw_ok io_return_ok split: if_splits)

lemma query_row_ok:
  "query_row Pool text no_rows f env w = (Inr x, w1) \<longleftrightarrow>
     exec_stmt Pool (query (\<lambda>env _ _. f env)) env w = (Inr (Some x), w1)"
  by (auto simp: query_row_def io_bind_ok io_wrap_ok io_throw_ok io_return_ok split: option.splits)

lemma query_ok: "query f env n t d = Inr (x, d') \<longleftrightarrow> f env n t d = Inr x \<and> d' = d"
  by (auto simp: query_def)

text \<open>What a successful reading has found.\<close>

lemma exec_query:
  "exec_stmt q (query f) env w = (Inr x, w1) \<Longrightarrow>
   w_db w1 = w_db w \<and> (\<exists>n t. f env n t (w_db w) = Inr x)"
  by (cases q) (fastforce simp: exec_stmt_def exec_tx_def exec_pool_def query_def Let_def
      split: if_splits option.splits sum.splits)+

lemma query_row_found:
  assumes "query_row q text no_rows f env w = (Inr x, w1)"
  shows "f env (w_db w) = Inr (Some x)"
proof -
  obtain row w2 where q: "exec_stmt q (query (\<lambda>env _ _. f env)) env w = (Inr row, w2)" "row = Some x"
    using assms unfolding query_row_def io_bind_def io_wrap_def
    by (auto simp: io_throw_def io_return_def split: prod.splits sum.splits option.splits)
  then show ?thesis using exec_query[OF q(1)] by auto
qed

section \<open>Operators\<close>

definition operator_roles :: "string list" where
  "operator_roles = [RoleAcousticBuoyOperator, RoleInstallationOperator, RoleQualityReviewer,
     RoleSafetySupervisor]"

definition sql_create_operator :: "ArrayOperator \<Rightarrow> (database, unit) stmt" where
  "sql_create_operator array_operator env n t d =
     bind_result (uuid_param env (op_ID array_operator)) (\<lambda>i.
       sql_insert
         [(''23514'', op_Role array_operator \<in> set operator_roles),
          (''23505'', i \<notin> op_ID ` set (db_operators d))]
         (d\<lparr>db_operators := db_operators d @ [array_operator\<lparr>op_ID := i\<rparr>]\<rparr>))"

definition createArrayOperator :: "sqler \<Rightarrow> ArrayOperator \<Rightarrow> (database, unit) io" where
  "createArrayOperator q array_operator =
     io_then (io_check (ArrayOperator_Validate array_operator))
       (io_wrap wrapWrite (exec_stmt q (sql_create_operator array_operator)))"

definition getArrayOperator :: "sqler \<Rightarrow> string \<Rightarrow> (database, ArrayOperator) io" where
  "getArrayOperator q i =
     query_row q ''get array_operator'' not_found (\<lambda>env d.
       bind_result (uuid_param env i) (\<lambda>u. Inr (find (\<lambda>r. op_ID r = u) (db_operators d))))"

definition sql_update_operator ::
  "string \<Rightarrow> (ArrayOperator \<Rightarrow> ArrayOperator) \<Rightarrow> (database, nat) stmt" where
  "sql_update_operator i change env n t d =
     bind_result (uuid_param env i) (\<lambda>u.
       bind_result (sql_update (\<lambda>r. op_ID r = u) change (\<lambda>_. 0)
           (\<lambda>r. op_Role r \<in> set operator_roles) (db_operators d))
         (\<lambda>(k, rows). Inr (k, d\<lparr>db_operators := rows\<rparr>)))"

definition renameArrayOperator :: "sqler \<Rightarrow> string \<Rightarrow> string \<Rightarrow> (database, unit) io" where
  "renameArrayOperator q i name =
     one_row (io_wrap (Errorf ''rename array_operator'')
       (exec_stmt q (sql_update_operator i (op_Name_update (\<lambda>_. name))))) not_found"

definition ChangeArrayOperatorRole :: "string \<Rightarrow> ArrayOperatorRole \<Rightarrow> (database, unit) io" where
  "ChangeArrayOperatorRole i role =
     io_then (io_check (ArrayOperator_Validate \<lparr>op_ID = i, op_Name = ''valid'', op_Role = role\<rparr>))
       (one_row (io_wrap (Errorf ''change array_operator role'')
          (exec_stmt Pool (sql_update_operator i (op_Role_update (\<lambda>_. role))))) not_found)"

section \<open>Missions and buoys\<close>

definition mission_row :: "string \<Rightarrow> string \<Rightarrow> SurveyMission \<Rightarrow> SurveyMission" where
  "mission_row i creator p =
     p\<lparr>sm_ID := i, sm_CreatedBy := creator, sm_StartsAt := pg_time (sm_StartsAt p),
       sm_EndsAt := pg_time (sm_EndsAt p)\<rparr>"

definition sql_create_mission :: "SurveyMission \<Rightarrow> (database, unit) stmt" where
  "sql_create_mission p env n t d =
     bind_result (uuid_param env (sm_ID p)) (\<lambda>i.
     bind_result (uuid_param env (sm_CreatedBy p)) (\<lambda>creator.
       sql_insert
         [(''23514'', sm_Status p \<in> set mission_statuses),
          (''23514'', pg_time (sm_StartsAt p) < pg_time (sm_EndsAt p)),
          (''23505'', i \<notin> sm_ID ` set (db_missions d)),
          (''23505'', sm_Code p \<notin> sm_Code ` set (db_missions d)),
          (''23503'', creator \<in> op_ID ` set (db_operators d))]
         (d\<lparr>db_missions := db_missions d @ [mission_row i creator p]\<rparr>)))"

definition createSurveyMission :: "sqler \<Rightarrow> SurveyMission \<Rightarrow> (database, unit) io" where
  "createSurveyMission q p = io_wrap wrapWrite (exec_stmt q (sql_create_mission p))"

definition getSurveyMission :: "sqler \<Rightarrow> string \<Rightarrow> (database, SurveyMission) io" where
  "getSurveyMission q i =
     query_row q ''get survey_mission'' not_found (\<lambda>env d.
       bind_result (uuid_param env i) (\<lambda>u. Inr (find (\<lambda>r. sm_ID r = u) (db_missions d))))"

definition sql_advance_mission ::
  "string \<Rightarrow> SurveyMissionStatus \<Rightarrow> int \<Rightarrow> (database, nat) stmt" where
  "sql_advance_mission i status version env n t d =
     bind_result (uuid_param env i) (\<lambda>u.
       bind_result (sql_update (\<lambda>p. sm_ID p = u \<and> sm_Version p = version)
           (\<lambda>p. p\<lparr>sm_Status := status, sm_Version := sm_Version p + 1\<rparr>)
           sm_Version (\<lambda>p. sm_Status p \<in> set mission_statuses) (db_missions d))
         (\<lambda>(k, rows). Inr (k, d\<lparr>db_missions := rows\<rparr>)))"

definition advanceSurveyMission ::
  "sqler \<Rightarrow> string \<Rightarrow> SurveyMissionStatus \<Rightarrow> int \<Rightarrow> (database, unit) io" where
  "advanceSurveyMission q i status version =
     one_row (io_wrap (Errorf ''advance survey_mission'')
       (exec_stmt q (sql_advance_mission i status version))) conflict"

definition sql_create_buoy :: "string \<Rightarrow> AcousticBuoyInput \<Rightarrow> (database, unit) stmt" where
  "sql_create_buoy i inp env n t d =
     bind_result (uuid_param env i) (\<lambda>u.
     bind_result (uuid_param env (bn_SurveyMissionID inp)) (\<lambda>mission.
     bind_result (int4_param (bn_RequiredSuccesses inp)) (\<lambda>required.
       sql_insert
         [(''23514'', 0 < required),
          (''23505'', u \<notin> ab_ID ` set (db_buoys d)),
          (''23505'', (mission, bn_Code inp) \<notin>
             (\<lambda>r. (ab_SurveyMissionID r, ab_Code r)) ` set (db_buoys d)),
          (''23503'', mission \<in> sm_ID ` set (db_missions d))]
         (d\<lparr>db_buoys := db_buoys d @
            [\<lparr>ab_ID = u, ab_SurveyMissionID = mission, ab_Code = bn_Code inp,
              ab_ArrayOpsLane = bn_ArrayOpsLane inp, ab_RequiredSuccesses = required,
              ab_Completed = 0\<rparr>]\<rparr>))))"

definition createAcousticBuoy :: "sqler \<Rightarrow> AcousticBuoyInput \<Rightarrow> (database, string) io" where
  "createAcousticBuoy q inp =
     io_bind NewString (\<lambda>i. wrapID (exec_stmt q (sql_create_buoy i inp)) i)"

section \<open>Recovery jobs\<close>

definition sql_create_job :: "RecoveryJob \<Rightarrow> (database, unit) stmt" where
  "sql_create_job s env n now d =
     bind_result (uuid_param env (rj_ID s)) (\<lambda>i.
     bind_result (uuid_param env (rj_SurveyMissionID s)) (\<lambda>mission.
     bind_result (uuid_param env (rj_AcousticBuoyID s)) (\<lambda>buoy.
       sql_insert
         [(''23514'', rj_Status s \<in> set job_statuses),
          (''23505'', i \<notin> rj_ID ` set (db_jobs d)),
          (''23505'', rj_TaskCode s \<notin> rj_TaskCode ` set (db_jobs d)),
          (''23503'', mission \<in> sm_ID ` set (db_missions d)),
          (''23503'', buoy \<in> ab_ID ` set (db_buoys d))]
         (d\<lparr>db_jobs := db_jobs d @
            [\<lparr>rj_ID = i, rj_SurveyMissionID = mission, rj_AcousticBuoyID = buoy,
              rj_TaskCode = rj_TaskCode s, rj_Status = rj_Status s, rj_CompletedAt = None,
              rj_AcceptedAt = None, rj_ExpiresAt = pg_time (rj_ExpiresAt s),
              rj_Version = rj_Version s, rj_CreatedAt = now\<rparr>]\<rparr>))))"

definition createRecoveryJob :: "sqler \<Rightarrow> RecoveryJobInput \<Rightarrow> (database, RecoveryJob) io" where
  "createRecoveryJob q inp =
     io_bind NewString (\<lambda>i.
       let s = \<lparr>rj_ID = i, rj_SurveyMissionID = jn_SurveyMissionID inp,
                rj_AcousticBuoyID = jn_AcousticBuoyID inp, rj_TaskCode = jn_TaskCode inp,
                rj_Status = RecoveryJobQueued, rj_CompletedAt = None, rj_AcceptedAt = None,
                rj_ExpiresAt = jn_ExpiresAt inp, rj_Version = 1\<rparr>
       in wrapRecoveryJob (exec_stmt q (sql_create_job s)) s)"

definition getRecoveryJob :: "sqler \<Rightarrow> string \<Rightarrow> (database, RecoveryJob) io" where
  "getRecoveryJob q i =
     query_row q ''get task'' not_found (\<lambda>env d.
       bind_result (uuid_param env i) (\<lambda>u.
         Inr (map_option RecoveryJob.truncate (find (\<lambda>r. rj_ID r = u) (db_jobs d)))))"

text \<open>The statement that completes a job: one snapshot gives the buoy of the job if it has room,
  the job is updated if there is one, and then the buoy of the updated job counts it.\<close>

definition update_jobs ::
  "(RecoveryJobRow \<Rightarrow> bool) \<Rightarrow> (RecoveryJobRow \<Rightarrow> RecoveryJobRow) \<Rightarrow> database \<Rightarrow>
   go_error + nat \<times> database" where
  "update_jobs hit change d =
     bind_result (sql_update hit (\<lambda>s. (change s)\<lparr>rj_Version := rj_Version s + 1\<rparr>) rj_Version
         (\<lambda>s. rj_Status s \<in> set job_statuses) (db_jobs d))
       (\<lambda>(k, rows). Inr (k, d\<lparr>db_jobs := rows\<rparr>))"

definition eligible_buoys :: "string \<Rightarrow> database \<Rightarrow> AcousticBuoy list" where
  "eligible_buoys u d =
     filter (\<lambda>b. (\<exists>s \<in> set (db_jobs d). rj_ID s = u \<and> rj_AcousticBuoyID s = ab_ID b) \<and>
         ab_Completed b < ab_RequiredSuccesses b) (db_buoys d)"

definition sql_complete_job :: "string \<Rightarrow> int \<Rightarrow> time \<Rightarrow> (database, nat) stmt" where
  "sql_complete_job i version now env n t d =
     bind_result (uuid_param env i) (\<lambda>u.
       let hit = (\<lambda>s. rj_ID s = u \<and> rj_Version s = version \<and> eligible_buoys u d \<noteq> []) in
       bind_result (update_jobs hit
           (\<lambda>s. s\<lparr>rj_Status := RecoveryJobCompleted, rj_CompletedAt := Some (pg_time now)\<rparr>) d)
         (\<lambda>(_, d1).
           bind_result (sql_update
               (\<lambda>b. ab_ID b \<in> rj_AcousticBuoyID ` set (filter hit (db_jobs d)))
               (\<lambda>b. b\<lparr>ab_Completed := ab_Completed b + 1\<rparr>) (\<lambda>_. 0)
               (\<lambda>b. 0 \<le> ab_Completed b) (db_buoys d))
             (\<lambda>(k, rows). Inr (k, d1\<lparr>db_buoys := rows\<rparr>))))"

definition sql_move_job :: "string \<Rightarrow> RecoveryJobStatus \<Rightarrow> int \<Rightarrow> time \<Rightarrow> (database, nat) stmt" where
  "sql_move_job i status version now env n t d =
     bind_result (uuid_param env i) (\<lambda>u.
       update_jobs (\<lambda>s. rj_ID s = u \<and> rj_Version s = version)
         (\<lambda>s. s\<lparr>rj_Status := status,
            rj_CompletedAt := (if status = ''completed'' then Some (pg_time now)
              else rj_CompletedAt s),
            rj_AcceptedAt := (if status = ''accepted'' then Some (pg_time now)
              else rj_AcceptedAt s)\<rparr>) d)"

definition moveRecoveryJob ::
  "sqler \<Rightarrow> string \<Rightarrow> RecoveryJobStatus \<Rightarrow> int \<Rightarrow> time \<Rightarrow> (database, unit) io" where
  "moveRecoveryJob q i status version now =
     (if status = RecoveryJobCompleted then
        one_row (io_wrap (Errorf ''complete task'') (exec_stmt q (sql_complete_job i version now)))
          conflict
      else
        one_row (io_wrap (Errorf ''move task'') (exec_stmt q (sql_move_job i status version now)))
          conflict)"

definition sql_record_activation :: "string \<Rightarrow> ActivationInput \<Rightarrow> (database, unit) stmt" where
  "sql_record_activation i inp env n t d =
     bind_result (uuid_param env i) (\<lambda>u.
     bind_result (uuid_param env (an_RecoveryJobID inp)) (\<lambda>job.
     bind_result (case an_From inp of None \<Rightarrow> Inr None
         | Some f \<Rightarrow> bind_result (uuid_param env f) (\<lambda>x. Inr (Some x))) (\<lambda>from.
     bind_result (uuid_param env (an_To inp)) (\<lambda>to.
       sql_insert
         [(''23505'', u \<notin> av_ID ` set (db_moorings d)),
          (''23503'', job \<in> rj_ID ` set (db_jobs d)),
          (''23503'', (case from of None \<Rightarrow> True | Some f \<Rightarrow> f \<in> op_ID ` set (db_operators d))),
          (''23503'', to \<in> op_ID ` set (db_operators d))]
         (d\<lparr>db_moorings := db_moorings d @
            [\<lparr>av_ID = u, av_RecoveryJobID = job, av_From = from, av_To = to,
              av_Location = an_Location inp, av_RecordedAt = pg_time (an_RecordedAt inp),
              av_Note = an_Note inp\<rparr>]\<rparr>)))))"

definition recordActivation :: "sqler \<Rightarrow> ActivationInput \<Rightarrow> (database, unit) io" where
  "recordActivation q inp =
     io_bind NewString (\<lambda>i. io_wrap wrapWrite (exec_stmt q (sql_record_activation i inp)))"

text \<open>\<open>ValidateSurveyMissionAcousticBuoy\<close>\<close>

definition validateSurveyMissionAcousticBuoy ::
  "sqler \<Rightarrow> string \<Rightarrow> string \<Rightarrow> (database, unit) io" where
  "validateSurveyMissionAcousticBuoy q survey_missionID acoustic_buoyID =
     io_bind (io_wrap (Errorf ''validate survey_mission acoustic_buoy'')
         (exec_stmt q (query (\<lambda>env n t d.
            bind_result (uuid_param env acoustic_buoyID) (\<lambda>buoy.
            bind_result (uuid_param env survey_missionID) (\<lambda>mission.
              Inr (\<exists>b \<in> set (db_buoys d). ab_ID b = buoy \<and> ab_SurveyMissionID b = mission)))))))
       (\<lambda>exists.
          if \<not> exists
            then io_throw (Errorf ''acoustic_buoy does not belong to survey_mission'' conflict)
          else io_return ())"

section \<open>Dive windows\<close>

definition sql_create_window :: "string \<Rightarrow> DiveWindowInput \<Rightarrow> (database, unit) stmt" where
  "sql_create_window i inp env n t d =
     bind_result (uuid_param env i) (\<lambda>u.
     bind_result (int4_param (wn_Capacity inp)) (\<lambda>capacity.
       sql_insert
         [(''23514'', 0 < capacity),
          (''23505'', u \<notin> wr_ID ` set (db_windows d)),
          (''23505'', wn_Code inp \<notin> wr_Code ` set (db_windows d))]
         (d\<lparr>db_windows := db_windows d @
            [\<lparr>wr_ID = u, wr_Code = wn_Code inp, wr_Status = ''queued'', wr_Method = wn_Method inp,
              wr_Capacity = capacity, wr_StartedAt = None, wr_CompletedAt = None,
              wr_Version = 1\<rparr>]\<rparr>)))"

definition createDiveWindow :: "sqler \<Rightarrow> DiveWindowInput \<Rightarrow> (database, string) io" where
  "createDiveWindow q inp =
     io_bind NewString (\<lambda>i. wrapID (exec_stmt q (sql_create_window i inp)) i)"

definition sql_attach_item :: "string \<Rightarrow> string \<Rightarrow> (database, unit) stmt" where
  "sql_attach_item dive_windowID taskID env n t d =
     bind_result (uuid_param env dive_windowID) (\<lambda>window.
     bind_result (uuid_param env taskID) (\<lambda>job.
       sql_insert
         [(''23505'', \<lparr>it_DiveWindowID = window, it_RecoveryJobID = job\<rparr> \<notin> set (db_items d)),
          (''23503'', window \<in> wr_ID ` set (db_windows d)),
          (''23503'', job \<in> rj_ID ` set (db_jobs d))]
         (d\<lparr>db_items := db_items d @ [\<lparr>it_DiveWindowID = window, it_RecoveryJobID = job\<rparr>]\<rparr>)))"

definition sql_start_job :: "string \<Rightarrow> (database, nat) stmt" where
  "sql_start_job taskID env n now d =
     bind_result (uuid_param env taskID) (\<lambda>u.
       update_jobs (\<lambda>s. rj_ID s = u \<and> rj_Status s = ''accepted'' \<and> now \<le> rj_ExpiresAt s)
         (\<lambda>s. s\<lparr>rj_Status := ''in_progress''\<rparr>) d)"

definition attachRecoveryJobs :: "sqler \<Rightarrow> string \<Rightarrow> string list \<Rightarrow> (database, unit) io" where
  "attachRecoveryJobs q dive_windowID taskIDs =
     io_for (\<lambda>taskID.
       io_then (io_wrap wrapWrite (exec_stmt q (sql_attach_item dive_windowID taskID)))
         (one_row (io_wrap wrapWrite (exec_stmt q (sql_start_job taskID)))
            (Errorf (''task '' @ taskID @ '' is not eligible for acoustic_buoy-round execution'')
               invalid_transition)))
       taskIDs"

definition update_windows ::
  "(DiveWindowRow \<Rightarrow> bool) \<Rightarrow> (DiveWindowRow \<Rightarrow> DiveWindowRow) \<Rightarrow> database \<Rightarrow>
   go_error + nat \<times> database" where
  "update_windows hit change d =
     bind_result (sql_update hit (\<lambda>w. (change w)\<lparr>wr_Version := wr_Version w + 1\<rparr>) wr_Version
         (\<lambda>w. wr_Status w \<in> set window_statuses) (db_windows d))
       (\<lambda>(k, rows). Inr (k, d\<lparr>db_windows := rows\<rparr>))"

text \<open>Cancelling: the window, unless it has reports, and with it the jobs it had started.\<close>

definition sql_cancel_window :: "string \<Rightarrow> int \<Rightarrow> (database, nat) stmt" where
  "sql_cancel_window i version env n now d =
     bind_result (uuid_param env i) (\<lambda>u.
       let hit = (\<lambda>w. wr_ID w = u \<and> wr_Version w = version \<and>
             wr_Status w \<in> set [''queued'', ''running''] \<and>
             \<not> (\<exists>r \<in> set (db_reports d). rr_DiveWindowID r = u));
           changed = set (map wr_ID (filter hit (db_windows d)))
       in
       bind_result (update_windows hit
           (\<lambda>w. w\<lparr>wr_Status := ''cancelled'', wr_CompletedAt := Some now\<rparr>) d) (\<lambda>(k, d1).
       bind_result (update_jobs
           (\<lambda>s. rj_Status s = ''in_progress'' \<and>
              (\<exists>it \<in> set (db_items d). it_DiveWindowID it \<in> changed \<and> it_RecoveryJobID it = rj_ID s))
           (\<lambda>s. s\<lparr>rj_Status := ''accepted''\<rparr>) d1) (\<lambda>(_, d2).
         Inr (k, d2))))"

text \<open>An attached job without a report, or with a pending one.\<close>

definition unreported :: "string \<Rightarrow> database \<Rightarrow> bool" where
  "unreported u d \<longleftrightarrow>
     (\<exists>it \<in> set (db_items d). it_DiveWindowID it = u \<and>
        (let rs = filter (\<lambda>r. rr_DiveWindowID r = it_DiveWindowID it \<and>
               rr_RecoveryJobID r = it_RecoveryJobID it) (db_reports d)
         in rs = [] \<or> (\<exists>r \<in> set rs. rr_Status r = ''pending'')))"

definition sql_change_window ::
  "string \<Rightarrow> DiveWindowStatus \<Rightarrow> int \<Rightarrow> string list \<Rightarrow> (database, nat) stmt" where
  "sql_change_window i status version allowedFrom env n now d =
     bind_result (uuid_param env i) (\<lambda>u.
       update_windows
         (\<lambda>w. wr_ID w = u \<and> wr_Version w = version \<and> wr_Status w \<in> set allowedFrom \<and>
            (status \<noteq> ''completed'' \<or> \<not> unreported u d))
         (\<lambda>w. w\<lparr>wr_Status := status,
            wr_StartedAt := (if status = ''running'' then Some now else wr_StartedAt w),
            wr_CompletedAt := (if status = ''completed'' then Some now else wr_CompletedAt w)\<rparr>) d)"

definition changeDiveWindow ::
  "sqler \<Rightarrow> string \<Rightarrow> DiveWindowStatus \<Rightarrow> int \<Rightarrow> (database, unit) io" where
  "changeDiveWindow q i status version =
     (if status = DiveWindowCancelled then
        one_row (io_wrap (Errorf ''cancel dive_window'')
          (exec_stmt q (sql_cancel_window i version))) conflict
      else if status = DiveWindowRunning then
        one_row (io_wrap (Errorf ''change dive_window'')
          (exec_stmt q (sql_change_window i status version [DiveWindowQueued]))) conflict
      else if status = DiveWindowCompleted then
        one_row (io_wrap (Errorf ''change dive_window'')
          (exec_stmt q (sql_change_window i status version [DiveWindowRunning]))) conflict
      else io_throw invalid_transition)"

section \<open>Reports\<close>

definition nonnegative :: "float64 \<Rightarrow> bool" where
  "nonnegative f \<longleftrightarrow> f = NaN \<or> Fin 0 \<le> f"

text \<open>The two scores are \<open>numeric(18,6)\<close> columns that the repository never reads back: the row keeps
  the values as they were sent. That a score does not fit is one of the faults.\<close>

definition sql_create_report ::
  "string \<Rightarrow> SignalRecoveryReportInput \<Rightarrow> (database, unit) stmt" where
  "sql_create_report i inp env n t d =
     bind_result (uuid_param env i) (\<lambda>u.
     bind_result (uuid_param env (pn_RecoveryJobID inp)) (\<lambda>job.
     bind_result (uuid_param env (pn_DiveWindowID inp)) (\<lambda>window.
     bind_result (uuid_param env (pn_RecorderID inp)) (\<lambda>recorder.
       sql_insert
         [(''23514'', nonnegative (pn_RiskScore inp)),
          (''23514'', nonnegative (pn_AlertThreshold inp)),
          (''23505'', u \<notin> rr_ID ` set (db_reports d)),
          (''23505'', (job, window) \<notin>
             (\<lambda>r. (rr_RecoveryJobID r, rr_DiveWindowID r)) ` set (db_reports d)),
          (''23503'', job \<in> rj_ID ` set (db_jobs d)),
          (''23503'', window \<in> wr_ID ` set (db_windows d)),
          (''23503'', recorder \<in> op_ID ` set (db_operators d))]
         (d\<lparr>db_reports := db_reports d @
            [\<lparr>rr_ID = u, rr_RecoveryJobID = job, rr_DiveWindowID = window,
              rr_RecordedBy = recorder, rr_Status = ''pending'', rr_RiskScore = pn_RiskScore inp,
              rr_Scale = pn_Scale inp, rr_AlertThreshold = pn_AlertThreshold inp,
              rr_ObservedAt = pg_time (pn_ObservedAt inp), rr_ReviewedAt = None,
              rr_Version = 1\<rparr>]\<rparr>)))))"

definition createSignalRecoveryReport ::
  "sqler \<Rightarrow> SignalRecoveryReportInput \<Rightarrow> (database, string) io" where
  "createSignalRecoveryReport q inp =
     io_bind NewString (\<lambda>i. wrapID (exec_stmt q (sql_create_report i inp)) i)"

definition sql_review_report ::
  "string \<Rightarrow> SignalRecoveryReportStatus \<Rightarrow> int \<Rightarrow> time \<Rightarrow> (database, nat) stmt" where
  "sql_review_report i status version now env n t d =
     bind_result (uuid_param env i) (\<lambda>u.
       bind_result (sql_update
           (\<lambda>r. rr_ID r = u \<and> rr_Status r = ''pending'' \<and> rr_Version r = version)
           (\<lambda>r. r\<lparr>rr_Status := status, rr_ReviewedAt := Some (pg_time now),
              rr_Version := rr_Version r + 1\<rparr>) rr_Version
           (\<lambda>r. rr_Status r \<in> set [''pending'', ''verified'', ''rejected'']) (db_reports d))
         (\<lambda>(k, rows). Inr (k, d\<lparr>db_reports := rows\<rparr>)))"

definition reviewSignalRecoveryReportRecord ::
  "sqler \<Rightarrow> string \<Rightarrow> bool \<Rightarrow> int \<Rightarrow> time \<Rightarrow> (database, unit) io" where
  "reviewSignalRecoveryReportRecord q i accepted version now =
     (let status = (if \<not> accepted then SignalRecoveryReportRejected
                    else SignalRecoveryReportVerified) in
      one_row (io_wrap (Errorf ''review signal_recovery_report'')
        (exec_stmt q (sql_review_report i status version now))) conflict)"

definition report_target ::
  "string \<Rightarrow> string \<Rightarrow> database \<Rightarrow> (string \<times> string) option" where
  "report_target job window d =
     (case [(rj_Status s, wr_Status b). it \<leftarrow> db_items d, s \<leftarrow> db_jobs d, b \<leftarrow> db_windows d,
             rj_ID s = it_RecoveryJobID it \<and> wr_ID b = it_DiveWindowID it \<and>
             it_RecoveryJobID it = job \<and> it_DiveWindowID it = window] of
        [] \<Rightarrow> None
      | x # _ \<Rightarrow> Some x)"

definition validateSignalRecoveryReportTarget ::
  "sqler \<Rightarrow> string \<Rightarrow> string \<Rightarrow> (database, unit) io" where
  "validateSignalRecoveryReportTarget q taskID dive_windowID =
     io_bind (query_row q ''validate signal_recovery_report target''
         (Errorf ''task is not attached to dive_window'' conflict) (\<lambda>env d.
           bind_result (uuid_param env taskID) (\<lambda>job.
           bind_result (uuid_param env dive_windowID) (\<lambda>window.
             Inr (report_target job window d)))))
       (\<lambda>(taskStatus, dive_windowStatus).
          if taskStatus \<noteq> RecoveryJobInProgress \<or> dive_windowStatus \<noteq> DiveWindowRunning
            then io_throw (Errorf ''task and acoustic_buoy round are not ready for an signal_recovery_report''
              invalid_transition)
          else io_return ())"

definition signal_recovery_reportRecoveryJobID :: "sqler \<Rightarrow> string \<Rightarrow> (database, string) io" where
  "signal_recovery_reportRecoveryJobID q i =
     query_row q ''get signal_recovery_report task'' not_found (\<lambda>env d.
       bind_result (uuid_param env i) (\<lambda>u.
         Inr (map_option rr_RecoveryJobID (find (\<lambda>r. rr_ID r = u) (db_reports d)))))"

section \<open>Integrity incidents\<close>

definition incident_key :: "IntegrityIncident \<Rightarrow> string \<times> string \<times> string" where
  "incident_key r = (ii_RecoveryJobID r, ii_Kind r, ii_Status r)"

definition sql_create_incident ::
  "string \<Rightarrow> IntegrityIncidentInput \<Rightarrow> (database, unit) stmt" where
  "sql_create_incident i inp env n t d =
     bind_result (uuid_param env i) (\<lambda>u.
     bind_result (uuid_param env (cn_RecoveryJobID inp)) (\<lambda>job.
       sql_insert
         [(''23514'', cn_Kind inp \<in> set incident_kinds),
          (''23505'', u \<notin> ii_ID ` set (db_incidents d)),
          (''23505'', (job, cn_Kind inp, ''open'') \<notin> incident_key ` set (db_incidents d)),
          (''23503'', job \<in> rj_ID ` set (db_jobs d))]
         (d\<lparr>db_incidents := db_incidents d @
            [\<lparr>ii_ID = u, ii_RecoveryJobID = job, ii_Kind = cn_Kind inp, ii_Status = ''open'',
              ii_Reason = cn_Reason inp, ii_DueAt = pg_time (cn_DueAt inp),
              ii_ClosedAt = None\<rparr>]\<rparr>)))"

definition createIntegrityIncident ::
  "sqler \<Rightarrow> IntegrityIncidentInput \<Rightarrow> (database, string) io" where
  "createIntegrityIncident q inp =
     io_bind NewString (\<lambda>i. wrapID (exec_stmt q (sql_create_incident i inp)) i)"

text \<open>An UPDATE of incidents also checks \<open>UNIQUE (recovery_job_id, kind, status)\<close>.\<close>

definition sql_update_incident ::
  "string \<Rightarrow> string list \<Rightarrow> (IntegrityIncident \<Rightarrow> IntegrityIncident) \<Rightarrow> (database, nat) stmt" where
  "sql_update_incident i from change env n t d =
     bind_result (uuid_param env i) (\<lambda>u.
       bind_result (sql_update (\<lambda>r. ii_ID r = u \<and> ii_Status r \<in> set from) change (\<lambda>_. 0)
           (\<lambda>r. ii_Status r \<in> set [''open'', ''in_progress'', ''closed'']) (db_incidents d))
         (\<lambda>(k, rows).
            if \<not> distinct (map incident_key rows) then Inl (PgError ''23505'')
            else Inr (k, d\<lparr>db_incidents := rows\<rparr>)))"

definition closeIntegrityIncident :: "sqler \<Rightarrow> string \<Rightarrow> time \<Rightarrow> (database, unit) io" where
  "closeIntegrityIncident q i now =
     one_row (io_wrap (Errorf ''close safety_alert'')
       (exec_stmt q (sql_update_incident i [''open'', ''in_progress'']
          (\<lambda>r. r\<lparr>ii_Status := ''closed'', ii_ClosedAt := Some (pg_time now)\<rparr>)))) conflict"

definition markIntegrityIncidentInProgress :: "sqler \<Rightarrow> string \<Rightarrow> (database, unit) io" where
  "markIntegrityIncidentInProgress q i =
     one_row (io_wrap (Errorf ''mark safety_alert in progress'')
       (exec_stmt q (sql_update_incident i [''open''] (\<lambda>r. r\<lparr>ii_Status := ''in_progress''\<rparr>))))
       conflict"

section \<open>Assignments\<close>

definition sql_create_assignment :: "Assignment \<Rightarrow> (database, unit) stmt" where
  "sql_create_assignment a env n t d =
     bind_result (uuid_param env (as_ID a)) (\<lambda>u.
     bind_result (uuid_param env (as_SurveyMissionID a)) (\<lambda>mission.
     bind_result (uuid_param env (as_AcousticBuoyID a)) (\<lambda>buoy.
     bind_result (uuid_param env (as_ArrayOperatorID a)) (\<lambda>operator.
       sql_insert
         [(''23514'', as_Status a \<in> set [''queued'', ''active'', ''completed'', ''cancelled'']),
          (''23514'', pg_time (as_StartsAt a) < pg_time (as_EndsAt a)),
          (''23505'', u \<notin> as_ID ` set (db_assignments d)),
          (''23505'', (buoy, pg_time (as_StartsAt a)) \<notin>
             (\<lambda>r. (as_AcousticBuoyID r, as_StartsAt r)) ` set (db_assignments d)),
          (''23503'', mission \<in> sm_ID ` set (db_missions d)),
          (''23503'', buoy \<in> ab_ID ` set (db_buoys d)),
          (''23503'', operator \<in> op_ID ` set (db_operators d))]
         (d\<lparr>db_assignments := db_assignments d @
            [\<lparr>as_ID = u, as_SurveyMissionID = mission, as_AcousticBuoyID = buoy,
              as_ArrayOperatorID = operator, as_StartsAt = pg_time (as_StartsAt a),
              as_EndsAt = pg_time (as_EndsAt a), as_Status = as_Status a,
              as_Version = 1\<rparr>]\<rparr>)))))"

definition createAssignment :: "sqler \<Rightarrow> Assignment \<Rightarrow> (database, unit) io" where
  "createAssignment q assignment =
     io_then (io_check (Assignment_Validate assignment))
       (io_wrap wrapWrite (exec_stmt q (sql_create_assignment assignment)))"

definition update_assignments ::
  "(AssignmentRow \<Rightarrow> bool) \<Rightarrow> string \<Rightarrow> database \<Rightarrow> go_error + nat \<times> database" where
  "update_assignments hit status d =
     bind_result (sql_update hit
         (\<lambda>a. a\<lparr>as_Status := status, as_Version := as_Version a + 1\<rparr>) as_Version
         (\<lambda>a. as_Status a \<in> set [''queued'', ''active'', ''completed'', ''cancelled''])
         (db_assignments d))
       (\<lambda>(k, rows). Inr (k, d\<lparr>db_assignments := rows\<rparr>))"

definition sql_advance_assignment ::
  "string \<Rightarrow> string \<Rightarrow> int \<Rightarrow> string list \<Rightarrow> (database, nat) stmt" where
  "sql_advance_assignment i status version allowedFrom env n t d =
     bind_result (uuid_param env i) (\<lambda>u.
       update_assignments (\<lambda>a. as_ID a = u \<and> as_Version a = version \<and>
         as_Status a \<in> set allowedFrom) status d)"

definition advanceAssignment :: "sqler \<Rightarrow> string \<Rightarrow> string \<Rightarrow> int \<Rightarrow> (database, unit) io" where
  "advanceAssignment q i status version =
     (case AssignmentSourcesFor status of
        None \<Rightarrow> io_throw invalid_transition
      | Some allowedFrom \<Rightarrow>
          if allowedFrom = [] then io_throw invalid_transition
          else one_row (io_wrap (Errorf ''advance assignment'')
            (exec_stmt q (sql_advance_assignment i status version allowedFrom))) conflict)"

definition NewAssignment ::
  "string \<Rightarrow> string \<Rightarrow> string \<Rightarrow> time \<Rightarrow> time \<Rightarrow> (database, Assignment) io" where
  "NewAssignment survey_missionID acoustic_buoyID array_operatorID startsAt endsAt =
     io_bind NewString (\<lambda>i.
       io_return \<lparr>as_ID = i, as_SurveyMissionID = survey_missionID,
         as_AcousticBuoyID = acoustic_buoyID, as_ArrayOperatorID = array_operatorID,
         as_StartsAt = startsAt, as_EndsAt = endsAt, as_Status = ''queued''\<rparr>)"

text \<open>No other transaction is open while a statement runs, so SKIP LOCKED skips nothing.\<close>

definition sql_activate_due :: "time \<Rightarrow> int \<Rightarrow> (database, nat) stmt" where
  "sql_activate_due now limit env n t d =
     (let due = sort_stable (order_lt as_StartsAt False (\<lambda>a. en_tie env n (as_ID a)))
            (filter (\<lambda>a. as_Status a = ''queued'' \<and> as_StartsAt a \<le> pg_time now \<and>
               pg_time now < as_EndsAt a) (db_assignments d));
          ids = as_ID ` set (sql_page limit 0 due)
      in update_assignments (\<lambda>a. as_ID a \<in> ids) ''active'' d)"

definition ActivateDue :: "time \<Rightarrow> int \<Rightarrow> (database, nat) io" where
  "ActivateDue now limit0 =
     (let limit = (if limit0 < 1 \<or> 500 < limit0 then 100 else limit0) in
      io_wrap (Errorf ''activate due assignments'') (exec_stmt Pool (sql_activate_due now limit)))"

section \<open>Audit events\<close>

definition sql_write_audit :: "string \<Rightarrow> AuditInput \<Rightarrow> (database, unit) stmt" where
  "sql_write_audit i inp env n now d =
     bind_result (uuid_param env i) (\<lambda>u.
     bind_result (case un_ArrayOperatorID inp of None \<Rightarrow> Inr None
         | Some f \<Rightarrow> bind_result (uuid_param env f) (\<lambda>x. Inr (Some x))) (\<lambda>operator.
     bind_result (uuid_param env (un_ObjectID inp)) (\<lambda>object.
     bind_result (case en_jsonb_in env (un_Detail inp) of None \<Rightarrow> Inl (PgError ''22P02'')
         | Some j \<Rightarrow> Inr j) (\<lambda>detail.
       sql_insert
         [(''23505'', u \<notin> ar_ID ` set (db_audits d)),
          (''23503'', (case operator of None \<Rightarrow> True
             | Some f \<Rightarrow> f \<in> op_ID ` set (db_operators d)))]
         (d\<lparr>db_audits := db_audits d @
            [\<lparr>ar_ID = u, ar_RequestID = un_RequestID inp, ar_ArrayOperatorID = operator,
              ar_ObjectType = un_ObjectType inp, ar_ObjectID = object, ar_Action = un_Action inp,
              ar_Outcome = un_Outcome inp, ar_Detail = detail, ar_CreatedAt = now\<rparr>]\<rparr>)))))"

definition writeAudit :: "sqler \<Rightarrow> AuditInput \<Rightarrow> (database, unit) io" where
  "writeAudit q inp =
     (let detail = (if un_Detail inp = [] then ''{}'' else un_Detail inp) in
      io_bind (io_read (\<lambda>env _. en_json_valid env detail)) (\<lambda>valid.
        if \<not> valid then io_throw (Errorf ''invalid audit detail'' conflict)
        else io_bind NewString (\<lambda>i.
          io_wrap wrapWrite (exec_stmt q (sql_write_audit i (inp\<lparr>un_Detail := detail\<rparr>))))))"

section \<open>Expired jobs\<close>

record ReconcileResult =
  re_Scanned :: int
  re_Marked :: int
  re_Failed :: int

definition expirable :: "string list" where
  "expirable = [''queued'', ''completed'', ''activation_pending'', ''accepted'', ''in_progress'']"

definition expired_ids :: "time \<Rightarrow> int \<Rightarrow> env \<Rightarrow> nat \<Rightarrow> database \<Rightarrow> string list" where
  "expired_ids now limit env n d =
     map rj_ID (sql_page limit 0 (sort_stable
       (order_lt rj_ExpiresAt False (\<lambda>s. en_tie env n (rj_ID s)))
       (filter (\<lambda>s. rj_Status s \<in> set expirable \<and> rj_ExpiresAt s < pg_time now) (db_jobs d))))"

definition sql_expire_job :: "string \<Rightarrow> (database, nat) stmt" where
  "sql_expire_job i env n t d =
     bind_result (uuid_param env i) (\<lambda>u.
       update_jobs (\<lambda>s. rj_ID s = u \<and> rj_Status s \<in> set expirable)
         (\<lambda>s. s\<lparr>rj_Status := ''rejected''\<rparr>) d)"

definition expire_audit :: "string \<Rightarrow> AuditInput" where
  "expire_audit i = \<lparr>un_RequestID = ''worker:task-expiration'', un_ArrayOperatorID = None,
     un_ObjectType = ''task'', un_ObjectID = i, un_Action = ''expire'', un_Outcome = ''success'',
     un_Detail = ''{}''\<rparr>"

fun expire_loop :: "string list \<Rightarrow> ReconcileResult \<Rightarrow> (database, ReconcileResult) io" where
  "expire_loop [] result = io_return result"
| "expire_loop (i # ids) result =
     io_bind (io_wrap (Errorf (''mark task '' @ i @ '' expired'')) (exec_stmt Tx (sql_expire_job i)))
       (\<lambda>updated.
          if updated \<noteq> 1 then expire_loop ids (result\<lparr>re_Failed := re_Failed result + 1\<rparr>)
          else io_bind NewString (\<lambda>audit_id.
            io_then (io_wrap (Errorf (''audit expired task '' @ i))
                (exec_stmt Tx (sql_write_audit audit_id (expire_audit i))))
              (expire_loop ids (result\<lparr>re_Marked := re_Marked result + 1\<rparr>))))"

definition MarkExpiredRecoveryJobs :: "time \<Rightarrow> int \<Rightarrow> (database, ReconcileResult) io" where
  "MarkExpiredRecoveryJobs now limit0 =
     (let limit = (if limit0 < 1 \<or> 500 < limit0 then 100 else limit0) in
      run_tx ''begin expired task reconciliation'' ''commit expired task reconciliation''
        (io_bind (io_wrap (Errorf ''select expired recovery_jobs'')
             (exec_stmt Tx (query (\<lambda>env n t d. Inr (expired_ids now limit env n d)))))
           (\<lambda>ids. expire_loop ids \<lparr>re_Scanned = int (length ids), re_Marked = 0, re_Failed = 0\<rparr>)))"

section \<open>Idempotency keys and bulk creation\<close>

definition GetIdempotency :: "string \<Rightarrow> (database, Record option) io" where
  "GetIdempotency key =
     io_wrap (Errorf ''get idempotency record'')
       (exec_stmt Pool (query (\<lambda>env n t d. Inr (find (\<lambda>r. rc_Key r = key) (db_keys d)))))"

definition sql_put_key :: "Record \<Rightarrow> (database, unit) stmt" where
  "sql_put_key r env n t d =
     bind_result (int4_param (rc_ResponseCode r)) (\<lambda>code.
     bind_result (case en_jsonb_in env (rc_ResponseBody r) of None \<Rightarrow> Inl (PgError ''22P02'')
         | Some j \<Rightarrow> Inr j) (\<lambda>body.
       Inr ((), if rc_Key r \<in> rc_Key ` set (db_keys d) then d
                else d\<lparr>db_keys := db_keys d @ [r\<lparr>rc_ResponseBody := body\<rparr>]\<rparr>)))"

definition PutIdempotency :: "Record \<Rightarrow> (database, unit) io" where
  "PutIdempotency r = io_wrap wrapWrite (exec_stmt Pool (sql_put_key r))"

definition repo_CreateRecoveryJobsBulk ::
  "RecoveryJobInput list \<Rightarrow> (database, RecoveryJob list) io" where
  "repo_CreateRecoveryJobsBulk inputs =
     InTx Pool (io_collect (\<lambda>input.
       io_wrap (Errorf (''create task '' @ jn_TaskCode input)) (createRecoveryJob Tx input)) inputs)"

definition ValidateBulkCapacity :: "RecoveryJobInput list \<Rightarrow> int \<Rightarrow> go_error option" where
  "ValidateBulkCapacity inputs capacity =
     (if capacity < 1 \<or> capacity < int (length inputs) then Some capacity_exceeded else None)"

end
