(* ===== verification/Repository_Query.thy ===== *)
theory Repository_Query
  imports Repository
begin

text \<open>
  \<open>internal/repository\<close>: the operations that only read (\<open>listRecoveryJobs\<close> and
  \<open>dueIntegrityIncidents\<close> of \<open>postgres.go\<close>, \<open>search.go\<close>, \<open>program_queries.go\<close>,
  \<open>recovery_job_queries.go\<close>, \<open>progress.go\<close>, \<open>report.go\<close>, \<open>handoff.go\<close>, \<open>audit.go\<close>,
  \<open>audit_query.go\<close>, \<open>array_operators_query.go\<close>, \<open>array_operator_roles.go\<close>,
  \<open>intervention.go\<close>). A scan error is one of the faults of its statement.
\<close>

section \<open>Pages of rows\<close>

text \<open>The two statements of a listing: the page, and \<open>count(*)\<close> under the same conditions.\<close>

definition optional :: "string \<Rightarrow> (string \<Rightarrow> bool) \<Rightarrow> bool" where
  "optional given condition \<longleftrightarrow> (if given \<noteq> '''' then condition given else True)"

definition ordered_by ::
  "env \<Rightarrow> nat \<Rightarrow> ('r \<Rightarrow> 'k::linorder) \<Rightarrow> bool \<Rightarrow> ('r \<Rightarrow> string) \<Rightarrow> 'r list \<Rightarrow> 'r list" where
  "ordered_by env n key descending ident rows =
     sort_stable (order_lt key descending (\<lambda>r. en_tie env n (ident r))) rows"

definition optional_uuid :: "env \<Rightarrow> string \<Rightarrow> string result" where
  "optional_uuid env s = (if s \<noteq> '''' then uuid_param env s else Inr [])"

record Page =
  pp_Items :: "RecoveryJob list"
  pp_Total :: int
  pp_Offset :: int
  pp_Limit :: int

definition listed_jobs :: "string \<Rightarrow> RecoveryJobStatus \<Rightarrow> database \<Rightarrow> RecoveryJobRow list" where
  "listed_jobs mission status d =
     filter (\<lambda>s. optional mission (\<lambda>m. rj_SurveyMissionID s = m) \<and>
         optional status (\<lambda>x. rj_Status s = x)) (db_jobs d)"

definition listRecoveryJobs ::
  "sqler \<Rightarrow> int \<Rightarrow> int \<Rightarrow> string \<Rightarrow> RecoveryJobStatus \<Rightarrow> (database, Page) io" where
  "listRecoveryJobs q offset limit survey_missionID status =
     io_bind (io_wrap (Errorf ''list recovery_jobs'') (exec_stmt q (query (\<lambda>env n t d.
        bind_result (optional_uuid env survey_missionID) (\<lambda>m.
        bind_result (limit_param ''2201W'' limit) (\<lambda>l.
        bind_result (limit_param ''2201X'' offset) (\<lambda>k.
          Inr (map RecoveryJob.truncate (sql_page l k
            (ordered_by env n rj_CreatedAt True rj_ID (listed_jobs m status d)))))))))))
       (\<lambda>items.
     io_bind (io_wrap (Errorf ''count recovery_jobs'') (exec_stmt q (query (\<lambda>env n t d.
        bind_result (optional_uuid env survey_missionID) (\<lambda>m.
          Inr (int (length (listed_jobs m status d))))))))
       (\<lambda>n. io_return \<lparr>pp_Items = items, pp_Total = n, pp_Offset = offset, pp_Limit = limit\<rparr>))"

definition dueIntegrityIncidents ::
  "sqler \<Rightarrow> time \<Rightarrow> int \<Rightarrow> (database, IntegrityIncidentInput list) io" where
  "dueIntegrityIncidents q before limit =
     io_wrap (Errorf ''due integrity_incidents'') (exec_stmt q (query (\<lambda>env n t d.
       bind_result (limit_param ''2201W'' limit) (\<lambda>l.
       Inr (map (\<lambda>r. \<lparr>cn_RecoveryJobID = ii_RecoveryJobID r, cn_Kind = ii_Kind r,
              cn_Reason = ii_Reason r, cn_DueAt = ii_DueAt r\<rparr>)
         (sql_page l 0 (ordered_by env n ii_DueAt False ii_ID
            (filter (\<lambda>r. ii_Status r \<in> set [''open'', ''in_progress''] \<and>
                ii_DueAt r \<le> pg_time before) (db_incidents d)))))))))"

section \<open>LIKE\<close>

text \<open>\<open>%\<close> matches any text, \<open>_\<close> one character of UTF-8 (a byte and its continuation bytes), a
  backslash makes the next byte literal.\<close>

definition continuation :: "char \<Rightarrow> bool" where
  "continuation c \<longleftrightarrow> 128 \<le> (of_char c :: nat) \<and> (of_char c :: nat) < 192"

definition drop_char :: "string \<Rightarrow> string" where
  "drop_char s = dropWhile continuation (tl s)"

lemma length_drop_char: "length (drop_char (y # ys)) \<le> length ys"
  by (simp add: drop_char_def length_dropWhile_le)

function sql_like :: "string \<Rightarrow> string \<Rightarrow> bool" where
  "sql_like [] s \<longleftrightarrow> s = []"
| "sql_like (c # p) s \<longleftrightarrow>
     (if c = CHR ''%'' then sql_like p s \<or> (if s = [] then False else sql_like (c # p) (tl s))
      else if s = [] then False
      else if c = CHR ''_'' then sql_like p (drop_char s)
      else if c = CHR 0x5C then
        (case p of [] \<Rightarrow> False | b # p' \<Rightarrow> hd s = b \<and> sql_like p' (tl s))
      else hd s = c \<and> sql_like p (tl s))"
  by pat_completeness auto
termination
  by (relation "measure (\<lambda>(p, s). length p + length s)")
    (auto simp: neq_Nil_conv less_Suc_eq_le le_SucI length_drop_char)

section \<open>Listings\<close>

definition search_where :: "env \<Rightarrow> RecoveryJobFilter \<Rightarrow> string \<Rightarrow> RecoveryJobRow \<Rightarrow> bool" where
  "search_where env f mission s \<longleftrightarrow>
     optional mission (\<lambda>m. rj_SurveyMissionID s = m) \<and>
     optional (fl_Status f) (\<lambda>x. rj_Status s = x) \<and>
     optional (fl_Search f) (\<lambda>x. sql_like (en_lower env (''%'' @ x @ ''%''))
       (en_lower env (rj_TaskCode s)))"

definition search_sorted ::
  "env \<Rightarrow> nat \<Rightarrow> SearchRequest \<Rightarrow> RecoveryJobRow list \<Rightarrow> RecoveryJobRow list" where
  "search_sorted env n request rows =
     (if sr_Sort request = SortExpiry
        then ordered_by env n rj_ExpiresAt (sr_Desc request) rj_ID rows
      else if sr_Sort request = SortCode
        then ordered_by env n (\<lambda>s. en_collate env (rj_TaskCode s)) (sr_Desc request) rj_ID rows
      else ordered_by env n rj_CreatedAt (sr_Desc request) rj_ID rows)"

text \<open>The argument \<open>lower\<close> is \<open>strings.ToLower\<close>, which \<open>Normalize\<close> applies to the search text.\<close>

definition repo_SearchRecoveryJobs ::
  "(string \<Rightarrow> string) \<Rightarrow> SearchRequest \<Rightarrow> (database, Page) io" where
  "repo_SearchRecoveryJobs lower request0 =
     (let request = SearchRequest_Normalize lower request0;
          f = sr_Filter request in
      io_bind (io_wrap (Errorf ''search recovery_jobs'') (exec_stmt Pool (query (\<lambda>env n t d.
        bind_result (optional_uuid env (fl_SurveyMissionID f)) (\<lambda>m.
          Inr (map RecoveryJob.truncate (sql_page (sr_Limit request) (sr_Offset request)
            (search_sorted env n request (filter (search_where env f m) (db_jobs d))))))))))
        (\<lambda>items.
      io_bind (io_wrap (Errorf ''count recovery_jobs'') (exec_stmt Pool (query (\<lambda>env n t d.
        bind_result (optional_uuid env (fl_SurveyMissionID f)) (\<lambda>m.
          Inr (int (length (filter (search_where env f m) (db_jobs d)))))))))
        (\<lambda>k. io_return \<lparr>pp_Items = items, pp_Total = k, pp_Offset = sr_Offset request,
                pp_Limit = sr_Limit request\<rparr>)))"

record SurveyMissionFilter =
  mf_Status :: SurveyMissionStatus
  mf_Search :: string
  mf_Limit :: int
  mf_Offset :: int

definition mission_where :: "env \<Rightarrow> SurveyMissionFilter \<Rightarrow> SurveyMission \<Rightarrow> bool" where
  "mission_where env f p \<longleftrightarrow>
     optional (mf_Status f) (\<lambda>x. sm_Status p = x) \<and>
     optional (mf_Search f) (\<lambda>x.
       let pat = en_lower env (''%'' @ x @ ''%'') in
       sql_like pat (en_lower env (sm_Code p)) \<or> sql_like pat (en_lower env (sm_Name p)))"

definition repo_ListSurveyMissions ::
  "SurveyMissionFilter \<Rightarrow> (database, SurveyMission list \<times> int) io" where
  "repo_ListSurveyMissions f0 =
     (let f1 = (if mf_Limit f0 < 1 \<or> 100 < mf_Limit f0 then f0\<lparr>mf_Limit := 50\<rparr> else f0);
          f = (if mf_Offset f1 < 0 then f1\<lparr>mf_Offset := 0\<rparr> else f1) in
      io_bind (io_wrap (Errorf ''list cases'') (exec_stmt Pool (query (\<lambda>env n t d.
        Inr (sql_page (mf_Limit f) (mf_Offset f) (ordered_by env n sm_StartsAt True sm_ID
          (filter (mission_where env f) (db_missions d))))))))
        (\<lambda>items.
      io_bind (io_wrap (Errorf ''count cases'') (exec_stmt Pool (query (\<lambda>env n t d.
        Inr (int (length (filter (mission_where env f) (db_missions d))))))))
        (\<lambda>k. io_return (items, k))))"

definition repo_ListSurveyMissionAcousticBuoys :: "string \<Rightarrow> (database, AcousticBuoy list) io" where
  "repo_ListSurveyMissionAcousticBuoys survey_missionID =
     io_wrap (Errorf ''list survey_mission acoustic_buoys'') (exec_stmt Pool (query (\<lambda>env n t d.
       bind_result (uuid_param env survey_missionID) (\<lambda>m.
         Inr (ordered_by env n (\<lambda>b. en_collate env (ab_Code b)) False ab_ID
           (filter (\<lambda>b. ab_SurveyMissionID b = m) (db_buoys d)))))))"

definition repo_ListArrayOperators ::
  "ArrayOperatorRole \<Rightarrow> int \<Rightarrow> int \<Rightarrow> (database, ArrayOperator list \<times> int) io" where
  "repo_ListArrayOperators role limit0 offset0 =
     (let limit = (if limit0 < 1 \<or> 100 < limit0 then 50 else limit0);
          offset = (if offset0 < 0 then 0 else offset0);
          matches = (\<lambda>r. optional role (\<lambda>x. op_Role r = x)) in
      io_bind (io_wrap (Errorf ''list array_operators'') (exec_stmt Pool (query (\<lambda>env n t d.
        Inr (sql_page limit offset (ordered_by env n (\<lambda>r. en_collate env (op_Name r)) False op_ID
          (filter matches (db_operators d))))))))
        (\<lambda>items.
      io_bind (io_wrap (Errorf ''count array_operators'') (exec_stmt Pool (query (\<lambda>env n t d.
        Inr (int (length (filter matches (db_operators d))))))))
        (\<lambda>k. io_return (items, k))))"

definition ArrayOperatorsForRole :: "ArrayOperatorRole \<Rightarrow> (database, ArrayOperator list) io" where
  "ArrayOperatorsForRole role =
     io_wrap (Errorf ''array_operators for role'') (exec_stmt Pool (query (\<lambda>env n t d.
       Inr (ordered_by env n (\<lambda>r. en_collate env (op_Name r)) False op_ID
         (filter (\<lambda>r. op_Role r = role) (db_operators d))))))"

section \<open>Counts, progress and reports\<close>

record job_counts =
  ct_Queued :: int
  ct_Completed :: int
  ct_Transit :: int
  ct_Accepted :: int
  ct_InProgress :: int
  ct_Verified :: int
  ct_Rejected :: int
  ct_Archived :: int

text \<open>\<open>count(*) FILTER (WHERE status=...)\<close> over the jobs of a mission.\<close>

definition count_status :: "string \<Rightarrow> RecoveryJobStatus \<Rightarrow> database \<Rightarrow> int" where
  "count_status mission status d =
     int (length (filter (\<lambda>s. rj_SurveyMissionID s = mission \<and> rj_Status s = status) (db_jobs d)))"

definition RecoveryJobCounts :: "string \<Rightarrow> (database, job_counts) io" where
  "RecoveryJobCounts survey_missionID =
     io_wrap (Errorf ''task counts'') (exec_stmt Pool (query (\<lambda>env n t d.
       bind_result (uuid_param env survey_missionID) (\<lambda>m.
         Inr \<lparr>ct_Queued = count_status m ''queued'' d,
              ct_Completed = count_status m ''completed'' d,
              ct_Transit = count_status m ''activation_pending'' d,
              ct_Accepted = count_status m ''accepted'' d,
              ct_InProgress = count_status m ''in_progress'' d,
              ct_Verified = count_status m ''verified'' d,
              ct_Rejected = count_status m ''rejected'' d,
              ct_Archived = count_status m ''archived'' d\<rparr>))))"

definition mission_buoys :: "string \<Rightarrow> database \<Rightarrow> AcousticBuoy list" where
  "mission_buoys m d = filter (\<lambda>b. ab_SurveyMissionID b = m) (db_buoys d)"

definition mission_progress :: "string \<Rightarrow> string \<Rightarrow> database \<Rightarrow> SurveyMissionProgress" where
  "mission_progress survey_missionID m d =
     \<lparr>pg_SurveyMissionID = survey_missionID,
      pg_AcousticBuoys = int (length (mission_buoys m d)),
      pg_Required = sum_list (map ab_RequiredSuccesses (mission_buoys m d)),
      pg_Completed = count_status m ''completed'' d,
      pg_Accepted = count_status m ''accepted'' d,
      pg_InProgress = count_status m ''in_progress'' d,
      pg_Verified = count_status m ''verified'' d,
      pg_Rejected = count_status m ''rejected'' d,
      pg_Archived = count_status m ''archived'' d\<rparr>"

definition survey_missionProgress :: "sqler \<Rightarrow> string \<Rightarrow> (database, SurveyMissionProgress) io" where
  "survey_missionProgress q survey_missionID =
     io_wrap (Errorf ''survey_mission progress'') (exec_stmt q (query (\<lambda>env n t d.
       bind_result (uuid_param env survey_missionID) (\<lambda>m.
         Inr (mission_progress survey_missionID m d)))))"

definition expiringRecoveryJobs ::
  "string \<Rightarrow> time \<Rightarrow> int \<Rightarrow> (database, RecoveryJob list) io" where
  "expiringRecoveryJobs survey_missionID before limit0 =
     (let limit = (if limit0 < 1 \<or> 1000 < limit0 then 100 else limit0) in
      io_wrap (Errorf ''expiring recovery_jobs'') (exec_stmt Pool (query (\<lambda>env n t d.
        bind_result (optional_uuid env survey_missionID) (\<lambda>m.
          Inr (map RecoveryJob.truncate (sql_page limit 0
            (ordered_by env n rj_ExpiresAt False rj_ID
              (filter (\<lambda>s. rj_Status s \<notin> set [''verified'', ''archived''] \<and>
                  rj_ExpiresAt s \<le> pg_time before \<and>
                  optional m (\<lambda>x. rj_SurveyMissionID s = x)) (db_jobs d))))))))))"

definition repo_ExpiringRecoveryJobs :: "time \<Rightarrow> int \<Rightarrow> (database, RecoveryJob list) io" where
  "repo_ExpiringRecoveryJobs before limit = expiringRecoveryJobs '''' before limit"

definition ExpiringRecoveryJobsForSurveyMission ::
  "string \<Rightarrow> time \<Rightarrow> int \<Rightarrow> (database, RecoveryJob list) io" where
  "ExpiringRecoveryJobsForSurveyMission survey_missionID before limit =
     expiringRecoveryJobs survey_missionID before limit"

definition open_incidents :: "string \<Rightarrow> database \<Rightarrow> int" where
  "open_incidents m d =
     int (length [(i, s). i \<leftarrow> db_incidents d, s \<leftarrow> db_jobs d, rj_ID s = ii_RecoveryJobID i \<and>
        rj_SurveyMissionID s = m \<and> ii_Status i \<in> set [''open'', ''in_progress'']])"

definition OpenIntegrityIncidentCount :: "string \<Rightarrow> (database, int) io" where
  "OpenIntegrityIncidentCount survey_missionID =
     io_wrap (Errorf ''open safety_alert count'') (exec_stmt Pool (query (\<lambda>env n t d.
       bind_result (uuid_param env survey_missionID) (\<lambda>m. Inr (open_incidents m d)))))"

definition repo_ComplianceReport :: "string \<Rightarrow> time \<Rightarrow> (database, ComplianceReport) io" where
  "repo_ComplianceReport survey_missionID now =
     io_bind (survey_missionProgress Pool survey_missionID) (\<lambda>progress.
     io_bind (ExpiringRecoveryJobsForSurveyMission survey_missionID (now + 48 * hour) 100)
       (\<lambda>expiring.
     io_bind (OpenIntegrityIncidentCount survey_missionID) (\<lambda>n.
       io_return \<lparr>cr_SurveyMissionID = survey_missionID, cr_GeneratedAt = now,
         cr_Progress = progress, cr_Expiring = expiring, cr_OpenIntegrityIncidents = n\<rparr>)))"

definition GetIntegrityIncident :: "string \<Rightarrow> (database, IntegrityIncident) io" where
  "GetIntegrityIncident i =
     query_row Pool ''get safety_alert'' not_found (\<lambda>env d.
       bind_result (uuid_param env i) (\<lambda>u. Inr (find (\<lambda>r. ii_ID r = u) (db_incidents d))))"

section \<open>Handoffs\<close>

text \<open>ORDER BY \<open>recorded_at, id\<close>, a total order on the rows.\<close>

definition handoff_less :: "ActivationRecord \<Rightarrow> ActivationRecord \<Rightarrow> bool" where
  "handoff_less a b \<longleftrightarrow> av_RecordedAt a < av_RecordedAt b \<or>
     av_RecordedAt a = av_RecordedAt b \<and> av_ID a < av_ID b"

definition ListActivation :: "string \<Rightarrow> (database, ActivationRecord list) io" where
  "ListActivation taskID =
     io_wrap (Errorf ''list activation'') (exec_stmt Pool (query (\<lambda>env n t d.
       bind_result (uuid_param env taskID) (\<lambda>u.
         Inr (sort_stable handoff_less (filter (\<lambda>r. av_RecoveryJobID r = u) (db_moorings d)))))))"

fun activation_loop :: "ActivationRecord \<Rightarrow> ActivationRecord list \<Rightarrow> go_error option" where
  "activation_loop previous [] = None"
| "activation_loop previous (item # items) =
     (if av_RecordedAt item < av_RecordedAt previous
        then Some (Errorf ''activation sequence is not chronological'' conflict)
      else if av_From item = None \<or> the (av_From item) \<noteq> av_To previous
        then Some (Errorf ''activation chain has a broken activation'' conflict)
      else activation_loop item items)"

definition ValidateActivationSequence :: "ActivationRecord list \<Rightarrow> go_error option" where
  "ValidateActivationSequence items =
     (case items of [] \<Rightarrow> None | first # rest \<Rightarrow> activation_loop first rest)"

section \<open>The audit log\<close>

definition repo_AuditHistory :: "string \<Rightarrow> string \<Rightarrow> int \<Rightarrow> (database, AuditSummary list) io" where
  "repo_AuditHistory objectType objectID limit0 =
     (let limit = (if limit0 \<le> 0 \<or> 200 < limit0 then 50 else limit0) in
      io_wrap (Errorf ''audit history'') (exec_stmt Pool (query (\<lambda>env n t d.
        bind_result (uuid_param env objectID) (\<lambda>u.
          Inr (map (\<lambda>r. \<lparr>au_ObjectType = ar_ObjectType r, au_ObjectID = ar_ObjectID r,
                 au_Action = ar_Action r, au_Outcome = ar_Outcome r, au_At = ar_CreatedAt r\<rparr>)
            (sql_page limit 0 (ordered_by env n ar_CreatedAt True ar_ID
              (filter (\<lambda>r. ar_ObjectType r = objectType \<and> ar_ObjectID r = u)
                (db_audits d))))))))))"

definition audit_where :: "audit_filter \<Rightarrow> string \<Rightarrow> time \<Rightarrow> time \<Rightarrow> AuditRow \<Rightarrow> bool" where
  "audit_where f object from to r \<longleftrightarrow>
     pg_time from \<le> ar_CreatedAt r \<and> ar_CreatedAt r < pg_time to \<and>
     optional (af_ObjectType f) (\<lambda>x. ar_ObjectType r = x) \<and>
     optional object (\<lambda>x. ar_ObjectID r = x) \<and>
     optional (af_Action f) (\<lambda>x. ar_Action r = x) \<and>
     optional (af_Outcome f) (\<lambda>x. ar_Outcome r = x)"

definition audit_event :: "AuditRow \<Rightarrow> string Event" where
  "audit_event r = \<lparr>ev_RequestID = ar_RequestID r, ev_ArrayOperatorID = ar_ArrayOperatorID r,
     ev_ObjectType = ar_ObjectType r, ev_ObjectID = ar_ObjectID r, ev_Action = ar_Action r,
     ev_Outcome = ar_Outcome r, ev_Detail = Some (ar_Detail r), ev_CreatedAt = ar_CreatedAt r\<rparr>"

definition repo_QueryAudit ::
  "audit_filter \<Rightarrow> time \<Rightarrow> time \<Rightarrow> int \<Rightarrow> int \<Rightarrow> (database, string Event list \<times> int) io" where
  "repo_QueryAudit f from to limit0 offset0 =
     (let limit = (if limit0 < 1 \<or> 200 < limit0 then 50 else limit0);
          offset = (if offset0 < 0 then 0 else offset0) in
      io_bind (io_wrap (Errorf ''query audit'') (exec_stmt Pool (query (\<lambda>env n t d.
        bind_result (optional_uuid env (af_ObjectID f)) (\<lambda>object.
          Inr (map audit_event (sql_page limit offset (ordered_by env n ar_CreatedAt True ar_ID
            (filter (audit_where f object from to) (db_audits d))))))))))
        (\<lambda>items.
      io_bind (io_wrap (Errorf ''count audit events'') (exec_stmt Pool (query (\<lambda>env n t d.
        bind_result (optional_uuid env (af_ObjectID f)) (\<lambda>object.
          Inr (int (length (filter (audit_where f object from to) (db_audits d)))))))))
        (\<lambda>k. io_return (items, k))))"

end
