(* ===== verification/Service.thy ===== *)
theory Service
  imports Repository_Query
begin

text \<open>
  \<open>internal/service\<close>: the handlers over the database (\<open>service.go\<close>, \<open>array_operators.go\<close>,
  \<open>array_operators_query.go\<close>, \<open>assignment.go\<close>, \<open>assignment_worker.go\<close>, \<open>audit.go\<close>,
  \<open>audit_query.go\<close>, \<open>bulk.go\<close>, \<open>idempotency.go\<close>, \<open>idempotency_pg.go\<close>, \<open>intervention.go\<close>,
  \<open>mooring.go\<close>, \<open>plans.go\<close>, \<open>policies.go\<close>, \<open>progress.go\<close>, \<open>query.go\<close>, \<open>reconcile.go\<close>,
  \<open>report.go\<close>, \<open>round.go\<close>, \<open>summary.go\<close>, \<open>validation.go\<close>).

  The repository is the Postgres one, for which the type assertions of the handlers succeed. A
  handler that returns a value next to an error is given by the error alone.
\<close>

section \<open>Validation\<close>

definition validateCode :: "string \<Rightarrow> string \<Rightarrow> go_error option" where
  "validateCode value field =
     (if TrimSpace value = '''' then Some (Errorf (field @ '' is required'') conflict)
      else if 80 < length (TrimSpace value) then Some (Errorf (field @ '' is too long'') conflict)
      else None)"

fun validate_ids_loop :: "string set \<Rightarrow> string list \<Rightarrow> go_error option" where
  "validate_ids_loop seen [] = None"
| "validate_ids_loop seen (i # ids) =
     err_then (validateCode i ''id'')
       (if i \<in> seen then Some (Errorf (''duplicate id '' @ i) conflict)
        else validate_ids_loop (insert i seen) ids)"

definition validateIDs :: "string list \<Rightarrow> go_error option" where
  "validateIDs ids = validate_ids_loop {} ids"

section \<open>Requests\<close>

record RequestMeta =
  me_RequestID :: string
  me_ArrayOperatorID :: "string option"

definition audit ::
  "RequestMeta \<Rightarrow> string \<Rightarrow> string \<Rightarrow> string \<Rightarrow> string \<Rightarrow> string \<Rightarrow> AuditInput" where
  "audit meta objectType objectID action outcome detail =
     \<lparr>un_RequestID = me_RequestID meta, un_ArrayOperatorID = me_ArrayOperatorID meta,
      un_ObjectType = objectType, un_ObjectID = objectID, un_Action = action,
      un_Outcome = outcome, un_Detail = detail\<rparr>"

section \<open>Missions\<close>

record CreateSurveyMissionRequest =
  cm_Code :: string
  cm_Name :: string
  cm_Timezone :: string
  cm_StartsAt :: time
  cm_EndsAt :: time
  cm_CreatedBy :: string
  cm_AcousticBuoys :: "AcousticBuoyInput list"

record CreateSurveyMissionResponse =
  cs_SurveyMission :: SurveyMission
  cs_AcousticBuoyIDs :: "string list"

fun validate_buoys_loop :: "string set \<Rightarrow> AcousticBuoyInput list \<Rightarrow> go_error option" where
  "validate_buoys_loop seen [] = None"
| "validate_buoys_loop seen (b # bs) =
     err_then (AcousticBuoy_Validate \<lparr>ab_ID = '''', ab_SurveyMissionID = '''', ab_Code = bn_Code b,
         ab_ArrayOpsLane = bn_ArrayOpsLane b, ab_RequiredSuccesses = bn_RequiredSuccesses b,
         ab_Completed = 0\<rparr>)
       (err_then (ValidateBusinessCode (bn_Code b))
          (if bn_Code b \<in> seen
             then Some (Errorf (''duplicate acoustic_buoy code '' @ bn_Code b) conflict)
           else validate_buoys_loop (insert (bn_Code b) seen) bs))"

definition new_mission :: "string \<Rightarrow> CreateSurveyMissionRequest \<Rightarrow> SurveyMission" where
  "new_mission i inp = \<lparr>sm_ID = i, sm_Code = cm_Code inp, sm_Name = cm_Name inp,
     sm_Status = SurveyMissionDraft, sm_Timezone = cm_Timezone inp, sm_StartsAt = cm_StartsAt inp,
     sm_EndsAt = cm_EndsAt inp, sm_Version = 1, sm_CreatedBy = cm_CreatedBy inp\<rparr>"

definition CreateSurveyMission ::
  "RequestMeta \<Rightarrow> CreateSurveyMissionRequest \<Rightarrow> (database, CreateSurveyMissionResponse) io" where
  "CreateSurveyMission meta inp =
     io_then (io_check
       (if cm_Code inp = '''' \<or> cm_Name inp = '''' \<or> cm_CreatedBy inp = '''' \<or>
           cm_AcousticBuoys inp = []
          then Some (Errorf ''code, name, creator and acoustic_buoys are required'' conflict)
        else err_then (ValidateBusinessCode (cm_Code inp))
          (validateCode (cm_Name inp) ''survey_mission name'')))
     (io_bind (io_read (\<lambda>env _. en_location env (cm_Timezone inp))) (\<lambda>known.
      io_then (io_check
        (if \<not> known then Some (Errorf ''invalid survey_mission timezone'' conflict)
         else validate_buoys_loop {} (cm_AcousticBuoys inp)))
     (io_bind NewString (\<lambda>i.
      io_bind service_now (\<lambda>now.
      io_then (io_check (ValidateWindow (new_mission i inp) now))
        (InTx Pool
          (io_then (createSurveyMission Tx (new_mission i inp))
            (io_bind (io_collect (\<lambda>b. createAcousticBuoy Tx (b\<lparr>bn_SurveyMissionID := i\<rparr>))
                (cm_AcousticBuoys inp)) (\<lambda>buoy_ids.
             io_then (writeAudit Tx (audit meta ''acoustic_buoy_survey_mission'' i ''create''
                 ''success'' []))
               (io_return \<lparr>cs_SurveyMission = new_mission i inp,
                  cs_AcousticBuoyIDs = buoy_ids\<rparr>)))))))))) "

definition service_advanceSurveyMission ::
  "RequestMeta \<Rightarrow> string \<Rightarrow> SurveyMissionStatus \<Rightarrow> int \<Rightarrow> string \<Rightarrow> (database, unit) io" where
  "service_advanceSurveyMission meta i next version action =
     InTx Pool
       (io_bind (getSurveyMission Tx i) (\<lambda>survey_mission.
        if \<not> SurveyMission_CanMoveTo (sm_Status survey_mission) next
          then io_throw (Errorf (''survey_mission '' @ i) invalid_transition)
        else io_then (advanceSurveyMission Tx i next version)
          (writeAudit Tx (audit meta ''acoustic_buoy_survey_mission'' i action ''success'' []))))"

definition ScheduleSurveyMission :: "RequestMeta \<Rightarrow> string \<Rightarrow> int \<Rightarrow> (database, unit) io" where
  "ScheduleSurveyMission meta i version =
     service_advanceSurveyMission meta i SurveyMissionScheduled version ''schedule''"

definition ActivateSurveyMission :: "RequestMeta \<Rightarrow> string \<Rightarrow> int \<Rightarrow> (database, unit) io" where
  "ActivateSurveyMission meta i version =
     service_advanceSurveyMission meta i SurveyMissionActive version ''activate''"

definition CloseSurveyMission :: "RequestMeta \<Rightarrow> string \<Rightarrow> int \<Rightarrow> (database, unit) io" where
  "CloseSurveyMission meta i version =
     service_advanceSurveyMission meta i SurveyMissionClosed version ''close''"

section \<open>Recovery jobs\<close>

definition CreateRecoveryJob ::
  "RequestMeta \<Rightarrow> RecoveryJobInput \<Rightarrow> (database, RecoveryJob) io" where
  "CreateRecoveryJob meta inp =
     io_bind service_now (\<lambda>now.
     io_then (io_check (err_then (RecoveryJobRequest_Validate
         \<lparr>rq_SurveyMissionID = jn_SurveyMissionID inp, rq_AcousticBuoyID = jn_AcousticBuoyID inp,
          rq_TaskCode = jn_TaskCode inp, rq_ExpiresAt = jn_ExpiresAt inp\<rparr> now)
         (ValidateBusinessCode (jn_TaskCode inp))))
       (InTx Pool
         (io_then (validateSurveyMissionAcousticBuoy Tx (jn_SurveyMissionID inp)
             (jn_AcousticBuoyID inp))
           (io_bind (createRecoveryJob Tx inp) (\<lambda>task.
            io_then (writeAudit Tx (audit meta ''acoustic_buoy_task'' (rj_ID task) ''create''
                ''success'' []))
              (io_return task))))))"

definition service_moveRecoveryJob ::
  "RequestMeta \<Rightarrow> string \<Rightarrow> int \<Rightarrow> RecoveryJobStatus \<Rightarrow> string \<Rightarrow> (database, unit) io" where
  "service_moveRecoveryJob meta i version next action =
     InTx Pool
       (io_bind (getRecoveryJob Tx i) (\<lambda>task.
        io_then
          (if next = RecoveryJobCompleted then
             io_bind (getSurveyMission Tx (rj_SurveyMissionID task)) (\<lambda>survey_mission.
             io_bind service_now (\<lambda>now.
               if \<not> CanExecuteAt survey_mission now
                 then io_throw (Errorf ''survey_mission is not active for task execution''
                   invalid_transition)
               else io_return ()))
           else io_return ())
          (io_bind service_now (\<lambda>now.
           io_bind (io_lift (RecoveryJob_Move task next now)) (\<lambda>updated.
           io_bind service_now (\<lambda>now2.
           io_then (moveRecoveryJob Tx i (rj_Status updated) version now2)
             (writeAudit Tx (audit meta ''acoustic_buoy_task'' i action ''success'' []))))))))"

definition CompleteRecoveryJob :: "RequestMeta \<Rightarrow> string \<Rightarrow> int \<Rightarrow> (database, unit) io" where
  "CompleteRecoveryJob meta i version =
     service_moveRecoveryJob meta i version RecoveryJobCompleted ''complete''"

definition ArchiveRecoveryJob :: "RequestMeta \<Rightarrow> string \<Rightarrow> int \<Rightarrow> (database, unit) io" where
  "ArchiveRecoveryJob meta i version =
     service_moveRecoveryJob meta i version RecoveryJobArchived ''archive''"

definition ActivationRecoveryJob :: "RequestMeta \<Rightarrow> ActivationInput \<Rightarrow> int \<Rightarrow> (database, unit) io" where
  "ActivationRecoveryJob meta inp version =
     InTx Pool
       (io_then (moveRecoveryJob Tx (an_RecoveryJobID inp) RecoveryJobActivationPending version
           (an_RecordedAt inp))
         (io_then (recordActivation Tx inp)
           (writeAudit Tx (audit meta ''acoustic_buoy_task'' (an_RecoveryJobID inp) ''activation''
              ''success'' []))))"

definition AcceptRecoveryJob :: "RequestMeta \<Rightarrow> ActivationInput \<Rightarrow> int \<Rightarrow> (database, unit) io" where
  "AcceptRecoveryJob meta inp version =
     InTx Pool
       (io_then (moveRecoveryJob Tx (an_RecoveryJobID inp) RecoveryJobAccepted version
           (an_RecordedAt inp))
         (io_then (recordActivation Tx inp)
           (writeAudit Tx (audit meta ''acoustic_buoy_task'' (an_RecoveryJobID inp) ''accept''
              ''success'' []))))"

text \<open>\<open>ActivationChecked\<close> and \<open>AcceptChecked\<close>; \<open>Activation.Validate\<close> reads the wall clock.\<close>

definition handoff_checked ::
  "(ActivationInput \<Rightarrow> (database, unit) io) \<Rightarrow> ActivationInput \<Rightarrow> (database, unit) io" where
  "handoff_checked handler inp =
     io_bind (if IsZero (an_RecordedAt inp)
         then io_bind service_now (\<lambda>now. io_return (inp\<lparr>an_RecordedAt := now\<rparr>))
         else io_return inp) (\<lambda>inp'.
     io_bind service_now (\<lambda>wall.
     io_then (io_check (Activation_Validate wall \<lparr>ac_RecoveryJobID = an_RecoveryJobID inp',
         ac_From = [], ac_To = an_To inp', ac_Location = an_Location inp',
         ac_RecordedAt = an_RecordedAt inp'\<rparr>))
       (handler inp')))"

definition ActivationChecked :: "RequestMeta \<Rightarrow> ActivationInput \<Rightarrow> int \<Rightarrow> (database, unit) io" where
  "ActivationChecked meta inp version =
     handoff_checked (\<lambda>inp'. ActivationRecoveryJob meta inp' version) inp"

definition AcceptChecked :: "RequestMeta \<Rightarrow> ActivationInput \<Rightarrow> int \<Rightarrow> (database, unit) io" where
  "AcceptChecked meta inp version =
     handoff_checked (\<lambda>inp'. AcceptRecoveryJob meta inp' version) inp"

definition VerifyActivation :: "string \<Rightarrow> (database, ActivationRecord list) io" where
  "VerifyActivation taskID =
     io_bind (ListActivation taskID) (\<lambda>items.
     io_then (io_check (ValidateActivationSequence items)) (io_return items))"

text \<open>\<open>CreateRecoveryJobsBulk\<close>: all jobs of the request or none.\<close>

definition bulk_input :: "RecoveryJobRequest \<Rightarrow> RecoveryJobInput" where
  "bulk_input r = \<lparr>jn_SurveyMissionID = rq_SurveyMissionID r,
     jn_AcousticBuoyID = rq_AcousticBuoyID r, jn_TaskCode = rq_TaskCode r,
     jn_ExpiresAt = rq_ExpiresAt r\<rparr>"

definition bulk_results :: "RecoveryJob list \<Rightarrow> BulkItemResult list" where
  "bulk_results tasks =
     map (\<lambda>(i, task). \<lparr>bi_Index = i, bi_TaskCode = rj_TaskCode task, bi_RecoveryJobID = rj_ID task,
            bi_Error = ''''\<rparr>) (enumerate 0 tasks)"

definition CreateRecoveryJobsBulk ::
  "RequestMeta \<Rightarrow> RecoveryJobRequest list \<Rightarrow> (database, BulkItemResult list) io" where
  "CreateRecoveryJobsBulk meta requests =
     io_bind service_now (\<lambda>now.
     if requests = [] then io_throw (Errorf ''at least one task is required'' conflict)
     else io_then (io_check (ValidateBulkRequests requests now))
       (io_bind (InTx Pool
          (io_bind (io_collect (\<lambda>inp.
              io_then (validateSurveyMissionAcousticBuoy Tx (jn_SurveyMissionID inp)
                  (jn_AcousticBuoyID inp))
                (createRecoveryJob Tx inp)) (map bulk_input requests)) (\<lambda>tasks.
           io_then (writeAudit Tx (audit meta ''task_dive_window''
               (rq_SurveyMissionID (hd requests)) ''create_bulk'' ''success'' []))
             (io_return tasks)))) (\<lambda>tasks.
        io_return (bulk_results tasks))))"

fun same_buoy_loop :: "string \<Rightarrow> RecoveryJobRequest list \<Rightarrow> go_error option" where
  "same_buoy_loop buoy [] = None"
| "same_buoy_loop buoy (request # requests) =
     (if rq_AcousticBuoyID request \<noteq> buoy
        then Some (Errorf ''task acoustic_buoy differs from dive_window acoustic_buoy'' conflict)
      else same_buoy_loop buoy requests)"

definition ValidateBulkForAcousticBuoy ::
  "RecoveryJobRequest list \<Rightarrow> string \<Rightarrow> (database, unit) io" where
  "ValidateBulkForAcousticBuoy requests acoustic_buoyID =
     io_bind service_now (\<lambda>now.
       io_check (err_then (ValidateBulkRequests requests now)
         (same_buoy_loop acoustic_buoyID requests)))"

section \<open>Dive windows and reports\<close>

definition CreateDiveWindow ::
  "RequestMeta \<Rightarrow> DiveWindowInput \<Rightarrow> string list \<Rightarrow> (database, string) io" where
  "CreateDiveWindow meta inp taskIDs =
     io_then (io_check
       (if taskIDs = [] \<or> wn_Capacity inp < int (length taskIDs) then Some capacity_exceeded
        else err_then (DiveWindow_Validate \<lparr>dw_ID = '''', dw_Code = wn_Code inp, dw_Status = '''',
            dw_Method = wn_Method inp, dw_Capacity = wn_Capacity inp, dw_RecoveryJobs = taskIDs,
            dw_Version = 0\<rparr>)
          (err_then (ValidateBusinessCode (wn_Code inp)) (validateIDs taskIDs))))
       (InTx Pool
         (io_bind (createDiveWindow Tx inp) (\<lambda>i.
          io_then (attachRecoveryJobs Tx i taskIDs)
            (io_then (writeAudit Tx (audit meta ''dive_window'' i ''create'' ''success'' []))
              (io_return i)))))"

definition service_changeDiveWindow ::
  "RequestMeta \<Rightarrow> string \<Rightarrow> int \<Rightarrow> DiveWindowStatus \<Rightarrow> string \<Rightarrow> (database, unit) io" where
  "service_changeDiveWindow meta i version next action =
     InTx Pool
       (io_then
         (if next = DiveWindowRunning then changeDiveWindow Tx i DiveWindowRunning version
          else if next = DiveWindowCompleted then changeDiveWindow Tx i DiveWindowCompleted version
          else if next = DiveWindowCancelled then changeDiveWindow Tx i DiveWindowCancelled version
          else io_return ())
         (writeAudit Tx (audit meta ''dive_window'' i action ''success'' [])))"

definition StartDiveWindow :: "RequestMeta \<Rightarrow> string \<Rightarrow> int \<Rightarrow> (database, unit) io" where
  "StartDiveWindow meta i version =
     service_changeDiveWindow meta i version DiveWindowRunning ''start''"

definition CompleteDiveWindow :: "RequestMeta \<Rightarrow> string \<Rightarrow> int \<Rightarrow> (database, unit) io" where
  "CompleteDiveWindow meta i version =
     service_changeDiveWindow meta i version DiveWindowCompleted ''complete''"

definition CancelDiveWindow :: "RequestMeta \<Rightarrow> string \<Rightarrow> int \<Rightarrow> (database, unit) io" where
  "CancelDiveWindow meta i version =
     service_changeDiveWindow meta i version DiveWindowCancelled ''cancel''"

definition SubmitSignalRecoveryReport ::
  "RequestMeta \<Rightarrow> SignalRecoveryReportInput \<Rightarrow> (database, string) io" where
  "SubmitSignalRecoveryReport meta inp =
     io_then (io_check
       (if pn_RecoveryJobID inp = '''' \<or> pn_DiveWindowID inp = '''' \<or> pn_RecorderID inp = '''' \<or>
           IsZero (pn_ObservedAt inp)
          then Some (Errorf ''signal_recovery_report identifiers and observed_at are required''
            conflict)
        else ValidateSignalRecoveryReport (pn_RiskScore inp) (pn_AlertThreshold inp)
          (pn_Scale inp)))
       (InTx Pool
         (io_then (validateSignalRecoveryReportTarget Tx (pn_RecoveryJobID inp)
             (pn_DiveWindowID inp))
           (io_bind (getArrayOperator Tx (pn_RecorderID inp)) (\<lambda>recorder.
            if \<not> CanRecordSignalRecoveryReport recorder
              then io_throw (Errorf (''array_operator role '' @ op_Role recorder @
                '' cannot record signal_recovery_reports'') conflict)
            else io_bind (createSignalRecoveryReport Tx inp) (\<lambda>i.
              io_then (writeAudit Tx (audit meta ''signal_recovery_report'' i ''record''
                  ''success'' []))
                (io_return i))))))"

definition ReviewSignalRecoveryReport ::
  "RequestMeta \<Rightarrow> string \<Rightarrow> string \<Rightarrow> bool \<Rightarrow> int \<Rightarrow> int \<Rightarrow> (database, unit) io" where
  "ReviewSignalRecoveryReport meta reportID taskID accepted reportVersion taskVersion =
     InTx Pool
       (io_bind (signal_recovery_reportRecoveryJobID Tx reportID) (\<lambda>actualRecoveryJobID.
        if actualRecoveryJobID \<noteq> taskID
          then io_throw (Errorf ''signal_recovery_report and task do not match'' conflict)
        else io_bind service_now (\<lambda>now1.
          io_then (reviewSignalRecoveryReportRecord Tx reportID accepted reportVersion now1)
          (let next = (if \<not> accepted then RecoveryJobRejected else RecoveryJobVerified) in
           io_bind service_now (\<lambda>now2.
           io_then (moveRecoveryJob Tx taskID next taskVersion now2)
           (io_then
             (if \<not> accepted then
                io_bind service_now (\<lambda>now3.
                io_bind (createIntegrityIncident Tx
                    \<lparr>cn_RecoveryJobID = taskID, cn_Kind = ''reassess'',
                     cn_Reason = ''risk score exceeded the alert threshold'',
                     cn_DueAt = now3 + 72 * hour\<rparr>) (\<lambda>safety_alertID.
                writeAudit Tx (audit meta ''safety_alert'' safety_alertID ''open'' ''success'' [])))
              else io_return ())
             (writeAudit Tx (audit meta ''signal_recovery_report'' reportID ''review''
                ''success'' []))))))))"

section \<open>Integrity incidents\<close>

definition OpenIntegrityIncident ::
  "RequestMeta \<Rightarrow> IntegrityIncidentInput \<Rightarrow> (database, string) io" where
  "OpenIntegrityIncident meta inp =
     io_bind (if IsZero (cn_DueAt inp)
         then io_bind service_now (\<lambda>now. io_return (inp\<lparr>cn_DueAt := now + 72 * hour\<rparr>))
         else io_return inp) (\<lambda>inp'.
     io_bind service_now (\<lambda>now.
     io_then (io_check (IntegrityIncident_Validate
         \<lparr>ii_ID = '''', ii_RecoveryJobID = cn_RecoveryJobID inp', ii_Kind = cn_Kind inp',
          ii_Status = IntegrityIncidentOpen, ii_Reason = cn_Reason inp',
          ii_DueAt = cn_DueAt inp', ii_ClosedAt = None\<rparr> now))
       (InTx Pool
         (io_bind (createIntegrityIncident Tx inp') (\<lambda>i.
          io_then (writeAudit Tx (audit meta ''safety_alert'' i ''open'' ''success'' []))
            (io_return i))))))"

definition CloseIntegrityIncident :: "RequestMeta \<Rightarrow> string \<Rightarrow> (database, unit) io" where
  "CloseIntegrityIncident meta i =
     InTx Pool
       (io_bind service_now (\<lambda>now.
        io_then (closeIntegrityIncident Tx i now)
          (writeAudit Tx (audit meta ''safety_alert'' i ''close'' ''success'' []))))"

definition MarkIntegrityIncidentInProgress :: "RequestMeta \<Rightarrow> string \<Rightarrow> (database, unit) io" where
  "MarkIntegrityIncidentInProgress meta i =
     InTx Pool
       (io_then (markIntegrityIncidentInProgress Tx i)
         (writeAudit Tx (audit meta ''safety_alert'' i ''start'' ''success'' [])))"

section \<open>Operators and assignments\<close>

definition RegisterArrayOperator ::
  "RequestMeta \<Rightarrow> string \<Rightarrow> ArrayOperatorRole \<Rightarrow> (database, ArrayOperator) io" where
  "RegisterArrayOperator meta name role =
     io_bind NewString (\<lambda>i.
       let array_operator = \<lparr>op_ID = i, op_Name = name, op_Role = role\<rparr> in
       io_then (io_check (ArrayOperator_Validate array_operator))
         (InTx Pool
           (io_then (io_wrap (Errorf ''register array_operator'')
               (createArrayOperator Tx array_operator))
             (io_then (writeAudit Tx (audit meta ''array_operator'' i ''create'' ''success'' []))
               (io_return array_operator)))))"

definition LoadArrayOperator :: "string \<Rightarrow> (database, ArrayOperator) io" where
  "LoadArrayOperator i = getArrayOperator Pool i"

definition RenameArrayOperator :: "RequestMeta \<Rightarrow> string \<Rightarrow> string \<Rightarrow> (database, unit) io" where
  "RenameArrayOperator meta i name =
     io_then (io_check (validateCode name ''array_operator name''))
       (InTx Pool
         (io_then (renameArrayOperator Tx i name)
           (writeAudit Tx (audit meta ''array_operator'' i ''rename'' ''success'' []))))"

definition AssignAcousticBuoy ::
  "RequestMeta \<Rightarrow> Assignment \<Rightarrow> ArrayOperator \<Rightarrow> (database, unit) io" where
  "AssignAcousticBuoy meta assignment array_operator =
     io_then (io_check (CanAssign array_operator assignment))
       (InTx Pool
         (io_then (validateSurveyMissionAcousticBuoy Tx (as_SurveyMissionID assignment)
             (as_AcousticBuoyID assignment))
           (io_then (createAssignment Tx assignment)
             (writeAudit Tx (audit meta ''assignment'' (as_ID assignment) ''create''
                ''success'' [])))))"

definition AdvanceAssignment ::
  "RequestMeta \<Rightarrow> string \<Rightarrow> string \<Rightarrow> int \<Rightarrow> (database, unit) io" where
  "AdvanceAssignment meta i next version =
     InTx Pool
       (io_then (advanceAssignment Tx i next version)
         (writeAudit Tx (audit meta ''assignment'' i next ''success'' [])))"

definition ActivateDueAssignments :: "time \<Rightarrow> int \<Rightarrow> (database, nat) io" where
  "ActivateDueAssignments now limit = ActivateDue now limit"

definition Authorize :: "string \<Rightarrow> string \<Rightarrow> (database, unit) io" where
  "Authorize array_operatorID action =
     io_bind (LoadArrayOperator array_operatorID) (\<lambda>array_operator.
       if \<not> ArrayOperator_Can array_operator action
         then io_throw (Errorf (''array_operator cannot '' @ action) conflict)
       else io_return ())"

definition RequireSupervisor :: "string \<Rightarrow> (database, unit) io" where
  "RequireSupervisor array_operatorID = Authorize array_operatorID ''close_survey_mission''"

definition RequireReviewer :: "string \<Rightarrow> (database, unit) io" where
  "RequireReviewer array_operatorID = Authorize array_operatorID ''review_signal_recovery_report''"

section \<open>Idempotent requests\<close>

text \<open>The store is \<open>PersistentIdempotency\<close> over the table of keys. SHA-256 and the JSON codec of the
  reply are arguments; \<open>create\<close> is the handler that is run when the key is new.\<close>

definition PersistentIdempotency_Get :: "string \<Rightarrow> (database, Record option) io" where
  "PersistentIdempotency_Get key = GetIdempotency key"

definition PersistentIdempotency_Put :: "Record \<Rightarrow> (database, unit) io" where
  "PersistentIdempotency_Put r = PutIdempotency r"

definition IdempotentCreate ::
  "(string \<Rightarrow> string) \<Rightarrow> ('v \<Rightarrow> string result) \<Rightarrow> string \<Rightarrow> string \<Rightarrow>
   (database, int \<times> 'v) io \<Rightarrow> (database, int \<times> string) io" where
  "IdempotentCreate sha256 marshal key body create =
     io_bind (PersistentIdempotency_Get key) (\<lambda>found.
     case found of
       Some rec \<Rightarrow>
         if \<not> Record_Matches sha256 rec body
           then io_throw (Errorf ''idempotency key reused with different request''
             (Sentinel (DomainErr ErrIdempotency)))
         else io_return (rc_ResponseCode rec, rc_ResponseBody rec)
     | None \<Rightarrow>
         io_bind create (\<lambda>(code, v).
         io_bind (io_wrap (Errorf ''marshal idempotent response'') (io_lift (marshal v)))
           (\<lambda>payload.
         io_bind (io_lift (NewRecord sha256 marshal key body code v)) (\<lambda>newRecord.
         io_then (PersistentIdempotency_Put newRecord) (io_return (code, payload))))))"

definition ReplayOr ::
  "(string \<Rightarrow> string) \<Rightarrow> ('v \<Rightarrow> string result) \<Rightarrow> (string \<Rightarrow> 'v result) \<Rightarrow> string \<Rightarrow> string \<Rightarrow>
   (database, int \<times> 'v) io \<Rightarrow> (database, int \<times> 'v) io" where
  "ReplayOr sha256 marshal unmarshal key body create =
     (if key = '''' then io_throw (NewError ''idempotency key is required'')
      else io_bind (PersistentIdempotency_Get key) (\<lambda>found.
        case found of
          Some rec \<Rightarrow>
            if \<not> Record_Matches sha256 rec body
              then io_throw (NewError ''request hash differs: idempotency conflict'')
            else io_bind (io_wrap (Errorf ''decode idempotent response'')
                (io_lift (unmarshal (rc_ResponseBody rec)))) (\<lambda>replayed.
              io_return (rc_ResponseCode rec, replayed))
        | None \<Rightarrow>
            io_bind create (\<lambda>(code, v).
            io_bind (io_lift (NewRecord sha256 marshal key body code v)) (\<lambda>rec.
            io_then (PersistentIdempotency_Put rec) (io_return (code, v))))))"

section \<open>Queries\<close>

definition ListRecoveryJobs ::
  "int \<Rightarrow> int \<Rightarrow> string \<Rightarrow> RecoveryJobStatus \<Rightarrow> (database, Page) io" where
  "ListRecoveryJobs offset limit survey_missionID status =
     listRecoveryJobs Pool (if offset < 0 then 0 else offset)
       (if limit \<le> 0 \<or> 100 < limit then 50 else limit) survey_missionID status"

definition DueIntegrityIncidents :: "time \<Rightarrow> int \<Rightarrow> (database, IntegrityIncidentInput list) io" where
  "DueIntegrityIncidents before limit = dueIntegrityIncidents Pool before limit"

definition service_SearchRecoveryJobs ::
  "page_query \<Rightarrow> string \<Rightarrow> RecoveryJobStatus \<Rightarrow> (database, RecoveryJob page) io" where
  "service_SearchRecoveryJobs query0 survey_missionID status =
     (let q = pagination_Normalize (pq_Offset query0) (pq_Limit query0) in
      io_bind (listRecoveryJobs Pool (pq_Offset q) (pq_Limit q) survey_missionID status) (\<lambda>p.
        io_return (page_From (pp_Items p) (pp_Total p) q)))"

definition SearchRecoveryJobsAdvanced ::
  "(string \<Rightarrow> string) \<Rightarrow> SearchRequest \<Rightarrow> (database, Page) io" where
  "SearchRecoveryJobsAdvanced lower request = repo_SearchRecoveryJobs lower request"

definition service_MarkExpired :: "time \<Rightarrow> int \<Rightarrow> (database, ReconcileResult) io" where
  "service_MarkExpired now limit = MarkExpiredRecoveryJobs now limit"

definition ListSurveyMissions ::
  "SurveyMissionFilter \<Rightarrow> (database, SurveyMission list \<times> int) io" where
  "ListSurveyMissions f = repo_ListSurveyMissions f"

definition ListSurveyMissionAcousticBuoys :: "string \<Rightarrow> (database, AcousticBuoy list) io" where
  "ListSurveyMissionAcousticBuoys i = repo_ListSurveyMissionAcousticBuoys i"

definition ListArrayOperators ::
  "ArrayOperatorRole \<Rightarrow> int \<Rightarrow> int \<Rightarrow> (database, ArrayOperator list \<times> int) io" where
  "ListArrayOperators role limit offset = repo_ListArrayOperators role limit offset"

definition service_SurveyMissionProgress :: "string \<Rightarrow> (database, SurveyMissionProgress) io" where
  "service_SurveyMissionProgress i =
     io_then (getSurveyMission Pool i) (survey_missionProgress Pool i)"

definition AuditHistory :: "string \<Rightarrow> string \<Rightarrow> int \<Rightarrow> (database, AuditSummary list) io" where
  "AuditHistory objectType objectID limit = repo_AuditHistory objectType objectID limit"

definition service_ComplianceReport :: "string \<Rightarrow> (database, ComplianceReport) io" where
  "service_ComplianceReport i =
     io_then (getSurveyMission Pool i)
       (io_bind service_now (\<lambda>now. repo_ComplianceReport i now))"

record mission_summary =
  su_SurveyMission :: SurveyMission
  su_Progress :: SurveyMissionProgress
  su_Counts :: SurveyMissionProgress

definition SurveyMissionSummary :: "string \<Rightarrow> (database, mission_summary) io" where
  "SurveyMissionSummary i =
     io_bind (getSurveyMission Pool i) (\<lambda>survey_mission.
     io_bind (io_wrap (Errorf ''summary progress'') (service_SurveyMissionProgress i)) (\<lambda>progress.
       io_return \<lparr>su_SurveyMission = survey_mission, su_Progress = progress,
         su_Counts = progress\<rparr>))"

text \<open>\<open>time.Unix(s, 0)\<close>: the zero \<open>time.Time\<close> is 62135596800 seconds before the Unix epoch.\<close>

definition service_ExpiringRecoveryJobs :: "int \<Rightarrow> int \<Rightarrow> (database, RecoveryJob list) io" where
  "service_ExpiringRecoveryJobs beforeUnix limit =
     repo_ExpiringRecoveryJobs ((beforeUnix + 62135596800) * second) limit"

record AuditPage =
  ap_Items :: "string Event list"
  ap_Total :: int
  ap_Limit :: int
  ap_Offset :: int

definition QueryAudit ::
  "audit_filter \<Rightarrow> time \<Rightarrow> time \<Rightarrow> int \<Rightarrow> int \<Rightarrow> (database, AuditPage) io" where
  "QueryAudit f from to limit offset =
     io_then (io_check
       (if IsZero from \<or> IsZero to \<or> \<not> from < to
          then Some (Errorf ''audit time range is invalid'' conflict)
        else if limit < 1 \<or> 200 < limit \<or> offset < 0
          then Some (Errorf ''audit page bounds are invalid'' conflict)
        else None))
       (io_bind (repo_QueryAudit f from to limit offset) (\<lambda>(items, k).
         io_return \<lparr>ap_Items = items, ap_Total = k, ap_Limit = limit, ap_Offset = offset\<rparr>))"

text \<open>\<open>ValidateAuditEvent\<close> and \<open>WriteAuditEvent\<close>: the JSON encoding of a detail map is an argument.\<close>

definition ValidateAuditEvent ::
  "('e option \<Rightarrow> string result) \<Rightarrow> 'e \<Rightarrow> 'e Event \<Rightarrow> go_error option" where
  "ValidateAuditEvent json empty_map event =
     (case Event_Validate event of
        Some err \<Rightarrow> Some (Errorf ''audit event'' err)
      | None \<Rightarrow> (case Event_JSON json empty_map event of Inl err \<Rightarrow> Some err | Inr _ \<Rightarrow> None))"

definition auditInput :: "'e Event \<Rightarrow> string \<Rightarrow> AuditInput" where
  "auditInput event detail =
     \<lparr>un_RequestID = ev_RequestID event, un_ArrayOperatorID = ev_ArrayOperatorID event,
      un_ObjectType = ev_ObjectType event, un_ObjectID = ev_ObjectID event,
      un_Action = ev_Action event, un_Outcome = ev_Outcome event, un_Detail = detail\<rparr>"

definition WriteAuditEvent ::
  "('e option \<Rightarrow> string result) \<Rightarrow> 'e \<Rightarrow> 'e Event \<Rightarrow> (database, unit) io" where
  "WriteAuditEvent json empty_map event =
     io_bind (io_lift (Event_JSON json empty_map event)) (\<lambda>detail.
       writeAudit Pool (auditInput event detail))"

text \<open>The fields of \<open>PublicRecoveryJob\<close>.\<close>

record PublicJob =
  pj_id :: string
  pj_task_code :: string
  pj_status :: RecoveryJobStatus
  pj_expires_at :: time
  pj_version :: int

definition PublicRecoveryJob :: "RecoveryJob \<Rightarrow> PublicJob" where
  "PublicRecoveryJob task =
     \<lparr>pj_id = rj_ID task, pj_task_code = RedactTaskCode (rj_TaskCode task),
      pj_status = rj_Status task, pj_expires_at = rj_ExpiresAt task,
      pj_version = rj_Version task\<rparr>"

end
