(* ===== verification/Console_Store.thy ===== *)
theory Console_Store
  imports Repository_Query
begin

text \<open>
  \<open>internal/console\<close>: the tables of the operator console (\<open>migrations/003_console.sql\<close>), sessions,
  and the pages, inserts and updates over them. The store has its own tables and runs every
  statement on the pool, each in a transaction of its own.

  bcrypt, SHA-256 and the random source are arguments, and so is how PostgreSQL and its driver
  read and round a \<open>numeric\<close> and read and give back a \<open>date\<close>. The Chinese messages of the source
  are given in English. Columns that no statement reads are left out.
\<close>

section \<open>Types\<close>

record console_lib =
  cl_sha256 :: "string \<Rightarrow> string"
  cl_bcrypt :: "string \<Rightarrow> string \<Rightarrow> bool"
  cl_random :: "nat \<Rightarrow> string result"
  cl_numeric :: "nat \<Rightarrow> nat \<Rightarrow> float64 \<Rightarrow> float64 option"
  cl_date_in :: "string \<Rightarrow> string option"
  cl_date_out :: "string \<Rightarrow> string result"

type_synonym ConsoleRole = string

abbreviation RoleMissionLead :: ConsoleRole where "RoleMissionLead \<equiv> ''mission_lead''"
abbreviation RoleArrayOperator :: ConsoleRole where "RoleArrayOperator \<equiv> ''array_operator''"
abbreviation RoleReviewer :: ConsoleRole where "RoleReviewer \<equiv> ''reviewer''"

record ConsoleUser =
  us_ID :: string
  us_Username :: string
  us_RealName :: string
  us_Phone :: string
  us_Role :: ConsoleRole
  us_Status :: int

record ConsoleUserRow = ConsoleUser +
  us_PasswordHash :: string

record ConsoleSession =
  ss_Token :: string
  ss_ExpiresAt :: time

record SessionRow =
  sn_TokenHash :: string
  sn_UserID :: string
  sn_ExpiresAt :: time
  sn_RevokedAt :: "time option"
  sn_LastSeenAt :: time

record ConsoleBuoy =
  yb_ID :: string
  yb_Title :: string
  yb_BuoyClass :: int
  yb_CommissionedOn :: "string option"
  yb_SerialNumber :: string
  yb_ShoreStationCode :: string
  yb_MooringZone :: string
  yb_Manufacturer :: string
  yb_EmergencyContact :: string
  yb_IntegrityStatus :: int
  yb_Status :: int

record ConsoleBuoyRow = ConsoleBuoy +
  yb_CreatedAt :: time
  yb_DeletedAt :: "time option"

record ConsoleOperator =
  yo_ID :: string
  yo_Name :: string
  yo_SpecialtyLevel :: int
  yo_Phone :: string
  yo_Skills :: string
  yo_Status :: int
  yo_CreateTime :: time

record ConsoleOperatorRow = ConsoleOperator +
  yo_DeletedAt :: "time option"

record Treatment =
  yt_ID :: string
  yt_Name :: string
  yt_Description :: string
  yt_RiskBudget :: float64
  yt_DurationMinutes :: int
  yt_Status :: int

record TreatmentRow = Treatment +
  yt_CreatedAt :: time
  yt_DeletedAt :: "time option"

record WorkOrder =
  yw_ID :: string
  yw_WorkOrderNo :: string
  yw_AcousticBuoyID :: string
  yw_AcousticBuoyTitle :: string
  yw_ArrayOpsProfileID :: string
  yw_TreatmentName :: string
  yw_ArrayOperatorID :: "string option"
  yw_ArrayOperatorName :: string
  yw_ScheduledAt :: "time option"
  yw_Status :: int
  yw_Remark :: string
  yw_Version :: int

record WorkOrderRow =
  xw_ID :: string
  xw_WorkOrderNo :: string
  xw_AcousticBuoyID :: string
  xw_ArrayOpsProfileID :: string
  xw_ArrayOperatorID :: "string option"
  xw_ScheduledAt :: "time option"
  xw_Status :: int
  xw_Remark :: string
  xw_Version :: int
  xw_CreatedAt :: time

record ConsoleReport =
  yr_ID :: string
  yr_AcousticBuoyID :: string
  yr_AcousticBuoyTitle :: string
  yr_PacketLossPercent :: "float64 option"
  yr_WaterTemperatureC :: "float64 option"
  yr_SignalNoiseDB :: "float64 option"
  yr_ClockDriftPPM :: "float64 option"
  yr_CorruptionIndex :: "float64 option"
  yr_Remark :: string
  yr_RecordedAt :: time

record ConsoleLog =
  yl_ID :: string
  yl_Username :: string
  yl_Operation :: string
  yl_Method :: string
  yl_IP :: string
  yl_CreateTime :: time

record 'a ConsolePage =
  cp_Records :: "'a list"
  cp_Total :: int
  cp_Current :: int
  cp_Size :: int

record DashboardStats =
  ds_AcousticBuoyCount :: int
  ds_ArrayOperatorCount :: int
  ds_PendingWorkOrders :: int
  ds_CompletedWorkOrders :: int

text \<open>The row of a report is kept as the record it is read into, without the joined title.\<close>

record console_db =
  cd_users :: "ConsoleUserRow list"
  cd_sessions :: "SessionRow list"
  cd_buoys :: "ConsoleBuoyRow list"
  cd_operators :: "ConsoleOperatorRow list"
  cd_profiles :: "TreatmentRow list"
  cd_orders :: "WorkOrderRow list"
  cd_reports :: "ConsoleReport list"
  cd_logs :: "ConsoleLog list"

section \<open>Sessions\<close>

definition console_wrap :: "string \<Rightarrow> go_error \<Rightarrow> go_error" where
  "console_wrap action err =
     (if errors_Is err (ExternalErr PgxErrNoRows) then NewError (action @ '': no such record'')
      else Errorf action err)"

text \<open>\<open>QueryRow(...).Scan(...)\<close>\<close>

definition scan_row :: "(env \<Rightarrow> nat \<Rightarrow> time \<Rightarrow> 'd \<Rightarrow> go_error + 'a option \<times> 'd) \<Rightarrow> ('d, 'a) io" where
  "scan_row st =
     io_bind (exec_stmt Pool st) (\<lambda>row.
       case row of
         None \<Rightarrow> io_throw (Sentinel (ExternalErr PgxErrNoRows))
       | Some x \<Rightarrow> io_return x)"

text \<open>\<open>base64.RawURLEncoding\<close>\<close>

definition base64_alphabet :: string where
  "base64_alphabet = ''ABCDEFGHIJKLMNOPQRSTUVWXYZabcdefghijklmnopqrstuvwxyz0123456789-_''"

definition base64_digit :: "nat \<Rightarrow> char" where
  "base64_digit n = base64_alphabet ! n"

fun RawURLEncoding :: "string \<Rightarrow> string" where
  "RawURLEncoding [] = []"
| "RawURLEncoding [a] =
     (let n = (of_char a :: nat) * 16 in map base64_digit [n div 64, n mod 64])"
| "RawURLEncoding [a, b] =
     (let n = ((of_char a :: nat) * 256 + of_char b) * 4
      in map base64_digit [n div 4096, n div 64 mod 64, n mod 64])"
| "RawURLEncoding (a # b # c # rest) =
     (let n = ((of_char a :: nat) * 256 + of_char b) * 256 + of_char c
      in map base64_digit [n div 262144, n div 4096 mod 64, n div 64 mod 64, n mod 64] @
         RawURLEncoding rest)"

definition tokenHash :: "console_lib \<Rightarrow> string \<Rightarrow> string" where
  "tokenHash lib token = hex_encode (cl_sha256 lib token)"

definition sql_create_session ::
  "string \<Rightarrow> string \<Rightarrow> time \<Rightarrow> (console_db, unit) stmt" where
  "sql_create_session hash user expires env n t d =
     bind_result (uuid_param env user) (\<lambda>u.
       sql_insert
         [(''23514'', pg_time expires > t),
          (''23505'', hash \<notin> sn_TokenHash ` set (cd_sessions d)),
          (''23503'', u \<in> us_ID ` set (cd_users d))]
         (d\<lparr>cd_sessions := cd_sessions d @
            [\<lparr>sn_TokenHash = hash, sn_UserID = u, sn_ExpiresAt = pg_time expires,
              sn_RevokedAt = None, sn_LastSeenAt = t\<rparr>]\<rparr>))"

definition console_Login ::
  "console_lib \<Rightarrow> string \<Rightarrow> string \<Rightarrow> duration \<Rightarrow>
   (console_db, ConsoleSession \<times> ConsoleUser) io" where
  "console_Login lib username password ttl0 =
     (let ttl = if ttl0 \<le> 0 then 8 * hour else ttl0;
          refused = NewError ''wrong username or password'' in
      io_bind (query_row Pool ''find user'' refused (\<lambda>env d.
          Inr (find (\<lambda>u. us_Username u = TrimSpace username) (cd_users d)))) (\<lambda>user.
      if \<not> cl_bcrypt lib (us_PasswordHash user) password then io_throw refused
      else if us_Status user \<noteq> 1 then io_throw (NewError ''account disabled'')
      else
        io_bind (io_wrap (Errorf ''make session token'')
            (io_bind (io_read (\<lambda>_ n. cl_random lib n)) io_lift)) (\<lambda>tokenBytes.
        let token = RawURLEncoding tokenBytes in
        io_bind service_now (\<lambda>now.
        let expiresAt = now + ttl in
        io_then (io_wrap (Errorf ''create session'')
            (exec_stmt Pool (sql_create_session (tokenHash lib token) (us_ID user) expiresAt)))
          (io_return (\<lparr>ss_Token = token, ss_ExpiresAt = expiresAt\<rparr>,
             ConsoleUser.truncate user))))))"

definition live_session :: "string \<Rightarrow> time \<Rightarrow> console_db \<Rightarrow> SessionRow \<Rightarrow> bool" where
  "live_session hash t d s \<longleftrightarrow>
     sn_TokenHash s = hash \<and> sn_RevokedAt s = None \<and> t < sn_ExpiresAt s \<and>
     (\<exists>u \<in> set (cd_users d). us_ID u = sn_UserID s \<and> us_Status u = 1)"

definition session_user :: "console_db \<Rightarrow> SessionRow \<Rightarrow> ConsoleUser option" where
  "session_user d s =
     map_option ConsoleUser.truncate
       (find (\<lambda>u. us_ID u = sn_UserID s \<and> us_Status u = 1) (cd_users d))"

definition sql_touch_session :: "string \<Rightarrow> (console_db, ConsoleUser option) stmt" where
  "sql_touch_session hash env n t d =
     (let live = live_session hash t d in
      Inr (Option.bind (find live (cd_sessions d)) (session_user d),
        d\<lparr>cd_sessions := upd live (\<lambda>s. s\<lparr>sn_LastSeenAt := t\<rparr>) (cd_sessions d)\<rparr>))"

definition UserBySession :: "console_lib \<Rightarrow> string \<Rightarrow> (console_db, ConsoleUser) io" where
  "UserBySession lib token =
     io_wrap (\<lambda>err.
         if errors_Is err (ExternalErr PgxErrNoRows)
           then NewError ''session is invalid, expired or revoked''
         else console_wrap ''check session'' err)
       (scan_row (sql_touch_session (tokenHash lib (TrimSpace token))))"

definition sql_revoke_session :: "string \<Rightarrow> (console_db, nat) stmt" where
  "sql_revoke_session hash env n t d =
     (let hit = (\<lambda>s. sn_TokenHash s = hash \<and> sn_RevokedAt s = None) in
      Inr (length (filter hit (cd_sessions d)),
        d\<lparr>cd_sessions := upd hit (\<lambda>s. s\<lparr>sn_RevokedAt := Some t\<rparr>) (cd_sessions d)\<rparr>))"

definition console_RevokeSession :: "console_lib \<Rightarrow> string \<Rightarrow> (console_db, unit) io" where
  "console_RevokeSession lib token =
     one_row (io_wrap (Errorf ''revoke session'')
         (exec_stmt Pool (sql_revoke_session (tokenHash lib (TrimSpace token)))))
       (NewError ''session does not exist or is revoked'')"

definition Dashboard :: "(console_db, DashboardStats) io" where
  "Dashboard =
     io_wrap (console_wrap ''count for dashboard'') (scan_row (query (\<lambda>env n t d.
       Inr (Some \<lparr>
         ds_AcousticBuoyCount = int (length (filter (\<lambda>r. yb_DeletedAt r = None \<and> yb_Status r = 1)
           (cd_buoys d))),
         ds_ArrayOperatorCount = int (length (filter (\<lambda>r. yo_DeletedAt r = None \<and> yo_Status r = 1)
           (cd_operators d))),
         ds_PendingWorkOrders = int (length (filter (\<lambda>r. xw_Status r = 0) (cd_orders d))),
         ds_CompletedWorkOrders = int (length (filter (\<lambda>r. xw_Status r = 2) (cd_orders d)))\<rparr>))))"

definition sql_write_log ::
  "string \<Rightarrow> string \<Rightarrow> string \<Rightarrow> string \<Rightarrow> string \<Rightarrow> (console_db, unit) stmt" where
  "sql_write_log i username operation method ip env n t d =
     bind_result (uuid_param env i) (\<lambda>u.
       sql_insert [(''23505'', u \<notin> yl_ID ` set (cd_logs d))]
         (d\<lparr>cd_logs := cd_logs d @
            [\<lparr>yl_ID = u, yl_Username = username, yl_Operation = operation, yl_Method = method,
              yl_IP = ip, yl_CreateTime = t\<rparr>]\<rparr>))"

definition WriteLog ::
  "string \<Rightarrow> string \<Rightarrow> string \<Rightarrow> string \<Rightarrow> (console_db, unit) io" where
  "WriteLog username operation method ip =
     io_bind NewString (\<lambda>i.
       io_wrap (console_wrap ''write log'')
         (exec_stmt Pool (sql_write_log i username operation method ip)))"

section \<open>Pages\<close>

definition pageBounds :: "int \<Rightarrow> int \<Rightarrow> int \<times> int \<times> int" where
  "pageBounds current0 size0 =
     (let current = if current0 < 1 then 1 else current0;
          size = if size0 < 1 \<or> size0 > 100 then 10 else size0
      in (current, size, wrap64 ((current - 1) * size)))"

fun scan_rows :: "('r \<Rightarrow> 'a result) \<Rightarrow> 'r list \<Rightarrow> 'a list result" where
  "scan_rows scan [] = Inr []"
| "scan_rows scan (r # rs) =
     bind_result (scan r) (\<lambda>x. bind_result (scan_rows scan rs) (\<lambda>xs. Inr (x # xs)))"

text \<open>
  A listing: the page of the rows, their scan, and the total in a second statement. An error of
  \<open>pool.Query\<close> is a fault of the statement; one that comes with the rows is reported by \<open>rows.Err\<close>,
  after the count or, for buoys, before it.
\<close>

definition rows_err_early ::
  "string \<Rightarrow> (console_db, int) io \<Rightarrow> go_error \<Rightarrow> (console_db, 'a) io" where
  "rows_err_early text total_rows e = io_throw (Errorf text e)"

definition rows_err_late :: "(console_db, int) io \<Rightarrow> go_error \<Rightarrow> (console_db, 'a) io" where
  "rows_err_late total_rows e = io_then total_rows (io_throw e)"

definition console_page ::
  "string \<Rightarrow> string \<Rightarrow> string \<Rightarrow> int \<Rightarrow> int \<Rightarrow>
   (env \<Rightarrow> nat \<Rightarrow> console_db \<Rightarrow> 'r list result) \<Rightarrow> ('r \<Rightarrow> 'a result) \<Rightarrow>
   (env \<Rightarrow> console_db \<Rightarrow> int result) \<Rightarrow>
   ((console_db, int) io \<Rightarrow> go_error \<Rightarrow> (console_db, 'a ConsolePage) io) \<Rightarrow>
   (console_db, 'a ConsolePage) io" where
  "console_page list_text scan_text count_text current0 size0 rows scan counted rows_err =
     (case pageBounds current0 size0 of (current, per_page, offset) \<Rightarrow>
      let total_rows = io_wrap (Errorf count_text)
            (exec_stmt Pool (query (\<lambda>env _ _ d. counted env d))) in
      io_bind (io_wrap (Errorf list_text) (exec_stmt Pool (query (\<lambda>env n t d.
          Inr (bind_result (rows env n d) (\<lambda>rs.
            bind_result (limit_param ''2201X'' offset) (\<lambda>k. Inr (sql_page per_page k rs)))))))) (\<lambda>found.
      case found of
        Inl e \<Rightarrow> rows_err total_rows e
      | Inr rs \<Rightarrow>
          io_bind (io_wrap (Errorf scan_text) (io_lift (scan_rows scan rs))) (\<lambda>items.
          io_bind total_rows (\<lambda>n.
            io_return \<lparr>cp_Records = items, cp_Total = n, cp_Current = current, cp_Size = per_page\<rparr>))))"

definition ilike :: "env \<Rightarrow> string \<Rightarrow> string \<Rightarrow> bool" where
  "ilike env keyword s = sql_like (en_lower env keyword) (en_lower env s)"

definition keyword_pattern :: "string \<Rightarrow> string" where
  "keyword_pattern keyword = ''%'' @ TrimSpace keyword @ ''%''"

section \<open>Buoys\<close>

definition parseDate :: "string option \<Rightarrow> string option" where
  "parseDate v = (case v of None \<Rightarrow> None | Some s \<Rightarrow> if blank s then None else Some (TrimSpace s))"

text \<open>\<open>formatDate\<close> of a scanned date column.\<close>

definition formatDate :: "console_lib \<Rightarrow> string option \<Rightarrow> string option result" where
  "formatDate lib v =
     (case v of None \<Rightarrow> Inr None | Some s \<Rightarrow> bind_result (cl_date_out lib s) (\<lambda>x. Inr (Some x)))"

definition date_param :: "console_lib \<Rightarrow> string option \<Rightarrow> string option result" where
  "date_param lib v =
     (case v of
        None \<Rightarrow> Inr None
      | Some s \<Rightarrow>
          (case cl_date_in lib s of None \<Rightarrow> Inl (PgError ''22007'') | Some x \<Rightarrow> Inr (Some x)))"

definition scan_buoy :: "console_lib \<Rightarrow> ConsoleBuoyRow \<Rightarrow> ConsoleBuoy result" where
  "scan_buoy lib r =
     bind_result (formatDate lib (yb_CommissionedOn r)) (\<lambda>date.
       Inr ((ConsoleBuoy.truncate r)\<lparr>yb_CommissionedOn := date\<rparr>))"

definition listed_buoys :: "env \<Rightarrow> string \<Rightarrow> console_db \<Rightarrow> ConsoleBuoyRow list" where
  "listed_buoys env keyword d =
     filter (\<lambda>r. yb_DeletedAt r = None \<and>
         (ilike env keyword (yb_Title r) \<or> ilike env keyword (yb_SerialNumber r))) (cd_buoys d)"

definition AcousticBuoyPage ::
  "console_lib \<Rightarrow> int \<Rightarrow> int \<Rightarrow> string \<Rightarrow> (console_db, ConsoleBuoy ConsolePage) io" where
  "AcousticBuoyPage lib current per_page keyword =
     (let keyword = keyword_pattern keyword in
      console_page ''list buoys'' ''read buoy'' ''count buoys'' current per_page
        (\<lambda>env n d. Inr (ordered_by env n yb_CreatedAt True yb_ID (listed_buoys env keyword d)))
        (scan_buoy lib)
        (\<lambda>env d. Inr (int (length (listed_buoys env keyword d))))
        (rows_err_early ''read list of buoys''))"

definition AcousticBuoyList :: "console_lib \<Rightarrow> (console_db, ConsoleBuoy list) io" where
  "AcousticBuoyList lib =
     io_bind (AcousticBuoyPage lib 1 100 []) (\<lambda>page. io_return (cp_Records page))"

definition AcousticBuoyByID :: "console_lib \<Rightarrow> string \<Rightarrow> (console_db, ConsoleBuoy) io" where
  "AcousticBuoyByID lib i =
     io_wrap (console_wrap ''find buoy'')
       (io_bind (scan_row (query (\<lambda>env n t d. bind_result (uuid_param env i) (\<lambda>u.
            Inr (find (\<lambda>r. yb_ID r = u \<and> yb_DeletedAt r = None) (cd_buoys d))))))
          (\<lambda>r. io_lift (scan_buoy lib r)))"

text \<open>The parameters of INSERT and UPDATE: integers are encoded by the driver, the UUID and the
  date are read by the server.\<close>

definition buoy_params ::
  "console_lib \<Rightarrow> env \<Rightarrow> ConsoleBuoy \<Rightarrow> (string \<times> string option) result" where
  "buoy_params lib env item =
     bind_result (int4_param (yb_BuoyClass item)) (\<lambda>_.
     bind_result (int4_param (yb_IntegrityStatus item)) (\<lambda>_.
     bind_result (int4_param (yb_Status item)) (\<lambda>_.
     bind_result (uuid_param env (yb_ID item)) (\<lambda>u.
     bind_result (date_param lib (parseDate (yb_CommissionedOn item))) (\<lambda>date.
       Inr (u, date))))))"

definition buoy_checks :: "ConsoleBuoyRow \<Rightarrow> bool" where
  "buoy_checks r \<longleftrightarrow>
     yb_BuoyClass r \<in> set [1, 2] \<and> yb_IntegrityStatus r \<in> set [1, 2, 3] \<and>
     yb_Status r \<in> set [0, 1]"

definition sql_insert_buoy :: "console_lib \<Rightarrow> ConsoleBuoy \<Rightarrow> (console_db, unit) stmt" where
  "sql_insert_buoy lib item env n t d =
     bind_result (buoy_params lib env item) (\<lambda>(u, date).
       let row = ConsoleBuoy.extend
             (item\<lparr>yb_ID := u, yb_Title := TrimSpace (yb_Title item), yb_CommissionedOn := date\<rparr>)
             (ConsoleBuoyRow.fields t None) in
       sql_insert [(''23514'', buoy_checks row), (''23505'', u \<notin> yb_ID ` set (cd_buoys d))]
         (d\<lparr>cd_buoys := cd_buoys d @ [row]\<rparr>))"

definition CreateAcousticBuoy ::
  "console_lib \<Rightarrow> ConsoleBuoy \<Rightarrow> (console_db, ConsoleBuoy) io" where
  "CreateAcousticBuoy lib item0 =
     io_bind NewString (\<lambda>i.
       let item = item0\<lparr>yb_ID := i\<rparr> in
       io_then (io_wrap (console_wrap ''create buoy'')
           (exec_stmt Pool (sql_insert_buoy lib item)))
         (io_return item))"

definition set_buoys ::
  "(ConsoleBuoyRow \<Rightarrow> bool) \<Rightarrow> (ConsoleBuoyRow \<Rightarrow> ConsoleBuoyRow) \<Rightarrow> console_db \<Rightarrow>
   go_error + nat \<times> console_db" where
  "set_buoys hit change d =
     bind_result (sql_update hit change (\<lambda>_. 0) buoy_checks (cd_buoys d)) (\<lambda>(k, rows).
       Inr (k, d\<lparr>cd_buoys := rows\<rparr>))"

definition sql_update_buoy :: "console_lib \<Rightarrow> ConsoleBuoy \<Rightarrow> (console_db, nat) stmt" where
  "sql_update_buoy lib item env n t d =
     bind_result (buoy_params lib env item) (\<lambda>(u, date).
       set_buoys (\<lambda>r. yb_ID r = u \<and> yb_DeletedAt r = None)
         (\<lambda>r. r\<lparr>yb_Title := TrimSpace (yb_Title item), yb_BuoyClass := yb_BuoyClass item,
            yb_CommissionedOn := date, yb_SerialNumber := yb_SerialNumber item,
            yb_ShoreStationCode := yb_ShoreStationCode item, yb_MooringZone := yb_MooringZone item,
            yb_Manufacturer := yb_Manufacturer item,
            yb_EmergencyContact := yb_EmergencyContact item,
            yb_IntegrityStatus := yb_IntegrityStatus item, yb_Status := yb_Status item\<rparr>) d)"

definition UpdateAcousticBuoy :: "console_lib \<Rightarrow> ConsoleBuoy \<Rightarrow> (console_db, unit) io" where
  "UpdateAcousticBuoy lib item =
     one_row (io_wrap (console_wrap ''update buoy'') (exec_stmt Pool (sql_update_buoy lib item)))
       (NewError ''update buoy: no such record'')"

definition sql_delete_buoy :: "string \<Rightarrow> (console_db, nat) stmt" where
  "sql_delete_buoy i env n t d =
     bind_result (uuid_param env i) (\<lambda>u.
       set_buoys (\<lambda>r. yb_ID r = u \<and> yb_DeletedAt r = None) (\<lambda>r. r\<lparr>yb_DeletedAt := Some t\<rparr>) d)"

definition DeleteAcousticBuoy :: "string \<Rightarrow> (console_db, unit) io" where
  "DeleteAcousticBuoy i =
     one_row (io_wrap (console_wrap ''delete buoy'') (exec_stmt Pool (sql_delete_buoy i)))
       (NewError ''delete buoy: no such record'')"

section \<open>Operators\<close>

definition listed_operators :: "env \<Rightarrow> string \<Rightarrow> console_db \<Rightarrow> ConsoleOperatorRow list" where
  "listed_operators env keyword d =
     filter (\<lambda>r. yo_DeletedAt r = None \<and>
         (ilike env keyword (yo_Name r) \<or> ilike env keyword (yo_Phone r))) (cd_operators d)"

definition ArrayOperatorPage ::
  "int \<Rightarrow> int \<Rightarrow> string \<Rightarrow> (console_db, ConsoleOperator ConsolePage) io" where
  "ArrayOperatorPage current per_page keyword =
     (let keyword = keyword_pattern keyword in
      console_page ''list operators'' ''read operator'' ''count operators'' current per_page
        (\<lambda>env n d. Inr (ordered_by env n yo_CreateTime True yo_ID (listed_operators env keyword d)))
        (\<lambda>r. Inr (ConsoleOperator.truncate r))
        (\<lambda>env d. Inr (int (length (listed_operators env keyword d))))
        rows_err_late)"

definition ArrayOperatorList :: "(console_db, ConsoleOperator list) io" where
  "ArrayOperatorList =
     io_bind (ArrayOperatorPage 1 100 []) (\<lambda>page. io_return (cp_Records page))"

definition operator_params :: "env \<Rightarrow> ConsoleOperator \<Rightarrow> string result" where
  "operator_params env item =
     bind_result (int4_param (yo_SpecialtyLevel item)) (\<lambda>_.
     bind_result (int4_param (yo_Status item)) (\<lambda>_. uuid_param env (yo_ID item)))"

definition operator_checks :: "ConsoleOperatorRow \<Rightarrow> bool" where
  "operator_checks r \<longleftrightarrow> yo_SpecialtyLevel r \<in> set [1, 2] \<and> yo_Status r \<in> set [0, 1]"

definition sql_insert_operator ::
  "ConsoleOperator \<Rightarrow> env \<Rightarrow> nat \<Rightarrow> time \<Rightarrow> console_db \<Rightarrow> go_error + time option \<times> console_db"
  where
  "sql_insert_operator item env n t d =
     bind_result (operator_params env item) (\<lambda>u.
       let row = ConsoleOperator.extend
             (item\<lparr>yo_ID := u, yo_Name := TrimSpace (yo_Name item), yo_CreateTime := t\<rparr>)
             (ConsoleOperatorRow.fields None) in
       bind_result (sql_insert
           [(''23514'', operator_checks row), (''23505'', u \<notin> yo_ID ` set (cd_operators d))]
           (d\<lparr>cd_operators := cd_operators d @ [row]\<rparr>))
         (\<lambda>(_, d'). Inr (Some t, d')))"

definition console_CreateArrayOperator ::
  "ConsoleOperator \<Rightarrow> (console_db, ConsoleOperator) io" where
  "console_CreateArrayOperator item0 =
     io_bind NewString (\<lambda>i.
       let item = item0\<lparr>yo_ID := i\<rparr> in
       io_bind (io_wrap (console_wrap ''create operator'') (scan_row (sql_insert_operator item)))
         (\<lambda>t. io_return (item\<lparr>yo_CreateTime := t\<rparr>)))"

definition set_operators ::
  "(ConsoleOperatorRow \<Rightarrow> bool) \<Rightarrow> (ConsoleOperatorRow \<Rightarrow> ConsoleOperatorRow) \<Rightarrow> console_db \<Rightarrow>
   go_error + nat \<times> console_db" where
  "set_operators hit change d =
     bind_result (sql_update hit change (\<lambda>_. 0) operator_checks (cd_operators d)) (\<lambda>(k, rows).
       Inr (k, d\<lparr>cd_operators := rows\<rparr>))"

definition sql_update_console_operator :: "ConsoleOperator \<Rightarrow> (console_db, nat) stmt" where
  "sql_update_console_operator item env n t d =
     bind_result (operator_params env item) (\<lambda>u.
       set_operators (\<lambda>r. yo_ID r = u \<and> yo_DeletedAt r = None)
         (\<lambda>r. r\<lparr>yo_Name := TrimSpace (yo_Name item), yo_SpecialtyLevel := yo_SpecialtyLevel item,
            yo_Phone := yo_Phone item, yo_Skills := yo_Skills item, yo_Status := yo_Status item\<rparr>) d)"

definition UpdateArrayOperator :: "ConsoleOperator \<Rightarrow> (console_db, unit) io" where
  "UpdateArrayOperator item =
     one_row (io_wrap (console_wrap ''update operator'')
         (exec_stmt Pool (sql_update_console_operator item)))
       (NewError ''update operator: no such record'')"

definition sql_delete_operator :: "string \<Rightarrow> (console_db, nat) stmt" where
  "sql_delete_operator i env n t d =
     bind_result (uuid_param env i) (\<lambda>u.
       set_operators (\<lambda>r. yo_ID r = u \<and> yo_DeletedAt r = None)
         (\<lambda>r. r\<lparr>yo_DeletedAt := Some t\<rparr>) d)"

definition DeleteArrayOperator :: "string \<Rightarrow> (console_db, unit) io" where
  "DeleteArrayOperator i =
     one_row (io_wrap (console_wrap ''delete operator'') (exec_stmt Pool (sql_delete_operator i)))
       (NewError ''delete operator: no such record'')"

section \<open>Treatments\<close>

definition numeric_param :: "console_lib \<Rightarrow> nat \<Rightarrow> nat \<Rightarrow> float64 \<Rightarrow> float64 result" where
  "numeric_param lib precision scale x =
     (case cl_numeric lib precision scale x of None \<Rightarrow> Inl (PgError ''22003'') | Some y \<Rightarrow> Inr y)"

definition listed_treatments :: "env \<Rightarrow> string \<Rightarrow> console_db \<Rightarrow> TreatmentRow list" where
  "listed_treatments env keyword d =
     filter (\<lambda>r. yt_DeletedAt r = None \<and> ilike env keyword (yt_Name r)) (cd_profiles d)"

definition TreatmentPage ::
  "int \<Rightarrow> int \<Rightarrow> string \<Rightarrow> (console_db, Treatment ConsolePage) io" where
  "TreatmentPage current per_page keyword =
     (let keyword = keyword_pattern keyword in
      console_page ''list treatments'' ''read treatment'' ''count treatments'' current per_page
        (\<lambda>env n d. Inr (ordered_by env n yt_CreatedAt True yt_ID (listed_treatments env keyword d)))
        (\<lambda>r. Inr (Treatment.truncate r))
        (\<lambda>env d. Inr (int (length (listed_treatments env keyword d))))
        rows_err_late)"

definition TreatmentList :: "(console_db, Treatment list) io" where
  "TreatmentList = io_bind (TreatmentPage 1 100 []) (\<lambda>page. io_return (cp_Records page))"

definition treatment_params ::
  "console_lib \<Rightarrow> env \<Rightarrow> Treatment \<Rightarrow> (string \<times> float64) result" where
  "treatment_params lib env item =
     bind_result (int4_param (yt_DurationMinutes item)) (\<lambda>_.
     bind_result (int4_param (yt_Status item)) (\<lambda>_.
     bind_result (uuid_param env (yt_ID item)) (\<lambda>u.
     bind_result (numeric_param lib 10 2 (yt_RiskBudget item)) (\<lambda>budget. Inr (u, budget)))))"

text \<open>PostgreSQL orders NaN above every number, so only a number below zero fails the check.\<close>

definition treatment_checks :: "TreatmentRow \<Rightarrow> bool" where
  "treatment_checks r \<longleftrightarrow>
     \<not> yt_RiskBudget r < Fin 0 \<and> 1 \<le> yt_DurationMinutes r \<and> yt_DurationMinutes r \<le> 1440 \<and>
     yt_Status r \<in> set [0, 1]"

definition sql_insert_treatment :: "console_lib \<Rightarrow> Treatment \<Rightarrow> (console_db, unit) stmt" where
  "sql_insert_treatment lib item env n t d =
     bind_result (treatment_params lib env item) (\<lambda>(u, budget).
       let row = Treatment.extend
             (item\<lparr>yt_ID := u, yt_Name := TrimSpace (yt_Name item), yt_RiskBudget := budget\<rparr>)
             (TreatmentRow.fields t None) in
       sql_insert [(''23514'', treatment_checks row), (''23505'', u \<notin> yt_ID ` set (cd_profiles d))]
         (d\<lparr>cd_profiles := cd_profiles d @ [row]\<rparr>))"

definition CreateTreatment :: "console_lib \<Rightarrow> Treatment \<Rightarrow> (console_db, Treatment) io" where
  "CreateTreatment lib item0 =
     io_bind NewString (\<lambda>i.
       let item = item0\<lparr>yt_ID := i\<rparr> in
       io_then (io_wrap (console_wrap ''create treatment'')
           (exec_stmt Pool (sql_insert_treatment lib item)))
         (io_return item))"

definition set_treatments ::
  "(TreatmentRow \<Rightarrow> bool) \<Rightarrow> (TreatmentRow \<Rightarrow> TreatmentRow) \<Rightarrow> console_db \<Rightarrow>
   go_error + nat \<times> console_db" where
  "set_treatments hit change d =
     bind_result (sql_update hit change (\<lambda>_. 0) treatment_checks (cd_profiles d)) (\<lambda>(k, rows).
       Inr (k, d\<lparr>cd_profiles := rows\<rparr>))"

definition sql_update_treatment :: "console_lib \<Rightarrow> Treatment \<Rightarrow> (console_db, nat) stmt" where
  "sql_update_treatment lib item env n t d =
     bind_result (treatment_params lib env item) (\<lambda>(u, budget).
       set_treatments (\<lambda>r. yt_ID r = u \<and> yt_DeletedAt r = None)
         (\<lambda>r. r\<lparr>yt_Name := TrimSpace (yt_Name item), yt_Description := yt_Description item,
            yt_RiskBudget := budget, yt_DurationMinutes := yt_DurationMinutes item,
            yt_Status := yt_Status item\<rparr>) d)"

definition UpdateTreatment :: "console_lib \<Rightarrow> Treatment \<Rightarrow> (console_db, unit) io" where
  "UpdateTreatment lib item =
     one_row (io_wrap (console_wrap ''update treatment'')
         (exec_stmt Pool (sql_update_treatment lib item)))
       (NewError ''update treatment: no such record'')"

definition sql_delete_treatment :: "string \<Rightarrow> (console_db, nat) stmt" where
  "sql_delete_treatment i env n t d =
     bind_result (uuid_param env i) (\<lambda>u.
       set_treatments (\<lambda>r. yt_ID r = u \<and> yt_DeletedAt r = None)
         (\<lambda>r. r\<lparr>yt_DeletedAt := Some t\<rparr>) d)"

definition DeleteTreatment :: "string \<Rightarrow> (console_db, unit) io" where
  "DeleteTreatment i =
     one_row (io_wrap (console_wrap ''delete treatment'') (exec_stmt Pool (sql_delete_treatment i)))
       (NewError ''delete treatment: no such record'')"

section \<open>Work orders\<close>

text \<open>\<open>t.Format("20060102150405.000000")\<close> for years of four digits. A day count is turned into a
  date of the proleptic Gregorian calendar; the years start in March.\<close>

definition digits :: "nat \<Rightarrow> int \<Rightarrow> string" where
  "digits width i = map (\<lambda>k. hex_digit (nat (i div 10 ^ k mod 10))) (rev [0..<width])"

definition civil_date :: "int \<Rightarrow> int \<times> int \<times> int" where
  "civil_date day =
     (let z = day + 306; era = z div 146097; doe = z mod 146097;
          yoe = (doe - doe div 1460 + doe div 36524 - doe div 146096) div 365;
          doy = doe - (365 * yoe + yoe div 4 - yoe div 100);
          mp = (5 * doy + 2) div 153;
          m = (if mp < 10 then mp + 3 else mp - 9)
      in (yoe + era * 400 + (if m \<le> 2 then 1 else 0), m, doy - (153 * mp + 2) div 5 + 1))"

definition Format_stamp :: "time \<Rightarrow> string" where
  "Format_stamp t =
     (case civil_date (t div (24 * hour)) of (y, m, day) \<Rightarrow>
      digits 4 y @ digits 2 m @ digits 2 day @
      digits 2 (t mod (24 * hour) div hour) @ digits 2 (t mod hour div minute) @
      digits 2 (t mod minute div second) @ ''.'' @ digits 6 (t mod second div 1000))"

definition order_item :: "console_db \<Rightarrow> WorkOrderRow \<Rightarrow> WorkOrder option" where
  "order_item d o1 =
     (case (find (\<lambda>e. yb_ID e = xw_AcousticBuoyID o1) (cd_buoys d),
            find (\<lambda>p. yt_ID p = xw_ArrayOpsProfileID o1) (cd_profiles d)) of
        (Some e, Some p) \<Rightarrow>
          Some \<lparr>yw_ID = xw_ID o1, yw_WorkOrderNo = xw_WorkOrderNo o1,
            yw_AcousticBuoyID = xw_AcousticBuoyID o1, yw_AcousticBuoyTitle = yb_Title e,
            yw_ArrayOpsProfileID = xw_ArrayOpsProfileID o1, yw_TreatmentName = yt_Name p,
            yw_ArrayOperatorID = xw_ArrayOperatorID o1,
            yw_ArrayOperatorName =
              (case find (\<lambda>w. xw_ArrayOperatorID o1 = Some (yo_ID w)) (cd_operators d) of
                 None \<Rightarrow> '''' | Some w \<Rightarrow> yo_Name w),
            yw_ScheduledAt = xw_ScheduledAt o1, yw_Status = xw_Status o1,
            yw_Remark = xw_Remark o1, yw_Version = xw_Version o1\<rparr>
      | _ \<Rightarrow> None)"

definition WorkOrderPage :: "int \<Rightarrow> int \<Rightarrow> (console_db, WorkOrder ConsolePage) io" where
  "WorkOrderPage current per_page =
     console_page ''list orders'' ''read order'' ''count orders'' current per_page
       (\<lambda>env n d. Inr (List.map_filter (order_item d)
          (ordered_by env n xw_CreatedAt True xw_ID (cd_orders d))))
       Inr
       (\<lambda>env d. Inr (int (length (cd_orders d))))
       rows_err_late"

definition optional_uuid_param :: "env \<Rightarrow> string option \<Rightarrow> string option result" where
  "optional_uuid_param env x =
     (case x of None \<Rightarrow> Inr None | Some s \<Rightarrow> bind_result (uuid_param env s) (\<lambda>u. Inr (Some u)))"

definition sql_insert_order :: "WorkOrder \<Rightarrow> (console_db, unit) stmt" where
  "sql_insert_order item env n t d =
     bind_result (uuid_param env (yw_ID item)) (\<lambda>u.
     bind_result (uuid_param env (yw_AcousticBuoyID item)) (\<lambda>buoy.
     bind_result (uuid_param env (yw_ArrayOpsProfileID item)) (\<lambda>profile.
     bind_result (optional_uuid_param env (yw_ArrayOperatorID item)) (\<lambda>operator.
       sql_insert
         [(''23505'', u \<notin> xw_ID ` set (cd_orders d) \<and>
             yw_WorkOrderNo item \<notin> xw_WorkOrderNo ` set (cd_orders d)),
          (''23503'', buoy \<in> yb_ID ` set (cd_buoys d) \<and> profile \<in> yt_ID ` set (cd_profiles d) \<and>
             (case operator of None \<Rightarrow> True | Some w \<Rightarrow> w \<in> yo_ID ` set (cd_operators d)))]
         (d\<lparr>cd_orders := cd_orders d @
            [\<lparr>xw_ID = u, xw_WorkOrderNo = yw_WorkOrderNo item, xw_AcousticBuoyID = buoy,
              xw_ArrayOpsProfileID = profile, xw_ArrayOperatorID = operator,
              xw_ScheduledAt = map_option pg_time (yw_ScheduledAt item), xw_Status = 0,
              xw_Remark = yw_Remark item, xw_Version = 1, xw_CreatedAt = t\<rparr>]\<rparr>)))))"

definition CreateWorkOrder :: "WorkOrder \<Rightarrow> (console_db, WorkOrder) io" where
  "CreateWorkOrder item0 =
     io_bind NewString (\<lambda>i.
     io_bind service_now (\<lambda>now.
       let item = item0\<lparr>yw_ID := i, yw_WorkOrderNo := ''RESTORE-'' @ Format_stamp now,
             yw_Status := 0, yw_Version := 1\<rparr> in
       io_then (io_wrap (console_wrap ''create order'') (exec_stmt Pool (sql_insert_order item)))
         (io_return item)))"

definition order_sources :: "int \<Rightarrow> int list option" where
  "order_sources = map_of [(1, [0]), (2, [1]), (3, [0])]"

definition sql_update_order :: "string \<Rightarrow> int \<Rightarrow> int list \<Rightarrow> (console_db, nat) stmt" where
  "sql_update_order i status sources env n t d =
     bind_result (uuid_param env i) (\<lambda>u.
     bind_result (sql_update (\<lambda>r. xw_ID r = u \<and> xw_Status r \<in> set sources)
         (\<lambda>r. r\<lparr>xw_Status := status, xw_Version := xw_Version r + 1\<rparr>) xw_Version
         (\<lambda>r. 0 \<le> xw_Status r \<and> xw_Status r \<le> 3) (cd_orders d)) (\<lambda>(k, rows).
       Inr (k, d\<lparr>cd_orders := rows\<rparr>)))"

definition UpdateWorkOrderStatus :: "string \<Rightarrow> int \<Rightarrow> (console_db, unit) io" where
  "UpdateWorkOrderStatus i status =
     (case order_sources status of
        None \<Rightarrow> io_throw (NewError ''unsupported order status'')
      | Some sources \<Rightarrow>
          one_row (io_wrap (console_wrap ''update order status'')
              (exec_stmt Pool (sql_update_order i status sources)))
            (NewError ''order status has changed, reload and retry''))"

section \<open>Reports and logs\<close>

definition report_item :: "console_db \<Rightarrow> ConsoleReport \<Rightarrow> ConsoleReport option" where
  "report_item d h =
     (case find (\<lambda>e. yb_ID e = yr_AcousticBuoyID h) (cd_buoys d) of
        None \<Rightarrow> None
      | Some e \<Rightarrow> Some (h\<lparr>yr_AcousticBuoyTitle := yb_Title e\<rparr>))"

definition listed_reports ::
  "env \<Rightarrow> string \<Rightarrow> console_db \<Rightarrow> ConsoleReport list result" where
  "listed_reports env buoyID d =
     (if buoyID \<noteq> '''' then
        bind_result (uuid_param env buoyID) (\<lambda>u.
          Inr (filter (\<lambda>h. yr_AcousticBuoyID h = u) (cd_reports d)))
      else Inr (cd_reports d))"

definition SignalRecoveryReportPage ::
  "int \<Rightarrow> int \<Rightarrow> string \<Rightarrow> (console_db, ConsoleReport ConsolePage) io" where
  "SignalRecoveryReportPage current per_page buoyID =
     console_page ''list reports'' ''read report'' ''count reports'' current per_page
       (\<lambda>env n d. bind_result (listed_reports env buoyID d) (\<lambda>rows.
          Inr (List.map_filter (report_item d)
            (ordered_by env n yr_RecordedAt True yr_ID rows))))
       Inr
       (\<lambda>env d. bind_result (listed_reports env buoyID d) (\<lambda>rows. Inr (int (length rows))))
       rows_err_late"

definition optional_numeric ::
  "console_lib \<Rightarrow> nat \<Rightarrow> nat \<Rightarrow> float64 option \<Rightarrow> float64 option result" where
  "optional_numeric lib precision scale x =
     (case x of
        None \<Rightarrow> Inr None
      | Some f \<Rightarrow> bind_result (numeric_param lib precision scale f) (\<lambda>y. Inr (Some y)))"

text \<open>Both INSERTs: without a time the column default \<open>now()\<close> is stored and returned.\<close>

definition sql_insert_report ::
  "console_lib \<Rightarrow> ConsoleReport \<Rightarrow> env \<Rightarrow> nat \<Rightarrow> time \<Rightarrow> console_db \<Rightarrow>
   go_error + time option \<times> console_db" where
  "sql_insert_report lib item env n t d =
     bind_result (uuid_param env (yr_ID item)) (\<lambda>u.
     bind_result (uuid_param env (yr_AcousticBuoyID item)) (\<lambda>buoy.
     bind_result (optional_numeric lib 5 1 (yr_PacketLossPercent item)) (\<lambda>loss.
     bind_result (optional_numeric lib 5 1 (yr_WaterTemperatureC item)) (\<lambda>temperature.
     bind_result (optional_numeric lib 8 1 (yr_SignalNoiseDB item)) (\<lambda>noise.
     bind_result (optional_numeric lib 8 3 (yr_ClockDriftPPM item)) (\<lambda>drift.
     bind_result (optional_numeric lib 8 3 (yr_CorruptionIndex item)) (\<lambda>corruption.
       let recorded = (if IsZero (yr_RecordedAt item) then t else pg_time (yr_RecordedAt item)) in
       bind_result (sql_insert
           [(''23505'', u \<notin> yr_ID ` set (cd_reports d)),
            (''23503'', buoy \<in> yb_ID ` set (cd_buoys d))]
           (d\<lparr>cd_reports := cd_reports d @
              [item\<lparr>yr_ID := u, yr_AcousticBuoyID := buoy, yr_AcousticBuoyTitle := '''',
                yr_PacketLossPercent := loss, yr_WaterTemperatureC := temperature,
                yr_SignalNoiseDB := noise, yr_ClockDriftPPM := drift,
                yr_CorruptionIndex := corruption, yr_RecordedAt := recorded\<rparr>]\<rparr>))
         (\<lambda>(_, d'). Inr (Some recorded, d')))))))))"

definition CreateSignalRecoveryReport ::
  "console_lib \<Rightarrow> ConsoleReport \<Rightarrow> (console_db, ConsoleReport) io" where
  "CreateSignalRecoveryReport lib item0 =
     io_bind NewString (\<lambda>i.
       let item = item0\<lparr>yr_ID := i\<rparr> in
       io_bind (io_wrap (console_wrap ''create report'') (scan_row (sql_insert_report lib item)))
         (\<lambda>recorded. io_return (if IsZero (yr_RecordedAt item) then item\<lparr>yr_RecordedAt := recorded\<rparr> else item)))"

definition LogPage :: "int \<Rightarrow> int \<Rightarrow> (console_db, ConsoleLog ConsolePage) io" where
  "LogPage current per_page =
     console_page ''list logs'' ''read log'' ''count logs'' current per_page
       (\<lambda>env n d. Inr (ordered_by env n yl_CreateTime True yl_ID (cd_logs d)))
       Inr
       (\<lambda>env d. Inr (int (length (cd_logs d))))
       rows_err_late"

end
