(* ===== verification/Http_Api.thy ===== *)
theory Http_Api
  imports Service Config_Setup Console_Store
begin

text \<open>
  \<open>internal/httpapi\<close>: requests and responses, the error mapping, and the handlers of \<open>/v1\<close>
  (\<open>api.go\<close>, \<open>handlers_extra.go\<close>, \<open>handlers_intervention.go\<close>, \<open>array_operator_handlers.go\<close>,
  \<open>assignment.go\<close>, \<open>audit_query.go\<close>, \<open>query_handlers.go\<close>, \<open>report.go\<close>, \<open>middleware.go\<close>,
  \<open>response.go\<close>, \<open>filters.go\<close>, \<open>validation.go\<close>).

  encoding/json works by reflection over struct tags: what it makes of a body is an argument for
  each request type, and a response is the value that is encoded. \<open>uuid.Parse\<close> and the time parsers
  are arguments. A path is the list of its segments.
\<close>

section \<open>Requests and responses\<close>

datatype 'a decoded = Malformed | Trailing 'a | Exactly 'a

record http_request =
  rq_method :: string
  rq_path :: "string list"
  rq_query :: "string \<Rightarrow> string"
  rq_header :: "string \<Rightarrow> string"
  rq_remote :: string
  rq_body :: string

record activationRequest =
  ak_From :: "string option"
  ak_To :: string
  ak_Location :: string
  ak_RecordedAt :: time
  ak_Note :: string
  ak_Version :: int

record reviewRequest =
  vk_RecoveryJobID :: string
  vk_Accepted :: bool
  vk_SignalRecoveryReportVersion :: int
  vk_RecoveryJobVersion :: int

record assignmentRequest =
  sk_SurveyMissionID :: string
  sk_AcousticBuoyID :: string
  sk_ArrayOperatorID :: string
  sk_StartsAt :: time
  sk_EndsAt :: time

record consoleWorkOrderRequest =
  wk_AcousticBuoyID :: string
  wk_ArrayOpsProfileID :: string
  wk_ArrayOperatorID :: "string option"
  wk_ScheduledAt :: string
  wk_Remark :: string

record http_lib =
  hl_console :: console_lib
  hl_uuid_ok :: "string \<Rightarrow> bool"
  hl_parse_time :: "string \<Rightarrow> string \<Rightarrow> time result"
  hl_mission :: "string \<Rightarrow> CreateSurveyMissionRequest decoded"
  hl_version :: "string \<Rightarrow> int decoded"
  hl_job :: "string \<Rightarrow> RecoveryJobInput decoded"
  hl_activation :: "string \<Rightarrow> activationRequest decoded"
  hl_window :: "string \<Rightarrow> (DiveWindowInput \<times> string list) decoded"
  hl_report :: "string \<Rightarrow> SignalRecoveryReportInput decoded"
  hl_review :: "string \<Rightarrow> reviewRequest decoded"
  hl_operator :: "string \<Rightarrow> (string \<times> ArrayOperatorRole) decoded"
  hl_rename :: "string \<Rightarrow> string decoded"
  hl_assignment :: "string \<Rightarrow> assignmentRequest decoded"
  hl_advance :: "string \<Rightarrow> (string \<times> int) decoded"
  hl_incident :: "string \<Rightarrow> IntegrityIncidentInput decoded"
  hl_credentials :: "string \<Rightarrow> (string \<times> string) decoded"
  hl_buoy :: "string \<Rightarrow> ConsoleBuoy decoded"
  hl_console_operator :: "string \<Rightarrow> ConsoleOperator decoded"
  hl_treatment :: "string \<Rightarrow> Treatment decoded"
  hl_order :: "string \<Rightarrow> consoleWorkOrderRequest decoded"
  hl_order_status :: "string \<Rightarrow> (string \<times> int) decoded"
  hl_console_report :: "string \<Rightarrow> ConsoleReport decoded"

text \<open>What is encoded as the body: \<open>P_\<close> under \<open>/v1\<close>, \<open>C_\<close> in the console's envelope.\<close>

datatype payload =
    P_Status string
  | P_ID string
  | P_Error string go_error string
  | P_Mission CreateSurveyMissionResponse
  | P_Job RecoveryJob
  | P_Jobs Page
  | P_Operator ArrayOperator
  | P_Operators "ArrayOperator list" int
  | P_Progress SurveyMissionProgress
  | P_Missions "SurveyMission list" int int int
  | P_Buoys "AcousticBuoy list"
  | P_Report ComplianceReport
  | P_Assignment Assignment
  | P_Audit AuditPage
  | P_History "AuditSummary list"
  | P_Text string
  | C_Error go_error
  | C_Nothing
  | C_Login ConsoleSession ConsoleUser
  | C_User ConsoleUser
  | C_Stats DashboardStats
  | C_Buoys "ConsoleBuoy ConsolePage"
  | C_BuoyList "ConsoleBuoy list"
  | C_Buoy ConsoleBuoy
  | C_Operators "ConsoleOperator ConsolePage"
  | C_OperatorList "ConsoleOperator list"
  | C_Operator ConsoleOperator
  | C_Treatments "Treatment ConsolePage"
  | C_TreatmentList "Treatment list"
  | C_Treatment Treatment
  | C_Orders "WorkOrder ConsolePage"
  | C_Order WorkOrder
  | C_Reports "ConsoleReport ConsolePage"
  | C_ReportList "ConsoleReport list"
  | C_Report ConsoleReport
  | C_Logs "ConsoleLog ConsolePage"

record response =
  rs_status :: int
  rs_payload :: payload

definition writeJSON :: "int \<Rightarrow> payload \<Rightarrow> response" where
  "writeJSON status value = \<lparr>rs_status = status, rs_payload = value\<rparr>"

definition writeData :: "int \<Rightarrow> payload \<Rightarrow> response" where
  "writeData status value = \<lparr>rs_status = status, rs_payload = value\<rparr>"

definition error_class :: "go_error \<Rightarrow> int \<times> string" where
  "error_class err =
     (if errors_Is err (DomainErr ErrNotFound) then (404, ''not_found'')
      else if errors_Is err (DomainErr ErrConflict) \<or> errors_Is err (DomainErr ErrInvalidTransition)
        then (409, ''conflict'')
      else if errors_Is err (DomainErr ErrCapacityExceeded) then (422, ''capacity_exceeded'')
      else if errors_Is err (DomainErr ErrExpired) then (422, ''expired'')
      else (500, ''internal_error''))"

definition writeError :: "string \<Rightarrow> go_error \<Rightarrow> response" where
  "writeError request_id err =
     (case error_class err of (status, code) \<Rightarrow> writeJSON status (P_Error code err request_id))"

text \<open>A handler that writes one response for the result of a call and another for its error.\<close>

definition respond ::
  "('d, 'a) io \<Rightarrow> ('a \<Rightarrow> response) \<Rightarrow> (go_error \<Rightarrow> response) \<Rightarrow> ('d, response) io" where
  "respond m ok bad env w =
     (case m env w of
        (Inl e, w') \<Rightarrow> (Inr (bad e), w')
      | (Inr x, w') \<Rightarrow> (Inr (ok x), w'))"

definition decode_body ::
  "string \<Rightarrow> 'a decoded \<Rightarrow> ('a \<Rightarrow> ('d, response) io) \<Rightarrow> ('d, response) io" where
  "decode_body request_id body handler =
     (case body of
        Malformed \<Rightarrow> io_return (writeError request_id (Errorf ''invalid json'' conflict))
      | Trailing _ \<Rightarrow>
          io_return (writeError request_id
            (Errorf ''request body must contain one json value'' conflict))
      | Exactly x \<Rightarrow> handler x)"

definition request_meta :: "http_lib \<Rightarrow> string \<Rightarrow> http_request \<Rightarrow> RequestMeta" where
  "request_meta lib request_id r =
     (let array_operator = TrimSpace (rq_header r ''X-ArrayOperator-ID'') in
      \<lparr>me_RequestID = request_id,
       me_ArrayOperatorID =
         (if hl_uuid_ok lib array_operator then Some array_operator else None)\<rparr>)"

definition requestMiddleware ::
  "(string \<Rightarrow> http_request \<Rightarrow> ('d, response) io) \<Rightarrow> http_request \<Rightarrow> ('d, response) io" where
  "requestMiddleware handler r =
     io_bind (if rq_header r ''X-Request-ID'' = [] then NewString
         else io_return (rq_header r ''X-Request-ID'')) (\<lambda>request_id. handler request_id r)"

section \<open>Query parameters\<close>

text \<open>\<open>n, _ := strconv.Atoi(s)\<close>: a syntax error gives zero, a range error the nearest int.\<close>

definition atoi_value :: "string \<Rightarrow> int" where
  "atoi_value s =
     (case Atoi s of
        Inr n \<Rightarrow> n
      | Inl e \<Rightarrow>
          if e = NewError ''value out of range''
            then if hd s = CHR ''-'' then - (2 ^ 63) else 2 ^ 63 - 1
          else 0)"

definition boolQuery :: "(string \<Rightarrow> string) \<Rightarrow> http_request \<Rightarrow> string \<Rightarrow> bool \<Rightarrow> bool" where
  "boolQuery lower r key fallback =
     (let v = TrimSpace (lower (rq_query r key)) in
      if v = [] then fallback else v \<in> set [''1'', ''true'', ''yes''])"

definition requiredHeader :: "http_request \<Rightarrow> string \<Rightarrow> string result" where
  "requiredHeader r name =
     (let v = TrimSpace (rq_header r name) in
      if v = [] then Inl (NewError (''header '' @ name @ '' is required'')) else Inr v)"

definition requiredTimeQuery :: "http_lib \<Rightarrow> http_request \<Rightarrow> string \<Rightarrow> time result" where
  "requiredTimeQuery lib r name =
     (let v = rq_query r name in
      if v = [] then Inl (Errorf (name @ '' is required'') conflict)
      else
        case hl_parse_time lib ''2006-01-02T15:04:05Z07:00'' v of
          Inl _ \<Rightarrow> Inl (Errorf (name @ '' must be RFC3339'') conflict)
        | Inr t \<Rightarrow> Inr t)"

definition boundedIntQuery :: "http_request \<Rightarrow> string \<Rightarrow> int \<Rightarrow> int \<Rightarrow> int \<Rightarrow> int result" where
  "boundedIntQuery r name fallback minimum maximum =
     (let v = rq_query r name in
      if v = [] then Inr fallback
      else
        case Atoi v of
          Inl _ \<Rightarrow> Inl (Errorf (name @ '' is out of range'') conflict)
        | Inr n \<Rightarrow>
            if n \<le> minimum \<or> maximum < n then Inl (Errorf (name @ '' is out of range'') conflict)
            else Inr n)"

section \<open>Missions\<close>

definition http_createSurveyMission ::
  "http_lib \<Rightarrow> string \<Rightarrow> http_request \<Rightarrow> (database, response) io" where
  "http_createSurveyMission lib rid r =
     decode_body rid (hl_mission lib (rq_body r)) (\<lambda>inp.
       respond (CreateSurveyMission (request_meta lib rid r) inp)
         (\<lambda>x. writeJSON 201 (P_Mission x)) (writeError rid))"

definition http_advanceSurveyMission ::
  "SurveyMissionStatus \<Rightarrow> http_lib \<Rightarrow> string \<Rightarrow> http_request \<Rightarrow> string \<Rightarrow> (database, response) io" where
  "http_advanceSurveyMission target lib rid r i =
     decode_body rid (hl_version lib (rq_body r)) (\<lambda>version.
       let meta = request_meta lib rid r in
       respond
         (if target = SurveyMissionScheduled then ScheduleSurveyMission meta i version
          else if target = SurveyMissionActive then ActivateSurveyMission meta i version
          else if target = SurveyMissionClosed then CloseSurveyMission meta i version
          else io_return ())
         (\<lambda>_. writeJSON 200 (P_Status target)) (writeError rid))"

definition http_scheduleSurveyMission ::
  "http_lib \<Rightarrow> string \<Rightarrow> http_request \<Rightarrow> string \<Rightarrow> (database, response) io" where
  "http_scheduleSurveyMission = http_advanceSurveyMission SurveyMissionScheduled"

definition http_activateSurveyMission ::
  "http_lib \<Rightarrow> string \<Rightarrow> http_request \<Rightarrow> string \<Rightarrow> (database, response) io" where
  "http_activateSurveyMission = http_advanceSurveyMission SurveyMissionActive"

definition http_closeSurveyMission ::
  "http_lib \<Rightarrow> string \<Rightarrow> http_request \<Rightarrow> string \<Rightarrow> (database, response) io" where
  "http_closeSurveyMission = http_advanceSurveyMission SurveyMissionClosed"

definition http_survey_missionProgress ::
  "string \<Rightarrow> string \<Rightarrow> (database, response) io" where
  "http_survey_missionProgress rid i =
     respond (service_SurveyMissionProgress i) (\<lambda>x. writeJSON 200 (P_Progress x)) (writeError rid)"

definition http_listSurveyMissions :: "string \<Rightarrow> http_request \<Rightarrow> (database, response) io" where
  "http_listSurveyMissions rid r =
     (let limit0 = atoi_value (rq_query r ''limit''); offset0 = atoi_value (rq_query r ''offset'');
          limit = (if limit0 < 1 \<or> 100 < limit0 then 50 else limit0);
          offset = (if offset0 < 0 then 0 else offset0) in
      respond (ListSurveyMissions \<lparr>mf_Status = rq_query r ''status'',
          mf_Search = rq_query r ''search'', mf_Limit = limit, mf_Offset = offset\<rparr>)
        (\<lambda>(items, k). writeData 200 (P_Missions items k limit offset)) (writeError rid))"

definition http_listSurveyMissionAcousticBuoys ::
  "string \<Rightarrow> string \<Rightarrow> (database, response) io" where
  "http_listSurveyMissionAcousticBuoys rid i =
     respond (ListSurveyMissionAcousticBuoys i) (\<lambda>x. writeData 200 (P_Buoys x)) (writeError rid)"

definition http_complianceReport :: "string \<Rightarrow> string \<Rightarrow> (database, response) io" where
  "http_complianceReport rid i =
     respond (service_ComplianceReport i) (\<lambda>x. writeData 200 (P_Report x)) (writeError rid)"

section \<open>Operators and assignments\<close>

definition http_createArrayOperator ::
  "http_lib \<Rightarrow> string \<Rightarrow> http_request \<Rightarrow> (database, response) io" where
  "http_createArrayOperator lib rid r =
     decode_body rid (hl_operator lib (rq_body r)) (\<lambda>(name, role).
       respond (RegisterArrayOperator (request_meta lib rid r) name role)
         (\<lambda>x. writeJSON 201 (P_Operator x)) (writeError rid))"

definition http_listArrayOperators :: "string \<Rightarrow> http_request \<Rightarrow> (database, response) io" where
  "http_listArrayOperators rid r =
     respond (ListArrayOperators (rq_query r ''role'') 50 0)
       (\<lambda>(items, k). writeData 200 (P_Operators items k)) (writeError rid)"

definition http_renameArrayOperator ::
  "http_lib \<Rightarrow> string \<Rightarrow> http_request \<Rightarrow> string \<Rightarrow> (database, response) io" where
  "http_renameArrayOperator lib rid r i =
     decode_body rid (hl_rename lib (rq_body r)) (\<lambda>name.
       respond (RenameArrayOperator (request_meta lib rid r) i name)
         (\<lambda>_. writeJSON 200 (P_Status ''renamed'')) (writeError rid))"

definition http_createAssignment ::
  "http_lib \<Rightarrow> string \<Rightarrow> http_request \<Rightarrow> (database, response) io" where
  "http_createAssignment lib rid r =
     decode_body rid (hl_assignment lib (rq_body r)) (\<lambda>inp.
       respond
         (io_bind (LoadArrayOperator (sk_ArrayOperatorID inp)) (\<lambda>array_operator.
          io_bind (NewAssignment (sk_SurveyMissionID inp) (sk_AcousticBuoyID inp)
              (sk_ArrayOperatorID inp) (sk_StartsAt inp) (sk_EndsAt inp)) (\<lambda>assignment.
          io_then (AssignAcousticBuoy (request_meta lib rid r) assignment array_operator)
            (io_return assignment))))
         (\<lambda>x. writeJSON 201 (P_Assignment x)) (writeError rid))"

definition http_advanceAssignment ::
  "http_lib \<Rightarrow> string \<Rightarrow> http_request \<Rightarrow> string \<Rightarrow> (database, response) io" where
  "http_advanceAssignment lib rid r i =
     decode_body rid (hl_advance lib (rq_body r)) (\<lambda>(status, version).
       if status \<noteq> ''active'' \<and> status \<noteq> ''completed'' \<and> status \<noteq> ''cancelled''
         then io_return (writeError rid conflict)
       else
         respond (AdvanceAssignment (request_meta lib rid r) i status version)
           (\<lambda>_. writeJSON 200 (P_Status status)) (writeError rid))"

section \<open>Recovery jobs\<close>

definition http_createRecoveryJob ::
  "http_lib \<Rightarrow> string \<Rightarrow> http_request \<Rightarrow> (database, response) io" where
  "http_createRecoveryJob lib rid r =
     decode_body rid (hl_job lib (rq_body r)) (\<lambda>inp.
       respond (CreateRecoveryJob (request_meta lib rid r) inp)
         (\<lambda>x. writeJSON 201 (P_Job x)) (writeError rid))"

definition http_moveRecoveryJob ::
  "RecoveryJobStatus \<Rightarrow> http_lib \<Rightarrow> string \<Rightarrow> http_request \<Rightarrow> string \<Rightarrow> (database, response) io" where
  "http_moveRecoveryJob target lib rid r i =
     decode_body rid (hl_version lib (rq_body r)) (\<lambda>version.
       let meta = request_meta lib rid r in
       respond
         (if target = RecoveryJobCompleted then CompleteRecoveryJob meta i version
          else ArchiveRecoveryJob meta i version)
         (\<lambda>_. writeJSON 200 (P_Status target)) (writeError rid))"

definition http_completeRecoveryJob ::
  "http_lib \<Rightarrow> string \<Rightarrow> http_request \<Rightarrow> string \<Rightarrow> (database, response) io" where
  "http_completeRecoveryJob = http_moveRecoveryJob RecoveryJobCompleted"

definition http_archiveRecoveryJob ::
  "http_lib \<Rightarrow> string \<Rightarrow> http_request \<Rightarrow> string \<Rightarrow> (database, response) io" where
  "http_archiveRecoveryJob = http_moveRecoveryJob RecoveryJobArchived"

definition http_activation ::
  "RecoveryJobStatus \<Rightarrow> http_lib \<Rightarrow> string \<Rightarrow> http_request \<Rightarrow> string \<Rightarrow> (database, response) io" where
  "http_activation target lib rid r i =
     decode_body rid (hl_activation lib (rq_body r)) (\<lambda>inp.
     io_bind (if IsZero (ak_RecordedAt inp) then service_now else io_return (ak_RecordedAt inp))
       (\<lambda>recorded.
       let meta = request_meta lib rid r;
           activation = \<lparr>an_RecoveryJobID = i, an_From = ak_From inp, an_To = ak_To inp,
             an_Location = ak_Location inp, an_RecordedAt = recorded, an_Note = ak_Note inp\<rparr> in
       respond
         (if target = RecoveryJobActivationPending
            then ActivationChecked meta activation (ak_Version inp)
          else AcceptChecked meta activation (ak_Version inp))
         (\<lambda>_. writeJSON 200 (P_Status target)) (writeError rid)))"

definition http_transferRecoveryJob ::
  "http_lib \<Rightarrow> string \<Rightarrow> http_request \<Rightarrow> string \<Rightarrow> (database, response) io" where
  "http_transferRecoveryJob = http_activation RecoveryJobActivationPending"

definition http_acceptRecoveryJob ::
  "http_lib \<Rightarrow> string \<Rightarrow> http_request \<Rightarrow> string \<Rightarrow> (database, response) io" where
  "http_acceptRecoveryJob = http_activation RecoveryJobAccepted"

definition http_listRecoveryJobs :: "string \<Rightarrow> http_request \<Rightarrow> (database, response) io" where
  "http_listRecoveryJobs rid r =
     respond (ListRecoveryJobs (atoi_value (rq_query r ''offset'')) (atoi_value (rq_query r ''limit''))
         (rq_query r ''survey_mission_id'') (rq_query r ''status''))
       (\<lambda>page. writeJSON 200 (P_Jobs page)) (writeError rid)"

section \<open>Dive windows, reports and incidents\<close>

definition http_createDiveWindow ::
  "http_lib \<Rightarrow> string \<Rightarrow> http_request \<Rightarrow> (database, response) io" where
  "http_createDiveWindow lib rid r =
     decode_body rid (hl_window lib (rq_body r)) (\<lambda>(inp, ids).
       respond (CreateDiveWindow (request_meta lib rid r) inp ids)
         (\<lambda>i. writeJSON 201 (P_ID i)) (writeError rid))"

text \<open>\<open>strconv.ParseInt(s, 10, 64)\<close> accepts what \<open>Atoi\<close> does.\<close>

definition dive_windowVersion :: "string \<Rightarrow> http_request \<Rightarrow> response + int" where
  "dive_windowVersion rid r =
     (case Atoi (rq_query r ''version'') of
        Inl _ \<Rightarrow> Inl (writeError rid conflict)
      | Inr v \<Rightarrow> if v < 1 then Inl (writeError rid conflict) else Inr v)"

definition http_changeDiveWindow ::
  "string \<Rightarrow> http_lib \<Rightarrow> string \<Rightarrow> http_request \<Rightarrow> string \<Rightarrow> (database, response) io" where
  "http_changeDiveWindow action lib rid r i =
     (let meta = request_meta lib rid r in
      case dive_windowVersion rid r of
        Inl refused \<Rightarrow> io_return refused
      | Inr v \<Rightarrow>
          respond
            (if action = ''start'' then StartDiveWindow meta i v
             else if action = ''complete'' then CompleteDiveWindow meta i v
             else if action = ''cancel'' then CancelDiveWindow meta i v
             else io_return ())
            (\<lambda>_. writeJSON 200 (P_Status action)) (writeError rid))"

definition http_startDiveWindow ::
  "http_lib \<Rightarrow> string \<Rightarrow> http_request \<Rightarrow> string \<Rightarrow> (database, response) io" where
  "http_startDiveWindow = http_changeDiveWindow ''start''"

definition http_completeDiveWindow ::
  "http_lib \<Rightarrow> string \<Rightarrow> http_request \<Rightarrow> string \<Rightarrow> (database, response) io" where
  "http_completeDiveWindow = http_changeDiveWindow ''complete''"

definition http_cancelDiveWindow ::
  "http_lib \<Rightarrow> string \<Rightarrow> http_request \<Rightarrow> string \<Rightarrow> (database, response) io" where
  "http_cancelDiveWindow = http_changeDiveWindow ''cancel''"

definition http_submitSignalRecoveryReport ::
  "http_lib \<Rightarrow> string \<Rightarrow> http_request \<Rightarrow> (database, response) io" where
  "http_submitSignalRecoveryReport lib rid r =
     decode_body rid (hl_report lib (rq_body r)) (\<lambda>inp.
       respond (SubmitSignalRecoveryReport (request_meta lib rid r) inp)
         (\<lambda>i. writeJSON 201 (P_ID i)) (writeError rid))"

definition http_reviewSignalRecoveryReport ::
  "http_lib \<Rightarrow> string \<Rightarrow> http_request \<Rightarrow> string \<Rightarrow> (database, response) io" where
  "http_reviewSignalRecoveryReport lib rid r i =
     decode_body rid (hl_review lib (rq_body r)) (\<lambda>inp.
       respond (ReviewSignalRecoveryReport (request_meta lib rid r) i (vk_RecoveryJobID inp)
           (vk_Accepted inp) (vk_SignalRecoveryReportVersion inp) (vk_RecoveryJobVersion inp))
         (\<lambda>_. writeJSON 200 (P_Status ''reviewed'')) (writeError rid))"

definition http_openIntegrityIncident ::
  "http_lib \<Rightarrow> string \<Rightarrow> http_request \<Rightarrow> (database, response) io" where
  "http_openIntegrityIncident lib rid r =
     decode_body rid (hl_incident lib (rq_body r)) (\<lambda>inp.
       respond (OpenIntegrityIncident (request_meta lib rid r) inp)
         (\<lambda>i. writeJSON 201 (P_ID i)) (writeError rid))"

definition http_closeIntegrityIncident ::
  "http_lib \<Rightarrow> string \<Rightarrow> http_request \<Rightarrow> string \<Rightarrow> (database, response) io" where
  "http_closeIntegrityIncident lib rid r i =
     respond (CloseIntegrityIncident (request_meta lib rid r) i)
       (\<lambda>_. writeJSON 200 (P_Status ''closed'')) (writeError rid)"

definition http_startIntegrityIncident ::
  "http_lib \<Rightarrow> string \<Rightarrow> http_request \<Rightarrow> string \<Rightarrow> (database, response) io" where
  "http_startIntegrityIncident lib rid r i =
     respond (MarkIntegrityIncidentInProgress (request_meta lib rid r) i)
       (\<lambda>_. writeJSON 200 (P_Status ''in_progress'')) (writeError rid)"

section \<open>Audit\<close>

definition audit_query_params ::
  "http_lib \<Rightarrow> http_request \<Rightarrow> (audit_filter \<times> time \<times> time \<times> int \<times> int) result" where
  "audit_query_params lib r =
     bind_result (requiredTimeQuery lib r ''from'') (\<lambda>from.
     bind_result (requiredTimeQuery lib r ''to'') (\<lambda>to.
     bind_result (boundedIntQuery r ''limit'' 50 0 200) (\<lambda>limit.
     bind_result (boundedIntQuery r ''offset'' 0 (-1) (2 ^ 63 - 1)) (\<lambda>offset.
       let objectID = rq_query r ''object_id'' in
       if objectID \<noteq> [] \<and> \<not> hl_uuid_ok lib objectID
         then Inl (Errorf ''invalid audit object id'' conflict)
       else Inr (\<lparr>af_ObjectType = rq_query r ''object_type'', af_ObjectID = objectID,
           af_Action = rq_query r ''action'', af_Outcome = rq_query r ''outcome''\<rparr>,
           from, to, limit, offset)))))"

definition http_queryAudit ::
  "http_lib \<Rightarrow> string \<Rightarrow> http_request \<Rightarrow> (database, response) io" where
  "http_queryAudit lib rid r =
     respond
       (io_bind (io_lift (audit_query_params lib r)) (\<lambda>(f, from, to, limit, offset).
          QueryAudit f from to limit offset))
       (\<lambda>page. writeData 200 (P_Audit page)) (writeError rid)"

definition http_auditHistory ::
  "string \<Rightarrow> http_request \<Rightarrow> string \<Rightarrow> string \<Rightarrow> (database, response) io" where
  "http_auditHistory rid r object_type object_id =
     respond (AuditHistory object_type object_id (atoi_value (rq_query r ''limit'')))
       (\<lambda>items. writeData 200 (P_History items)) (writeError rid)"

end
