(* ===== verification/Console_History.thy ===== *)
theory Console_History
  imports Console_Store
begin

text \<open>
  The console's tables over time: the invariant they keep (\<open>console_ok\<close>) and what may happen to a row
  (\<open>console_history\<close>), for every sequence of calls of the store under every schedule of faults.
\<close>

section \<open>Rows over time\<close>

definition session_rel :: "SessionRow \<Rightarrow> SessionRow \<Rightarrow> bool" where
  "session_rel x y \<longleftrightarrow>
     y = x\<lparr>sn_RevokedAt := sn_RevokedAt y, sn_LastSeenAt := sn_LastSeenAt y\<rparr> \<and>
     (sn_RevokedAt x \<noteq> None \<longrightarrow> sn_RevokedAt y = sn_RevokedAt x)"

definition console_buoy_rel :: "ConsoleBuoyRow \<Rightarrow> ConsoleBuoyRow \<Rightarrow> bool" where
  "console_buoy_rel x y \<longleftrightarrow>
     yb_ID y = yb_ID x \<and> yb_CreatedAt y = yb_CreatedAt x \<and> (yb_DeletedAt x \<noteq> None \<longrightarrow> y = x)"

definition console_operator_rel :: "ConsoleOperatorRow \<Rightarrow> ConsoleOperatorRow \<Rightarrow> bool" where
  "console_operator_rel x y \<longleftrightarrow>
     yo_ID y = yo_ID x \<and> yo_CreateTime y = yo_CreateTime x \<and> (yo_DeletedAt x \<noteq> None \<longrightarrow> y = x)"

definition treatment_rel :: "TreatmentRow \<Rightarrow> TreatmentRow \<Rightarrow> bool" where
  "treatment_rel x y \<longleftrightarrow>
     yt_ID y = yt_ID x \<and> yt_CreatedAt y = yt_CreatedAt x \<and> (yt_DeletedAt x \<noteq> None \<longrightarrow> y = x)"

text \<open>An order is pending, taken, completed or cancelled.\<close>

definition order_edge :: "int \<Rightarrow> int \<Rightarrow> bool" where
  "order_edge s t \<longleftrightarrow> (s, t) \<in> {(0, 1), (1, 2), (0, 3)}"

definition order_rel :: "WorkOrderRow \<Rightarrow> WorkOrderRow \<Rightarrow> bool" where
  "order_rel x y \<longleftrightarrow>
     y = x\<lparr>xw_Status := xw_Status y, xw_Version := xw_Version y\<rparr> \<and>
     moves order_edge xw_Status xw_Version x y"

lemma console_rel_refl [simp]:
  "session_rel s s" "console_buoy_rel b b" "console_operator_rel p p" "treatment_rel t t"
  "order_rel q q"
  by (simp_all add: session_rel_def console_buoy_rel_def console_operator_rel_def
      treatment_rel_def order_rel_def)

lemma console_rel_trans:
  "session_rel s1 s2 \<Longrightarrow> session_rel s2 s3 \<Longrightarrow> session_rel s1 s3"
  "console_buoy_rel b1 b2 \<Longrightarrow> console_buoy_rel b2 b3 \<Longrightarrow> console_buoy_rel b1 b3"
  "console_operator_rel p1 p2 \<Longrightarrow> console_operator_rel p2 p3 \<Longrightarrow> console_operator_rel p1 p3"
  "treatment_rel t1 t2 \<Longrightarrow> treatment_rel t2 t3 \<Longrightarrow> treatment_rel t1 t3"
  by (cases s1; cases s2; cases s3; simp add: session_rel_def; metis)
    (auto simp: console_buoy_rel_def console_operator_rel_def treatment_rel_def)

lemma order_rel_trans: "order_rel q1 q2 \<Longrightarrow> order_rel q2 q3 \<Longrightarrow> order_rel q1 q3"
  unfolding order_rel_def
  by (cases q1; cases q2; cases q3) (auto intro: moves_trans)

definition console_history :: "console_db \<Rightarrow> console_db \<Rightarrow> bool" where
  "console_history d d' \<longleftrightarrow>
     cd_users d' = cd_users d \<and>
     grows session_rel (cd_sessions d) (cd_sessions d') \<and>
     grows console_buoy_rel (cd_buoys d) (cd_buoys d') \<and>
     grows console_operator_rel (cd_operators d) (cd_operators d') \<and>
     grows treatment_rel (cd_profiles d) (cd_profiles d') \<and>
     grows order_rel (cd_orders d) (cd_orders d') \<and>
     grows (=) (cd_reports d) (cd_reports d') \<and>
     grows (=) (cd_logs d) (cd_logs d')"

section \<open>The invariant\<close>

text \<open>Keys are unique, the CHECK constraints hold and references find their rows.\<close>

definition order_refs :: "console_db \<Rightarrow> WorkOrderRow \<Rightarrow> bool" where
  "order_refs d r \<longleftrightarrow>
     xw_AcousticBuoyID r \<in> yb_ID ` set (cd_buoys d) \<and>
     xw_ArrayOpsProfileID r \<in> yt_ID ` set (cd_profiles d) \<and>
     (case xw_ArrayOperatorID r of None \<Rightarrow> True | Some w \<Rightarrow> w \<in> yo_ID ` set (cd_operators d))"

definition order_checks :: "WorkOrderRow \<Rightarrow> bool" where
  "order_checks r \<longleftrightarrow> 0 \<le> xw_Status r \<and> xw_Status r \<le> 3 \<and> 1 \<le> xw_Version r"

definition console_ok :: "console_db \<Rightarrow> bool" where
  "console_ok d \<longleftrightarrow>
     unique us_ID (cd_users d) \<and> unique sn_TokenHash (cd_sessions d) \<and> unique yb_ID (cd_buoys d) \<and>
     unique yo_ID (cd_operators d) \<and> unique yt_ID (cd_profiles d) \<and> unique xw_ID (cd_orders d) \<and>
     unique xw_WorkOrderNo (cd_orders d) \<and> unique yr_ID (cd_reports d) \<and>
     unique yl_ID (cd_logs d) \<and>
     refers sn_UserID (cd_sessions d) us_ID (cd_users d) \<and>
     refers yr_AcousticBuoyID (cd_reports d) yb_ID (cd_buoys d) \<and>
     (\<forall>r \<in> set (cd_buoys d). buoy_checks r) \<and> (\<forall>r \<in> set (cd_operators d). operator_checks r) \<and>
     (\<forall>r \<in> set (cd_profiles d). treatment_checks r) \<and>
     (\<forall>r \<in> set (cd_orders d). order_checks r \<and> order_refs d r)"

definition console_good :: "console_db \<Rightarrow> console_db \<Rightarrow> bool" where
  "console_good d d' \<longleftrightarrow> (console_ok d \<longrightarrow> console_ok d' \<and> console_history d d')"

lemma console_history_refl: "console_history d d"
  by (simp add: console_history_def grows_refl)

lemma console_history_trans:
  "console_history d1 d2 \<Longrightarrow> console_history d2 d3 \<Longrightarrow> console_history d1 d3"
  by (auto simp: console_history_def
      intro: grows_trans[OF console_rel_trans(1)] grows_trans[OF console_rel_trans(2)]
        grows_trans[OF console_rel_trans(3)] grows_trans[OF console_rel_trans(4)]
        grows_trans[OF order_rel_trans] grows_trans[of "(=)", OF trans])

interpretation console: db_history console_good
  by unfold_locales
    (auto simp: console_good_def console_history_refl intro: console_history_trans)

section \<open>Statements\<close>

lemmas console_simps = console_good_def console_ok_def console_history_def grows_refl grows_append

lemma unique_update:
  "(\<And>r. key (change r) = key r) \<Longrightarrow> unique key rows \<Longrightarrow> unique key (upd hit change rows)"
  by simp

lemma order_refs_mono:
  assumes "order_refs d r" "yb_ID ` set (cd_buoys d) \<subseteq> yb_ID ` set (cd_buoys d')"
    "yt_ID ` set (cd_profiles d) \<subseteq> yt_ID ` set (cd_profiles d')"
    "yo_ID ` set (cd_operators d) \<subseteq> yo_ID ` set (cd_operators d')"
  shows "order_refs d' r"
  using assms by (auto simp: order_refs_def split: option.splits)

lemma order_refs_simps [simp]:
  "order_refs (d\<lparr>cd_sessions := sessions\<rparr>) r = order_refs d r"
  "order_refs (d\<lparr>cd_orders := orders\<rparr>) r = order_refs d r"
  "order_refs (d\<lparr>cd_reports := reports\<rparr>) r = order_refs d r"
  "order_refs (d\<lparr>cd_logs := logs\<rparr>) r = order_refs d r"
  "yb_ID ` set buoys = yb_ID ` set (cd_buoys d) \<Longrightarrow>
    order_refs (d\<lparr>cd_buoys := buoys\<rparr>) r = order_refs d r"
  "yo_ID ` set operators = yo_ID ` set (cd_operators d) \<Longrightarrow>
    order_refs (d\<lparr>cd_operators := operators\<rparr>) r = order_refs d r"
  "yt_ID ` set profiles = yt_ID ` set (cd_profiles d) \<Longrightarrow>
    order_refs (d\<lparr>cd_profiles := profiles\<rparr>) r = order_refs d r"
  by (simp_all add: order_refs_def split: option.split)

lemma set_updE:
  assumes "x \<in> set (upd hit change rows)"
  obtains r where "r \<in> set rows" "x = (if hit r then change r else r)"
  using assms by (auto simp: upd_def)

lemma console_query [keeps_rules]: "stmt_keeps console_good env (query f)"
  by (rule stmt_keepsI) (simp add: query_def console.R_refl)

lemma console_create_session [keeps_rules]:
  "stmt_keeps console_good env (sql_create_session hash user expires)"
  by (rule stmt_keepsI) (clarsimp simp: sql_create_session_def console_simps)

lemma console_touch_session [keeps_rules]: "stmt_keeps console_good env (sql_touch_session hash)"
  by (rule stmt_keepsI)
    (auto simp: sql_touch_session_def Let_def console_simps session_rel_def
      intro!: grows_update)

lemma console_revoke_session [keeps_rules]: "stmt_keeps console_good env (sql_revoke_session hash)"
  by (rule stmt_keepsI)
    (auto simp: sql_revoke_session_def Let_def console_simps session_rel_def
      intro!: grows_update)

lemma console_write_log [keeps_rules]:
  "stmt_keeps console_good env (sql_write_log i username operation method ip)"
  by (rule stmt_keepsI) (clarsimp simp: sql_write_log_def console_simps)

lemma console_insert_buoy [keeps_rules]: "stmt_keeps console_good env (sql_insert_buoy lib item)"
  by (rule stmt_keepsI)
    (clarsimp simp: sql_insert_buoy_def Let_def console_simps ConsoleBuoy.defs;
      fastforce intro: order_refs_mono)

lemma console_set_buoys:
  assumes "set_buoys hit change d = Inr (k, d')"
    and "\<And>r. hit r \<Longrightarrow> yb_DeletedAt r = None"
    and "\<And>r. yb_ID (change r) = yb_ID r" "\<And>r. yb_CreatedAt (change r) = yb_CreatedAt r"
  shows "console_good d d'"
  using assms(1)
  by (auto simp: set_buoys_def sql_update_Inr console_simps assms(2-) console_buoy_rel_def
      intro!: grows_update elim!: set_updE)

lemma console_update_buoy [keeps_rules]: "stmt_keeps console_good env (sql_update_buoy lib item)"
  by (rule stmt_keepsI)
    (auto simp: sql_update_buoy_def elim!: console_set_buoys)

lemma console_delete_buoy [keeps_rules]: "stmt_keeps console_good env (sql_delete_buoy i)"
  by (rule stmt_keepsI) (auto simp: sql_delete_buoy_def elim!: console_set_buoys)

lemma console_insert_operator [keeps_rules]: "stmt_keeps console_good env (sql_insert_operator item)"
  by (rule stmt_keepsI)
    (clarsimp simp: sql_insert_operator_def Let_def console_simps ConsoleOperator.defs;
      fastforce intro: order_refs_mono)

lemma console_set_operators:
  assumes "set_operators hit change d = Inr (k, d')"
    and "\<And>r. hit r \<Longrightarrow> yo_DeletedAt r = None"
    and "\<And>r. yo_ID (change r) = yo_ID r" "\<And>r. yo_CreateTime (change r) = yo_CreateTime r"
  shows "console_good d d'"
  using assms(1)
  by (auto simp: set_operators_def sql_update_Inr console_simps assms(2-) console_operator_rel_def
      intro!: grows_update elim!: set_updE)

lemma console_update_operator [keeps_rules]:
  "stmt_keeps console_good env (sql_update_console_operator item)"
  "stmt_keeps console_good env (sql_delete_operator i)"
  by (rule stmt_keepsI;
      auto simp: sql_update_console_operator_def sql_delete_operator_def elim!: console_set_operators)+

lemma console_insert_treatment [keeps_rules]:
  "stmt_keeps console_good env (sql_insert_treatment lib item)"
  by (rule stmt_keepsI)
    (clarsimp simp: sql_insert_treatment_def Let_def console_simps Treatment.defs;
      fastforce intro: order_refs_mono)

lemma console_set_treatments:
  assumes "set_treatments hit change d = Inr (k, d')"
    and "\<And>r. hit r \<Longrightarrow> yt_DeletedAt r = None"
    and "\<And>r. yt_ID (change r) = yt_ID r" "\<And>r. yt_CreatedAt (change r) = yt_CreatedAt r"
  shows "console_good d d'"
  using assms(1)
  by (auto simp: set_treatments_def sql_update_Inr console_simps assms(2-) treatment_rel_def
      intro!: grows_update elim!: set_updE)

lemma console_update_treatment [keeps_rules]:
  "stmt_keeps console_good env (sql_update_treatment lib treatment)"
  "stmt_keeps console_good env (sql_delete_treatment i)"
  by (rule stmt_keepsI;
      auto simp: sql_update_treatment_def sql_delete_treatment_def elim!: console_set_treatments)+

lemma console_insert_order [keeps_rules]: "stmt_keeps console_good env (sql_insert_order order)"
  by (rule stmt_keepsI)
    (clarsimp simp: sql_insert_order_def console_simps order_checks_def; simp add: order_refs_def)

lemma order_row_bump [simp]:
  "order_refs d (r\<lparr>xw_Status := status, xw_Version := version\<rparr>) = order_refs d r"
  "order_checks r \<Longrightarrow> 0 \<le> status \<Longrightarrow> status \<le> 3 \<Longrightarrow>
    order_checks (r\<lparr>xw_Status := status, xw_Version := xw_Version r + 1\<rparr>)"
  by (simp_all add: order_refs_def order_checks_def)

lemma console_update_order:
  assumes "\<And>s. s \<in> set sources \<Longrightarrow> order_edge s status"
  shows "stmt_keeps console_good env (sql_update_order i status sources)"
  using assms
  by (intro stmt_keepsI)
    (auto simp: sql_update_order_def sql_update_Inr console_simps order_rel_def
      intro!: grows_update moves_one elim!: set_updE)

lemma console_insert_report [keeps_rules]:
  "stmt_keeps console_good env (sql_insert_report lib report)"
  by (rule stmt_keepsI) (clarsimp simp: sql_insert_report_def Let_def console_simps)

section \<open>Calls\<close>

lemma console_one_row [keeps_rules]:
  "keeps console_good env m \<Longrightarrow> keeps console_good env (one_row m err)"
  unfolding one_row_def by (intro keeps_rules)

lemma console_scan_row [keeps_rules]:
  "stmt_keeps console_good env st \<Longrightarrow> keeps console_good env (scan_row st)"
  unfolding scan_row_def by (intro keeps_rules)

lemma console_query_row [keeps_rules]: "keeps console_good env (query_row q text no_rows f)"
  unfolding query_row_def by (intro keeps_rules)

lemma console_rows_err [keeps_rules]:
  "keeps console_good env (rows_err_early text total_rows e)"
  "keeps console_good env total_rows \<Longrightarrow> keeps console_good env (rows_err_late total_rows e)"
  unfolding rows_err_early_def rows_err_late_def by (intro keeps_rules; assumption?)+

lemma console_page_keeps [keeps_rules]:
  assumes "\<And>m e. keeps console_good env m \<Longrightarrow> keeps console_good env (rows_err m e)"
  shows "keeps console_good env (console_page t1 t2 t3 current per_page rows scan counted rows_err)"
  unfolding console_page_def Let_def
  by (auto split: prod.split sum.split intro!: keeps_rules assms)

datatype console_call =
    Console_Login console_lib string string duration
  | Console_UserBySession console_lib string
  | Console_RevokeSession console_lib string
  | Console_Dashboard
  | Console_WriteLog string string string string
  | Console_BuoyPage console_lib int int string
  | Console_BuoyList console_lib
  | Console_BuoyByID console_lib string
  | Console_CreateBuoy console_lib ConsoleBuoy
  | Console_UpdateBuoy console_lib ConsoleBuoy
  | Console_DeleteBuoy string
  | Console_OperatorPage int int string
  | Console_OperatorList
  | Console_CreateOperator ConsoleOperator
  | Console_UpdateOperator ConsoleOperator
  | Console_DeleteOperator string
  | Console_TreatmentPage int int string
  | Console_TreatmentList
  | Console_CreateTreatment console_lib Treatment
  | Console_UpdateTreatment console_lib Treatment
  | Console_DeleteTreatment string
  | Console_OrderPage int int
  | Console_CreateOrder WorkOrder
  | Console_UpdateOrder string int
  | Console_ReportPage int int string
  | Console_CreateReport console_lib ConsoleReport
  | Console_LogPage int int

fun console_serve :: "console_call \<Rightarrow> (console_db, unit) io" where
  "console_serve (Console_Login lib username password ttl) =
     drop_result (console_Login lib username password ttl)"
| "console_serve (Console_UserBySession lib token) = drop_result (UserBySession lib token)"
| "console_serve (Console_RevokeSession lib token) = console_RevokeSession lib token"
| "console_serve Console_Dashboard = drop_result Dashboard"
| "console_serve (Console_WriteLog username operation method ip) =
     WriteLog username operation method ip"
| "console_serve (Console_BuoyPage lib current per_page keyword) =
     drop_result (AcousticBuoyPage lib current per_page keyword)"
| "console_serve (Console_BuoyList lib) = drop_result (AcousticBuoyList lib)"
| "console_serve (Console_BuoyByID lib i) = drop_result (AcousticBuoyByID lib i)"
| "console_serve (Console_CreateBuoy lib item) = drop_result (CreateAcousticBuoy lib item)"
| "console_serve (Console_UpdateBuoy lib item) = UpdateAcousticBuoy lib item"
| "console_serve (Console_DeleteBuoy i) = DeleteAcousticBuoy i"
| "console_serve (Console_OperatorPage current per_page keyword) =
     drop_result (ArrayOperatorPage current per_page keyword)"
| "console_serve Console_OperatorList = drop_result ArrayOperatorList"
| "console_serve (Console_CreateOperator item) = drop_result (console_CreateArrayOperator item)"
| "console_serve (Console_UpdateOperator item) = UpdateArrayOperator item"
| "console_serve (Console_DeleteOperator i) = DeleteArrayOperator i"
| "console_serve (Console_TreatmentPage current per_page keyword) =
     drop_result (TreatmentPage current per_page keyword)"
| "console_serve Console_TreatmentList = drop_result TreatmentList"
| "console_serve (Console_CreateTreatment lib item) = drop_result (CreateTreatment lib item)"
| "console_serve (Console_UpdateTreatment lib item) = UpdateTreatment lib item"
| "console_serve (Console_DeleteTreatment i) = DeleteTreatment i"
| "console_serve (Console_OrderPage current per_page) = drop_result (WorkOrderPage current per_page)"
| "console_serve (Console_CreateOrder item) = drop_result (CreateWorkOrder item)"
| "console_serve (Console_UpdateOrder i status) = UpdateWorkOrderStatus i status"
| "console_serve (Console_ReportPage current per_page buoyID) =
     drop_result (SignalRecoveryReportPage current per_page buoyID)"
| "console_serve (Console_CreateReport lib item) =
     drop_result (CreateSignalRecoveryReport lib item)"
| "console_serve (Console_LogPage current per_page) = drop_result (LogPage current per_page)"

lemmas console_store_defs = Let_def console_Login_def UserBySession_def console_RevokeSession_def
  Dashboard_def WriteLog_def AcousticBuoyPage_def AcousticBuoyList_def AcousticBuoyByID_def
  CreateAcousticBuoy_def UpdateAcousticBuoy_def DeleteAcousticBuoy_def ArrayOperatorPage_def
  ArrayOperatorList_def console_CreateArrayOperator_def UpdateArrayOperator_def
  DeleteArrayOperator_def TreatmentPage_def TreatmentList_def CreateTreatment_def
  UpdateTreatment_def DeleteTreatment_def WorkOrderPage_def CreateWorkOrder_def
  SignalRecoveryReportPage_def CreateSignalRecoveryReport_def LogPage_def

lemma order_sources_edge:
  "order_sources status = Some sources \<Longrightarrow> s \<in> set sources \<Longrightarrow> order_edge s status"
  by (auto simp: order_sources_def order_edge_def split: if_splits)

lemma console_UpdateWorkOrderStatus: "keeps console_good env (UpdateWorkOrderStatus i status)"
  unfolding UpdateWorkOrderStatus_def
  by (intro keeps_rules console_update_order) (erule (1) order_sources_edge)

lemma console_serve_good: "keeps console_good env (console_serve c)"
  by (cases c; simp only: console_serve.simps drop_result_def console_store_defs;
      intro keeps_rules console_UpdateWorkOrderStatus)

inductive console_reached :: "console_db world \<Rightarrow> console_db world \<Rightarrow> bool" where
  console_start: "console_reached w w"
| console_next: "console_reached w w1 \<Longrightarrow> console_reached w (snd (console_serve c env w1))"

lemma console_reached_good: "console_reached w w' \<Longrightarrow> console_good (w_db w) (w_db w')"
proof (induction rule: console_reached.induct)
  case (console_start w)
  show ?case by (rule console.R_refl)
next
  case (console_next w w1 c env)
  have "console_good (w_db w1) (w_db (snd (console_serve c env w1)))"
    using console_serve_good[of env c] by (simp add: keeps_def)
  with console_next.IH show ?case by (rule console.R_trans)
qed

lemma console_reached_trans:
  "console_reached w w1 \<Longrightarrow> console_reached w1 w2 \<Longrightarrow> console_reached w w2"
  by (rotate_tac, induction rule: console_reached.induct) (auto intro: console_reached.intros)

section \<open>Session tokens\<close>

text \<open>A token has no white space, so trimming a header gives the token back.\<close>

lemma trim_front_none: "(\<And>p. p \<in> set ws \<Longrightarrow> \<not> is_prefix p s) \<Longrightarrow> trim_front ws n s = s"
  by (cases n) (auto split: option.split simp: find_Some_iff nth_mem)

lemma white_space_ends:
  "\<forall>p \<in> set white_space. p \<noteq> [] \<and> hd p \<notin> set base64_alphabet \<and> last p \<notin> set base64_alphabet"
  by code_simp

lemma TrimSpace_base64:
  assumes "set s \<subseteq> set base64_alphabet"
  shows "TrimSpace s = s"
proof -
  have front: "\<not> is_prefix p s" if "p \<in> set white_space" for p
    using white_space_ends[rule_format, OF that] assms by (cases p) (auto simp: is_prefix_iff)
  then have "TrimLeft s = s" by (simp add: TrimLeft_def trim_front_none)
  moreover have "\<not> is_prefix p (rev s)" if p: "p \<in> set (map rev white_space)" for p
  proof
    assume "is_prefix p (rev s)"
    then obtain t where "rev s = p @ t" by (auto simp: is_prefix_iff)
    then have "s = rev t @ rev p" by (metis rev_append rev_rev_ident)
    moreover obtain q where q: "q \<in> set white_space" "p = rev q" using p by auto
    ultimately have "last q \<in> set s" using white_space_ends by auto
    then show False using white_space_ends q assms by blast
  qed
  then have "trim_front (map rev white_space) (length s) (rev s) = rev s"
    by (rule trim_front_none)
  then have "TrimRight s = s" by (simp add: TrimRight_def)
  ultimately show ?thesis by (simp add: TrimSpace_def)
qed

lemma base64_digit_in: "n < 64 \<Longrightarrow> base64_digit n \<in> set base64_alphabet"
  unfolding base64_digit_def by (rule nth_mem) (simp add: base64_alphabet_def)

lemma byte_less: "(of_char c :: nat) < 256"
  by (metis of_char_mod_256 mod_less_divisor zero_less_numeral)

lemma RawURLEncoding_alphabet: "set (RawURLEncoding bytes) \<subseteq> set base64_alphabet"
proof (induction bytes rule: RawURLEncoding.induct)
  case (2 a)
  then show ?case
    using byte_less[of a] by (auto simp: Let_def intro!: base64_digit_in less_mult_imp_div_less)
next
  case (3 a b)
  then show ?case
    by (auto simp: Let_def intro!: base64_digit_in less_mult_imp_div_less)
      (use byte_less[of a] byte_less[of b] in linarith)
next
  case (4 a b c rest)
  then show ?case
    by (auto simp: Let_def intro!: base64_digit_in less_mult_imp_div_less)
      (use byte_less[of a] byte_less[of b] byte_less[of c] in linarith)
qed simp

lemmas TrimSpace_token [simp] = TrimSpace_base64[OF RawURLEncoding_alphabet]

end
