(* ===== verification/Console_Facts.thy ===== *)
theory Console_Facts
  imports Console_History
begin

text \<open>
  What the console promises: sessions that can be used, expire and stay revoked, work orders that
  move forward, deletions that are final, and pages that cover a listing once.
\<close>

section \<open>Running one statement on the pool\<close>

lemma scan_row_ok:
  "scan_row st env w = (Inr x, w1) \<longleftrightarrow> exec_stmt Pool st env w = (Inr (Some x), w1)"
  by (auto simp: scan_row_def io_bind_ok io_throw_ok io_return_ok split: option.splits)

lemmas run_ok = io_ok exec_pool_ok one_row_ok scan_row_ok query_row_ok query_ok

lemma fst_Inr_iff: "(\<exists>x. fst (m env w) = Inr x) \<longleftrightarrow> (\<exists>x w1. m env w = (Inr x, w1))"
  by (metis fst_conv prod.collapse)

section \<open>Sessions\<close>

lemma UserBySession_ok:
  "UserBySession lib token env w = (Inr u, w1) \<Longrightarrow>
     en_fault env (w_step w) = None \<and>
     (\<exists>s \<in> set (cd_sessions (w_db w)).
        live_session (tokenHash lib (TrimSpace token)) (en_dbnow env (w_txn w + 1)) (w_db w) s \<and>
        session_user (w_db w) s = Some u)"
  by (auto simp: UserBySession_def run_ok sql_touch_session_def Let_def find_Some_iff
      Option.bind_eq_Some_conv)

lemma length_filter_one: "length (filter P xs) = Suc 0 \<Longrightarrow> \<exists>x \<in> set xs. P x"
  by (metis filter_empty_conv list.size(3) zero_neq_one One_nat_def)

lemma unique_row:
  "unique key rows \<Longrightarrow> r \<in> set rows \<Longrightarrow> s \<in> set rows \<Longrightarrow> key r = key s \<Longrightarrow> r = s"
  by (auto simp: unique_def distinct_map inj_on_def)

lemma revoked_row:
  assumes "console_RevokeSession lib token env w = (Inr (), w1)"
  shows "\<exists>s \<in> set (cd_sessions (w_db w1)).
    sn_TokenHash s = tokenHash lib (TrimSpace token) \<and> sn_RevokedAt s \<noteq> None"
proof -
  let ?hit = "\<lambda>s. sn_TokenHash s = tokenHash lib (TrimSpace token) \<and> sn_RevokedAt s = None"
  have one: "length (filter ?hit (cd_sessions (w_db w))) = 1"
    and db: "cd_sessions (w_db w1) =
      upd ?hit (\<lambda>s. s\<lparr>sn_RevokedAt := Some (en_dbnow env (w_txn w + 1))\<rparr>) (cd_sessions (w_db w))"
    using assms by (auto simp: console_RevokeSession_def run_ok sql_revoke_session_def Let_def)
  have "filter ?hit (cd_sessions (w_db w)) \<noteq> []" using one by force
  then obtain s where s: "s \<in> set (cd_sessions (w_db w))" "?hit s"
    by (auto simp: filter_empty_conv)
  then have "s\<lparr>sn_RevokedAt := Some (en_dbnow env (w_txn w + 1))\<rparr> \<in> set (cd_sessions (w_db w1))"
    by (force simp: db upd_def)
  with s(2) show ?thesis by (intro bexI) auto
qed

lemma session_relD:
  "session_rel x y \<Longrightarrow> sn_TokenHash y = sn_TokenHash x \<and> sn_UserID y = sn_UserID x \<and>
     sn_ExpiresAt y = sn_ExpiresAt x \<and> (sn_RevokedAt x \<noteq> None \<longrightarrow> sn_RevokedAt y = sn_RevokedAt x)"
  by (cases x; cases y) (simp add: session_rel_def)

lemma history_session:
  assumes "console_history d d'" "s \<in> set (cd_sessions d)"
  shows "\<exists>s' \<in> set (cd_sessions d'). session_rel s s'"
proof -
  obtain k where k: "k < length (cd_sessions d)" "cd_sessions d ! k = s"
    using assms(2) by (auto simp: in_set_conv_nth)
  have "grows session_rel (cd_sessions d) (cd_sessions d')"
    using assms(1) by (simp add: console_history_def)
  from grows_at[OF this k(1)] have "cd_sessions d' ! k \<in> set (cd_sessions d')"
    "session_rel s (cd_sessions d' ! k)" by (simp_all add: k(2))
  then show ?thesis by blast
qed

lemma find_unique:
  "x \<in> set xs \<Longrightarrow> P x \<Longrightarrow> (\<And>y. y \<in> set xs \<Longrightarrow> P y \<Longrightarrow> y = x) \<Longrightarrow> find P xs = Some x"
  by (cases "find P xs") (metis find_None_iff, metis find_Some_iff nth_mem)

lemma reached_one: "console_serve c env w = (r, w1) \<Longrightarrow> console_reached w w1"
  by (metis console_next console_start snd_conv)

lemma console_reached_ok:
  "console_reached w w1 \<Longrightarrow> console_ok (w_db w) \<Longrightarrow>
   console_ok (w_db w1) \<and> console_history (w_db w) (w_db w1)"
  using console_reached_good by (auto simp: console_good_def)

text \<open>C31: a revoked session stays revoked: after a successful logout no sequence of calls of the
  store, whatever fails on the way, makes the token valid again, and it cannot be revoked twice.\<close>

theorem session_revoked:
  assumes "console_ok (w_db w)" "console_RevokeSession lib token env w = (Inr (), w1)"
    and "console_reached w1 w2"
  shows "(\<exists>e. fst (UserBySession lib token env2 w2) = Inl e) \<and>
    (\<exists>e. fst (console_RevokeSession lib token env2 w2) = Inl e)"
proof -
  let ?h = "tokenHash lib (TrimSpace token)"
  have "console_reached w w1"
    using assms(2) by (intro reached_one[of "Console_RevokeSession lib token" env]) simp
  then have ok1: "console_ok (w_db w1)" using console_reached_ok assms(1) by blast
  with assms(3) have ok: "console_ok (w_db w2)" and h: "console_history (w_db w1) (w_db w2)"
    using console_reached_ok by blast+
  obtain s where s: "s \<in> set (cd_sessions (w_db w1))" "sn_TokenHash s = ?h" "sn_RevokedAt s \<noteq> None"
    using revoked_row[OF assms(2)] by blast
  obtain s2 where s2: "s2 \<in> set (cd_sessions (w_db w2))" "session_rel s s2"
    using history_session[OF h s(1)] by blast
  then have dead: "sn_TokenHash s2 = ?h" "sn_RevokedAt s2 \<noteq> None"
    using s session_relD[OF s2(2)] by auto
  have all_dead: "sn_RevokedAt r \<noteq> None" if "r \<in> set (cd_sessions (w_db w2))" "sn_TokenHash r = ?h"
    for r
    using unique_row[of sn_TokenHash "cd_sessions (w_db w2)" r s2] that s2 dead ok
    by (auto simp: console_ok_def)
  have "UserBySession lib token env2 w2 \<noteq> (Inr u, w3)" for u w3
    using UserBySession_ok[of lib token env2 w2 u w3]
    by (auto simp: live_session_def dest!: all_dead)
  moreover have "console_RevokeSession lib token env2 w2 \<noteq> (Inr x, w3)" for x w3
    by (auto simp: console_RevokeSession_def run_ok sql_revoke_session_def Let_def
        dest!: length_filter_one all_dead)
  ultimately show ?thesis by (metis prod.collapse sum.exhaust_sel)
qed

lemma create_session_ok:
  assumes "exec_stmt Pool (sql_create_session hash user expires) env w = (Inr u, w1)"
  shows "\<exists>v t. en_uuid_in env user = Some v \<and> cd_users (w_db w1) = cd_users (w_db w) \<and>
    cd_sessions (w_db w1) = cd_sessions (w_db w) @
      [\<lparr>sn_TokenHash = hash, sn_UserID = v, sn_ExpiresAt = pg_time expires, sn_RevokedAt = None,
        sn_LastSeenAt = t\<rparr>]"
  using assms by (auto simp: exec_pool_ok sql_create_session_def)

lemma login_ok:
  assumes "console_Login lib username password ttl env w = (Inr (session, user), w1)"
  shows "\<exists>r u t bytes. r \<in> set (cd_users (w_db w)) \<and> user = ConsoleUser.truncate r \<and>
    us_Status r = 1 \<and> en_uuid_in env (us_ID r) = Some u \<and>
    ss_Token session = RawURLEncoding bytes \<and> cd_users (w_db w1) = cd_users (w_db w) \<and>
    cd_sessions (w_db w1) = cd_sessions (w_db w) @
      [\<lparr>sn_TokenHash = tokenHash lib (ss_Token session), sn_UserID = u,
        sn_ExpiresAt = pg_time (ss_ExpiresAt session), sn_RevokedAt = None, sn_LastSeenAt = t\<rparr>]"
proof -
  from assms[unfolded console_Login_def Let_def io_bind_ok[of "query_row a b c f" for a b c f]]
  obtain r w0 where r: "query_row Pool ''find user'' (NewError ''wrong username or password'')
        (\<lambda>env d. Inr (find (\<lambda>u. us_Username u = TrimSpace username) (cd_users d))) env w = (Inr r, w0)"
      "us_Status r = 1"
    and rest: "io_bind (io_wrap (Errorf ''make session token'')
          (io_bind (io_read (\<lambda>_ n. cl_random lib n)) io_lift)) (\<lambda>bytes.
        io_bind service_now (\<lambda>now.
        io_then (io_wrap (Errorf ''create session'') (exec_stmt Pool (sql_create_session
            (tokenHash lib (RawURLEncoding bytes)) (us_ID r)
            (now + (if ttl \<le> 0 then 8 * hour else ttl)))))
          (io_return (\<lparr>ss_Token = RawURLEncoding bytes,
             ss_ExpiresAt = now + (if ttl \<le> 0 then 8 * hour else ttl)\<rparr>,
             ConsoleUser.truncate r)))) env w0 = (Inr (session, user), w1)"
    by (auto simp: io_throw_ok split: if_splits)
  from r(1) have row: "r \<in> set (cd_users (w_db w))" "w_db w0 = w_db w"
    by (auto simp: run_ok find_Some_iff)
  have "\<exists>bytes u n.
      exec_stmt Pool (sql_create_session (tokenHash lib (RawURLEncoding bytes)) (us_ID r) u)
         env (w0\<lparr>w_step := n\<rparr>) = (Inr (), w1) \<and>
      session = \<lparr>ss_Token = RawURLEncoding bytes, ss_ExpiresAt = u\<rparr> \<and>
      user = ConsoleUser.truncate r"
    using rest
    by (auto simp: io_bind_ok io_wrap_ok io_then_def io_read_ok io_lift_ok io_return_ok)
  then obtain bytes u n where new: "exec_stmt Pool (sql_create_session
        (tokenHash lib (RawURLEncoding bytes)) (us_ID r) u) env (w0\<lparr>w_step := n\<rparr>) = (Inr (), w1)"
      "session = \<lparr>ss_Token = RawURLEncoding bytes, ss_ExpiresAt = u\<rparr>"
      "user = ConsoleUser.truncate r" by blast
  from create_session_ok[OF new(1)] new(2,3) row r(2) show ?thesis by (auto intro!: exI[of _ r])
qed

lemma UserBySession_value:
  assumes "console_ok (w_db w)" "s \<in> set (cd_sessions (w_db w))"
    and "sn_TokenHash s = tokenHash lib token" "TrimSpace token = token"
    and "session_user (w_db w) s = Some user" "en_fault env (w_step w) = None"
  shows "fst (UserBySession lib token env w) =
    (if live_session (tokenHash lib token) (en_dbnow env (w_txn w + 1)) (w_db w) s then Inr user
     else Inl (NewError ''session is invalid, expired or revoked''))"
proof -
  let ?live = "live_session (tokenHash lib token) (en_dbnow env (w_txn w + 1)) (w_db w)"
  have only: "x = s" if "x \<in> set (cd_sessions (w_db w))" "?live x" for x
    using unique_row[of sn_TokenHash "cd_sessions (w_db w)" x s] that assms(1-3)
    by (simp add: console_ok_def live_session_def)
  have "fst (UserBySession lib token env w) =
      (case Option.bind (find ?live (cd_sessions (w_db w))) (session_user (w_db w)) of
         None \<Rightarrow> Inl (NewError ''session is invalid, expired or revoked'')
       | Some u \<Rightarrow> Inr u)"
    by (simp add: UserBySession_def assms(4) io_wrap_def scan_row_def io_bind_def exec_stmt_def
        exec_pool_def sql_touch_session_def Let_def assms(6) io_throw_def io_return_def
        split: option.split)
  also have "\<dots> = (if ?live s then Inr user
       else Inl (NewError ''session is invalid, expired or revoked''))"
  proof (cases "?live s")
    case True
    then have "find ?live (cd_sessions (w_db w)) = Some s"
      using assms(2) only by (intro find_unique)
    with True assms(5) show ?thesis by simp
  next
    case False
    then have "find ?live (cd_sessions (w_db w)) = None"
      using only by (auto simp: find_None_iff)
    with False show ?thesis by simp
  qed
  finally show ?thesis .
qed

text \<open>C30: a login makes a session that answers for its user, and for nobody else, exactly until it
  expires or is revoked, whatever other calls are made in between. Assumed: the user's id is a
  canonical UUID.\<close>

theorem login_session:
  assumes "console_ok (w_db w)"
    and "console_Login lib username password ttl env w = (Inr (session, user), w1)"
    and "en_uuid_in env (us_ID user) = Some (us_ID user)"
    and "console_reached w1 w2" "en_fault env2 (w_step w2) = None"
  shows "\<exists>s \<in> set (cd_sessions (w_db w2)).
    sn_TokenHash s = tokenHash lib (ss_Token session) \<and>
    sn_ExpiresAt s = pg_time (ss_ExpiresAt session) \<and>
    fst (UserBySession lib (ss_Token session) env2 w2) =
      (if sn_RevokedAt s = None \<and> en_dbnow env2 (w_txn w2 + 1) < sn_ExpiresAt s then Inr user
       else Inl (NewError ''session is invalid, expired or revoked''))"
proof -
  let ?h = "tokenHash lib (ss_Token session)"
  obtain r where r: "r \<in> set (cd_users (w_db w))" "user = ConsoleUser.truncate r" "us_Status r = 1"
    and w1: "cd_users (w_db w1) = cd_users (w_db w)"
      "\<exists>s \<in> set (cd_sessions (w_db w1)). sn_TokenHash s = ?h \<and> sn_UserID s = us_ID user \<and>
         sn_ExpiresAt s = pg_time (ss_ExpiresAt session)"
    and token: "TrimSpace (ss_Token session) = ss_Token session"
    using login_ok[OF assms(2)] assms(3) by (fastforce simp: ConsoleUser.defs)
  have "console_reached w w1"
    using assms(2) by (intro reached_one[of "Console_Login lib username password ttl" env])
      (simp add: drop_result_def io_then_def io_bind_def io_return_def)
  then have ok1: "console_ok (w_db w1)" using console_reached_ok assms(1) by blast
  with assms(4) have ok: "console_ok (w_db w2)" and h: "console_history (w_db w1) (w_db w2)"
    using console_reached_ok by blast+
  obtain s where s: "s \<in> set (cd_sessions (w_db w2))" "sn_TokenHash s = ?h"
      "sn_UserID s = us_ID user" "sn_ExpiresAt s = pg_time (ss_ExpiresAt session)"
    using w1(2) history_session[OF h] session_relD by metis
  have users: "cd_users (w_db w2) = cd_users (w_db w)"
    using h w1(1) by (simp add: console_history_def)
  have live: "live_session ?h t (w_db w2) s \<longleftrightarrow> sn_RevokedAt s = None \<and> t < sn_ExpiresAt s" for t
    using s r users by (auto simp: live_session_def ConsoleUser.defs)
  have "find (\<lambda>u. us_ID u = us_ID r \<and> us_Status u = 1) (cd_users (w_db w2)) = Some r"
    using r users ok unique_row[of us_ID "cd_users (w_db w2)"]
    by (intro find_unique) (auto simp: console_ok_def)
  then have "session_user (w_db w2) s = Some user"
    using s r by (simp add: session_user_def ConsoleUser.defs)
  from UserBySession_value[OF ok s(1,2) token this assms(5), unfolded live] show ?thesis
    using s by (intro bexI[of _ s]) simp_all
qed

section \<open>Rows\<close>

text \<open>No order is moved more than twice.\<close>

definition order_rank :: "int \<Rightarrow> nat" where
  "order_rank s = (if s = 0 then 2 else if s = 1 then 1 else 0)"

lemma order_edge_steps: "(order_edge ^^ n) s t \<Longrightarrow> n + order_rank t \<le> order_rank s"
proof (induction n arbitrary: t)
  case (Suc n)
  then obtain u where "(order_edge ^^ n) s u" "order_edge u t" by auto
  moreover have "order_rank t < order_rank u"
    using \<open>order_edge u t\<close> by (auto simp: order_edge_def order_rank_def)
  ultimately show ?case using Suc.IH[of u] by simp
qed simp

lemma order_relD:
  assumes "order_rel p q"
  shows "xw_ID q = xw_ID p \<and> xw_WorkOrderNo q = xw_WorkOrderNo p \<and>
    xw_AcousticBuoyID q = xw_AcousticBuoyID p \<and> xw_Version p \<le> xw_Version q \<and>
    xw_Version q \<le> xw_Version p + 2 \<and>
    (order_edge ^^ nat (xw_Version q - xw_Version p)) (xw_Status p) (xw_Status q)"
proof -
  have m: "xw_Version p \<le> xw_Version q"
    "(order_edge ^^ nat (xw_Version q - xw_Version p)) (xw_Status p) (xw_Status q)"
    using assms by (auto simp: order_rel_def moves_def)
  moreover have "order_rank (xw_Status p) \<le> 2" by (simp add: order_rank_def)
  ultimately have "xw_Version q \<le> xw_Version p + 2"
    using order_edge_steps[OF m(2)] by linarith
  with m show ?thesis using assms by (cases p; cases q) (simp add: order_rel_def)
qed

text \<open>C33: between any two moments a work order keeps its identity and has moved along pending to
  taken to completed, or pending to cancelled, once for every increment of its version and at most
  twice; a deleted buoy, operator or treatment never changes or comes back; reports and the log
  only grow at their end.\<close>

theorem console_rows:
  assumes "console_ok (w_db w)" "console_reached w w'" "d = w_db w" "d' = w_db w'"
  shows "(\<forall>k < length (cd_orders d). k < length (cd_orders d') \<and>
      (let p = cd_orders d ! k; q = cd_orders d' ! k in
       xw_ID q = xw_ID p \<and> xw_WorkOrderNo q = xw_WorkOrderNo p \<and>
       xw_AcousticBuoyID q = xw_AcousticBuoyID p \<and> xw_Version p \<le> xw_Version q \<and>
       xw_Version q \<le> xw_Version p + 2 \<and>
       (order_edge ^^ nat (xw_Version q - xw_Version p)) (xw_Status p) (xw_Status q))) \<and>
    (\<forall>k < length (cd_buoys d). yb_DeletedAt (cd_buoys d ! k) \<noteq> None \<longrightarrow>
       cd_buoys d' ! k = cd_buoys d ! k) \<and>
    (\<forall>k < length (cd_operators d). yo_DeletedAt (cd_operators d ! k) \<noteq> None \<longrightarrow>
       cd_operators d' ! k = cd_operators d ! k) \<and>
    (\<forall>k < length (cd_profiles d). yt_DeletedAt (cd_profiles d ! k) \<noteq> None \<longrightarrow>
       cd_profiles d' ! k = cd_profiles d ! k) \<and>
    (\<exists>new. cd_reports d' = cd_reports d @ new) \<and> (\<exists>new. cd_logs d' = cd_logs d @ new)"
proof -
  have h: "console_history d d'" using console_reached_ok assms by blast
  then have q: "k < length (cd_orders d') \<and> order_rel (cd_orders d ! k) (cd_orders d' ! k)"
    if "k < length (cd_orders d)" for k
    using that by (simp add: console_history_def grows_def)
  have "\<exists>new. cd_reports d' = cd_reports d @ new" "\<exists>new. cd_logs d' = cd_logs d @ new"
    using h by (simp_all add: console_history_def grows_prefix)
  then show ?thesis
    using h q order_relD unfolding Let_def
    by (simp add: console_history_def grows_def console_buoy_rel_def console_operator_rel_def
        treatment_rel_def)
qed

section \<open>Pages\<close>

lemma insert_stable_cong:
  "(\<And>y. y \<in> set ys \<Longrightarrow> lt y x = lt' y x) \<Longrightarrow> insert_stable lt x ys = insert_stable lt' x ys"
  by (induction ys) auto

lemma sort_stable_cong:
  "(\<And>x y. x \<in> set xs \<Longrightarrow> y \<in> set xs \<Longrightarrow> lt x y = lt' x y) \<Longrightarrow>
   sort_stable lt xs = sort_stable lt' xs"
proof (induction xs)
  case (Cons x xs)
  then have "sort_stable lt xs = sort_stable lt' xs" by simp
  moreover have "insert_stable lt x (sort_stable lt' xs) = insert_stable lt' x (sort_stable lt' xs)"
    using Cons.prems by (intro insert_stable_cong) simp
  ultimately show ?case by simp
qed simp

text \<open>When the keys differ, ties do not matter.\<close>

lemma ordered_by_inj:
  assumes "inj_on key (set rows)"
  shows "ordered_by env n key descending ident rows =
    sort_stable (order_lt key descending (\<lambda>_. 0)) rows"
  unfolding ordered_by_def
  using assms by (intro sort_stable_cong) (auto simp: order_lt_def inj_on_def)

lemma concat_pages:
  "concat (map (\<lambda>i. take n (drop (i * n) xs)) [0..<k]) = take (k * n) xs"
proof (induction k)
  case (Suc k)
  have "take (k * n + n) xs = take (k * n) xs @ take n (drop (k * n) xs)" by (rule take_add)
  with Suc show ?case by (simp add: add.commute)
qed simp

lemma scan_rows_total: "scan_rows (\<lambda>r. Inr (f r)) rs = Inr (map f rs)"
  by (induction rs) simp_all

lemma pageBounds_ok:
  assumes "1 \<le> n" "n \<le> 100" "int (i * n) < 2 ^ 63"
  shows "pageBounds (int i + 1) (int n) = (int i + 1, int n, int (i * n))"
proof -
  have "is_int64 (int i * int n)"
    using assms(3) order_trans[of "- (2 ^ 63)" 0 "int i * int n"] unfolding is_int64_def by simp
  then show ?thesis using assms(1,2) by (simp add: pageBounds_def Let_def)
qed

lemma exec_pool_calm:
  "en_fault env (w_step w) = None \<Longrightarrow>
   exec_stmt Pool (query f) env w =
     (f env (w_step w) (en_dbnow env (w_txn w + 1)) (w_db w),
      w\<lparr>w_step := w_step w + 1, w_txn := w_txn w + 1\<rparr>)"
  by (cases "f env (w_step w) (en_dbnow env (w_txn w + 1)) (w_db w)")
    (auto simp: exec_stmt_def exec_pool_def query_def Let_def)

text \<open>C34: when nothing fails and no two operators were created at the same instant, the pages of a
  listing, asked for in any order, show every operator the keyword finds exactly once, newest
  first, each page with the true total.\<close>

theorem operator_pages:
  assumes "\<forall>k. en_fault env k = None" "1 \<le> n" "n \<le> 100" "int (pages * n) < 2 ^ 63"
    and "listed = listed_operators env (keyword_pattern keyword) d"
    and "inj_on yo_CreateTime (set listed)" "\<forall>i. w_db (ws i) = d"
  shows "\<exists>rows. mset rows = mset listed \<and>
    sorted_wrt (\<lambda>a b. yo_CreateTime b \<le> yo_CreateTime a) rows \<and>
    (\<forall>i < pages. fst (ArrayOperatorPage (int i + 1) (int n) keyword env (ws i)) =
       Inr \<lparr>cp_Records = map ConsoleOperator.truncate (take n (drop (i * n) rows)),
         cp_Total = int (length listed), cp_Current = int i + 1, cp_Size = int n\<rparr>) \<and>
    concat (map (\<lambda>i. take n (drop (i * n) rows)) [0..<pages]) = take (pages * n) rows"
proof (intro exI conjI allI impI)
  let ?lt = "order_lt yo_CreateTime True (\<lambda>_. 0)"
  let ?rows = "sort_stable ?lt listed"
  show "mset ?rows = mset listed" by simp
  have "sorted_wrt (\<lambda>a b. \<not> ?lt b a) ?rows" by (rule order_by.ordered_sort)
  then show "sorted_wrt (\<lambda>a b. yo_CreateTime b \<le> yo_CreateTime a) ?rows"
    by (rule sorted_wrt_mono_rel[rotated]) (auto simp: order_lt_def not_less)
  show "concat (map (\<lambda>i. take n (drop (i * n) ?rows)) [0..<pages]) = take (pages * n) ?rows"
    by (rule concat_pages)
  fix i
  assume i: "i < pages"
  then have "i * n \<le> pages * n" by simp
  then have "pageBounds (int i + 1) (int n) = (int i + 1, int n, int (i * n))"
    using assms(2,3,4) by (intro pageBounds_ok) linarith+
  moreover have "ordered_by env k yo_CreateTime True yo_ID listed = ?rows" for k
    by (rule ordered_by_inj[OF assms(6)])
  moreover have "\<not> int i * int n < 0" by (simp add: not_less)
  ultimately show "fst (ArrayOperatorPage (int i + 1) (int n) keyword env (ws i)) =
      Inr \<lparr>cp_Records = map ConsoleOperator.truncate (take n (drop (i * n) ?rows)),
         cp_Total = int (length listed), cp_Current = int i + 1, cp_Size = int n\<rparr>"
    using assms(1,7)
    by (simp add: ArrayOperatorPage_def console_page_def Let_def io_bind_def io_wrap_def
        exec_pool_calm limit_param_def scan_rows_total io_lift_def io_return_def sql_page_def
        nat_mult_distrib flip: assms(5))
qed

section \<open>Witnesses\<close>

text \<open>A console with one user, one buoy, one treatment, two operators and one order; the library
  functions are simple ones.\<close>

definition demo_lib :: console_lib where
  "demo_lib = \<lparr>cl_sha256 = (\<lambda>s. s), cl_bcrypt = (=), cl_random = (\<lambda>_. Inr ''x''),
     cl_numeric = (\<lambda>_ _ x. Some x), cl_date_in = Some, cl_date_out = Inr\<rparr>"

definition demo_console :: console_db where
  "demo_console = \<lparr>
     cd_users = [\<lparr>us_ID = ''1'', us_Username = ''admin'', us_RealName = ''Lead'', us_Phone = '''',
       us_Role = RoleMissionLead, us_Status = 1, us_PasswordHash = ''secret''\<rparr>],
     cd_sessions = [],
     cd_buoys = [\<lparr>yb_ID = ''2'', yb_Title = ''Echo'', yb_BuoyClass = 1, yb_CommissionedOn = None,
       yb_SerialNumber = ''S'', yb_ShoreStationCode = '''', yb_MooringZone = '''',
       yb_Manufacturer = '''', yb_EmergencyContact = '''', yb_IntegrityStatus = 1, yb_Status = 1,
       yb_CreatedAt = 1, yb_DeletedAt = None\<rparr>],
     cd_operators = [
       \<lparr>yo_ID = ''3'', yo_Name = ''Wang'', yo_SpecialtyLevel = 2, yo_Phone = '''', yo_Skills = '''',
         yo_Status = 1, yo_CreateTime = 1, yo_DeletedAt = None\<rparr>,
       \<lparr>yo_ID = ''4'', yo_Name = ''Liu'', yo_SpecialtyLevel = 1, yo_Phone = '''', yo_Skills = '''',
         yo_Status = 1, yo_CreateTime = 2, yo_DeletedAt = None\<rparr>],
     cd_profiles = [\<lparr>yt_ID = ''5'', yt_Name = ''Clock'', yt_Description = '''', yt_RiskBudget = Fin 20,
       yt_DurationMinutes = 60, yt_Status = 1, yt_CreatedAt = 1, yt_DeletedAt = None\<rparr>],
     cd_orders = [\<lparr>xw_ID = ''6'', xw_WorkOrderNo = ''CMD-1'', xw_AcousticBuoyID = ''2'',
       xw_ArrayOpsProfileID = ''5'', xw_ArrayOperatorID = Some ''3'', xw_ScheduledAt = None,
       xw_Status = 0, xw_Remark = '''', xw_Version = 1, xw_CreatedAt = 1\<rparr>],
     cd_reports = [], cd_logs = []\<rparr>"

definition demo_start :: "console_db world" where "demo_start = fresh_world demo_console"

definition demo_login :: "(ConsoleSession \<times> ConsoleUser) result \<times> console_db world" where
  "demo_login = console_Login demo_lib ''admin'' ''secret'' 0 calm_env demo_start"

definition demo_logout :: "unit result \<times> console_db world" where
  "demo_logout = console_RevokeSession demo_lib ''eA'' calm_env (snd demo_login)"

definition demo_taken :: "console_db world" where
  "demo_taken = snd (UpdateWorkOrderStatus ''6'' 1 calm_env demo_start)"

lemma demo_ok: "console_ok (w_db demo_start)"
  by (simp add: demo_start_def fresh_world_def demo_console_def console_ok_def unique_def refers_def
      buoy_checks_def operator_checks_def treatment_checks_def order_checks_def order_refs_def)

lemma demo_login_result:
  "fst demo_login = Inr (\<lparr>ss_Token = ''eA'', ss_ExpiresAt = 18 * hour\<rparr>,
     \<lparr>us_ID = ''1'', us_Username = ''admin'', us_RealName = ''Lead'', us_Phone = '''',
       us_Role = RoleMissionLead, us_Status = 1\<rparr>)"
  by code_simp

lemma demo_logout_result: "fst demo_logout = Inr ()"
  by code_simp

lemma demo_taken_orders: "map xw_Status (cd_orders (w_db demo_taken)) = [1]"
  by code_simp

lemma demo_login_run:
  "console_Login demo_lib ''admin'' ''secret'' 0 calm_env demo_start =
     (Inr (\<lparr>ss_Token = ''eA'', ss_ExpiresAt = 18 * hour\<rparr>,
       \<lparr>us_ID = ''1'', us_Username = ''admin'', us_RealName = ''Lead'', us_Phone = '''',
         us_Role = RoleMissionLead, us_Status = 1\<rparr>), snd demo_login)"
  using demo_login_result by (simp add: demo_login_def prod_eq_iff)

lemma demo_login_reached: "console_reached demo_start (snd demo_login)"
  using demo_login_run
  by (intro reached_one[of "Console_Login demo_lib ''admin'' ''secret'' 0" calm_env])
    (simp add: drop_result_def io_then_def io_bind_def io_return_def)

lemma demo_login_ok: "console_ok (w_db (snd demo_login))"
  using console_reached_ok[OF demo_login_reached demo_ok] by simp

lemma demo_taken_reached: "console_reached demo_start demo_taken"
  unfolding demo_taken_def
  using console_next[OF console_start, where c = "Console_UpdateOrder ''6'' 1" and env = calm_env]
  by simp

lemma session_revoked_witness:
  "fst demo_logout = Inr () \<and>
   (\<exists>e. fst (UserBySession demo_lib ''eA'' calm_env (snd demo_logout)) = Inl e)"
proof -
  have "console_RevokeSession demo_lib ''eA'' calm_env (snd demo_login) = (Inr (), snd demo_logout)"
    using demo_logout_result by (simp add: demo_logout_def prod_eq_iff)
  from session_revoked[OF demo_login_ok this console_start] demo_logout_result
  show ?thesis by simp
qed

lemma login_session_witness:
  "fst (UserBySession demo_lib ''eA'' calm_env (snd demo_login)) =
     Inr \<lparr>us_ID = ''1'', us_Username = ''admin'', us_RealName = ''Lead'', us_Phone = '''',
       us_Role = RoleMissionLead, us_Status = 1\<rparr>"
proof -
  have "\<forall>s \<in> set (cd_sessions (w_db (snd demo_login))).
      sn_RevokedAt s = None \<and> sn_ExpiresAt s = 18 * hour"
    by code_simp
  with login_session[OF demo_ok demo_login_run _ console_start, of calm_env]
  show ?thesis by (auto simp del: One_nat_def)
qed

lemma console_rows_witness:
  "(order_edge ^^ nat (xw_Version (cd_orders (w_db demo_taken) ! 0) - 1)) 0
     (xw_Status (cd_orders (w_db demo_taken) ! 0)) \<and>
   map xw_Status (cd_orders (w_db demo_taken)) = [1]"
proof -
  have "length (cd_orders (w_db demo_start)) = 1"
      "cd_orders (w_db demo_start) ! 0 = \<lparr>xw_ID = ''6'', xw_WorkOrderNo = ''CMD-1'',
       xw_AcousticBuoyID = ''2'', xw_ArrayOpsProfileID = ''5'', xw_ArrayOperatorID = Some ''3'',
       xw_ScheduledAt = None, xw_Status = 0, xw_Remark = '''', xw_Version = 1, xw_CreatedAt = 1\<rparr>"
    by (simp_all add: demo_start_def fresh_world_def demo_console_def)
  then show ?thesis
    using console_rows[OF demo_ok demo_taken_reached refl refl, THEN conjunct1, rule_format, of 0]
      demo_taken_orders
    by (simp add: Let_def)
qed

lemma operator_pages_witness:
  "\<exists>rows. mset rows = mset (cd_operators demo_console) \<and>
     fst (ArrayOperatorPage 1 2 [] calm_env demo_start) =
       Inr \<lparr>cp_Records = map ConsoleOperator.truncate (take 2 rows), cp_Total = 2,
         cp_Current = 1, cp_Size = 2\<rparr>"
proof -
  have all: "listed_operators calm_env (keyword_pattern []) demo_console =
      cd_operators demo_console" by code_simp
  have "inj_on yo_CreateTime (set (cd_operators demo_console))" "length (cd_operators demo_console) = 2"
    by (simp_all add: demo_console_def)
  with operator_pages[of calm_env 2 1 "cd_operators demo_console" "[]" demo_console "\<lambda>_. demo_start"]
    all show ?thesis by (auto simp: demo_start_def fresh_world_def)
qed

end
