(* ===== verification/Http_Console.thy ===== *)
theory Http_Console
  imports Http_Api Console_Facts
begin

text \<open>
  \<open>internal/httpapi/console_handlers.go\<close>: the console's handlers, the bearer token, the role gate
  and the log of operations. The identity the gate puts into the request's context is an argument
  of the handlers behind it.
\<close>

section \<open>Responses\<close>

definition consoleSuccess :: "payload \<Rightarrow> response" where
  "consoleSuccess value = \<lparr>rs_status = 200, rs_payload = value\<rparr>"

definition consoleError :: "int \<Rightarrow> go_error \<Rightarrow> response" where
  "consoleError status err = \<lparr>rs_status = status, rs_payload = C_Error err\<rparr>"

definition consoleWriteResult ::
  "(console_db, 'a) io \<Rightarrow> ('a \<Rightarrow> payload) \<Rightarrow> (console_db, response) io" where
  "consoleWriteResult m value = respond m (\<lambda>x. consoleSuccess (value x)) (consoleError 409)"

text \<open>The console's decoder does not look at what follows the first value.\<close>

definition decodeConsole ::
  "'a decoded \<Rightarrow> ('a \<Rightarrow> ('d, response) io) \<Rightarrow> ('d, response) io" where
  "decodeConsole body handler =
     (case body of
        Malformed \<Rightarrow> io_return (consoleError 400 (NewError ''malformed request data''))
      | Trailing x \<Rightarrow> handler x
      | Exactly x \<Rightarrow> handler x)"

definition validateConsoleName :: "string \<Rightarrow> ('d, response) io \<Rightarrow> ('d, response) io" where
  "validateConsoleName name handler =
     (if blank name then io_return (consoleError 400 (NewError ''name is required'')) else handler)"

section \<open>Requests\<close>

definition bearerToken :: "http_request \<Rightarrow> string" where
  "bearerToken r =
     (let v = TrimSpace (rq_header r ''Authorization'') in
      if is_prefix ''Bearer '' v then TrimSpace (drop 7 v)
      else TrimSpace (rq_header r ''X-Session-Token''))"

definition consolePageParams :: "http_request \<Rightarrow> int \<times> int" where
  "consolePageParams r = (atoi_value (rq_query r ''current''), atoi_value (rq_query r ''size''))"

definition consoleClientIP :: "http_request \<Rightarrow> string" where
  "consoleClientIP r =
     (let forwarded = TrimSpace (takeWhile (\<lambda>c. c \<noteq> CHR '','') (rq_header r ''X-Forwarded-For''));
          realIP = TrimSpace (rq_header r ''X-Real-IP'') in
      if forwarded \<noteq> [] then forwarded
      else if realIP \<noteq> [] then realIP
      else case Cut (CHR '':'') (rq_remote r) of Some (host, _) \<Rightarrow> host | None \<Rightarrow> rq_remote r)"

definition path_text :: "http_request \<Rightarrow> string" where
  "path_text r = concat (map (\<lambda>s. CHR ''/'' # s) (rq_path r))"

definition recordConsoleOperation ::
  "ConsoleUser \<Rightarrow> http_request \<Rightarrow> string \<Rightarrow> (console_db, unit) io" where
  "recordConsoleOperation user r operation =
     WriteLog (if us_Username user = [] then ''anonymous'' else us_Username user) operation
       (rq_method r @ '' '' @ path_text r) (consoleClientIP r)"

text \<open>\<open>_ = f()\<close>: the error is dropped.\<close>

definition io_ignore :: "('d, unit) io \<Rightarrow> ('d, unit) io" where
  "io_ignore m env w = (Inr (), snd (m env w))"

text \<open>A change, its log entry when it succeeds, and its response.\<close>

definition logged ::
  "ConsoleUser \<Rightarrow> http_request \<Rightarrow> string \<Rightarrow> (console_db, 'a) io \<Rightarrow> ('a \<Rightarrow> payload) \<Rightarrow>
   (console_db, response) io" where
  "logged user r operation m value =
     consoleWriteResult
       (io_bind m (\<lambda>x. io_then (io_ignore (recordConsoleOperation user r operation)) (io_return x)))
       value"

text \<open>\<open>parseConsoleTime\<close> tries the two layouts in turn.\<close>

definition parseConsoleTime :: "http_lib \<Rightarrow> string \<Rightarrow> time option result" where
  "parseConsoleTime lib v =
     (if blank v then Inr None
      else
        case hl_parse_time lib ''2006-01-02T15:04:05Z07:00'' v of
          Inr t \<Rightarrow> Inr (Some t)
        | Inl _ \<Rightarrow>
            (case hl_parse_time lib ''2006-01-02 15:04:05'' v of
               Inr t \<Rightarrow> Inr (Some t)
             | Inl _ \<Rightarrow> Inl (NewError ''malformed scheduled time'')))"

section \<open>Handlers\<close>

definition consoleLogin :: "http_lib \<Rightarrow> http_request \<Rightarrow> (console_db, response) io" where
  "consoleLogin lib r =
     decodeConsole (hl_credentials lib (rq_body r)) (\<lambda>(username, password).
       respond
         (io_bind (console_Login (hl_console lib) username password (8 * hour)) (\<lambda>(session, user).
          io_then (io_ignore (WriteLog (us_Username user) ''login''
              (rq_method r @ '' '' @ path_text r) (consoleClientIP r)))
            (io_return (session, user))))
         (\<lambda>(session, user). consoleSuccess (C_Login session user)) (consoleError 401))"

definition consoleUserInfo :: "ConsoleUser \<Rightarrow> (console_db, response) io" where
  "consoleUserInfo user = io_return (consoleSuccess (C_User user))"

definition consoleLogout :: "http_lib \<Rightarrow> string \<Rightarrow> (console_db, response) io" where
  "consoleLogout lib token =
     respond (console_RevokeSession (hl_console lib) token) (\<lambda>_. consoleSuccess C_Nothing)
       (consoleError 401)"

definition consoleDashboard :: "(console_db, response) io" where
  "consoleDashboard = respond Dashboard (\<lambda>x. consoleSuccess (C_Stats x)) (consoleError 500)"

definition consoleAcousticBuoyPage ::
  "http_lib \<Rightarrow> http_request \<Rightarrow> (console_db, response) io" where
  "consoleAcousticBuoyPage lib r =
     (case consolePageParams r of (current, per_page) \<Rightarrow>
        consoleWriteResult (AcousticBuoyPage (hl_console lib) current per_page (rq_query r ''keyword''))
          C_Buoys)"

definition consoleAcousticBuoyList :: "http_lib \<Rightarrow> (console_db, response) io" where
  "consoleAcousticBuoyList lib = consoleWriteResult (AcousticBuoyList (hl_console lib)) C_BuoyList"

definition consoleAcousticBuoyByID :: "http_lib \<Rightarrow> string \<Rightarrow> (console_db, response) io" where
  "consoleAcousticBuoyByID lib i =
     consoleWriteResult (AcousticBuoyByID (hl_console lib) i) C_Buoy"

definition consoleCreateAcousticBuoy ::
  "http_lib \<Rightarrow> ConsoleUser \<Rightarrow> http_request \<Rightarrow> (console_db, response) io" where
  "consoleCreateAcousticBuoy lib user r =
     decodeConsole (hl_buoy lib (rq_body r)) (\<lambda>item.
       validateConsoleName (yb_Title item)
         (logged user r ''create buoy'' (CreateAcousticBuoy (hl_console lib) item) C_Buoy))"

definition consoleUpdateAcousticBuoy ::
  "http_lib \<Rightarrow> ConsoleUser \<Rightarrow> http_request \<Rightarrow> (console_db, response) io" where
  "consoleUpdateAcousticBuoy lib user r =
     decodeConsole (hl_buoy lib (rq_body r)) (\<lambda>item.
       validateConsoleName (yb_Title item)
         (logged user r ''edit buoy'' (UpdateAcousticBuoy (hl_console lib) item) (\<lambda>_. C_Nothing)))"

definition consoleDeleteAcousticBuoy ::
  "ConsoleUser \<Rightarrow> http_request \<Rightarrow> string \<Rightarrow> (console_db, response) io" where
  "consoleDeleteAcousticBuoy user r i =
     logged user r ''delete buoy'' (DeleteAcousticBuoy i) (\<lambda>_. C_Nothing)"

definition consoleArrayOperatorPage :: "http_request \<Rightarrow> (console_db, response) io" where
  "consoleArrayOperatorPage r =
     (case consolePageParams r of (current, per_page) \<Rightarrow>
        consoleWriteResult (ArrayOperatorPage current per_page (rq_query r ''keyword'')) C_Operators)"

definition consoleArrayOperatorList :: "(console_db, response) io" where
  "consoleArrayOperatorList = consoleWriteResult ArrayOperatorList C_OperatorList"

definition consoleCreateArrayOperator ::
  "http_lib \<Rightarrow> ConsoleUser \<Rightarrow> http_request \<Rightarrow> (console_db, response) io" where
  "consoleCreateArrayOperator lib user r =
     decodeConsole (hl_console_operator lib (rq_body r)) (\<lambda>item.
       validateConsoleName (yo_Name item)
         (logged user r ''create operator'' (console_CreateArrayOperator item) C_Operator))"

definition consoleUpdateArrayOperator ::
  "http_lib \<Rightarrow> ConsoleUser \<Rightarrow> http_request \<Rightarrow> (console_db, response) io" where
  "consoleUpdateArrayOperator lib user r =
     decodeConsole (hl_console_operator lib (rq_body r)) (\<lambda>item.
       validateConsoleName (yo_Name item)
         (logged user r ''edit operator'' (UpdateArrayOperator item) (\<lambda>_. C_Nothing)))"

definition consoleDeleteArrayOperator ::
  "ConsoleUser \<Rightarrow> http_request \<Rightarrow> string \<Rightarrow> (console_db, response) io" where
  "consoleDeleteArrayOperator user r i =
     logged user r ''delete operator'' (DeleteArrayOperator i) (\<lambda>_. C_Nothing)"

definition consoleTreatmentPage :: "http_request \<Rightarrow> (console_db, response) io" where
  "consoleTreatmentPage r =
     (case consolePageParams r of (current, per_page) \<Rightarrow>
        consoleWriteResult (TreatmentPage current per_page (rq_query r ''keyword'')) C_Treatments)"

definition consoleTreatmentList :: "(console_db, response) io" where
  "consoleTreatmentList = consoleWriteResult TreatmentList C_TreatmentList"

definition consoleCreateTreatment ::
  "http_lib \<Rightarrow> ConsoleUser \<Rightarrow> http_request \<Rightarrow> (console_db, response) io" where
  "consoleCreateTreatment lib user r =
     decodeConsole (hl_treatment lib (rq_body r)) (\<lambda>item.
       validateConsoleName (yt_Name item)
         (logged user r ''create treatment'' (CreateTreatment (hl_console lib) item) C_Treatment))"

definition consoleUpdateTreatment ::
  "http_lib \<Rightarrow> ConsoleUser \<Rightarrow> http_request \<Rightarrow> (console_db, response) io" where
  "consoleUpdateTreatment lib user r =
     decodeConsole (hl_treatment lib (rq_body r)) (\<lambda>item.
       validateConsoleName (yt_Name item)
         (logged user r ''edit treatment'' (UpdateTreatment (hl_console lib) item) (\<lambda>_. C_Nothing)))"

definition consoleDeleteTreatment ::
  "ConsoleUser \<Rightarrow> http_request \<Rightarrow> string \<Rightarrow> (console_db, response) io" where
  "consoleDeleteTreatment user r i =
     logged user r ''delete treatment'' (DeleteTreatment i) (\<lambda>_. C_Nothing)"

definition consoleWorkOrderPage :: "http_request \<Rightarrow> (console_db, response) io" where
  "consoleWorkOrderPage r =
     (case consolePageParams r of (current, per_page) \<Rightarrow>
        consoleWriteResult (WorkOrderPage current per_page) C_Orders)"

definition new_order :: "consoleWorkOrderRequest \<Rightarrow> time option \<Rightarrow> WorkOrder" where
  "new_order request appointment =
     \<lparr>yw_ID = [], yw_WorkOrderNo = [], yw_AcousticBuoyID = wk_AcousticBuoyID request,
      yw_AcousticBuoyTitle = [], yw_ArrayOpsProfileID = wk_ArrayOpsProfileID request,
      yw_TreatmentName = [], yw_ArrayOperatorID = wk_ArrayOperatorID request,
      yw_ArrayOperatorName = [], yw_ScheduledAt = appointment, yw_Status = 0,
      yw_Remark = wk_Remark request, yw_Version = 0\<rparr>"

definition consoleCreateWorkOrder ::
  "http_lib \<Rightarrow> ConsoleUser \<Rightarrow> http_request \<Rightarrow> (console_db, response) io" where
  "consoleCreateWorkOrder lib user r =
     decodeConsole (hl_order lib (rq_body r)) (\<lambda>request.
       case parseConsoleTime lib (wk_ScheduledAt request) of
         Inl err \<Rightarrow> io_return (consoleError 400 err)
       | Inr appointment \<Rightarrow>
           logged user r ''create order'' (CreateWorkOrder (new_order request appointment)) C_Order)"

definition consoleUpdateWorkOrderStatus ::
  "http_lib \<Rightarrow> ConsoleUser \<Rightarrow> http_request \<Rightarrow> (console_db, response) io" where
  "consoleUpdateWorkOrderStatus lib user r =
     decodeConsole (hl_order_status lib (rq_body r)) (\<lambda>(i, status).
       logged user r ''update order status'' (UpdateWorkOrderStatus i status) (\<lambda>_. C_Nothing))"

definition consoleSignalRecoveryReportPage :: "http_request \<Rightarrow> (console_db, response) io" where
  "consoleSignalRecoveryReportPage r =
     (case consolePageParams r of (current, per_page) \<Rightarrow>
        consoleWriteResult (SignalRecoveryReportPage current per_page []) C_Reports)"

definition consoleSignalRecoveryReportByAcousticBuoy :: "string \<Rightarrow> (console_db, response) io" where
  "consoleSignalRecoveryReportByAcousticBuoy i =
     consoleWriteResult (SignalRecoveryReportPage 1 100 i) (\<lambda>page. C_ReportList (cp_Records page))"

definition consoleCreateSignalRecoveryReport ::
  "http_lib \<Rightarrow> ConsoleUser \<Rightarrow> http_request \<Rightarrow> (console_db, response) io" where
  "consoleCreateSignalRecoveryReport lib user r =
     decodeConsole (hl_console_report lib (rq_body r)) (\<lambda>item.
       logged user r ''create report'' (CreateSignalRecoveryReport (hl_console lib) item) C_Report)"

definition consoleLogPage :: "http_request \<Rightarrow> (console_db, response) io" where
  "consoleLogPage r =
     (case consolePageParams r of (current, per_page) \<Rightarrow>
        consoleWriteResult (LogPage current per_page) C_Logs)"

section \<open>The role gate\<close>

definition requireConsoleRole ::
  "http_lib \<Rightarrow> ConsoleRole list \<Rightarrow> (ConsoleUser \<Rightarrow> string \<Rightarrow> (console_db, response) io) \<Rightarrow>
   http_request \<Rightarrow> (console_db, response) io" where
  "requireConsoleRole lib roles handler r env w =
     (let token = bearerToken r in
      if token = [] then (Inr (consoleError 401 (NewError ''session is missing'')), w)
      else
        case UserBySession (hl_console lib) token env w of
          (Inl err, w1) \<Rightarrow> (Inr (consoleError 401 err), w1)
        | (Inr user, w1) \<Rightarrow>
            if us_Role user \<notin> set roles
              then (Inr (consoleError 403 (NewError ''role is not allowed to do this'')), w1)
            else handler user token env w1)"

end
