(* ===== verification/Service_History.thy ===== *)
theory Service_History
  imports Service
begin

text \<open>
  The database over time: which changes of its rows the handlers of \<open>internal/service\<close> can make
  (\<open>history\<close>), the invariant they keep (\<open>db_ok\<close>), and both for every sequence of calls under every
  schedule of faults.
\<close>

section \<open>What may happen to a row\<close>

text \<open>The edges of a job's status that the handlers can take together. Completing, starting and
  archiving follow the table; a handoff, a review and the expiry set their status whatever the
  status was.\<close>

definition job_edge :: "RecoveryJobStatus \<Rightarrow> RecoveryJobStatus \<Rightarrow> bool" where
  "job_edge s t \<longleftrightarrow> RecoveryJob_CanMoveTo s t \<or>
     t \<in> set [RecoveryJobActivationPending, RecoveryJobAccepted, RecoveryJobVerified,
       RecoveryJobRejected]"

definition incident_edge :: "IntegrityIncidentStatus \<Rightarrow> IntegrityIncidentStatus \<Rightarrow> bool" where
  "incident_edge s t \<longleftrightarrow> s = ''open'' \<and> t = ''in_progress'' \<or>
     s \<in> set [''open'', ''in_progress''] \<and> t = ''closed''"

definition report_edge :: "SignalRecoveryReportStatus \<Rightarrow> SignalRecoveryReportStatus \<Rightarrow> bool" where
  "report_edge s t \<longleftrightarrow> s = ''pending'' \<and> t \<in> set [''verified'', ''rejected'']"

definition operator_rel :: "ArrayOperator \<Rightarrow> ArrayOperator \<Rightarrow> bool" where
  "operator_rel x y \<longleftrightarrow> op_ID y = op_ID x"

definition mission_rel :: "SurveyMission \<Rightarrow> SurveyMission \<Rightarrow> bool" where
  "mission_rel x y \<longleftrightarrow>
     y = x\<lparr>sm_Status := sm_Status y, sm_Version := sm_Version y\<rparr> \<and>
     moves SurveyMission_CanMoveTo sm_Status sm_Version x y"

definition buoy_rel :: "AcousticBuoy \<Rightarrow> AcousticBuoy \<Rightarrow> bool" where
  "buoy_rel x y \<longleftrightarrow> y = x\<lparr>ab_Completed := ab_Completed y\<rparr> \<and> ab_Completed x \<le> ab_Completed y"

definition assignment_rel :: "AssignmentRow \<Rightarrow> AssignmentRow \<Rightarrow> bool" where
  "assignment_rel x y \<longleftrightarrow>
     y = x\<lparr>as_Status := as_Status y, as_Version := as_Version y\<rparr> \<and>
     moves Assignment_CanMoveTo as_Status as_Version x y"

definition job_rel :: "RecoveryJobRow \<Rightarrow> RecoveryJobRow \<Rightarrow> bool" where
  "job_rel x y \<longleftrightarrow>
     y = x\<lparr>rj_Status := rj_Status y, rj_Version := rj_Version y,
           rj_CompletedAt := rj_CompletedAt y, rj_AcceptedAt := rj_AcceptedAt y\<rparr> \<and>
     (rj_CompletedAt x \<noteq> None \<longrightarrow> rj_CompletedAt y = rj_CompletedAt x) \<and>
     moves job_edge rj_Status rj_Version x y"

definition window_rel :: "DiveWindowRow \<Rightarrow> DiveWindowRow \<Rightarrow> bool" where
  "window_rel x y \<longleftrightarrow>
     y = x\<lparr>wr_Status := wr_Status y, wr_Version := wr_Version y,
           wr_StartedAt := wr_StartedAt y, wr_CompletedAt := wr_CompletedAt y\<rparr> \<and>
     moves DiveWindow_CanMoveTo wr_Status wr_Version x y"

definition report_rel :: "SignalRecoveryReportRow \<Rightarrow> SignalRecoveryReportRow \<Rightarrow> bool" where
  "report_rel x y \<longleftrightarrow>
     y = x\<lparr>rr_Status := rr_Status y, rr_Version := rr_Version y,
           rr_ReviewedAt := rr_ReviewedAt y\<rparr> \<and>
     moves report_edge rr_Status rr_Version x y"

definition incident_rel :: "IntegrityIncident \<Rightarrow> IntegrityIncident \<Rightarrow> bool" where
  "incident_rel x y \<longleftrightarrow>
     y = x\<lparr>ii_Status := ii_Status y, ii_ClosedAt := ii_ClosedAt y\<rparr> \<and>
     incident_edge\<^sup>*\<^sup>* (ii_Status x) (ii_Status y)"

definition history :: "database \<Rightarrow> database \<Rightarrow> bool" where
  "history d d' \<longleftrightarrow>
     grows operator_rel (db_operators d) (db_operators d') \<and>
     grows mission_rel (db_missions d) (db_missions d') \<and>
     grows buoy_rel (db_buoys d) (db_buoys d') \<and>
     grows assignment_rel (db_assignments d) (db_assignments d') \<and>
     grows job_rel (db_jobs d) (db_jobs d') \<and>
     grows (=) (db_moorings d) (db_moorings d') \<and>
     grows window_rel (db_windows d) (db_windows d') \<and>
     grows (=) (db_items d) (db_items d') \<and>
     grows report_rel (db_reports d) (db_reports d') \<and>
     grows incident_rel (db_incidents d) (db_incidents d') \<and>
     grows (=) (db_audits d) (db_audits d') \<and>
     grows (=) (db_keys d) (db_keys d')"

lemma rel_refl [simp]:
  "operator_rel o1 o1" "mission_rel m m" "buoy_rel b b" "assignment_rel a a" "job_rel j j"
  "window_rel w w" "report_rel r r" "incident_rel i i"
  by (simp_all add: operator_rel_def mission_rel_def buoy_rel_def assignment_rel_def job_rel_def
      window_rel_def report_rel_def incident_rel_def)

lemma rel_trans:
  "operator_rel o1 o2 \<Longrightarrow> operator_rel o2 o3 \<Longrightarrow> operator_rel o1 o3"
  "mission_rel m1 m2 \<Longrightarrow> mission_rel m2 m3 \<Longrightarrow> mission_rel m1 m3"
  "buoy_rel b1 b2 \<Longrightarrow> buoy_rel b2 b3 \<Longrightarrow> buoy_rel b1 b3"
  "assignment_rel a1 a2 \<Longrightarrow> assignment_rel a2 a3 \<Longrightarrow> assignment_rel a1 a3"
  "job_rel j1 j2 \<Longrightarrow> job_rel j2 j3 \<Longrightarrow> job_rel j1 j3"
  "window_rel w1 w2 \<Longrightarrow> window_rel w2 w3 \<Longrightarrow> window_rel w1 w3"
  "report_rel r1 r2 \<Longrightarrow> report_rel r2 r3 \<Longrightarrow> report_rel r1 r3"
  "incident_rel i1 i2 \<Longrightarrow> incident_rel i2 i3 \<Longrightarrow> incident_rel i1 i3"
         apply (simp add: operator_rel_def)
        apply (cases m1; cases m2; cases m3; auto simp: mission_rel_def elim: moves_trans)
       apply (cases b1; cases b2; cases b3; auto simp: buoy_rel_def)
      apply (cases a1; cases a2; cases a3; auto simp: assignment_rel_def elim: moves_trans)
     apply (cases j1; cases j2; cases j3; auto simp: job_rel_def elim: moves_trans)
    apply (cases w1; cases w2; cases w3; auto simp: window_rel_def elim: moves_trans)
   apply (cases r1; cases r2; cases r3; auto simp: report_rel_def elim: moves_trans)
  apply (cases i1; cases i2; cases i3; auto simp: incident_rel_def)
  done

lemma history_refl: "history d d"
  by (simp add: history_def grows_refl)

lemma history_trans: "history d e \<Longrightarrow> history e f \<Longrightarrow> history d f"
  unfolding history_def by (elim conjE, intro conjI) (erule (1) grows_trans[rotated], metis rel_trans)+

section \<open>The invariant\<close>

definition completions :: "RecoveryJobRow list \<Rightarrow> string \<Rightarrow> nat" where
  "completions jobs buoy =
     length (filter (\<lambda>s. rj_AcousticBuoyID s = buoy \<and> rj_CompletedAt s \<noteq> None) jobs)"

text \<open>Keys are unique, and references lead somewhere.\<close>

text \<open>A buoy counts exactly the jobs completed at it, and never more than it requires.\<close>

definition buoys_ok :: "AcousticBuoy list \<Rightarrow> RecoveryJobRow list \<Rightarrow> bool" where
  "buoys_ok buoys jobs \<longleftrightarrow>
     (\<forall>b \<in> set buoys. ab_Completed b = int (completions jobs (ab_ID b)) \<and>
        ab_Completed b \<le> ab_RequiredSuccesses b)"

text \<open>Status and time stamps agree.\<close>

definition jobs_ok :: "RecoveryJobRow list \<Rightarrow> bool" where
  "jobs_ok jobs \<longleftrightarrow> (\<forall>s \<in> set jobs. rj_Status s = ''queued'' \<longrightarrow> rj_CompletedAt s = None)"

definition reports_ok :: "SignalRecoveryReportRow list \<Rightarrow> bool" where
  "reports_ok reports \<longleftrightarrow>
     (\<forall>r \<in> set reports. rr_Status r = ''pending'' \<longleftrightarrow> rr_ReviewedAt r = None)"

definition incidents_ok :: "IntegrityIncident list \<Rightarrow> bool" where
  "incidents_ok incidents \<longleftrightarrow>
     (\<forall>r \<in> set incidents. ii_Status r = ''closed'' \<longleftrightarrow> ii_ClosedAt r \<noteq> None)"

text \<open>The invariant. A job is placed at a buoy of its own mission.\<close>

definition job_place :: "RecoveryJobRow \<Rightarrow> string \<times> string" where
  "job_place s = (rj_AcousticBuoyID s, rj_SurveyMissionID s)"

definition buoy_place :: "AcousticBuoy \<Rightarrow> string \<times> string" where
  "buoy_place b = (ab_ID b, ab_SurveyMissionID b)"

definition report_key :: "SignalRecoveryReportRow \<Rightarrow> string \<times> string" where
  "report_key r = (rr_RecoveryJobID r, rr_DiveWindowID r)"

definition db_ok :: "database \<Rightarrow> bool" where
  "db_ok d \<longleftrightarrow>
     unique op_ID (db_operators d) \<and>
     unique sm_ID (db_missions d) \<and> unique sm_Code (db_missions d) \<and>
     unique ab_ID (db_buoys d) \<and> unique as_ID (db_assignments d) \<and> unique rj_ID (db_jobs d) \<and> unique rj_TaskCode (db_jobs d) \<and>
     unique wr_ID (db_windows d) \<and> unique wr_Code (db_windows d) \<and> distinct (db_items d) \<and>
     unique rr_ID (db_reports d) \<and> unique report_key (db_reports d) \<and>
     unique ii_ID (db_incidents d) \<and> unique incident_key (db_incidents d) \<and>
     unique ar_ID (db_audits d) \<and> unique rc_Key (db_keys d) \<and>
     refers ab_SurveyMissionID (db_buoys d) sm_ID (db_missions d) \<and>
     refers job_place (db_jobs d) buoy_place (db_buoys d) \<and>
     refers it_DiveWindowID (db_items d) wr_ID (db_windows d) \<and>
     refers it_RecoveryJobID (db_items d) rj_ID (db_jobs d) \<and>
     refers rr_RecoveryJobID (db_reports d) rj_ID (db_jobs d) \<and>
     refers rr_DiveWindowID (db_reports d) wr_ID (db_windows d) \<and>
     refers ii_RecoveryJobID (db_incidents d) rj_ID (db_jobs d) \<and>
     buoys_ok (db_buoys d) (db_jobs d) \<and> jobs_ok (db_jobs d) \<and> reports_ok (db_reports d) \<and>
     incidents_ok (db_incidents d)"

lemma empty_db_ok: "db_ok empty_db"
  by (simp add: db_ok_def empty_db_def buoys_ok_def jobs_ok_def reports_ok_def incidents_ok_def)

text \<open>What every handler does to the database: it keeps the invariant and makes history.\<close>

definition good :: "database \<Rightarrow> database \<Rightarrow> bool" where
  "good d d' \<longleftrightarrow> (db_ok d \<longrightarrow> db_ok d' \<and> history d d')"

lemma goodI: "(db_ok d \<Longrightarrow> db_ok d') \<Longrightarrow> (db_ok d \<Longrightarrow> history d d') \<Longrightarrow> good d d'"
  by (simp add: good_def)

interpretation good: db_history good
  by unfold_locales (auto simp: good_def history_refl intro: history_trans)

lemma completions_append [simp]:
  "completions (jobs @ [s]) b =
     completions jobs b + (if rj_AcousticBuoyID s = b \<and> rj_CompletedAt s \<noteq> None then 1 else 0)"
  by (simp add: completions_def)

lemma completions_upd [simp]:
  assumes "\<And>s. rj_AcousticBuoyID (change s) = rj_AcousticBuoyID s"
    and "\<And>s. rj_CompletedAt (change s) = rj_CompletedAt s"
  shows "completions (upd hit change jobs) b = completions jobs b"
  unfolding completions_def upd_def using assms by (induction jobs) auto

lemma completions_none: "b \<notin> rj_AcousticBuoyID ` set jobs \<Longrightarrow> completions jobs b = 0"
  by (auto simp: completions_def filter_empty_conv)

lemma buoys_ok_upd [simp]:
  assumes "\<And>s. rj_AcousticBuoyID (change s) = rj_AcousticBuoyID s"
    and "\<And>s. rj_CompletedAt (change s) = rj_CompletedAt s"
  shows "buoys_ok buoys (upd hit change jobs) = buoys_ok buoys jobs"
  by (simp add: buoys_ok_def assms)

lemma buoys_ok_new_job [simp]:
  "rj_CompletedAt s = None \<Longrightarrow> buoys_ok buoys (jobs @ [s]) = buoys_ok buoys jobs"
  by (simp add: buoys_ok_def)

lemma buoys_ok_new_buoy:
  assumes "buoys_ok buoys jobs" "refers job_place jobs buoy_place buoys"
    and "ab_ID b \<notin> ab_ID ` set buoys" "ab_Completed b = 0" "0 \<le> ab_RequiredSuccesses b"
  shows "buoys_ok (buoys @ [b]) jobs"
proof -
  have "ab_ID b \<notin> rj_AcousticBuoyID ` set jobs"
    using assms(2,3) by (force simp: refers_def job_place_def buoy_place_def)
  then show ?thesis using assms by (auto simp: buoys_ok_def completions_none)
qed

lemma jobs_ok_simps [simp]:
  "jobs_ok (jobs @ [s]) \<longleftrightarrow> jobs_ok jobs \<and> (rj_Status s = ''queued'' \<longrightarrow> rj_CompletedAt s = None)"
  by (auto simp: jobs_ok_def)

lemma jobs_ok_upd [simp]:
  "(\<And>s. rj_Status (change s) \<noteq> ''queued'') \<Longrightarrow> jobs_ok jobs \<Longrightarrow> jobs_ok (upd hit change jobs)"
  by (auto simp: jobs_ok_def upd_def)

lemma reports_ok_new [simp]:
  "reports_ok (reports @ [r]) \<longleftrightarrow>
     reports_ok reports \<and> (rr_Status r = ''pending'' \<longleftrightarrow> rr_ReviewedAt r = None)"
  by (auto simp: reports_ok_def)

lemma incidents_ok_new [simp]:
  "incidents_ok (incidents @ [r]) \<longleftrightarrow>
     incidents_ok incidents \<and> (ii_Status r = ''closed'' \<longleftrightarrow> ii_ClosedAt r \<noteq> None)"
  by (auto simp: incidents_ok_def)

section \<open>Statements\<close>

lemmas good_simps = good_def db_ok_def history_def grows_refl grows_append

lemma good_create_operator [keeps_rules]: "stmt_keeps good env (sql_create_operator a)"
  by (rule stmt_keepsI) (clarsimp simp: sql_create_operator_def good_simps)

lemma good_update_operator [keeps_rules]:
  assumes "\<And>r. op_ID (change r) = op_ID r"
  shows "stmt_keeps good env (sql_update_operator i change)"
  by (rule stmt_keepsI) (auto simp: sql_update_operator_def sql_update_Inr good_simps assms
      operator_rel_def intro!: grows_update)

lemma good_create_mission [keeps_rules]: "stmt_keeps good env (sql_create_mission p)"
  by (rule stmt_keepsI) (clarsimp simp: sql_create_mission_def good_simps mission_row_def)

lemma good_create_buoy [keeps_rules]: "stmt_keeps good env (sql_create_buoy i inp)"
  by (rule stmt_keepsI)
    (auto simp: sql_create_buoy_def good_simps unique_def intro!: buoys_ok_new_buoy)

text \<open>A versioned UPDATE makes one move.\<close>

lemma moves_bump [intro]:
  "can_move (st x) (st y) \<Longrightarrow> ver y = ver x + 1 \<Longrightarrow> moves can_move st ver x y"
  by (rule moves_one)

lemma good_update_jobs:
  assumes upd: "update_jobs hit change d = Inr (k, d')"
    and edge: "\<And>s. db_ok d \<Longrightarrow> s \<in> set (db_jobs d) \<Longrightarrow> hit s \<Longrightarrow>
      job_edge (rj_Status s) (rj_Status (change s))"
    and not_queued: "\<And>s. rj_Status (change s) \<noteq> ''queued''"
    and frame: "\<And>s. change s = s\<lparr>rj_Status := rj_Status (change s),
      rj_AcceptedAt := rj_AcceptedAt (change s)\<rparr>"
  shows "good d d'"
proof (cases "db_ok d")
  case ok: True
  let ?c = "\<lambda>s. (change s)\<lparr>rj_Version := rj_Version s + 1\<rparr>"
  have d': "d' = d\<lparr>db_jobs := upd hit ?c (db_jobs d)\<rparr>"
    using upd by (auto simp: update_jobs_def sql_update_Inr)
  have same: "rj_ID (?c s) = rj_ID s" "rj_TaskCode (?c s) = rj_TaskCode s"
    "rj_AcousticBuoyID (?c s) = rj_AcousticBuoyID s" "rj_CompletedAt (?c s) = rj_CompletedAt s"
    "job_place (?c s) = job_place s" for s
    by (subst frame, simp add: job_place_def)+
  have unchanged: "rj_CompletedAt (change s) = rj_CompletedAt s" for s
    by (subst frame) simp
  have rel: "job_rel s (?c s)" if "s \<in> set (db_jobs d)" "hit s" for s
  proof -
    have "?c s = s\<lparr>rj_Status := rj_Status (?c s), rj_Version := rj_Version (?c s),
        rj_CompletedAt := rj_CompletedAt (?c s), rj_AcceptedAt := rj_AcceptedAt (?c s)\<rparr>"
      by (subst frame) (simp add: unchanged)
    moreover have "moves job_edge rj_Status rj_Version s (?c s)"
      using edge[OF ok that] by (intro moves_one) simp_all
    ultimately show ?thesis using same(4)[of s] by (simp add: job_rel_def)
  qed
  have "grows job_rel (db_jobs d) (upd hit ?c (db_jobs d))"
    using rel by (intro grows_update) auto
  then show ?thesis
    using not_queued by (simp add: d' good_simps same)
qed (simp add: good_def)

lemma good_create_window [keeps_rules]: "stmt_keeps good env (sql_create_window i inp)"
  by (rule stmt_keepsI) (clarsimp simp: sql_create_window_def good_simps)

lemma good_attach_item [keeps_rules]: "stmt_keeps good env (sql_attach_item w j)"
  by (rule stmt_keepsI) (clarsimp simp: sql_attach_item_def good_simps)

lemma good_start_job [keeps_rules]: "stmt_keeps good env (sql_start_job j)"
proof (rule stmt_keepsI)
  fix n t d x d'
  assume "sql_start_job j env n t d = Inr (x, d')"
  then obtain u where "update_jobs (\<lambda>s. rj_ID s = u \<and> rj_Status s = ''accepted'' \<and> t \<le> rj_ExpiresAt s)
      (\<lambda>s. s\<lparr>rj_Status := ''in_progress''\<rparr>) d = Inr (x, d')"
    by (auto simp: sql_start_job_def)
  then show "good d d'"
    by (rule good_update_jobs) (simp_all add: job_edge_def RecoveryJob_CanMoveTo_def)
qed

lemma good_move_job [keeps_rules]:
  assumes "status \<in> set [RecoveryJobActivationPending, RecoveryJobAccepted, RecoveryJobVerified,
     RecoveryJobRejected]"
  shows "stmt_keeps good env (sql_move_job i status version now)"
proof (rule stmt_keepsI)
  fix n t d x d'
  assume "sql_move_job i status version now env n t d = Inr (x, d')"
  then obtain u where "update_jobs (\<lambda>s. rj_ID s = u \<and> rj_Version s = version)
      (\<lambda>s. s\<lparr>rj_Status := status,
          rj_CompletedAt := (if status = ''completed'' then Some (pg_time now) else rj_CompletedAt s),
          rj_AcceptedAt := (if status = ''accepted'' then Some (pg_time now) else rj_AcceptedAt s)\<rparr>)
      d = Inr (x, d')"
    by (auto simp: sql_move_job_def)
  moreover have "status \<noteq> ''completed''" "status \<noteq> ''queued''" "job_edge s status" for s
    using assms by (auto simp: job_edge_def)
  ultimately show "good d d'" by (elim good_update_jobs) simp_all
qed

lemma good_expire_job [keeps_rules]: "stmt_keeps good env (sql_expire_job i)"
proof (rule stmt_keepsI)
  fix n t d x d'
  assume "sql_expire_job i env n t d = Inr (x, d')"
  then obtain u where "update_jobs (\<lambda>s. rj_ID s = u \<and> rj_Status s \<in> set expirable)
      (\<lambda>s. s\<lparr>rj_Status := ''rejected''\<rparr>) d = Inr (x, d')"
    by (auto simp: sql_expire_job_def)
  then show "good d d'" by (rule good_update_jobs) (simp_all add: job_edge_def)
qed

lemma good_record_activation [keeps_rules]: "stmt_keeps good env (sql_record_activation i inp)"
  by (rule stmt_keepsI) (clarsimp simp: sql_record_activation_def good_simps)

lemma good_create_report [keeps_rules]: "stmt_keeps good env (sql_create_report i inp)"
  by (rule stmt_keepsI) (clarsimp simp: sql_create_report_def good_simps report_key_def[abs_def])

lemma good_create_incident [keeps_rules]: "stmt_keeps good env (sql_create_incident i inp)"
  by (rule stmt_keepsI) (clarsimp simp: sql_create_incident_def good_simps incident_key_def)

lemma good_create_assignment [keeps_rules]: "stmt_keeps good env (sql_create_assignment a)"
  by (rule stmt_keepsI) (clarsimp simp: sql_create_assignment_def good_simps)

lemma good_write_audit [keeps_rules]: "stmt_keeps good env (sql_write_audit i inp)"
  by (rule stmt_keepsI) (clarsimp simp: sql_write_audit_def good_simps)

lemma good_put_key [keeps_rules]: "stmt_keeps good env (sql_put_key r)"
  by (rule stmt_keepsI) (clarsimp simp: sql_put_key_def good_simps)

lemma stmt_keeps_query [keeps_rules]: "stmt_keeps good env (query f)"
  by (rule stmt_keepsI; simp add: query_def good.R_refl)

lemma good_update_windows:
  assumes upd: "update_windows hit change d = Inr (k, d')"
    and edge: "\<And>w. w \<in> set (db_windows d) \<Longrightarrow> hit w \<Longrightarrow>
      DiveWindow_CanMoveTo (wr_Status w) (wr_Status (change w))"
    and frame: "\<And>w. change w = w\<lparr>wr_Status := wr_Status (change w),
      wr_StartedAt := wr_StartedAt (change w), wr_CompletedAt := wr_CompletedAt (change w)\<rparr>"
  shows "good d d'"
proof -
  let ?c = "\<lambda>w. (change w)\<lparr>wr_Version := wr_Version w + 1\<rparr>"
  have d': "d' = d\<lparr>db_windows := upd hit ?c (db_windows d)\<rparr>"
    using upd by (auto simp: update_windows_def sql_update_Inr)
  have same: "wr_ID (?c w) = wr_ID w" "wr_Code (?c w) = wr_Code w" for w
    by (subst frame, simp)+
  have rel: "window_rel w (?c w)" if "w \<in> set (db_windows d)" "hit w" for w
  proof -
    have "?c w = w\<lparr>wr_Status := wr_Status (?c w), wr_Version := wr_Version (?c w),
        wr_StartedAt := wr_StartedAt (?c w), wr_CompletedAt := wr_CompletedAt (?c w)\<rparr>"
      by (subst frame) simp
    moreover have "moves DiveWindow_CanMoveTo wr_Status wr_Version w (?c w)"
      using edge[OF that] by (intro moves_one) simp_all
    ultimately show ?thesis by (simp add: window_rel_def)
  qed
  have "grows window_rel (db_windows d) (upd hit ?c (db_windows d))"
    using rel by (intro grows_update) auto
  then show ?thesis by (simp add: d' good_simps same)
qed

lemma good_change_window [keeps_rules]:
  assumes "\<And>s. s \<in> set allowedFrom \<Longrightarrow> DiveWindow_CanMoveTo s status"
  shows "stmt_keeps good env (sql_change_window i status version allowedFrom)"
proof (rule stmt_keepsI)
  fix n t d x d'
  assume "sql_change_window i status version allowedFrom env n t d = Inr (x, d')"
  then obtain u where "update_windows
      (\<lambda>w. wr_ID w = u \<and> wr_Version w = version \<and> wr_Status w \<in> set allowedFrom \<and>
         (status \<noteq> ''completed'' \<or> \<not> unreported u d))
      (\<lambda>w. w\<lparr>wr_Status := status,
         wr_StartedAt := (if status = ''running'' then Some t else wr_StartedAt w),
         wr_CompletedAt := (if status = ''completed'' then Some t else wr_CompletedAt w)\<rparr>) d =
      Inr (x, d')"
    by (auto simp: sql_change_window_def)
  then show "good d d'" by (rule good_update_windows) (use assms in simp_all)
qed

lemma good_cancel_window [keeps_rules]: "stmt_keeps good env (sql_cancel_window i version)"
proof (rule stmt_keepsI)
  fix n t d x d'
  assume run: "sql_cancel_window i version env n t d = Inr (x, d')"
  obtain u d1 k changed where first: "update_windows (\<lambda>w. wr_ID w = u \<and> wr_Version w = version \<and>
        wr_Status w \<in> set [''queued'', ''running''] \<and>
        \<not> (\<exists>r \<in> set (db_reports d). rr_DiveWindowID r = u))
      (\<lambda>w. w\<lparr>wr_Status := ''cancelled'', wr_CompletedAt := Some t\<rparr>) d = Inr (x, d1)"
    and second: "update_jobs (\<lambda>s. rj_Status s = ''in_progress'' \<and>
        (\<exists>it \<in> set (db_items d). it_DiveWindowID it \<in> changed \<and> it_RecoveryJobID it = rj_ID s))
      (\<lambda>s. s\<lparr>rj_Status := ''accepted''\<rparr>) d1 = Inr (k, d')"
    using run by (auto simp: sql_cancel_window_def Let_def)
  have "good d d1"
    using first by (rule good_update_windows) (auto simp: DiveWindow_CanMoveTo_def)
  moreover have "good d1 d'"
    using second by (rule good_update_jobs) (simp_all add: job_edge_def)
  ultimately show "good d d'" by (rule good.R_trans)
qed

lemma reports_ok_upd:
  "(\<And>r. (rr_Status (change r) = ''pending'') = (rr_ReviewedAt (change r) = None)) \<Longrightarrow>
   reports_ok reports \<Longrightarrow> reports_ok (upd hit change reports)"
  by (simp add: reports_ok_def ball_upd)

lemma incidents_ok_upd:
  "(\<And>r. hit r \<Longrightarrow> ii_ClosedAt r = None \<Longrightarrow> (ii_Status (change r) = ''closed'') = (ii_ClosedAt (change r) \<noteq> None)) \<Longrightarrow>
   (\<And>r. hit r \<Longrightarrow> ii_Status r \<noteq> ''closed'') \<Longrightarrow>
   incidents_ok incidents \<Longrightarrow> incidents_ok (upd hit change incidents)"
  unfolding incidents_ok_def ball_upd by auto

lemma good_review_report [keeps_rules]:
  assumes "status \<in> set [''verified'', ''rejected'']"
  shows "stmt_keeps good env (sql_review_report i status version now)"
proof (rule stmt_keepsI)
  fix n t d x d'
  let ?c = "\<lambda>r. r\<lparr>rr_Status := status, rr_ReviewedAt := Some (pg_time now),
      rr_Version := rr_Version r + 1\<rparr>"
  assume "sql_review_report i status version now env n t d = Inr (x, d')"
  then obtain u where d': "d' = d\<lparr>db_reports := upd (\<lambda>r. rr_ID r = u \<and> rr_Status r = ''pending'' \<and>
      rr_Version r = version) ?c (db_reports d)\<rparr>"
    by (auto simp: sql_review_report_def sql_update_Inr)
  have "report_rel r (?c r)" if "rr_Status r = ''pending''" for r
    using assms that by (auto simp: report_rel_def report_edge_def intro!: moves_one)
  then have "grows report_rel (db_reports d) (db_reports d')"
    by (auto simp: d' intro!: grows_update)
  moreover have "status \<noteq> ''pending''" using assms by auto
  ultimately show "good d d'" by (simp add: d' good_simps reports_ok_upd report_key_def)
qed

lemma good_update_incident:
  assumes edge: "\<And>r. ii_Status r \<in> set from \<Longrightarrow> incident_edge (ii_Status r) (ii_Status (change r))"
    and closed: "\<And>r. ii_ClosedAt r = None \<Longrightarrow>
      (ii_Status (change r) = ''closed'') = (ii_ClosedAt (change r) \<noteq> None)"
    and not_closed: "''closed'' \<notin> set from"
    and frame: "\<And>r. change r = r\<lparr>ii_Status := ii_Status (change r),
      ii_ClosedAt := ii_ClosedAt (change r)\<rparr>"
  shows "stmt_keeps good env (sql_update_incident i from change)"
proof (rule stmt_keepsI)
  fix n t d x d'
  assume "sql_update_incident i from change env n t d = Inr (x, d')"
  then obtain u where d': "d' = d\<lparr>db_incidents := upd (\<lambda>r. ii_ID r = u \<and> ii_Status r \<in> set from)
      change (db_incidents d)\<rparr>" and uniq: "unique incident_key (db_incidents d')"
    by (auto simp: sql_update_incident_def sql_update_Inr unique_def split: if_splits)
  have same: "ii_ID (change r) = ii_ID r" "ii_RecoveryJobID (change r) = ii_RecoveryJobID r" for r
    by (subst frame, simp)+
  have "incident_rel r (change r)" if "ii_Status r \<in> set from" for r
    unfolding incident_rel_def using frame[of r] edge[OF that] by blast
  then have "grows incident_rel (db_incidents d) (db_incidents d')"
    by (auto simp: d' intro!: grows_update)
  moreover have "incidents_ok (db_incidents d')" if "incidents_ok (db_incidents d)"
    unfolding d' using that closed not_closed by (auto intro!: incidents_ok_upd)
  ultimately show "good d d'" using uniq by (simp add: d' good_simps same)
qed

lemma good_update_assignments:
  assumes upd: "update_assignments hit status d = Inr (k, d')"
    and edge: "\<And>a. db_ok d \<Longrightarrow> a \<in> set (db_assignments d) \<Longrightarrow> hit a \<Longrightarrow>
      Assignment_CanMoveTo (as_Status a) status"
  shows "good d d'"
proof (cases "db_ok d")
  case ok: True
  let ?c = "\<lambda>a. a\<lparr>as_Status := status, as_Version := as_Version a + 1\<rparr>"
  have d': "d' = d\<lparr>db_assignments := upd hit ?c (db_assignments d)\<rparr>"
    using upd by (auto simp: update_assignments_def sql_update_Inr)
  have "assignment_rel a (?c a)" if "a \<in> set (db_assignments d)" "hit a" for a
    using edge[OF ok that] by (auto simp: assignment_rel_def intro!: moves_one)
  then have "grows assignment_rel (db_assignments d) (db_assignments d')"
    by (auto simp: d' intro!: grows_update)
  then show ?thesis by (simp add: d' good_simps)
qed (simp add: good_def)

lemma unique_inj: "unique key rows \<Longrightarrow> r \<in> set rows \<Longrightarrow> s \<in> set rows \<Longrightarrow> key r = key s \<Longrightarrow> r = s"
  by (auto simp: unique_def distinct_map dest: inj_onD)

lemma good_advance_assignment [keeps_rules]:
  assumes "AssignmentSourcesFor status = Some allowedFrom"
  shows "stmt_keeps good env (sql_advance_assignment i status version allowedFrom)"
proof (rule stmt_keepsI)
  fix n t d x d'
  assume "sql_advance_assignment i status version allowedFrom env n t d = Inr (x, d')"
  then obtain u where "update_assignments (\<lambda>a. as_ID a = u \<and> as_Version a = version \<and>
      as_Status a \<in> set allowedFrom) status d = Inr (x, d')"
    by (auto simp: sql_advance_assignment_def)
  then show "good d d'"
    by (rule good_update_assignments) (use assms in \<open>auto simp: sources_CanMoveTo\<close>)
qed

lemma set_sql_page: "set (sql_page limit offset rows) \<subseteq> set rows"
  by (auto simp: sql_page_def dest: in_set_takeD in_set_dropD)

definition due_assignments :: "env \<Rightarrow> nat \<Rightarrow> time \<Rightarrow> database \<Rightarrow> AssignmentRow list" where
  "due_assignments env n now d =
     sort_stable (order_lt as_StartsAt False (\<lambda>a. en_tie env n (as_ID a)))
       (filter (\<lambda>a. as_Status a = ''queued'' \<and> as_StartsAt a \<le> pg_time now \<and>
          pg_time now < as_EndsAt a) (db_assignments d))"

lemma good_activate_due [keeps_rules]: "stmt_keeps good env (sql_activate_due now limit)"
proof (rule stmt_keepsI)
  fix n t d x d'
  assume "sql_activate_due now limit env n t d = Inr (x, d')"
  then have "update_assignments
      (\<lambda>a. as_ID a \<in> as_ID ` set (sql_page limit 0 (due_assignments env n now d))) ''active'' d =
      Inr (x, d')"
    by (simp add: sql_activate_due_def due_assignments_def Let_def)
  then show "good d d'"
  proof (rule good_update_assignments)
    fix a
    assume ok: "db_ok d" and a: "a \<in> set (db_assignments d)"
      "as_ID a \<in> as_ID ` set (sql_page limit 0 (due_assignments env n now d))"
    then obtain b where "b \<in> set (due_assignments env n now d)" "as_ID a = as_ID b"
      using set_sql_page by fastforce
    then have "as_Status a = ''queued''"
      using a(1) ok unique_inj[of as_ID "db_assignments d" a b]
      by (auto simp: due_assignments_def db_ok_def)
    then show "Assignment_CanMoveTo (as_Status a) ''active''" by (simp add: assignment_edges)
  qed
qed

end
