(* ===== verification/Service_Calls.thy ===== *)
theory Service_Calls
  imports Service_History
begin

text \<open>
  Every handler of \<open>internal/service\<close> keeps the invariant of the database and makes history, and so
  does every sequence of calls, under every schedule of faults.
\<close>

section \<open>Handlers that rely on what they have read\<close>

lemma keeps_wrapID [keeps_rules]: "stmt_keeps good env st \<Longrightarrow> keeps good env (wrapID (exec_stmt q st) i)"
  unfolding wrapID_def by (intro keeps_rules)

lemma keeps_one_row [keeps_rules]:
  "keeps good env m \<Longrightarrow> keeps good env (one_row m err)"
  unfolding one_row_def by (intro keeps_rules; simp)+

lemma keeps_at_one_row:
  "keeps_at good env w m \<Longrightarrow> keeps_at good env w (one_row m err)"
  unfolding one_row_def by (erule good.keeps_at_step) (intro keeps_rules)

lemma good_writeAudit [keeps_rules]: "keeps good env (writeAudit q inp)"
  unfolding writeAudit_def Let_def by (intro keeps_rules)

text \<open>A mission is advanced along the table: the row read in the transaction is the row updated.\<close>

lemma good_advance_mission_at:
  assumes "find (\<lambda>r. sm_ID r = u) (db_missions d) = Some p"
    and "en_uuid_in env i = Some u" "SurveyMission_CanMoveTo (sm_Status p) status"
    and "sql_advance_mission i status version env n t d = Inr (x, d')"
  shows "good d d'"
proof (cases "db_ok d")
  case ok: True
  let ?c = "\<lambda>p. p\<lparr>sm_Status := status, sm_Version := sm_Version p + 1\<rparr>"
  let ?hit = "\<lambda>p. sm_ID p = u \<and> sm_Version p = version"
  have d': "d' = d\<lparr>db_missions := upd ?hit ?c (db_missions d)\<rparr>"
    using assms(2,4) by (auto simp: sql_advance_mission_def sql_update_Inr)
  have "mission_rel r (?c r)" if "r \<in> set (db_missions d)" "?hit r" for r
  proof -
    have "p \<in> set (db_missions d)" "sm_ID p = u" using assms(1) by (auto simp: find_Some_iff)
    then have "r = p" using that ok unique_inj[of sm_ID "db_missions d" r p] by (auto simp: db_ok_def)
    then show ?thesis using assms(3) by (auto simp: mission_rel_def intro!: moves_one)
  qed
  then have "grows mission_rel (db_missions d) (db_missions d')"
    by (auto simp: d' intro!: grows_update)
  then show ?thesis by (simp add: d' good_simps)
qed (simp add: good_def)

lemma good_advanceSurveyMission [keeps_rules]:
  "keeps good env (service_advanceSurveyMission meta i status version action)"
  unfolding service_advanceSurveyMission_def
proof (intro good.keeps_InTx good.keeps_all good.keeps_at_read)
  show "keeps (=) env (getSurveyMission Tx i)" unfolding getSurveyMission_def by (intro keeps_rules)
next
  fix w p w1
  assume read: "getSurveyMission Tx i env w = (Inr p, w1)" and db: "w_db w1 = w_db w"
  obtain u where found: "en_uuid_in env i = Some u"
      "find (\<lambda>r. sm_ID r = u) (db_missions (w_db w1)) = Some p"
    using query_row_found[OF read[unfolded getSurveyMission_def]] db by auto
  have "keeps_at good env w1 (exec_stmt Tx (sql_advance_mission i status version))"
    if "SurveyMission_CanMoveTo (sm_Status p) status"
    using good_advance_mission_at[OF found(2,1) that] by (rule good.keeps_at_exec)
  then show "keeps_at good env w1 (if \<not> SurveyMission_CanMoveTo (sm_Status p) status
        then io_throw (Errorf (''survey_mission '' @ i) invalid_transition)
      else io_then (advanceSurveyMission Tx i status version)
        (writeAudit Tx (audit meta ''acoustic_buoy_survey_mission'' i action ''success'' [])))"
    unfolding advanceSurveyMission_def
    by (auto intro!: good.keeps_at_then keeps_at_one_row good.keeps_at_wrap good_writeAudit
        good.keeps_at_keeps[OF good.keeps_throw])
qed

text \<open>A job is moved along the table.\<close>

lemma find_SomeD: "find P xs = Some x \<Longrightarrow> x \<in> set xs \<and> P x"
  by (auto simp: find_Some_iff)

lemma unique_find:
  assumes "find (\<lambda>r. key r = u) rows = Some r" "unique key rows" "s \<in> set rows" "key s = u"
  shows "s = r"
  using find_SomeD[OF assms(1)] unique_inj[OF assms(2,3), of r] assms(4) by simp

lemma good_archive_at:
  assumes "find (\<lambda>r. rj_ID r = u) (db_jobs d) = Some row" "en_uuid_in env i = Some u"
    and "RecoveryJob_CanMoveTo (rj_Status row) RecoveryJobArchived"
    and "sql_move_job i RecoveryJobArchived version now env n t d = Inr (x, d')"
  shows "good d d'"
proof -
  have "update_jobs (\<lambda>s. rj_ID s = u \<and> rj_Version s = version)
      (\<lambda>s. s\<lparr>rj_Status := RecoveryJobArchived\<rparr>) d = Inr (x, d')"
    using assms(2,4) by (simp add: sql_move_job_def)
  then show ?thesis
  proof (rule good_update_jobs)
    fix s
    assume "db_ok d" "s \<in> set (db_jobs d)" "rj_ID s = u \<and> rj_Version s = version"
    then have "s = row" using unique_find[OF assms(1)] by (auto simp: db_ok_def)
    then show "job_edge (rj_Status s) (rj_Status (s\<lparr>rj_Status := RecoveryJobArchived\<rparr>))"
      using assms(3) by (simp add: job_edge_def)
  qed simp_all
qed

text \<open>Completing: the job gets its time stamp and its buoy counts it, both or neither.\<close>

lemma completions_Cons:
  "completions (s # jobs) b =
     (if rj_AcousticBuoyID s = b \<and> rj_CompletedAt s \<noteq> None then 1 else 0) + completions jobs b"
  by (simp add: completions_def)

lemma upd_Cons: "upd hit change (r # rows) = (if hit r then change r else r) # upd hit change rows"
  by (simp add: upd_def)

lemma completions_complete:
  assumes "unique rj_ID jobs" "row \<in> set jobs" "rj_CompletedAt row = None"
    and "\<And>s. s \<in> set jobs \<Longrightarrow> hit s \<longleftrightarrow> s = row"
    and "\<And>s. rj_AcousticBuoyID (change s) = rj_AcousticBuoyID s" "\<And>s. rj_CompletedAt (change s) \<noteq> None"
  shows "completions (upd hit change jobs) b =
    completions jobs b + (if b = rj_AcousticBuoyID row then 1 else 0)"
  using assms
proof (induction jobs)
  case Nil
  then show ?case by simp
next
  case (Cons s jobs)
  show ?case
  proof (cases "s = row")
    case True
    have "\<not> hit r" if "r \<in> set jobs" for r
      using that Cons.prems True by (auto simp: unique_def)
    then have "upd hit change jobs = jobs" by (rule upd_none)
    then show ?thesis using Cons.prems True by (simp add: completions_Cons upd_Cons)
  next
    case False
    then have "row \<in> set jobs" "\<not> hit s" using Cons.prems by auto
    moreover have "completions (upd hit change jobs) b =
        completions jobs b + (if b = rj_AcousticBuoyID row then 1 else 0)"
      by (rule Cons.IH) (use Cons.prems \<open>row \<in> set jobs\<close> in \<open>auto simp: unique_def\<close>)
    ultimately show ?thesis by (simp add: completions_Cons upd_Cons)
  qed
qed

lemma buoys_ok_complete:
  assumes ok: "buoys_ok buoys jobs" "unique ab_ID buoys" "unique rj_ID jobs"
    and row: "row \<in> set jobs" "rj_CompletedAt row = None"
    and buoy: "b0 \<in> set buoys" "ab_ID b0 = rj_AcousticBuoyID row" "ab_Completed b0 < ab_RequiredSuccesses b0"
    and hit: "\<And>s. s \<in> set jobs \<Longrightarrow> hit s \<longleftrightarrow> s = row"
    and change: "\<And>s. rj_AcousticBuoyID (change s) = rj_AcousticBuoyID s"
      "\<And>s. rj_CompletedAt (change s) \<noteq> None"
  shows "buoys_ok (upd (\<lambda>b. ab_ID b = rj_AcousticBuoyID row) (\<lambda>b. b\<lparr>ab_Completed := ab_Completed b + 1\<rparr>) buoys)
      (upd hit change jobs)"
proof -
  have "b = b0" if "b \<in> set buoys" "ab_ID b = rj_AcousticBuoyID row" for b
    using that buoy unique_inj[OF ok(2)] by auto
  then show ?thesis
    using ok(1) buoy(3) unfolding buoys_ok_def ball_upd
    by (auto simp: completions_complete[OF ok(3) row hit change])
qed

lemma good_complete_at:
  assumes found: "find (\<lambda>r. rj_ID r = u) (db_jobs d) = Some row" "en_uuid_in env i = Some u"
    and queued: "RecoveryJob_CanMoveTo (rj_Status row) RecoveryJobCompleted"
    and run: "sql_complete_job i version now env n t d = Inr (x, d')"
  shows "good d d'"
proof (cases "db_ok d")
  case ok: True
  let ?hit = "\<lambda>s. rj_ID s = u \<and> rj_Version s = version \<and> eligible_buoys u d \<noteq> []"
  let ?c = "\<lambda>s. s\<lparr>rj_Status := RecoveryJobCompleted, rj_CompletedAt := Some (pg_time now),
      rj_Version := rj_Version s + 1\<rparr>"
  let ?b = "\<lambda>b. b\<lparr>ab_Completed := ab_Completed b + 1\<rparr>"
  let ?X = "upd (\<lambda>b. ab_ID b \<in> rj_AcousticBuoyID ` set (filter ?hit (db_jobs d))) ?b (db_buoys d)"
  have d': "d' = d\<lparr>db_jobs := upd ?hit ?c (db_jobs d), db_buoys := ?X\<rparr>"
    using run found(2) by (auto simp: sql_complete_job_def update_jobs_def sql_update_Inr Let_def)
  have row: "row \<in> set (db_jobs d)" "rj_ID row = u" "rj_Status row = ''queued''"
    "rj_CompletedAt row = None"
    using found(1) queued ok
    by (auto simp: find_Some_iff RecoveryJob_CanMoveTo_def db_ok_def jobs_ok_def split: if_splits)
  have only: "s = row" if "s \<in> set (db_jobs d)" "rj_ID s = u" for s
    using unique_find[OF found(1)] that ok by (auto simp: db_ok_def)
  show ?thesis
  proof (cases "rj_Version row = version \<and> eligible_buoys u d \<noteq> []")
    case False
    then have "\<not> ?hit s" if "s \<in> set (db_jobs d)" for s using only[OF that] by auto
    then have "d' = d" unfolding d' by (simp add: upd_none cong: filter_cong)
    then show ?thesis by (simp add: good.R_refl)
  next
    case True
    then have hit: "?hit s \<longleftrightarrow> s = row" if "s \<in> set (db_jobs d)" for s
      using only[OF that] row(2) by auto
    have "set (filter ?hit (db_jobs d)) = {row}" using hit row(1) by auto
    then have X: "?X = upd (\<lambda>b. ab_ID b = rj_AcousticBuoyID row) ?b (db_buoys d)" by simp
    obtain b0 where b0: "b0 \<in> set (db_buoys d)" "ab_ID b0 = rj_AcousticBuoyID row"
        "ab_Completed b0 < ab_RequiredSuccesses b0"
      using True only by (auto simp: eligible_buoys_def filter_empty_conv)
    have "buoys_ok (db_buoys d') (db_jobs d')"
      using ok buoys_ok_complete[OF _ _ _ row(1,4) b0 hit, of ?c] unfolding d' X
      by (simp add: db_ok_def)
    moreover have "job_rel s (?c s)" if "s \<in> set (db_jobs d)" "?hit s" for s
      using hit[OF that(1)] that(2) row(3,4)
      by (auto simp: job_rel_def job_edge_def RecoveryJob_CanMoveTo_def intro!: moves_one)
    then have "grows job_rel (db_jobs d) (db_jobs d')"
      unfolding d' by (auto intro!: grows_update)
    moreover have "grows buoy_rel (db_buoys d) (db_buoys d')"
      unfolding d' X by (auto simp: buoy_rel_def intro!: grows_update)
    ultimately show ?thesis
      using ok unfolding X d' by (simp add: good_simps job_place_def buoy_place_def)
  qed
qed (simp add: good_def)

lemma reads_get [keeps_rules]:
  "keeps (=) env (getRecoveryJob q i)" "keeps (=) env (getSurveyMission q i)"
  "keeps (=) env (getArrayOperator q i)" "keeps (=) env (validateSurveyMissionAcousticBuoy q m b)"
  "keeps (=) env (signal_recovery_reportRecoveryJobID q i)"
  unfolding getRecoveryJob_def getSurveyMission_def getArrayOperator_def
    validateSurveyMissionAcousticBuoy_def signal_recovery_reportRecoveryJobID_def
  by (intro keeps_rules)+

lemma good_move_after_read:
  assumes tgt: "next \<in> set [RecoveryJobCompleted, RecoveryJobArchived]"
    and read: "getRecoveryJob Tx i env w = (Inr task, w1)" "w_db w5 = w_db w"
    and move: "RecoveryJob_Move task next now = Inr updated"
  shows "keeps_at good env w5 (moveRecoveryJob Tx i (rj_Status updated) version now2)"
proof -
  obtain u row where found: "en_uuid_in env i = Some u"
      "find (\<lambda>r. rj_ID r = u) (db_jobs (w_db w5)) = Some row" "task = RecoveryJob.truncate row"
    using query_row_found[OF read(1)[unfolded getRecoveryJob_def]] read(2) by auto
  have updated: "rj_Status updated = next" "RecoveryJob_CanMoveTo (rj_Status row) next"
    using move found(3)
    by (auto simp: RecoveryJob_Move_def moved_job_def RecoveryJob.truncate_def split: if_splits)
  show ?thesis
    using tgt updated good_complete_at[OF found(2,1)] good_archive_at[OF found(2,1)]
    unfolding moveRecoveryJob_def
    by (auto intro!: keeps_at_one_row good.keeps_at_wrap good.keeps_at_exec)
qed

lemma good_service_moveRecoveryJob [keeps_rules]:
  assumes "next \<in> set [RecoveryJobCompleted, RecoveryJobArchived]"
  shows "keeps good env (service_moveRecoveryJob meta i version next action)"
  unfolding service_moveRecoveryJob_def io_then_def
  apply (rule good.keeps_InTx, rule good.keeps_all)
  apply (rule good.keeps_at_read, rule reads_get)
  apply (rule good.keeps_at_read, intro keeps_rules)
  apply (rule good.keeps_at_read, rule reads.keeps_read)
  apply (rule good.keeps_at_read, rule reads.keeps_lift)
  apply (rule good.keeps_at_read, rule reads.keeps_read)
  apply (rule good.keeps_at_step[OF good_move_after_read[OF assms] good_writeAudit], assumption)
   apply simp
  apply (simp add: io_lift_def io_throw_def io_return_def split: sum.splits)
  done

text \<open>A job is created after its place has been checked in the same transaction.\<close>

lemma good_create_job_at:
  assumes "\<exists>b \<in> set (db_buoys d). ab_ID b = buoy \<and> ab_SurveyMissionID b = mission"
    and "en_uuid_in env (rj_AcousticBuoyID s) = Some buoy"
    and "en_uuid_in env (rj_SurveyMissionID s) = Some mission"
    and "sql_create_job s env n now d = Inr (x, d')"
  shows "good d d'"
proof -
  have "(buoy, mission) \<in> buoy_place ` set (db_buoys d)"
    using assms(1) by (force simp: buoy_place_def)
  then show ?thesis
    using assms(2-4) by (clarsimp simp: sql_create_job_def good_simps job_place_def)
qed

lemma validate_placed:
  assumes "validateSurveyMissionAcousticBuoy q m b env w = (Inr x, w1)"
  obtains buoy mission where "en_uuid_in env b = Some buoy" "en_uuid_in env m = Some mission"
    "\<exists>r \<in> set (db_buoys (w_db w)). ab_ID r = buoy \<and> ab_SurveyMissionID r = mission"
proof -
  obtain e w2 where q: "exec_stmt q (query (\<lambda>env n t d.
            bind_result (uuid_param env b) (\<lambda>buoy.
            bind_result (uuid_param env m) (\<lambda>mission.
              Inr (\<exists>b \<in> set (db_buoys d). ab_ID b = buoy \<and> ab_SurveyMissionID b = mission)))))
         env w = (Inr e, w2)" and e: e
    using assms unfolding validateSurveyMissionAcousticBuoy_def io_bind_def io_wrap_def
    by (auto simp: io_throw_def io_return_def split: prod.splits sum.splits if_splits)
  show thesis using exec_query[OF q] e that by auto
qed

lemma good_placed_create:
  assumes "jn_SurveyMissionID inp = m" "jn_AcousticBuoyID inp = b" "\<And>x. keeps good env (f x)"
  shows "keeps good env (io_then (validateSurveyMissionAcousticBuoy q m b)
    (io_bind (createRecoveryJob q inp) f))"
  unfolding io_then_def
proof (rule good.keeps_all, rule good.keeps_at_read, rule reads_get)
  fix w x w1
  assume valid: "validateSurveyMissionAcousticBuoy q m b env w = (Inr x, w1)"
    and db: "w_db w1 = w_db w"
  obtain buoy mission where place: "en_uuid_in env b = Some buoy" "en_uuid_in env m = Some mission"
    "\<exists>r \<in> set (db_buoys (w_db w)). ab_ID r = buoy \<and> ab_SurveyMissionID r = mission"
    using valid by (rule validate_placed)
  have "keeps_at good env w1 (createRecoveryJob q inp)"
    unfolding createRecoveryJob_def Let_def wrapRecoveryJob_def
    apply (rule good.keeps_at_read, rule reads.keeps_read)
    apply (intro good.keeps_at_then good.keeps_at_wrap good.keeps_at_exec good.keeps_return)
    apply (erule good_create_job_at[rotated 3])
    using db place assms by simp_all
  then show "keeps_at good env w1 (io_bind (createRecoveryJob q inp) f)"
    using assms(3) by (rule good.keeps_at_step)
qed

lemma io_bind_return: "io_bind m io_return = m"
  by (auto simp: io_bind_def io_return_def fun_eq_iff split: prod.split sum.split)

lemma good_placed_create1:
  "keeps good env (io_then (validateSurveyMissionAcousticBuoy q (jn_SurveyMissionID inp)
     (jn_AcousticBuoyID inp)) (createRecoveryJob q inp))"
  by (rule good_placed_create[where f = io_return, OF refl refl good.keeps_return,
      unfolded io_bind_return])

section \<open>The other handlers\<close>

text \<open>Every step of them keeps \<open>good\<close> by itself.\<close>

lemma good_repository [keeps_rules]:
  "keeps good env (createArrayOperator q a)" "keeps good env (renameArrayOperator q i name)"
  "keeps good env (ChangeArrayOperatorRole i role)"
  "keeps good env (createSurveyMission q p)" "keeps good env (createAcousticBuoy q buoy)"
  "keeps good env (recordActivation q act)" "keeps good env (createDiveWindow q win)"
  "keeps good env (attachRecoveryJobs q i ids)" "keeps good env (createSignalRecoveryReport q rep)"
  "keeps good env (createIntegrityIncident q inc)" "keeps good env (createAssignment q asg)"
  "keeps good env (PutIdempotency r)" "keeps good env (ActivateDue now limit)"
  unfolding createArrayOperator_def renameArrayOperator_def ChangeArrayOperatorRole_def
    createSurveyMission_def createAcousticBuoy_def recordActivation_def createDiveWindow_def
    attachRecoveryJobs_def createSignalRecoveryReport_def createIntegrityIncident_def
    createAssignment_def PutIdempotency_def ActivateDue_def Let_def
  by (intro keeps_rules; simp)+

lemma good_reads: "keeps (=) env m \<Longrightarrow> keeps good env m"
  by (simp add: keeps_def good.R_refl)

lemma good_incident_updates [keeps_rules]:
  "keeps good env (closeIntegrityIncident q i now)"
  "keeps good env (markIntegrityIncidentInProgress q i)"
  unfolding closeIntegrityIncident_def markIntegrityIncidentInProgress_def
  by (intro keeps_one_row good.keeps_wrap good.keeps_exec good_update_incident;
      auto simp: incident_edge_def)+

lemma good_moveRecoveryJob [keeps_rules]:
  "status \<in> set [RecoveryJobActivationPending, RecoveryJobAccepted, RecoveryJobVerified,
     RecoveryJobRejected] \<Longrightarrow> keeps good env (moveRecoveryJob q i status version now)"
  unfolding moveRecoveryJob_def by (intro keeps_rules) auto

lemma good_review [keeps_rules]:
  "keeps good env (reviewSignalRecoveryReportRecord q i accepted version now)"
  unfolding reviewSignalRecoveryReportRecord_def Let_def by (intro keeps_rules) auto

lemma good_changeDiveWindow [keeps_rules]: "keeps good env (changeDiveWindow q i status version)"
  unfolding changeDiveWindow_def by (intro keeps_rules) (auto simp: DiveWindow_CanMoveTo_def)

lemma good_advanceAssignment [keeps_rules]: "keeps good env (advanceAssignment q i status version)"
  unfolding advanceAssignment_def by (intro keeps_rules) auto

lemma good_expire_loop: "keeps good env (expire_loop ids result)"
  by (induction ids arbitrary: result) (auto intro!: keeps_rules)

lemma good_MarkExpired [keeps_rules]: "keeps good env (MarkExpiredRecoveryJobs now limit)"
  unfolding MarkExpiredRecoveryJobs_def Let_def
  by (intro good.keeps_run_tx keeps_rules good_expire_loop)

lemma reads_target [keeps_rules]: "keeps (=) env (validateSignalRecoveryReportTarget q i j)"
  unfolding validateSignalRecoveryReportTarget_def by (auto intro!: keeps_rules split: prod.split)

lemmas good_reading [keeps_rules] = reads_get[THEN good_reads] reads_target[THEN good_reads]
  reads_query_row[THEN good_reads]

lemma good_mission_handlers [keeps_rules]:
  "keeps good env (CreateSurveyMission meta req)"
  "keeps good env (ScheduleSurveyMission meta i version)"
  "keeps good env (ActivateSurveyMission meta i version)"
  "keeps good env (CloseSurveyMission meta i version)"
  unfolding CreateSurveyMission_def ScheduleSurveyMission_def ActivateSurveyMission_def
    CloseSurveyMission_def
  by (intro keeps_rules)+

lemma good_bulk_body: "keeps good env (io_collect (\<lambda>inp. io_then
    (validateSurveyMissionAcousticBuoy Tx (jn_SurveyMissionID inp) (jn_AcousticBuoyID inp))
    (createRecoveryJob Tx inp)) inputs)"
  by (intro good.keeps_collect good_placed_create1)

lemma good_handoff_checked:
  "(\<And>inp. keeps good env (handler inp)) \<Longrightarrow> keeps good env (handoff_checked handler inp)"
  unfolding handoff_checked_def by (intro keeps_rules)

lemma good_job_handlers [keeps_rules]:
  "keeps good env (CreateRecoveryJob meta inp)"
  "keeps good env (CreateRecoveryJobsBulk meta requests)"
  "keeps good env (CompleteRecoveryJob meta i version)"
  "keeps good env (ArchiveRecoveryJob meta i version)"
  "keeps good env (ActivationRecoveryJob meta act version)"
  "keeps good env (AcceptRecoveryJob meta act version)"
  "keeps good env (ActivationChecked meta act version)"
  "keeps good env (AcceptChecked meta act version)"
proof -
  show "keeps good env (CreateRecoveryJob meta inp)"
    unfolding CreateRecoveryJob_def
    by (intro good.keeps_bind good.keeps_read good.keeps_then good.keeps_check good.keeps_InTx
        good_placed_create refl good_writeAudit good.keeps_return)
  show "keeps good env (CreateRecoveryJobsBulk meta requests)"
    unfolding CreateRecoveryJobsBulk_def
    by (intro good.keeps_bind good.keeps_read good.keeps_if good.keeps_throw good.keeps_then
        good.keeps_check good.keeps_InTx good_bulk_body good_writeAudit good.keeps_return)
  show "keeps good env (CompleteRecoveryJob meta i version)"
    "keeps good env (ArchiveRecoveryJob meta i version)"
    unfolding CompleteRecoveryJob_def ArchiveRecoveryJob_def by (intro keeps_rules; simp)+
  show act: "keeps good env (ActivationRecoveryJob meta act version)"
    "keeps good env (AcceptRecoveryJob meta act version)" for act
    unfolding ActivationRecoveryJob_def AcceptRecoveryJob_def by (intro keeps_rules; simp)+
  show "keeps good env (ActivationChecked meta act version)"
    "keeps good env (AcceptChecked meta act version)"
    unfolding ActivationChecked_def AcceptChecked_def by (intro good_handoff_checked act)+
qed

lemma good_window_handlers [keeps_rules]:
  "keeps good env (CreateDiveWindow meta win ids)"
  "keeps good env (StartDiveWindow meta i version)"
  "keeps good env (CompleteDiveWindow meta i version)"
  "keeps good env (CancelDiveWindow meta i version)"
  unfolding CreateDiveWindow_def StartDiveWindow_def CompleteDiveWindow_def CancelDiveWindow_def
    service_changeDiveWindow_def
  by (intro keeps_rules)+

lemma good_report_handlers [keeps_rules]:
  "keeps good env (SubmitSignalRecoveryReport meta rep)"
  "keeps good env (ReviewSignalRecoveryReport meta i task accepted rv tv)"
  unfolding SubmitSignalRecoveryReport_def ReviewSignalRecoveryReport_def Let_def
  by (intro keeps_rules; auto)+

lemma good_incident_handlers [keeps_rules]:
  "keeps good env (OpenIntegrityIncident meta inc)"
  "keeps good env (CloseIntegrityIncident meta i)"
  "keeps good env (MarkIntegrityIncidentInProgress meta i)"
  unfolding OpenIntegrityIncident_def CloseIntegrityIncident_def
    MarkIntegrityIncidentInProgress_def
  by (intro keeps_rules)+

lemma good_operator_handlers [keeps_rules]:
  "keeps good env (RegisterArrayOperator meta name role)"
  "keeps good env (RenameArrayOperator meta i name)"
  "keeps good env (AssignAcousticBuoy meta asg operator)"
  "keeps good env (AdvanceAssignment meta i status version)"
  "keeps good env (ActivateDueAssignments now limit)"
  "keeps good env (service_MarkExpired now limit)"
  unfolding RegisterArrayOperator_def RenameArrayOperator_def AssignAcousticBuoy_def
    AdvanceAssignment_def ActivateDueAssignments_def service_MarkExpired_def Let_def
  by (intro keeps_rules)+

section \<open>Calls\<close>

text \<open>The state-changing calls the HTTP layer and the workers make, with the results dropped.\<close>

datatype call =
    Call_Register RequestMeta string ArrayOperatorRole
  | Call_Rename RequestMeta string string
  | Call_ChangeRole string ArrayOperatorRole
  | Call_CreateMission RequestMeta CreateSurveyMissionRequest
  | Call_Schedule RequestMeta string int
  | Call_Activate RequestMeta string int
  | Call_Close RequestMeta string int
  | Call_CreateJob RequestMeta RecoveryJobInput
  | Call_CreateJobs RequestMeta "RecoveryJobRequest list"
  | Call_Complete RequestMeta string int
  | Call_Archive RequestMeta string int
  | Call_Activation RequestMeta ActivationInput int
  | Call_Accept RequestMeta ActivationInput int
  | Call_CreateWindow RequestMeta DiveWindowInput "string list"
  | Call_StartWindow RequestMeta string int
  | Call_CompleteWindow RequestMeta string int
  | Call_CancelWindow RequestMeta string int
  | Call_Submit RequestMeta SignalRecoveryReportInput
  | Call_Review RequestMeta string string bool int int
  | Call_OpenIncident RequestMeta IntegrityIncidentInput
  | Call_CloseIncident RequestMeta string
  | Call_StartIncident RequestMeta string
  | Call_Assign RequestMeta Assignment ArrayOperator
  | Call_AdvanceAssignment RequestMeta string string int
  | Call_ActivateDue time int
  | Call_MarkExpired time int


fun serve :: "call \<Rightarrow> (database, unit) io" where
  "serve (Call_Register meta name role) = drop_result (RegisterArrayOperator meta name role)"
| "serve (Call_Rename meta i name) = RenameArrayOperator meta i name"
| "serve (Call_ChangeRole i role) = ChangeArrayOperatorRole i role"
| "serve (Call_CreateMission meta req) = drop_result (CreateSurveyMission meta req)"
| "serve (Call_Schedule meta i version) = ScheduleSurveyMission meta i version"
| "serve (Call_Activate meta i version) = ActivateSurveyMission meta i version"
| "serve (Call_Close meta i version) = CloseSurveyMission meta i version"
| "serve (Call_CreateJob meta inp) = drop_result (CreateRecoveryJob meta inp)"
| "serve (Call_CreateJobs meta requests) = drop_result (CreateRecoveryJobsBulk meta requests)"
| "serve (Call_Complete meta i version) = CompleteRecoveryJob meta i version"
| "serve (Call_Archive meta i version) = ArchiveRecoveryJob meta i version"
| "serve (Call_Activation meta inp version) = ActivationChecked meta inp version"
| "serve (Call_Accept meta inp version) = AcceptChecked meta inp version"
| "serve (Call_CreateWindow meta inp ids) = drop_result (CreateDiveWindow meta inp ids)"
| "serve (Call_StartWindow meta i version) = StartDiveWindow meta i version"
| "serve (Call_CompleteWindow meta i version) = CompleteDiveWindow meta i version"
| "serve (Call_CancelWindow meta i version) = CancelDiveWindow meta i version"
| "serve (Call_Submit meta inp) = drop_result (SubmitSignalRecoveryReport meta inp)"
| "serve (Call_Review meta i task accepted rv tv) = ReviewSignalRecoveryReport meta i task accepted rv tv"
| "serve (Call_OpenIncident meta inp) = drop_result (OpenIntegrityIncident meta inp)"
| "serve (Call_CloseIncident meta i) = CloseIntegrityIncident meta i"
| "serve (Call_StartIncident meta i) = MarkIntegrityIncidentInProgress meta i"
| "serve (Call_Assign meta asg operator) = AssignAcousticBuoy meta asg operator"
| "serve (Call_AdvanceAssignment meta i status version) = AdvanceAssignment meta i status version"
| "serve (Call_ActivateDue now limit) = drop_result (ActivateDueAssignments now limit)"
| "serve (Call_MarkExpired now limit) = drop_result (service_MarkExpired now limit)"

lemma good_serve [keeps_rules]: "keeps good env (serve c)"
  by (cases c) (simp_all add: drop_result_def, (intro keeps_rules)+)

text \<open>Worlds reached from the empty database. Each call is made in an environment of its own.\<close>

inductive reached :: "database world \<Rightarrow> database world \<Rightarrow> bool" where
  reached_start: "reached w w"
| reached_call: "reached w w1 \<Longrightarrow> reached w (snd (serve c env w1))"

lemma reached_good: "reached w w' \<Longrightarrow> good (w_db w) (w_db w')"
proof (induction rule: reached.induct)
  case (reached_start w)
  show ?case by (rule good.R_refl)
next
  case (reached_call w w1 c env)
  have "good (w_db w1) (w_db (snd (serve c env w1)))"
    using good_serve[of env c] by (simp add: keeps_def)
  with reached_call.IH show ?case by (rule good.R_trans)
qed

lemma reached_trans: "reached w w1 \<Longrightarrow> reached w1 w2 \<Longrightarrow> reached w w2"
  by (rotate_tac, induction rule: reached.induct) (auto intro: reached.intros)

section \<open>Properties\<close>

lemma mission_relD: "mission_rel p q \<Longrightarrow> sm_ID q = sm_ID p \<and> sm_Code q = sm_Code p \<and>
    sm_Version p \<le> sm_Version q \<and>
    (SurveyMission_CanMoveTo ^^ nat (sm_Version q - sm_Version p)) (sm_Status p) (sm_Status q)"
  by (cases p; cases q) (simp add: mission_rel_def moves_def)

lemma window_relD: "window_rel p q \<Longrightarrow> wr_ID q = wr_ID p \<and> wr_Capacity q = wr_Capacity p \<and>
    wr_Version p \<le> wr_Version q \<and>
    (DiveWindow_CanMoveTo ^^ nat (wr_Version q - wr_Version p)) (wr_Status p) (wr_Status q)"
  by (cases p; cases q) (simp add: window_rel_def moves_def)

lemma assignment_relD: "assignment_rel p q \<Longrightarrow> as_ID q = as_ID p \<and>
    as_ArrayOperatorID q = as_ArrayOperatorID p \<and> as_Version p \<le> as_Version q \<and>
    (Assignment_CanMoveTo ^^ nat (as_Version q - as_Version p)) (as_Status p) (as_Status q)"
  by (cases p; cases q) (simp add: assignment_rel_def moves_def)

lemma report_relD: "report_rel p q \<Longrightarrow> rr_ID q = rr_ID p \<and> rr_RiskScore q = rr_RiskScore p \<and>
    rr_Version p \<le> rr_Version q \<and>
    (report_edge ^^ nat (rr_Version q - rr_Version p)) (rr_Status p) (rr_Status q)"
  by (cases p; cases q) (simp add: report_rel_def moves_def)

lemma job_relD: "job_rel p q \<Longrightarrow> rj_ID q = rj_ID p \<and> rj_TaskCode q = rj_TaskCode p \<and>
    rj_ExpiresAt q = rj_ExpiresAt p \<and> rj_Version p \<le> rj_Version q \<and>
    (job_edge ^^ nat (rj_Version q - rj_Version p)) (rj_Status p) (rj_Status q)"
  by (cases p; cases q) (simp add: job_rel_def moves_def)

lemma reached_db_ok: "reached (fresh_world empty_db) w \<Longrightarrow> db_ok (w_db w)"
  using reached_good[of "fresh_world empty_db" w] empty_db_ok
  by (simp add: good_def fresh_world_def)

text \<open>What a history says of the rows with a status and a version.\<close>

lemma history_rows:
  assumes "history d d'"
  shows "(\<forall>k < length (db_missions d). k < length (db_missions d') \<and>
      (let p = db_missions d ! k; q = db_missions d' ! k in
       sm_ID q = sm_ID p \<and> sm_Code q = sm_Code p \<and> sm_Version p \<le> sm_Version q \<and>
       (SurveyMission_CanMoveTo ^^ nat (sm_Version q - sm_Version p)) (sm_Status p) (sm_Status q))) \<and>
    (\<forall>k < length (db_windows d). k < length (db_windows d') \<and>
      (let p = db_windows d ! k; q = db_windows d' ! k in
       wr_ID q = wr_ID p \<and> wr_Capacity q = wr_Capacity p \<and> wr_Version p \<le> wr_Version q \<and>
       (DiveWindow_CanMoveTo ^^ nat (wr_Version q - wr_Version p)) (wr_Status p) (wr_Status q))) \<and>
    (\<forall>k < length (db_assignments d). k < length (db_assignments d') \<and>
      (let p = db_assignments d ! k; q = db_assignments d' ! k in
       as_ID q = as_ID p \<and> as_ArrayOperatorID q = as_ArrayOperatorID p \<and>
       as_Version p \<le> as_Version q \<and>
       (Assignment_CanMoveTo ^^ nat (as_Version q - as_Version p)) (as_Status p) (as_Status q))) \<and>
    (\<forall>k < length (db_reports d). k < length (db_reports d') \<and>
      (let p = db_reports d ! k; q = db_reports d' ! k in
       rr_ID q = rr_ID p \<and> rr_RiskScore q = rr_RiskScore p \<and> rr_Version p \<le> rr_Version q \<and>
       (report_edge ^^ nat (rr_Version q - rr_Version p)) (rr_Status p) (rr_Status q))) \<and>
    (\<forall>k < length (db_jobs d). k < length (db_jobs d') \<and>
      (let p = db_jobs d ! k; q = db_jobs d' ! k in
       rj_ID q = rj_ID p \<and> rj_TaskCode q = rj_TaskCode p \<and> rj_ExpiresAt q = rj_ExpiresAt p \<and>
       rj_Version p \<le> rj_Version q \<and>
       (job_edge ^^ nat (rj_Version q - rj_Version p)) (rj_Status p) (rj_Status q))) \<and>
    (\<exists>new. db_audits d' = db_audits d @ new)"
  using assms unfolding history_def Let_def
  by (intro conjI allI impI)
    (elim conjE; (drule grows_at, assumption, blast dest: mission_relD window_relD
      assignment_relD report_relD job_relD) | blast dest: grows_prefix)+

text \<open>C1: whatever calls have been made, one after the other and each in an environment of its own, and
  whatever has failed on the way, the tables of the service are in order. A buoy's counter is the
  number of jobs that were ever completed at it and does not pass the number it requires. No two
  operators, missions, buoys, assignments, jobs, windows, reports, incidents or audit events have one
  identifier; codes of missions, jobs and windows, pairs of job and window in the items and in the
  reports, the triple of job, kind and status of incidents, and idempotency keys are unique. A buoy
  is of a mission that exists, a job at a buoy of its own mission; items and reports find their job
  and their window, incidents their job. A queued job has not been completed, a report is pending
  exactly until its review, and an incident is closed exactly if it has a closing time.\<close>

theorem database_invariant:
  assumes "reached (fresh_world empty_db) w" "d = w_db w"
  shows "(\<forall>b \<in> set (db_buoys d).
      ab_Completed b = int (card {s \<in> set (db_jobs d).
        rj_AcousticBuoyID s = ab_ID b \<and> rj_CompletedAt s \<noteq> None}) \<and>
      ab_Completed b \<le> ab_RequiredSuccesses b) \<and>
    (distinct (map op_ID (db_operators d)) \<and> distinct (map sm_ID (db_missions d)) \<and>
     distinct (map ab_ID (db_buoys d)) \<and> distinct (map as_ID (db_assignments d)) \<and>
     distinct (map rj_ID (db_jobs d)) \<and> distinct (map wr_ID (db_windows d)) \<and>
     distinct (map rr_ID (db_reports d)) \<and> distinct (map ii_ID (db_incidents d)) \<and>
     distinct (map ar_ID (db_audits d))) \<and>
    (distinct (map sm_Code (db_missions d)) \<and> distinct (map rj_TaskCode (db_jobs d)) \<and>
     distinct (map wr_Code (db_windows d)) \<and>
     distinct (map (\<lambda>i. (it_RecoveryJobID i, it_DiveWindowID i)) (db_items d)) \<and>
     distinct (map (\<lambda>r. (rr_RecoveryJobID r, rr_DiveWindowID r)) (db_reports d)) \<and>
     distinct (map (\<lambda>r. (ii_RecoveryJobID r, ii_Kind r, ii_Status r)) (db_incidents d)) \<and>
     distinct (map rc_Key (db_keys d))) \<and>
    (\<forall>b \<in> set (db_buoys d). \<exists>m \<in> set (db_missions d). sm_ID m = ab_SurveyMissionID b) \<and>
    (\<forall>s \<in> set (db_jobs d). \<exists>b \<in> set (db_buoys d).
      ab_ID b = rj_AcousticBuoyID s \<and> ab_SurveyMissionID b = rj_SurveyMissionID s) \<and>
    (\<forall>i \<in> set (db_items d). it_RecoveryJobID i \<in> rj_ID ` set (db_jobs d) \<and>
      it_DiveWindowID i \<in> wr_ID ` set (db_windows d)) \<and>
    (\<forall>r \<in> set (db_reports d). rr_RecoveryJobID r \<in> rj_ID ` set (db_jobs d) \<and>
      rr_DiveWindowID r \<in> wr_ID ` set (db_windows d)) \<and>
    (\<forall>r \<in> set (db_incidents d). ii_RecoveryJobID r \<in> rj_ID ` set (db_jobs d)) \<and>
    (\<forall>s \<in> set (db_jobs d). rj_Status s = RecoveryJobQueued \<longrightarrow> rj_CompletedAt s = None) \<and>
    (\<forall>r \<in> set (db_reports d). rr_Status r = ''pending'' \<longleftrightarrow> rr_ReviewedAt r = None) \<and>
    (\<forall>r \<in> set (db_incidents d). ii_Status r = ''closed'' \<longleftrightarrow> ii_ClosedAt r \<noteq> None)"
proof -
  have ok: "db_ok d" using assms by (simp add: reached_db_ok)
  then have "distinct (db_jobs d)" by (auto simp: db_ok_def unique_def distinct_map)
  then have "completions (db_jobs d) b = card {s \<in> set (db_jobs d).
      rj_AcousticBuoyID s = b \<and> rj_CompletedAt s \<noteq> None}" for b
    unfolding completions_def
    by (subst distinct_card[symmetric]) (auto intro!: arg_cong[where f = card])
  moreover have "buoys_ok (db_buoys d) (db_jobs d)" using ok by (simp add: db_ok_def)
  moreover have "\<exists>b \<in> set (db_buoys d). ab_ID b = rj_AcousticBuoyID s \<and>
      ab_SurveyMissionID b = rj_SurveyMissionID s" if "s \<in> set (db_jobs d)" for s
    using ok that by (force simp: db_ok_def refers_def job_place_def buoy_place_def)
  moreover have "\<exists>m \<in> set (db_missions d). sm_ID m = ab_SurveyMissionID b"
    if "b \<in> set (db_buoys d)" for b
    using ok that by (force simp: db_ok_def refers_def)
  moreover have "inj (\<lambda>i :: DiveWindowItem. (it_RecoveryJobID i, it_DiveWindowID i))"
    by (rule injI) simp
  then have "distinct (map (\<lambda>i. (it_RecoveryJobID i, it_DiveWindowID i)) (db_items d))"
    using ok by (auto simp: db_ok_def distinct_map intro: inj_on_subset)
  moreover have "distinct (map (\<lambda>r. (rr_RecoveryJobID r, rr_DiveWindowID r)) (db_reports d))"
    "distinct (map (\<lambda>r. (ii_RecoveryJobID r, ii_Kind r, ii_Status r)) (db_incidents d))"
    using ok by (simp_all add: db_ok_def unique_def report_key_def[abs_def] incident_key_def[abs_def])
  moreover have "\<forall>i \<in> set (db_items d). it_RecoveryJobID i \<in> rj_ID ` set (db_jobs d) \<and>
      it_DiveWindowID i \<in> wr_ID ` set (db_windows d)"
    "\<forall>r \<in> set (db_reports d). rr_RecoveryJobID r \<in> rj_ID ` set (db_jobs d) \<and>
      rr_DiveWindowID r \<in> wr_ID ` set (db_windows d)"
    "\<forall>r \<in> set (db_incidents d). ii_RecoveryJobID r \<in> rj_ID ` set (db_jobs d)"
    using ok by (auto simp: db_ok_def refers_def)
  ultimately show ?thesis
    using ok by (simp add: db_ok_def buoys_ok_def unique_def jobs_ok_def reports_ok_def
        incidents_ok_def)
qed

text \<open>C2: the tables only grow, and rows keep their identity. Between any two moments a mission, a
  dive window, an assignment and a report have moved along their tables, one move for every
  increment of the version, and a job along the edges the handlers have; the audit log of the
  earlier moment is a prefix of the later one.\<close>

theorem row_histories:
  assumes "reached (fresh_world empty_db) w" "reached w w'"
    and "d = w_db w" "d' = w_db w'"
  shows "(\<forall>k < length (db_missions d). k < length (db_missions d') \<and>
      (let p = db_missions d ! k; q = db_missions d' ! k in
       sm_ID q = sm_ID p \<and> sm_Code q = sm_Code p \<and> sm_Version p \<le> sm_Version q \<and>
       (SurveyMission_CanMoveTo ^^ nat (sm_Version q - sm_Version p)) (sm_Status p) (sm_Status q))) \<and>
    (\<forall>k < length (db_windows d). k < length (db_windows d') \<and>
      (let p = db_windows d ! k; q = db_windows d' ! k in
       wr_ID q = wr_ID p \<and> wr_Capacity q = wr_Capacity p \<and> wr_Version p \<le> wr_Version q \<and>
       (DiveWindow_CanMoveTo ^^ nat (wr_Version q - wr_Version p)) (wr_Status p) (wr_Status q))) \<and>
    (\<forall>k < length (db_assignments d). k < length (db_assignments d') \<and>
      (let p = db_assignments d ! k; q = db_assignments d' ! k in
       as_ID q = as_ID p \<and> as_ArrayOperatorID q = as_ArrayOperatorID p \<and>
       as_Version p \<le> as_Version q \<and>
       (Assignment_CanMoveTo ^^ nat (as_Version q - as_Version p)) (as_Status p) (as_Status q))) \<and>
    (\<forall>k < length (db_reports d). k < length (db_reports d') \<and>
      (let p = db_reports d ! k; q = db_reports d' ! k in
       rr_ID q = rr_ID p \<and> rr_RiskScore q = rr_RiskScore p \<and> rr_Version p \<le> rr_Version q \<and>
       (report_edge ^^ nat (rr_Version q - rr_Version p)) (rr_Status p) (rr_Status q))) \<and>
    (\<forall>k < length (db_jobs d). k < length (db_jobs d') \<and>
      (let p = db_jobs d ! k; q = db_jobs d' ! k in
       rj_ID q = rj_ID p \<and> rj_TaskCode q = rj_TaskCode p \<and> rj_ExpiresAt q = rj_ExpiresAt p \<and>
       rj_Version p \<le> rj_Version q \<and>
       (job_edge ^^ nat (rj_Version q - rj_Version p)) (rj_Status p) (rj_Status q))) \<and>
    (\<exists>new. db_audits d' = db_audits d @ new)"
proof -
  have "db_ok d" using assms(1,3) by (simp add: reached_db_ok)
  then have "history d d'" using reached_good[OF assms(2)] assms(3,4) by (simp add: good_def)
  then show ?thesis by (rule history_rows)
qed

text \<open>A day at one buoy, for the witnesses: an operator, a mission with one buoy that requires one
  success, two jobs, of which the first is completed and handed over. All calls are made in the calm environment.\<close>

definition play :: "call list \<Rightarrow> database world \<Rightarrow> database world" where
  "play cs w = foldl (\<lambda>w c. snd (serve c calm_env w)) w cs"

lemma reached_play: "reached w0 w \<Longrightarrow> reached w0 (play cs w)"
  by (induction cs arbitrary: w) (auto simp: play_def intro: reached_call)

definition requester :: RequestMeta where
  "requester = \<lparr>me_RequestID = ''r-1'', me_ArrayOperatorID = None\<rparr>"

abbreviation uuid_at :: "nat \<Rightarrow> string" where "uuid_at n \<equiv> replicate n (CHR ''u'')"

definition handoff_to :: "string \<Rightarrow> string \<Rightarrow> ActivationInput" where
  "handoff_to job operator = \<lparr>an_RecoveryJobID = job, an_From = None, an_To = operator,
     an_Location = ''dock'', an_RecordedAt = 0, an_Note = ''''\<rparr>"

definition morning :: "call list" where
  "morning = [
     Call_Register requester ''Ann'' RoleInstallationOperator,
     Call_CreateMission requester \<lparr>cm_Code = ''M-1'', cm_Name = ''North'', cm_Timezone = ''UTC'',
       cm_StartsAt = 9 * hour, cm_EndsAt = 20 * hour, cm_CreatedBy = uuid_at 1,
       cm_AcousticBuoys = [\<lparr>bn_SurveyMissionID = '''', bn_Code = ''B-1'',
         bn_ArrayOpsLane = ''lane'', bn_RequiredSuccesses = 1\<rparr>]\<rparr>,
     Call_Schedule requester (uuid_at 9) 1,
     Call_Activate requester (uuid_at 9) 2,
     Call_CreateJob requester \<lparr>jn_SurveyMissionID = uuid_at 9, jn_AcousticBuoyID = uuid_at 13,
       jn_TaskCode = ''T-1'', jn_ExpiresAt = 20 * hour\<rparr>,
     Call_CreateJob requester \<lparr>jn_SurveyMissionID = uuid_at 9, jn_AcousticBuoyID = uuid_at 13,
       jn_TaskCode = ''T-2'', jn_ExpiresAt = 20 * hour\<rparr>,
     Call_Complete requester (uuid_at 36) 1]"

definition afternoon :: "call list" where
  "afternoon = [
     Call_Activation requester (handoff_to (uuid_at 36) (uuid_at 1)) 2]"

definition noon_world :: "database world" where
  "noon_world = play morning (fresh_world empty_db)"

definition evening_world :: "database world" where
  "evening_world = play afternoon noon_world"

lemma reached_noon: "reached (fresh_world empty_db) noon_world"
  unfolding noon_world_def by (intro reached_play reached_start)

lemma reached_evening: "reached noon_world evening_world"
  unfolding evening_world_def by (intro reached_play reached_start)

lemma noon_facts:
  "map ab_Completed (db_buoys (w_db noon_world)) = [1] \<and>
   map rj_Status (db_jobs (w_db noon_world)) = [''completed'', ''queued'']"
  by code_simp

lemma evening_facts:
  "map rj_Status (db_jobs (w_db evening_world)) = [''activation_pending'', ''queued''] \<and>
   map rj_Version (db_jobs (w_db evening_world)) = [3, 1]"
  by code_simp

lemma database_invariant_witness:
  "distinct (map rj_ID (db_jobs (w_db noon_world))) \<and>
   map ab_Completed (db_buoys (w_db noon_world)) = [1]"
  using database_invariant[OF reached_noon refl] noon_facts by simp

lemma row_histories_witness:
  "(\<exists>new. db_audits (w_db evening_world) = db_audits (w_db noon_world) @ new) \<and>
   map rj_Status (db_jobs (w_db evening_world)) = [''activation_pending'', ''queued'']"
  using row_histories[OF reached_noon reached_evening refl refl] evening_facts by simp

end
