(* ===== verification/Http_Routes.thy ===== *)
theory Http_Routes
  imports Http_Console Service_Calls
begin

text \<open>
  The server as a whole: the route tables of \<open>internal/httpapi/api.go\<close> and
  \<open>console_handlers.go\<close>, the \<open>http.ServeMux\<close> that reads them, and the handlers over both halves of
  the database. \<open>ServeMux\<close> sends a path that is not clean (empty, \<open>.\<close> or \<open>..\<close> segments) back with a
  redirection; the paths here are clean ones.
\<close>

section \<open>Both databases\<close>

text \<open>The tables of the service and those of the console are in one PostgreSQL database.\<close>

record server_db =
  sv_db :: database
  sv_console :: console_db

definition on_db :: "(database, 'a) io \<Rightarrow> (server_db, 'a) io" where
  "on_db m env w =
     (case m env \<lparr>w_db = sv_db (w_db w), w_step = w_step w, w_txn = w_txn w,
         w_broken = w_broken w\<rparr> of
        (r, v) \<Rightarrow> (r, \<lparr>w_db = (w_db w)\<lparr>sv_db := w_db v\<rparr>, w_step = w_step v, w_txn = w_txn v,
          w_broken = w_broken v\<rparr>))"

definition on_console :: "(console_db, 'a) io \<Rightarrow> (server_db, 'a) io" where
  "on_console m env w =
     (case m env \<lparr>w_db = sv_console (w_db w), w_step = w_step w, w_txn = w_txn w,
         w_broken = w_broken w\<rparr> of
        (r, v) \<Rightarrow> (r, \<lparr>w_db = (w_db w)\<lparr>sv_console := w_db v\<rparr>, w_step = w_step v,
          w_txn = w_txn v, w_broken = w_broken v\<rparr>))"

section \<open>Patterns\<close>

datatype segment = Lit string | is_Wild: Wild string

record 'h route =
  rt_method :: string
  rt_pattern :: "segment list"
  rt_handler :: 'h

fun split_path :: "string \<Rightarrow> string list" where
  "split_path [] = [[]]"
| "split_path (c # s) =
     (if c = CHR ''/'' then [] # split_path s
      else case split_path s of [] \<Rightarrow> [[c]] | x # xs \<Rightarrow> (c # x) # xs)"

definition parse_segment :: "string \<Rightarrow> segment" where
  "parse_segment s =
     (if s \<noteq> [] \<and> hd s = CHR ''{'' \<and> last s = CHR ''}'' then Wild (butlast (tl s)) else Lit s)"

text \<open>\<open>mux.HandleFunc("METHOD /path", handler)\<close>\<close>

definition HandleFunc :: "string \<Rightarrow> 'h \<Rightarrow> 'h route" where
  "HandleFunc pattern handler =
     \<lparr>rt_method = takeWhile (\<lambda>c. c \<noteq> CHR '' '') pattern,
      rt_pattern = map parse_segment
        (tl (split_path (tl (dropWhile (\<lambda>c. c \<noteq> CHR '' '') pattern)))),
      rt_handler = handler\<rparr>"

section \<open>ServeMux\<close>

text \<open>The routing tree, as what is left of each pattern below a node: a segment is looked up among
  the literals first and, when that fails further down, among the wildcards, which do not match an
  empty segment.\<close>

definition lit_child :: "string \<Rightarrow> (segment list \<times> 'r) list \<Rightarrow> (segment list \<times> 'r) list" where
  "lit_child s es = map (apfst tl) (filter (\<lambda>e. fst e \<noteq> [] \<and> hd (fst e) = Lit s) es)"

definition wild_child :: "(segment list \<times> 'r) list \<Rightarrow> (segment list \<times> 'r) list" where
  "wild_child es = map (apfst tl) (filter (\<lambda>e. fst e \<noteq> [] \<and> is_Wild (hd (fst e))) es)"

fun match_path :: "(segment list \<times> 'r) list \<Rightarrow> string list \<Rightarrow> ('r \<times> string list) option" where
  "match_path es [] = map_option (\<lambda>e. (snd e, [])) (find (\<lambda>e. fst e = []) es)"
| "match_path es (s # path) =
     (case match_path (lit_child s es) path of
        Some x \<Rightarrow> Some x
      | None \<Rightarrow>
          if s = [] then None
          else map_option (\<lambda>(r, vs). (r, s # vs)) (match_path (wild_child es) path))"

definition match_method ::
  "'h route list \<Rightarrow> string \<Rightarrow> string list \<Rightarrow> ('h route \<times> string list) option" where
  "match_method routes method path =
     match_path (map (\<lambda>r. (rt_pattern r, r)) (filter (\<lambda>r. rt_method r = method) routes)) path"

definition find_route ::
  "'h route list \<Rightarrow> string \<Rightarrow> string list \<Rightarrow> ('h route \<times> string list) option" where
  "find_route routes method path =
     (case match_method routes method path of
        Some x \<Rightarrow> Some x
      | None \<Rightarrow> if method = ''HEAD'' then match_method routes ''GET'' path else None)"

definition matching_methods :: "'h route list \<Rightarrow> string list \<Rightarrow> string list" where
  "matching_methods routes path =
     filter (\<lambda>m. match_method routes m path \<noteq> None) (remdups (map rt_method routes))"

definition PathValue :: "segment list \<Rightarrow> string list \<Rightarrow> string \<Rightarrow> string" where
  "PathValue pattern vs name =
     (let names = concat (map (\<lambda>s. case s of Lit _ \<Rightarrow> [] | Wild n \<Rightarrow> [n]) pattern) in
      case map_of (zip names vs) name of None \<Rightarrow> [] | Some v \<Rightarrow> v)"

type_synonym handler =
  "string \<Rightarrow> http_request \<Rightarrow> (string \<Rightarrow> string) \<Rightarrow> (server_db, response) io"

definition ServeHTTP :: "handler route list \<Rightarrow> string \<Rightarrow> http_request \<Rightarrow> (server_db, response) io" where
  "ServeHTTP routes rid r =
     (case find_route routes (rq_method r) (rq_path r) of
        Some (route, vs) \<Rightarrow> rt_handler route rid r (PathValue (rt_pattern route) vs)
      | None \<Rightarrow>
          io_return
            (if matching_methods routes (rq_path r) = []
               then \<lparr>rs_status = 404, rs_payload = P_Text ''404 page not found''\<rparr>
             else \<lparr>rs_status = 405, rs_payload = P_Text ''Method Not Allowed''\<rparr>))"

section \<open>Routes of the service\<close>

definition health :: "('d, response) io" where
  "health = io_return (writeJSON 200 (P_Status ''alive''))"

text \<open>\<open>ready\<close> is the server's ping of the database, if it is given one.\<close>

definition readyz :: "(nat \<Rightarrow> go_error option) option \<Rightarrow> string \<Rightarrow> ('d, response) io" where
  "readyz ready rid =
     (case ready of
        None \<Rightarrow> io_return (writeJSON 200 (P_Status ''ready''))
      | Some ping \<Rightarrow>
          io_bind (io_read (\<lambda>_ n. ping n)) (\<lambda>err.
            case err of
              Some e \<Rightarrow> io_return (writeError rid e)
            | None \<Rightarrow> io_return (writeJSON 200 (P_Status ''ready''))))"

definition api_routes ::
  "http_lib \<Rightarrow> (nat \<Rightarrow> go_error option) option \<Rightarrow> handler route list" where
  "api_routes lib ready = [
     HandleFunc ''GET /healthz'' (\<lambda>rid r pv. health),
     HandleFunc ''GET /readyz'' (\<lambda>rid r pv. readyz ready rid),
     HandleFunc ''POST /v1/cases'' (\<lambda>rid r pv. on_db (http_createSurveyMission lib rid r)),
     HandleFunc ''POST /v1/cases/{id}/schedule''
       (\<lambda>rid r pv. on_db (http_scheduleSurveyMission lib rid r (pv ''id''))),
     HandleFunc ''POST /v1/cases/{id}/activate''
       (\<lambda>rid r pv. on_db (http_activateSurveyMission lib rid r (pv ''id''))),
     HandleFunc ''POST /v1/cases/{id}/close''
       (\<lambda>rid r pv. on_db (http_closeSurveyMission lib rid r (pv ''id''))),
     HandleFunc ''GET /v1/cases/{id}/progress''
       (\<lambda>rid r pv. on_db (http_survey_missionProgress rid (pv ''id''))),
     HandleFunc ''GET /v1/cases'' (\<lambda>rid r pv. on_db (http_listSurveyMissions rid r)),
     HandleFunc ''GET /v1/cases/{id}/acoustic_buoys''
       (\<lambda>rid r pv. on_db (http_listSurveyMissionAcousticBuoys rid (pv ''id''))),
     HandleFunc ''GET /v1/cases/{id}/report''
       (\<lambda>rid r pv. on_db (http_complianceReport rid (pv ''id''))),
     HandleFunc ''POST /v1/array_operators''
       (\<lambda>rid r pv. on_db (http_createArrayOperator lib rid r)),
     HandleFunc ''GET /v1/array_operators'' (\<lambda>rid r pv. on_db (http_listArrayOperators rid r)),
     HandleFunc ''POST /v1/array_operators/{id}/rename''
       (\<lambda>rid r pv. on_db (http_renameArrayOperator lib rid r (pv ''id''))),
     HandleFunc ''POST /v1/assignments'' (\<lambda>rid r pv. on_db (http_createAssignment lib rid r)),
     HandleFunc ''POST /v1/assignments/{id}/advance''
       (\<lambda>rid r pv. on_db (http_advanceAssignment lib rid r (pv ''id''))),
     HandleFunc ''POST /v1/recovery_jobs'' (\<lambda>rid r pv. on_db (http_createRecoveryJob lib rid r)),
     HandleFunc ''POST /v1/recovery_jobs/{id}/complete''
       (\<lambda>rid r pv. on_db (http_completeRecoveryJob lib rid r (pv ''id''))),
     HandleFunc ''POST /v1/recovery_jobs/{id}/activation''
       (\<lambda>rid r pv. on_db (http_transferRecoveryJob lib rid r (pv ''id''))),
     HandleFunc ''POST /v1/recovery_jobs/{id}/accept''
       (\<lambda>rid r pv. on_db (http_acceptRecoveryJob lib rid r (pv ''id''))),
     HandleFunc ''POST /v1/recovery_jobs/{id}/archive''
       (\<lambda>rid r pv. on_db (http_archiveRecoveryJob lib rid r (pv ''id''))),
     HandleFunc ''GET /v1/recovery_jobs'' (\<lambda>rid r pv. on_db (http_listRecoveryJobs rid r)),
     HandleFunc ''POST /v1/dive_windows'' (\<lambda>rid r pv. on_db (http_createDiveWindow lib rid r)),
     HandleFunc ''POST /v1/dive_windows/{id}/start''
       (\<lambda>rid r pv. on_db (http_startDiveWindow lib rid r (pv ''id''))),
     HandleFunc ''POST /v1/dive_windows/{id}/complete''
       (\<lambda>rid r pv. on_db (http_completeDiveWindow lib rid r (pv ''id''))),
     HandleFunc ''POST /v1/dive_windows/{id}/cancel''
       (\<lambda>rid r pv. on_db (http_cancelDiveWindow lib rid r (pv ''id''))),
     HandleFunc ''POST /v1/signal_recovery_report''
       (\<lambda>rid r pv. on_db (http_submitSignalRecoveryReport lib rid r)),
     HandleFunc ''POST /v1/signal_recovery_report/{id}/review''
       (\<lambda>rid r pv. on_db (http_reviewSignalRecoveryReport lib rid r (pv ''id''))),
     HandleFunc ''POST /v1/integrity_incidents''
       (\<lambda>rid r pv. on_db (http_openIntegrityIncident lib rid r)),
     HandleFunc ''POST /v1/integrity_incidents/{id}/start''
       (\<lambda>rid r pv. on_db (http_startIntegrityIncident lib rid r (pv ''id''))),
     HandleFunc ''POST /v1/integrity_incidents/{id}/close''
       (\<lambda>rid r pv. on_db (http_closeIntegrityIncident lib rid r (pv ''id''))),
     HandleFunc ''GET /v1/audit'' (\<lambda>rid r pv. on_db (http_queryAudit lib rid r)),
     HandleFunc ''GET /v1/audit/{object_type}/{object_id}''
       (\<lambda>rid r pv. on_db (http_auditHistory rid r (pv ''object_type'') (pv ''object_id'')))]"

section \<open>Routes of the console\<close>

definition allRoles :: "ConsoleRole list" where
  "allRoles = [RoleMissionLead, RoleArrayOperator, RoleReviewer]"

definition missionLead :: "ConsoleRole list" where "missionLead = [RoleMissionLead]"

definition leadAndReviewer :: "ConsoleRole list" where
  "leadAndReviewer = [RoleMissionLead, RoleReviewer]"

definition leadAndArrayOperator :: "ConsoleRole list" where
  "leadAndArrayOperator = [RoleMissionLead, RoleArrayOperator]"

text \<open>\<open>a.requireConsoleRole(handler, roles...)\<close> as a row of the table.\<close>

definition gate ::
  "http_lib \<Rightarrow> ConsoleRole list \<Rightarrow>
   (http_request \<Rightarrow> (string \<Rightarrow> string) \<Rightarrow> ConsoleUser \<Rightarrow> string \<Rightarrow> (console_db, response) io) \<Rightarrow>
   handler" where
  "gate lib roles h rid r pv = on_console (requireConsoleRole lib roles (h r pv) r)"

definition console_routes :: "http_lib \<Rightarrow> handler route list" where
  "console_routes lib = [
     HandleFunc ''POST /api/auth/login'' (\<lambda>rid r pv. on_console (consoleLogin lib r)),
     HandleFunc ''GET /api/auth/info''
       (gate lib allRoles (\<lambda>r pv user token. consoleUserInfo user)),
     HandleFunc ''POST /api/auth/logout''
       (gate lib allRoles (\<lambda>r pv user token. consoleLogout lib token)),
     HandleFunc ''GET /api/dashboard/stats''
       (gate lib allRoles (\<lambda>r pv user token. consoleDashboard)),
     HandleFunc ''GET /api/acoustic_buoy/page''
       (gate lib allRoles (\<lambda>r pv user token. consoleAcousticBuoyPage lib r)),
     HandleFunc ''GET /api/acoustic_buoy/list''
       (gate lib allRoles (\<lambda>r pv user token. consoleAcousticBuoyList lib)),
     HandleFunc ''GET /api/acoustic_buoy/{id}''
       (gate lib allRoles (\<lambda>r pv user token. consoleAcousticBuoyByID lib (pv ''id''))),
     HandleFunc ''POST /api/acoustic_buoy''
       (gate lib missionLead (\<lambda>r pv user token. consoleCreateAcousticBuoy lib user r)),
     HandleFunc ''PUT /api/acoustic_buoy''
       (gate lib missionLead (\<lambda>r pv user token. consoleUpdateAcousticBuoy lib user r)),
     HandleFunc ''DELETE /api/acoustic_buoy/{id}''
       (gate lib missionLead (\<lambda>r pv user token. consoleDeleteAcousticBuoy user r (pv ''id''))),
     HandleFunc ''GET /api/array_operator/page''
       (gate lib allRoles (\<lambda>r pv user token. consoleArrayOperatorPage r)),
     HandleFunc ''GET /api/array_operator/list''
       (gate lib allRoles (\<lambda>r pv user token. consoleArrayOperatorList)),
     HandleFunc ''POST /api/array_operator''
       (gate lib missionLead (\<lambda>r pv user token. consoleCreateArrayOperator lib user r)),
     HandleFunc ''PUT /api/array_operator''
       (gate lib missionLead (\<lambda>r pv user token. consoleUpdateArrayOperator lib user r)),
     HandleFunc ''DELETE /api/array_operator/{id}''
       (gate lib missionLead (\<lambda>r pv user token. consoleDeleteArrayOperator user r (pv ''id''))),
     HandleFunc ''GET /api/treatment/page''
       (gate lib allRoles (\<lambda>r pv user token. consoleTreatmentPage r)),
     HandleFunc ''GET /api/treatment/list''
       (gate lib allRoles (\<lambda>r pv user token. consoleTreatmentList)),
     HandleFunc ''POST /api/treatment''
       (gate lib leadAndReviewer (\<lambda>r pv user token. consoleCreateTreatment lib user r)),
     HandleFunc ''PUT /api/treatment''
       (gate lib leadAndReviewer (\<lambda>r pv user token. consoleUpdateTreatment lib user r)),
     HandleFunc ''DELETE /api/treatment/{id}''
       (gate lib missionLead (\<lambda>r pv user token. consoleDeleteTreatment user r (pv ''id''))),
     HandleFunc ''GET /api/work_order/page''
       (gate lib allRoles (\<lambda>r pv user token. consoleWorkOrderPage r)),
     HandleFunc ''POST /api/work_order''
       (gate lib leadAndArrayOperator (\<lambda>r pv user token. consoleCreateWorkOrder lib user r)),
     HandleFunc ''PUT /api/work_order/status''
       (gate lib allRoles (\<lambda>r pv user token. consoleUpdateWorkOrderStatus lib user r)),
     HandleFunc ''GET /api/signal_recovery_report/page''
       (gate lib allRoles (\<lambda>r pv user token. consoleSignalRecoveryReportPage r)),
     HandleFunc ''GET /api/signal_recovery_report/acoustic_buoy/{acoustic_buoyId}''
       (gate lib allRoles (\<lambda>r pv user token. consoleSignalRecoveryReportByAcousticBuoy (pv ''acoustic_buoyId''))),
     HandleFunc ''POST /api/signal_recovery_report''
       (gate lib leadAndArrayOperator (\<lambda>r pv user token. consoleCreateSignalRecoveryReport lib user r)),
     HandleFunc ''GET /api/log/page''
       (gate lib leadAndReviewer (\<lambda>r pv user token. consoleLogPage r))]"

text \<open>\<open>with_console\<close> says whether \<open>WithConsole\<close> has been called, as the server does.\<close>

definition server_routes ::
  "http_lib \<Rightarrow> (nat \<Rightarrow> go_error option) option \<Rightarrow> bool \<Rightarrow> handler route list" where
  "server_routes lib ready with_console =
     api_routes lib ready @ (if with_console then console_routes lib else [])"

definition Handler ::
  "http_lib \<Rightarrow> (nat \<Rightarrow> go_error option) option \<Rightarrow> bool \<Rightarrow> http_request \<Rightarrow>
   (server_db, response) io" where
  "Handler lib ready with_console =
     requestMiddleware (ServeHTTP (server_routes lib ready with_console))"

end
