(* ===== verification/Http_Facts.thy ===== *)
theory Http_Facts
  imports Http_Routes
begin

text \<open>
  Properties of the server as a whole: which handler a request reaches, who may call the console,
  and what no sequence of requests can break.
\<close>

section \<open>What a pattern matches\<close>

definition seg_matches :: "segment \<Rightarrow> string \<Rightarrow> bool" where
  "seg_matches a s = (case a of Lit t \<Rightarrow> s = t | Wild _ \<Rightarrow> s \<noteq> [])"

definition pattern_matches :: "segment list \<Rightarrow> string list \<Rightarrow> bool" where
  "pattern_matches p path = list_all2 seg_matches p path"

fun wild_values :: "segment list \<Rightarrow> string list \<Rightarrow> string list" where
  "wild_values (Wild _ # p) (s # path) = s # wild_values p path"
| "wild_values (Lit _ # p) (s # path) = wild_values p path"
| "wild_values _ _ = []"

text \<open>\<open>p\<close> matches only paths that \<open>q\<close> matches.\<close>

definition seg_within :: "segment \<Rightarrow> segment \<Rightarrow> bool" where
  "seg_within a b = (case b of Lit t \<Rightarrow> a = Lit t | Wild _ \<Rightarrow> a \<noteq> Lit [])"

definition narrower :: "segment list \<Rightarrow> segment list \<Rightarrow> bool" where
  "narrower p q = list_all2 seg_within p q"

definition seg_meets :: "segment \<Rightarrow> segment \<Rightarrow> bool" where
  "seg_meets a b = (case (a, b) of (Lit s, Lit t) \<Rightarrow> s = t | _ \<Rightarrow> True)"

text \<open>Two patterns are clear of each other when no path matches both, or one lies strictly within the
  other.\<close>

definition clear_of :: "segment list \<Rightarrow> segment list \<Rightarrow> bool" where
  "clear_of p q \<longleftrightarrow> \<not> list_all2 seg_meets p q \<or> narrower p q \<and> \<not> narrower q p \<or> narrower q p \<and> \<not> narrower p q"

lemma pattern_matches_simps [simp]:
  "pattern_matches [] path \<longleftrightarrow> path = []"
  "pattern_matches p [] \<longleftrightarrow> p = []"
  "pattern_matches (a # p) (s # path) \<longleftrightarrow> seg_matches a s \<and> pattern_matches p path"
  by (simp_all add: pattern_matches_def)

lemma seg_matches_simps [simp]:
  "seg_matches (Lit t) s \<longleftrightarrow> s = t" "seg_matches (Wild n) s \<longleftrightarrow> s \<noteq> []"
  by (simp_all add: seg_matches_def)

lemma seg_rules [simp]:
  "seg_meets (Lit s) (Lit t) \<longleftrightarrow> s = t" "seg_meets (Wild n) b" "seg_meets a (Wild m)"
  "seg_within (Lit s) (Lit t) \<longleftrightarrow> s = t" "\<not> seg_within (Wild n) (Lit t)"
  "seg_within (Lit s) (Wild m) \<longleftrightarrow> s \<noteq> []" "seg_within (Wild n) (Wild m)"
  by (auto simp: seg_meets_def seg_within_def split: segment.splits)

lemma narrower_simps [simp]:
  "narrower [] q \<longleftrightarrow> q = []" "narrower p [] \<longleftrightarrow> p = []"
  "narrower (a # p) (b # q) \<longleftrightarrow> seg_within a b \<and> narrower p q"
  by (simp_all add: narrower_def)

lemma matches_meet: "pattern_matches p path \<Longrightarrow> pattern_matches q path \<Longrightarrow> list_all2 seg_meets p q"
proof (induction p arbitrary: q path)
  case (Cons a p)
  then obtain s path' where path: "path = s # path'" by (cases path) auto
  with Cons.prems obtain b q' where q: "q = b # q'" by (cases q) auto
  from path q Cons.prems have "seg_meets a b" by (cases a; cases b) auto
  moreover have "list_all2 seg_meets p q'" using path q Cons.prems by (intro Cons.IH) auto
  ultimately show ?case using q by simp
qed simp

section \<open>The routing tree\<close>

lemma lit_child_iff: "(p, r) \<in> set (lit_child s es) \<longleftrightarrow> (Lit s # p, r) \<in> set es"
  unfolding lit_child_def set_map set_filter
  by (auto simp: image_iff neq_Nil_conv intro!: bexI[of _ "(Lit s # p, r)"])

lemma wild_child_iff: "(p, r) \<in> set (wild_child es) \<longleftrightarrow> (\<exists>n. (Wild n # p, r) \<in> set es)"
proof
  assume "(p, r) \<in> set (wild_child es)"
  then show "\<exists>n. (Wild n # p, r) \<in> set es"
    by (auto simp: wild_child_def neq_Nil_conv is_Wild_def)
next
  assume "\<exists>n. (Wild n # p, r) \<in> set es"
  then obtain n where "(Wild n # p, r) \<in> set es" by blast
  then show "(p, r) \<in> set (wild_child es)"
    by (auto simp: wild_child_def image_iff intro!: bexI[of _ "(Wild n # p, r)"])
qed

text \<open>At the first segment where two patterns differ in kind, the first has the literal.\<close>

fun literal_first :: "segment list \<Rightarrow> segment list \<Rightarrow> bool" where
  "literal_first (Lit _ # p) (Wild _ # q) = True"
| "literal_first (Wild _ # p) (Lit _ # q) = False"
| "literal_first (_ # p) (_ # q) = literal_first p q"
| "literal_first _ _ = True"

lemma match_path_None: "match_path es path = None \<longleftrightarrow> (\<forall>(p, r) \<in> set es. \<not> pattern_matches p path)"
proof (induction es path rule: match_path.induct)
  case (1 es)
  show ?case by (auto simp: find_None_iff)
next
  case (2 es s path)
  have "(\<forall>(p, r) \<in> set es. \<not> pattern_matches p (s # path)) \<longleftrightarrow>
      (\<forall>(p, r) \<in> set (lit_child s es). \<not> pattern_matches p path) \<and>
      (s \<noteq> [] \<longrightarrow> (\<forall>(p, r) \<in> set (wild_child es). \<not> pattern_matches p path))"
    (is "?all \<longleftrightarrow> ?lits \<and> ?wilds")
  proof
    assume ?all
    then show "?lits \<and> ?wilds" by (fastforce simp: lit_child_iff wild_child_iff)
  next
    assume children: "?lits \<and> ?wilds"
    have "\<not> pattern_matches p (s # path)" if "(p, r) \<in> set es" for p r
    proof (cases p)
      case (Cons a q)
      with that children show ?thesis
        by (cases a) (fastforce simp: lit_child_iff wild_child_iff)+
    qed simp
    then show ?all by blast
  qed
  with 2 show ?case by (auto split: option.splits)
qed

lemma match_path_Some:
  "match_path es path = Some (r, vs) \<Longrightarrow>
   \<exists>p. (p, r) \<in> set es \<and> pattern_matches p path \<and> vs = wild_values p path \<and>
     (\<forall>(q, t) \<in> set es. pattern_matches q path \<longrightarrow> literal_first p q)"
proof (induction es path arbitrary: r vs rule: match_path.induct)
  case (1 es)
  then show ?case by (force simp: find_Some_iff set_conv_nth prod_eq_iff)
next
  case (2 es s path)
  show ?case
  proof (cases "match_path (lit_child s es) path")
    case (Some x)
    with 2 obtain p where "(p, r) \<in> set (lit_child s es)" "pattern_matches p path"
      "vs = wild_values p path"
      "\<forall>(q, t) \<in> set (lit_child s es). pattern_matches q path \<longrightarrow> literal_first p q" by fastforce
    moreover have "literal_first (Lit s # p) q" if q: "(q, t) \<in> set es" "pattern_matches q (s # path)"
      for q t
    proof (cases q)
      case (Cons a q')
      with q calculation show ?thesis by (cases a) (fastforce simp: lit_child_iff)+
    qed simp
    ultimately show ?thesis
      by (intro exI[of _ "Lit s # p"]) (auto simp: lit_child_iff)
  next
    case None
    with 2(3) obtain vs' where vs: "s \<noteq> []" "match_path (wild_child es) path = Some (r, vs')"
      "vs = s # vs'" by (auto split: if_splits)
    from 2(2)[OF None vs(1,2)] obtain p n where p: "(Wild n # p, r) \<in> set es"
      "pattern_matches p path" "vs' = wild_values p path"
      "\<forall>(q, t) \<in> set (wild_child es). pattern_matches q path \<longrightarrow> literal_first p q"
      by (auto simp: wild_child_iff)
    have "literal_first (Wild n # p) q" if q: "(q, t) \<in> set es" "pattern_matches q (s # path)" for q t
    proof (cases q)
      case (Cons a q')
      with q p(4) None show ?thesis
        by (cases a) (fastforce simp: lit_child_iff wild_child_iff match_path_None)+
    qed simp
    with p vs show ?thesis by (intro exI[of _ "Wild n # p"]) auto
  qed
qed

lemma literal_first_narrower: "literal_first p q \<Longrightarrow> narrower q p \<Longrightarrow> narrower p q"
  by (induction p q rule: literal_first.induct) auto

section \<open>The server's table\<close>

text \<open>The tables as the patterns are parsed.\<close>

definition api_table :: "(string \<times> segment list) list" where
  "api_table = [
     (''GET'', [Lit ''healthz'']),
     (''GET'', [Lit ''readyz'']),
     (''POST'', [Lit ''v1'', Lit ''cases'']),
     (''POST'', [Lit ''v1'', Lit ''cases'', Wild ''id'', Lit ''schedule'']),
     (''POST'', [Lit ''v1'', Lit ''cases'', Wild ''id'', Lit ''activate'']),
     (''POST'', [Lit ''v1'', Lit ''cases'', Wild ''id'', Lit ''close'']),
     (''GET'', [Lit ''v1'', Lit ''cases'', Wild ''id'', Lit ''progress'']),
     (''GET'', [Lit ''v1'', Lit ''cases'']),
     (''GET'', [Lit ''v1'', Lit ''cases'', Wild ''id'', Lit ''acoustic_buoys'']),
     (''GET'', [Lit ''v1'', Lit ''cases'', Wild ''id'', Lit ''report'']),
     (''POST'', [Lit ''v1'', Lit ''array_operators'']),
     (''GET'', [Lit ''v1'', Lit ''array_operators'']),
     (''POST'', [Lit ''v1'', Lit ''array_operators'', Wild ''id'', Lit ''rename'']),
     (''POST'', [Lit ''v1'', Lit ''assignments'']),
     (''POST'', [Lit ''v1'', Lit ''assignments'', Wild ''id'', Lit ''advance'']),
     (''POST'', [Lit ''v1'', Lit ''recovery_jobs'']),
     (''POST'', [Lit ''v1'', Lit ''recovery_jobs'', Wild ''id'', Lit ''complete'']),
     (''POST'', [Lit ''v1'', Lit ''recovery_jobs'', Wild ''id'', Lit ''activation'']),
     (''POST'', [Lit ''v1'', Lit ''recovery_jobs'', Wild ''id'', Lit ''accept'']),
     (''POST'', [Lit ''v1'', Lit ''recovery_jobs'', Wild ''id'', Lit ''archive'']),
     (''GET'', [Lit ''v1'', Lit ''recovery_jobs'']),
     (''POST'', [Lit ''v1'', Lit ''dive_windows'']),
     (''POST'', [Lit ''v1'', Lit ''dive_windows'', Wild ''id'', Lit ''start'']),
     (''POST'', [Lit ''v1'', Lit ''dive_windows'', Wild ''id'', Lit ''complete'']),
     (''POST'', [Lit ''v1'', Lit ''dive_windows'', Wild ''id'', Lit ''cancel'']),
     (''POST'', [Lit ''v1'', Lit ''signal_recovery_report'']),
     (''POST'', [Lit ''v1'', Lit ''signal_recovery_report'', Wild ''id'', Lit ''review'']),
     (''POST'', [Lit ''v1'', Lit ''integrity_incidents'']),
     (''POST'', [Lit ''v1'', Lit ''integrity_incidents'', Wild ''id'', Lit ''start'']),
     (''POST'', [Lit ''v1'', Lit ''integrity_incidents'', Wild ''id'', Lit ''close'']),
     (''GET'', [Lit ''v1'', Lit ''audit'']),
     (''GET'', [Lit ''v1'', Lit ''audit'', Wild ''object_type'', Wild ''object_id''])]"

definition console_table :: "(string \<times> segment list) list" where
  "console_table = [
     (''POST'', [Lit ''api'', Lit ''auth'', Lit ''login'']),
     (''GET'', [Lit ''api'', Lit ''auth'', Lit ''info'']),
     (''POST'', [Lit ''api'', Lit ''auth'', Lit ''logout'']),
     (''GET'', [Lit ''api'', Lit ''dashboard'', Lit ''stats'']),
     (''GET'', [Lit ''api'', Lit ''acoustic_buoy'', Lit ''page'']),
     (''GET'', [Lit ''api'', Lit ''acoustic_buoy'', Lit ''list'']),
     (''GET'', [Lit ''api'', Lit ''acoustic_buoy'', Wild ''id'']),
     (''POST'', [Lit ''api'', Lit ''acoustic_buoy'']),
     (''PUT'', [Lit ''api'', Lit ''acoustic_buoy'']),
     (''DELETE'', [Lit ''api'', Lit ''acoustic_buoy'', Wild ''id'']),
     (''GET'', [Lit ''api'', Lit ''array_operator'', Lit ''page'']),
     (''GET'', [Lit ''api'', Lit ''array_operator'', Lit ''list'']),
     (''POST'', [Lit ''api'', Lit ''array_operator'']),
     (''PUT'', [Lit ''api'', Lit ''array_operator'']),
     (''DELETE'', [Lit ''api'', Lit ''array_operator'', Wild ''id'']),
     (''GET'', [Lit ''api'', Lit ''treatment'', Lit ''page'']),
     (''GET'', [Lit ''api'', Lit ''treatment'', Lit ''list'']),
     (''POST'', [Lit ''api'', Lit ''treatment'']),
     (''PUT'', [Lit ''api'', Lit ''treatment'']),
     (''DELETE'', [Lit ''api'', Lit ''treatment'', Wild ''id'']),
     (''GET'', [Lit ''api'', Lit ''work_order'', Lit ''page'']),
     (''POST'', [Lit ''api'', Lit ''work_order'']),
     (''PUT'', [Lit ''api'', Lit ''work_order'', Lit ''status'']),
     (''GET'', [Lit ''api'', Lit ''signal_recovery_report'', Lit ''page'']),
     (''GET'', [Lit ''api'', Lit ''signal_recovery_report'', Lit ''acoustic_buoy'', Wild ''acoustic_buoyId'']),
     (''POST'', [Lit ''api'', Lit ''signal_recovery_report'']),
     (''GET'', [Lit ''api'', Lit ''log'', Lit ''page''])]"

definition table_of :: "'h route list \<Rightarrow> (string \<times> segment list) list" where
  "table_of rs = map (\<lambda>r. (rt_method r, rt_pattern r)) rs"

definition table_clear :: "(string \<times> segment list) list \<Rightarrow> bool" where
  "table_clear t = sorted_wrt (\<lambda>r q. fst r \<noteq> fst q \<or> clear_of (snd r) (snd q)) t"

lemma api_table: "table_of (api_routes lib ready) = api_table"
  by code_simp

lemma console_table: "table_of (console_routes lib) = console_table"
  by code_simp

lemma api_table_clear: "table_clear api_table"
  by code_simp

lemma console_table_clear: "table_clear console_table"
  by code_simp

lemma tables_apart:
  "list_all (\<lambda>r. list_all (\<lambda>q. \<not> list_all2 seg_meets (snd r) (snd q)) console_table) api_table"
  by code_simp

lemma tables_no_head: "list_all (\<lambda>r. fst r \<noteq> ''HEAD'') (api_table @ console_table)"
  by code_simp

lemma server_table:
  "table_of (server_routes lib ready with_console) =
     api_table @ (if with_console then console_table else [])"
  using api_table[of lib ready] console_table[of lib]
  by (simp add: server_routes_def table_of_def)

lemma server_table_clear: "table_clear (table_of (server_routes lib ready with_console))"
proof (cases with_console)
  case True
  have "clear_of (snd r) (snd q)" if "r \<in> set api_table" "q \<in> set console_table" for r q
    using tables_apart that by (simp add: list_all_iff clear_of_def)
  with True show ?thesis
    using api_table_clear console_table_clear
    by (simp add: server_table table_clear_def sorted_wrt_append)
qed (simp add: server_table api_table_clear)

lemma seg_meets_sym: "seg_meets a b \<longleftrightarrow> seg_meets b a"
  by (cases a; cases b) auto

lemma meets_sym: "list_all2 seg_meets p q \<longleftrightarrow> list_all2 seg_meets q p"
  unfolding list_all2_conv_all_nth using seg_meets_sym by metis

lemma clear_of_sym: "clear_of p q \<Longrightarrow> clear_of q p"
  unfolding clear_of_def using meets_sym[of p q] by blast

lemma clear_rows:
  assumes "table_clear (table_of rs)" "r \<in> set rs" "q \<in> set rs" "r \<noteq> q" "rt_method r = rt_method q"
  shows "clear_of (rt_pattern r) (rt_pattern q)"
proof -
  have sorted: "sorted_wrt (\<lambda>r q. rt_method r \<noteq> rt_method q \<or>
      clear_of (rt_pattern r) (rt_pattern q)) rs"
    using assms(1) by (simp add: table_clear_def table_of_def sorted_wrt_map)
  obtain i j where ij: "i < length rs" "j < length rs" "rs ! i = r" "rs ! j = q"
    using assms(2,3) unfolding in_set_conv_nth by blast
  with assms(4) consider "i < j" | "j < i" by (metis nat_neq_iff)
  then show ?thesis
  proof cases
    case 1
    from sorted_wrt_nth_less[OF sorted this ij(2)] show ?thesis using ij assms(5) by simp
  next
    case 2
    from sorted_wrt_nth_less[OF sorted this ij(1)] show ?thesis
      using ij assms(5) by (simp add: clear_of_sym)
  qed
qed

lemma server_no_head:
  assumes "q \<in> set (server_routes lib ready with_console)"
  shows "rt_method q \<noteq> ''HEAD''"
proof -
  have "set (table_of (server_routes lib ready with_console)) \<subseteq> set (api_table @ console_table)"
    unfolding server_table by (cases with_console) simp_all
  then show ?thesis
    using tables_no_head assms by (fastforce simp: table_of_def list_all_iff simp del: set_append)
qed

text \<open>The rows a method may reach: its own and, for HEAD, those of GET.\<close>

definition serves :: "string \<Rightarrow> 'h route \<Rightarrow> bool" where
  "serves method r \<longleftrightarrow> rt_method r = method \<or> method = ''HEAD'' \<and> rt_method r = ''GET''"

lemma match_method_None:
  "match_method rs method path = None \<longleftrightarrow>
     (\<forall>r \<in> set rs. rt_method r = method \<longrightarrow> \<not> pattern_matches (rt_pattern r) path)"
  by (auto simp: match_method_def match_path_None)

lemma match_method_Some:
  assumes "table_clear (table_of rs)" "match_method rs method path = Some (r, vs)"
  shows "r \<in> set rs \<and> rt_method r = method \<and> pattern_matches (rt_pattern r) path \<and>
    vs = wild_values (rt_pattern r) path \<and>
    (\<forall>q \<in> set rs. rt_method q = method \<longrightarrow> pattern_matches (rt_pattern q) path \<longrightarrow>
       q = r \<or> narrower (rt_pattern r) (rt_pattern q) \<and> \<not> narrower (rt_pattern q) (rt_pattern r))"
proof -
  from match_path_Some[OF assms(2)[unfolded match_method_def]]
  have r: "r \<in> set rs" "rt_method r = method" "pattern_matches (rt_pattern r) path"
    "vs = wild_values (rt_pattern r) path"
    and lit: "\<And>q. q \<in> set rs \<Longrightarrow> rt_method q = method \<Longrightarrow> pattern_matches (rt_pattern q) path \<Longrightarrow>
      literal_first (rt_pattern r) (rt_pattern q)" by fastforce+
  have "narrower (rt_pattern r) (rt_pattern q) \<and> \<not> narrower (rt_pattern q) (rt_pattern r)"
    if q: "q \<in> set rs" "rt_method q = method" "pattern_matches (rt_pattern q) path" "q \<noteq> r" for q
    using clear_rows[OF assms(1) r(1) q(1)] matches_meet[OF r(3) q(3)] q r(2)
      literal_first_narrower[OF lit[OF q(1-3)]]
    by (auto simp: clear_of_def)
  with r show ?thesis by blast
qed

text \<open>C8: every request reaches the one row of the table whose pattern is narrower than that of any
  other row that matches, whatever the order of registration; it is not found, or its method is
  not allowed, exactly when no row matches. No two patterns clash, so \<open>HandleFunc\<close> does not panic.\<close>

theorem route_dispatch:
  fixes ready :: "(nat \<Rightarrow> go_error option) option"
  assumes "rs = server_routes lib ready with_console"
  shows "(find_route rs method path = None \<longleftrightarrow>
      (\<forall>q \<in> set rs. serves method q \<longrightarrow> \<not> pattern_matches (rt_pattern q) path)) \<and>
    (\<forall>r vs. find_route rs method path = Some (r, vs) \<longrightarrow>
      r \<in> set rs \<and> serves method r \<and> pattern_matches (rt_pattern r) path \<and>
      vs = wild_values (rt_pattern r) path \<and>
      (\<forall>q \<in> set rs. serves method q \<and> pattern_matches (rt_pattern q) path \<longrightarrow>
         q = r \<or> narrower (rt_pattern r) (rt_pattern q) \<and> \<not> narrower (rt_pattern q) (rt_pattern r)))"
proof -
  have clear: "table_clear (table_of rs)" using server_table_clear assms by blast
  have no_head: "rt_method q \<noteq> ''HEAD''" if "q \<in> set rs" for q
    using that server_no_head assms by blast
  then have rows: "serves method q \<longleftrightarrow> rt_method q = (if method = ''HEAD'' then ''GET'' else method)"
    if "q \<in> set rs" for q using that by (auto simp: serves_def)
  have none: "match_method rs ''HEAD'' path = None"
    using no_head by (auto simp: match_method_None)
  then have find: "find_route rs method path =
      match_method rs (if method = ''HEAD'' then ''GET'' else method) path"
    by (simp add: find_route_def split: option.split)
  show ?thesis
    unfolding find using match_method_Some[OF clear] rows by (fastforce simp: match_method_None)
qed

end
