(* ===== verification/Http_History.thy ===== *)
theory Http_History
  imports Http_Facts
begin

text \<open>
  What no sequence of requests can break: every handler keeps what the calls it makes keep, so the
  invariants of the service and of the console hold of the server.
\<close>

section \<open>Handlers keep what their calls keep\<close>

context db_history
begin

lemma keeps_respond [keeps_rules]:
  assumes "keeps R env m"
  shows "keeps R env (respond m ok bad)"
proof (rule keepsI)
  fix w r w'
  assume "respond m ok bad env w = (r, w')"
  then obtain s where "m env w = (s, w')"
    by (auto simp: respond_def split: prod.splits sum.splits)
  then show "R (w_db w) (w_db w')" using keepsD[OF assms] by blast
qed

lemma keeps_decode_body [keeps_rules]:
  "(\<And>x. keeps R env (handler x)) \<Longrightarrow> keeps R env (decode_body rid body handler)"
  by (cases body) (simp_all add: decode_body_def keeps_return)

lemma keeps_decodeConsole [keeps_rules]:
  "(\<And>x. keeps R env (handler x)) \<Longrightarrow> keeps R env (decodeConsole body handler)"
  by (cases body) (simp_all add: decodeConsole_def keeps_return)

lemma keeps_ignore [keeps_rules]: "keeps R env m \<Longrightarrow> keeps R env (io_ignore m)"
  by (simp add: keeps_def io_ignore_def)

lemma keeps_validate [keeps_rules]:
  "keeps R env handler \<Longrightarrow> keeps R env (validateConsoleName name handler)"
  by (simp add: validateConsoleName_def keeps_return)

lemma keeps_sum [keeps_rules]:
  "(\<And>e. x = Inl e \<Longrightarrow> keeps R env (f e)) \<Longrightarrow> (\<And>y. x = Inr y \<Longrightarrow> keeps R env (g y)) \<Longrightarrow>
   keeps R env (case x of Inl e \<Rightarrow> f e | Inr y \<Rightarrow> g y)"
  by (cases x) simp_all

lemma keeps_pair [keeps_rules]:
  "(\<And>a b. keeps R env (f a b)) \<Longrightarrow> keeps R env (case x of (a, b) \<Rightarrow> f a b)"
  by (cases x) simp

end

lemmas api_handler_defs = Let_def http_createSurveyMission_def http_scheduleSurveyMission_def
  http_activateSurveyMission_def http_closeSurveyMission_def http_advanceSurveyMission_def
  http_survey_missionProgress_def http_listSurveyMissions_def
  http_listSurveyMissionAcousticBuoys_def http_complianceReport_def http_createArrayOperator_def
  http_listArrayOperators_def http_renameArrayOperator_def http_createAssignment_def
  http_advanceAssignment_def http_createRecoveryJob_def http_completeRecoveryJob_def
  http_archiveRecoveryJob_def http_moveRecoveryJob_def http_transferRecoveryJob_def
  http_acceptRecoveryJob_def http_activation_def http_listRecoveryJobs_def
  http_createDiveWindow_def http_startDiveWindow_def http_completeDiveWindow_def
  http_cancelDiveWindow_def http_changeDiveWindow_def http_submitSignalRecoveryReport_def
  http_reviewSignalRecoveryReport_def http_openIntegrityIncident_def
  http_closeIntegrityIncident_def http_startIntegrityIncident_def http_queryAudit_def
  http_auditHistory_def

definition server_good :: "server_db \<Rightarrow> server_db \<Rightarrow> bool" where
  "server_good a b \<longleftrightarrow>
     good (sv_db a) (sv_db b) \<and> console_good (sv_console a) (sv_console b)"

interpretation server: db_history server_good
  by unfold_locales (auto simp: server_good_def intro: good.R_refl good.R_trans console.R_refl
    console.R_trans)

lemma server_on_db [keeps_rules]:
  assumes "keeps good env m"
  shows "keeps server_good env (on_db m)"
proof (rule keepsI)
  fix w r w'
  assume run: "on_db m env w = (r, w')"
  obtain s v where m: "m env \<lparr>w_db = sv_db (w_db w), w_step = w_step w, w_txn = w_txn w,
      w_broken = w_broken w\<rparr> = (s, v)" by fastforce
  with run have "w_db w' = (w_db w)\<lparr>sv_db := w_db v\<rparr>" by (auto simp: on_db_def)
  then show "server_good (w_db w) (w_db w')"
    using keepsD[OF assms m] by (simp add: server_good_def console.R_refl)
qed

lemma server_on_console [keeps_rules]:
  assumes "keeps console_good env m"
  shows "keeps server_good env (on_console m)"
proof (rule keepsI)
  fix w r w'
  assume run: "on_console m env w = (r, w')"
  obtain s v where m: "m env \<lparr>w_db = sv_console (w_db w), w_step = w_step w, w_txn = w_txn w,
      w_broken = w_broken w\<rparr> = (s, v)" by fastforce
  with run have "w_db w' = (w_db w)\<lparr>sv_console := w_db v\<rparr>" by (auto simp: on_console_def)
  then show "server_good (w_db w) (w_db w')"
    using keepsD[OF assms m] by (simp add: server_good_def good.R_refl)
qed

lemma good_reading_handlers [keeps_rules]:
  "keeps good env (service_SurveyMissionProgress i)" "keeps good env (ListSurveyMissions f)"
  "keeps good env (ListSurveyMissionAcousticBuoys i)" "keeps good env (service_ComplianceReport i)"
  "keeps good env (ListArrayOperators role limit offset)" "keeps good env (LoadArrayOperator i)"
  "keeps good env (NewAssignment mission buoy operator starts ends)"
  "keeps good env (ListRecoveryJobs offset limit mission status)"
  "keeps good env (QueryAudit g from to limit offset)"
  "keeps good env (AuditHistory object_type object_id limit)"
  unfolding service_SurveyMissionProgress_def ListSurveyMissions_def
    ListSurveyMissionAcousticBuoys_def service_ComplianceReport_def ListArrayOperators_def
    LoadArrayOperator_def NewAssignment_def ListRecoveryJobs_def QueryAudit_def AuditHistory_def
    survey_missionProgress_def repo_ListSurveyMissions_def repo_ListSurveyMissionAcousticBuoys_def
    repo_ComplianceReport_def repo_ListArrayOperators_def listRecoveryJobs_def repo_QueryAudit_def
    repo_AuditHistory_def ExpiringRecoveryJobsForSurveyMission_def OpenIntegrityIncidentCount_def
    expiringRecoveryJobs_def getArrayOperator_def Let_def
  by (intro keeps_rules)+

lemma api_routes_good:
  "\<forall>r \<in> set (api_routes lib ready). keeps server_good env (rt_handler r rid rq pv)"
  unfolding api_routes_def HandleFunc_def health_def readyz_def
  by (simp only: list.set ball_simps route.simps; intro conjI TrueI keeps_rules;
      (simp only: api_handler_defs)?; (intro keeps_rules)?)

lemma console_store_good [keeps_rules]:
  "keeps console_good env (console_Login clib username password ttl)"
  "keeps console_good env (UserBySession clib token)"
  "keeps console_good env (console_RevokeSession clib token)"
  "keeps console_good env Dashboard" "keeps console_good env (WriteLog a b c ip)"
  "keeps console_good env (AcousticBuoyPage clib current per_page keyword)"
  "keeps console_good env (AcousticBuoyList clib)" "keeps console_good env (AcousticBuoyByID clib i)"
  "keeps console_good env (CreateAcousticBuoy clib buoy)"
  "keeps console_good env (UpdateAcousticBuoy clib buoy)"
  "keeps console_good env (DeleteAcousticBuoy i)"
  "keeps console_good env (ArrayOperatorPage current per_page keyword)"
  "keeps console_good env ArrayOperatorList"
  "keeps console_good env (console_CreateArrayOperator operator)"
  "keeps console_good env (UpdateArrayOperator operator)"
  "keeps console_good env (DeleteArrayOperator i)"
  "keeps console_good env (TreatmentPage current per_page keyword)"
  "keeps console_good env TreatmentList" "keeps console_good env (CreateTreatment clib profile)"
  "keeps console_good env (UpdateTreatment clib profile)" "keeps console_good env (DeleteTreatment i)"
  "keeps console_good env (WorkOrderPage current per_page)"
  "keeps console_good env (CreateWorkOrder order)"
  "keeps console_good env (UpdateWorkOrderStatus i status)"
  "keeps console_good env (SignalRecoveryReportPage current per_page i)"
  "keeps console_good env (CreateSignalRecoveryReport clib report)"
  "keeps console_good env (LogPage current per_page)"
  unfolding console_store_defs by (intro keeps_rules console_UpdateWorkOrderStatus; assumption?)+

lemma console_gate_good [keeps_rules]:
  assumes "\<And>user token. keeps console_good env (h user token)"
  shows "keeps console_good env (requireConsoleRole lib roles h r)"
proof (rule keepsI)
  fix w s w'
  assume run: "requireConsoleRole lib roles h r env w = (s, w')"
  obtain a w1 where u: "UserBySession (hl_console lib) (bearerToken r) env w = (a, w1)" by fastforce
  have one: "console_good (w_db w) (w_db w1)" using keepsD[OF console_store_good(2) u] .
  show "console_good (w_db w) (w_db w')"
    using run u one keepsD[OF assms] console.R_refl console.R_trans[OF one]
    by (cases a) (auto simp: requireConsoleRole_def Let_def split: if_splits)
qed

lemmas console_handler_defs = Let_def gate_def logged_def consoleWriteResult_def
  recordConsoleOperation_def consoleLogin_def consoleUserInfo_def consoleLogout_def
  consoleDashboard_def consoleAcousticBuoyPage_def consoleAcousticBuoyList_def
  consoleAcousticBuoyByID_def consoleCreateAcousticBuoy_def consoleUpdateAcousticBuoy_def
  consoleDeleteAcousticBuoy_def consoleArrayOperatorPage_def consoleArrayOperatorList_def
  consoleCreateArrayOperator_def consoleUpdateArrayOperator_def consoleDeleteArrayOperator_def
  consoleTreatmentPage_def consoleTreatmentList_def consoleCreateTreatment_def
  consoleUpdateTreatment_def consoleDeleteTreatment_def consoleWorkOrderPage_def
  consoleCreateWorkOrder_def consoleUpdateWorkOrderStatus_def consoleSignalRecoveryReportPage_def
  consoleSignalRecoveryReportByAcousticBuoy_def consoleCreateSignalRecoveryReport_def
  consoleLogPage_def

lemma console_routes_good:
  "\<forall>r \<in> set (console_routes lib). keeps server_good env (rt_handler r rid rq pv)"
  unfolding console_routes_def HandleFunc_def
  by (simp only: list.set ball_simps route.simps; intro conjI TrueI;
      simp only: console_handler_defs; intro keeps_rules;
      (simp only: consoleLogout_def; intro keeps_rules)?)

lemma Handler_good: "keeps server_good env (Handler lib ready with_console r)"
proof -
  let ?rs = "server_routes lib ready with_console"
  have row: "keeps server_good env (rt_handler route rid rq pv)" if "route \<in> set ?rs" for route rid rq pv
    using that api_routes_good console_routes_good
    by (auto simp: server_routes_def split: if_splits)
  have "keeps server_good env (ServeHTTP ?rs rid r)" for rid
  proof (cases "find_route ?rs (rq_method r) (rq_path r)")
    case None
    then show ?thesis by (simp add: ServeHTTP_def server.keeps_return)
  next
    case (Some x)
    obtain route vs where x: "x = (route, vs)" by fastforce
    with Some have "route \<in> set ?rs" using route_dispatch[OF refl] by blast
    with Some x show ?thesis by (simp add: ServeHTTP_def row)
  qed
  then show ?thesis unfolding Handler_def requestMiddleware_def by (intro keeps_rules)
qed

text \<open>Worlds the server reaches: by requests, each in an environment of its own, and by the calls of
  the workers and of anything else that uses the service.\<close>

inductive server_reached :: "server_db world \<Rightarrow> server_db world \<Rightarrow> bool" where
  server_start: "server_reached w w"
| server_request: "server_reached w w1 \<Longrightarrow>
    server_reached w (snd (Handler lib ready with_console r env w1))"
| server_call: "server_reached w w1 \<Longrightarrow> server_reached w (snd (on_db (serve c) env w1))"

lemma server_reached_good: "server_reached w w' \<Longrightarrow> server_good (w_db w) (w_db w')"
proof (induction rule: server_reached.induct)
  case (server_request w w1 lib ready with_console r env)
  then show ?case
    using Handler_good[of env lib ready with_console r] server.R_trans by (auto simp: keeps_def)
next
  case (server_call w w1 c env)
  then show ?case
    using server_on_db[OF good_serve, of env c] server.R_trans by (auto simp: keeps_def)
qed (rule server.R_refl)

text \<open>C3: no sequence of requests, good or bad, interleaved with the workers and with whatever fails,
  breaks the server's data: the tables of the service and of the console keep their constraints;
  missions, dive windows and assignments move along their status tables, reports from pending to
  verified or rejected, work orders along pending, taken, completed or to cancelled, one move for
  every increment of the version; and the two audit trails only grow. Recovery jobs do not keep to
  their status table: besides its moves a job may come from any status to activation_pending,
  accepted, verified or rejected, because handoffs, reviews and the expiry set these statuses whatever
  the status was; still one for every increment of the version, and its identity, its code and its
  expiry never change.\<close>

theorem server_invariant:
  assumes "server_reached w w'" "db_ok (sv_db (w_db w))" "console_ok (sv_console (w_db w))"
    and "d = sv_db (w_db w)" "d' = sv_db (w_db w')"
    and "c = sv_console (w_db w)" "c' = sv_console (w_db w')"
  shows "db_ok d' \<and> console_ok c' \<and> history d d' \<and> console_history c c' \<and>
    (\<forall>k < length (db_missions d). k < length (db_missions d') \<and>
      (let p = db_missions d ! k; q = db_missions d' ! k in
       sm_ID q = sm_ID p \<and> sm_Version p \<le> sm_Version q \<and>
       (SurveyMission_CanMoveTo ^^ nat (sm_Version q - sm_Version p)) (sm_Status p) (sm_Status q))) \<and>
    (\<forall>k < length (db_windows d). k < length (db_windows d') \<and>
      (let p = db_windows d ! k; q = db_windows d' ! k in
       wr_ID q = wr_ID p \<and> wr_Version p \<le> wr_Version q \<and>
       (DiveWindow_CanMoveTo ^^ nat (wr_Version q - wr_Version p)) (wr_Status p) (wr_Status q))) \<and>
    (\<forall>k < length (db_assignments d). k < length (db_assignments d') \<and>
      (let p = db_assignments d ! k; q = db_assignments d' ! k in
       as_ID q = as_ID p \<and> as_Version p \<le> as_Version q \<and>
       (Assignment_CanMoveTo ^^ nat (as_Version q - as_Version p)) (as_Status p) (as_Status q))) \<and>
    (\<forall>k < length (db_reports d). k < length (db_reports d') \<and>
      (let p = db_reports d ! k; q = db_reports d' ! k in
       rr_ID q = rr_ID p \<and> rr_Version p \<le> rr_Version q \<and>
       ((\<lambda>s t. s = ''pending'' \<and> t \<in> {''verified'', ''rejected''}) ^^
          nat (rr_Version q - rr_Version p)) (rr_Status p) (rr_Status q))) \<and>
    (\<forall>k < length (db_jobs d). k < length (db_jobs d') \<and>
      (let p = db_jobs d ! k; q = db_jobs d' ! k in
       rj_ID q = rj_ID p \<and> rj_TaskCode q = rj_TaskCode p \<and> rj_ExpiresAt q = rj_ExpiresAt p \<and>
       rj_Version p \<le> rj_Version q \<and>
       ((\<lambda>s t. RecoveryJob_CanMoveTo s t \<or> t \<in> {RecoveryJobActivationPending, RecoveryJobAccepted,
           RecoveryJobVerified, RecoveryJobRejected}) ^^
          nat (rj_Version q - rj_Version p)) (rj_Status p) (rj_Status q))) \<and>
    (\<forall>k < length (cd_orders c). k < length (cd_orders c') \<and>
      (let p = cd_orders c ! k; q = cd_orders c' ! k in
       xw_ID q = xw_ID p \<and> xw_Version p \<le> xw_Version q \<and>
       ((\<lambda>s t. (s, t) \<in> {(0, 1), (1, 2), (0, 3)}) ^^
          nat (xw_Version q - xw_Version p)) (xw_Status p) (xw_Status q))) \<and>
    (\<exists>new. db_audits d' = db_audits d @ new) \<and> (\<exists>new. cd_logs c' = cd_logs c @ new)"
proof -
  have both: "db_ok d'" "history d d'" "console_ok c'" "console_history c c'"
    using server_reached_good[OF assms(1)] assms(2-)
    by (simp_all add: server_good_def good_def console_good_def)
  have edges: "(\<lambda>s t. s = ''pending'' \<and> t \<in> {''verified'', ''rejected''}) = report_edge"
    "(\<lambda>s t. RecoveryJob_CanMoveTo s t \<or> t \<in> {RecoveryJobActivationPending, RecoveryJobAccepted,
       RecoveryJobVerified, RecoveryJobRejected}) = job_edge"
    "(\<lambda>s t :: int. (s, t) \<in> {(0, 1), (1, 2), (0, 3)}) = order_edge"
    by (intro ext; simp add: report_edge_def job_edge_def order_edge_def)+
  have orders: "k < length (cd_orders c') \<and> order_rel (cd_orders c ! k) (cd_orders c' ! k)"
    if "k < length (cd_orders c)" for k
    using both(4) that by (simp add: console_history_def grows_def)
  show ?thesis
    unfolding edges
    by (intro conjI both)
      (use history_rows[OF both(2)] orders order_relD both(4) in
        \<open>simp_all add: Let_def console_history_def grows_prefix\<close>)
qed

end
