(* ===== verification/Http_Access.thy ===== *)
theory Http_Access
  imports Http_History
begin

text \<open>
  Who may do what: the console's routes and their roles, and what the routes of the service ask
  for. Errors and their status codes.
\<close>

section \<open>The console's policy\<close>

text \<open>What the three roles may do, by the area of the path: the lead everything; the operator reads all
  but the log, places orders and reports; the reviewer reads all and writes treatments; everybody
  moves orders and signs off.\<close>

definition console_permitted :: "ConsoleRole \<Rightarrow> string \<Rightarrow> string list \<Rightarrow> bool" where
  "console_permitted role method path \<longleftrightarrow>
     (let area = path ! 1; reads = (method = ''GET'');
          common = (area = ''auth'' \<or> method = ''PUT'' \<and> area = ''work_order'') in
      role = RoleMissionLead \<or>
      role = RoleArrayOperator \<and> (common \<or> reads \<and> area \<noteq> ''log'' \<or>
        method = ''POST'' \<and> area \<in> {''work_order'', ''signal_recovery_report''}) \<or>
      role = RoleReviewer \<and> (common \<or> reads \<or>
        method \<in> {''POST'', ''PUT''} \<and> area = ''treatment''))"

definition login_row :: "handler route \<Rightarrow> bool" where
  "login_row r \<longleftrightarrow> rt_method r = ''POST'' \<and> rt_pattern r = [Lit ''api'', Lit ''auth'', Lit ''login'']"

definition gated_row :: "http_lib \<Rightarrow> handler route \<Rightarrow> bool" where
  "gated_row lib r \<longleftrightarrow>
     (\<exists>roles h. rt_handler r = gate lib roles h \<and>
        (\<forall>path. pattern_matches (rt_pattern r) path \<longrightarrow>
           (\<forall>role. role \<in> set roles \<longleftrightarrow> console_permitted role (rt_method r) path)))"

lemma gated_rowI:
  assumes "rt_method r = m" "rt_pattern r = Lit a # Lit b # p" "rt_handler r = gate lib roles h"
    and "\<And>role rest. role \<in> set roles \<longleftrightarrow> console_permitted role m (a # b # rest)"
  shows "gated_row lib r"
proof -
  have "\<exists>rest. path = a # b # rest" if "pattern_matches (rt_pattern r) path" for path
    using that assms(2) by (cases path; cases "tl path") auto
  then show ?thesis unfolding gated_row_def using assms(1,3,4) by blast
qed

lemma handler_of_row: "rt_handler (HandleFunc p h) = h"
  by (simp add: HandleFunc_def)

lemmas roles_defs = allRoles_def missionLead_def leadAndReviewer_def leadAndArrayOperator_def

lemma console_rows_gated: "\<forall>r \<in> set (console_routes lib). login_row r \<or> gated_row lib r"
  unfolding console_routes_def
  by (simp only: list.set ball_simps simp_thms; intro conjI;
      (rule disjI1, simp add: login_row_def HandleFunc_def parse_segment_def; fail)?;
      rule disjI2, rule gated_rowI, simp add: HandleFunc_def,
      simp add: HandleFunc_def parse_segment_def, rule handler_of_row,
      auto simp: console_permitted_def roles_defs)

section \<open>The gate\<close>

text \<open>The tables but for when a session was last seen.\<close>

definition unseen :: "console_db \<Rightarrow> console_db" where
  "unseen d = d\<lparr>cd_sessions := map (\<lambda>s. s\<lparr>sn_LastSeenAt := 0\<rparr>) (cd_sessions d)\<rparr>"

interpretation unseen: db_history "\<lambda>a b. unseen a = unseen b"
  by unfold_locales auto

lemma touch_unseen: "stmt_keeps (\<lambda>a b. unseen a = unseen b) env (sql_touch_session hash)"
  by (rule stmt_keepsI) (auto simp: sql_touch_session_def Let_def unseen_def upd_def comp_def)

lemma UserBySession_unseen: "keeps (\<lambda>a b. unseen a = unseen b) env (UserBySession clib token)"
  unfolding UserBySession_def scan_row_def by (intro keeps_rules touch_unseen)

text \<open>Whom the token of a request stands for: the active user of a session with the token's hash that
  is neither revoked nor expired at time \<open>t\<close>.\<close>

definition caller :: "http_lib \<Rightarrow> http_request \<Rightarrow> time \<Rightarrow> console_db \<Rightarrow> ConsoleUser \<Rightarrow> bool" where
  "caller lib r t d u \<longleftrightarrow>
     (\<exists>s \<in> set (cd_sessions d).
        live_session (tokenHash (hl_console lib) (TrimSpace (bearerToken r))) t d s \<and>
        session_user d s = Some u)"

lemma gate_cases:
  assumes "requireConsoleRole lib roles h r env w = (res, w')"
  shows "(\<exists>resp. res = Inr resp \<and> rs_status resp \<in> {401, 403} \<and>
      unseen (w_db w) = unseen (w_db w')) \<or>
    (\<exists>u. caller lib r (en_dbnow env (w_txn w + 1)) (w_db w) u \<and> us_Role u \<in> set roles)"
proof -
  obtain a w1 where u: "UserBySession (hl_console lib) (bearerToken r) env w = (a, w1)" by fastforce
  have "unseen (w_db w) = unseen (w_db w1)" using keepsD[OF UserBySession_unseen u] .
  moreover have "caller lib r (en_dbnow env (w_txn w + 1)) (w_db w) v" if "a = Inr v" for v
    using UserBySession_ok u that by (fastforce simp: caller_def)
  ultimately show ?thesis
    using assms u by (cases a) (auto simp: requireConsoleRole_def consoleError_def Let_def split: if_splits)
qed

lemma on_console_db: "on_console m env w = (res, w') \<Longrightarrow> sv_db (w_db w') = sv_db (w_db w)"
  by (auto simp: on_console_def split: prod.splits)

text \<open>The row of a request under \<open>/api\<close> is one of the console's.\<close>

lemma api_table_heads: "list_all (\<lambda>r. snd r \<noteq> [] \<and> hd (snd r) \<in> {Lit ''v1'', Lit ''healthz'',
    Lit ''readyz''}) api_table"
  by code_simp

lemma api_heads:
  assumes "r \<in> set (api_routes lib ready)" "pattern_matches (rt_pattern r) path"
  shows "path \<noteq> [] \<and> hd path \<noteq> ''api''"
proof -
  have "(rt_method r, rt_pattern r) \<in> set api_table"
    using assms(1) by (force simp: table_of_def simp flip: api_table[of lib ready])
  then have "rt_pattern r \<noteq> [] \<and>
      hd (rt_pattern r) \<in> {Lit ''v1'', Lit ''healthz'', Lit ''readyz''}"
    using api_table_heads by (auto simp: list_all_iff)
  then show ?thesis using assms(2) by (cases "rt_pattern r"; cases path) auto
qed

lemma console_row:
  assumes "find_route (server_routes lib ready with_console) m path = Some (row, vs)"
    and "hd path = ''api''" "\<not> (m = ''POST'' \<and> path = [''api'', ''auth'', ''login''])"
  shows "\<exists>roles h. rt_handler row = gate lib roles h \<and>
    (\<forall>role. role \<in> set roles \<longleftrightarrow>
       console_permitted role (if m = ''HEAD'' then ''GET'' else m) path)"
proof -
  from route_dispatch[OF refl, of lib ready with_console m path] assms(1)
  have row: "row \<in> set (server_routes lib ready with_console)" "serves m row"
    "pattern_matches (rt_pattern row) path" by blast+
  with api_heads assms(2) have "row \<in> set (console_routes lib)"
    by (auto simp: server_routes_def split: if_splits)
  moreover have "\<not> login_row row"
    using row(2,3) assms(3) by (auto simp: login_row_def serves_def pattern_matches_def list_all2_Cons1)
  moreover have "rt_method row = (if m = ''HEAD'' then ''GET'' else m)"
    using row(2) server_no_head[OF row(1)] by (auto simp: serves_def)
  ultimately show ?thesis using console_rows_gated row(3) by (fastforce simp: gated_row_def)
qed

text \<open>C4: under \<open>/api\<close> only the login is open. Any other request is refused, with 401, 403, 404 or 405
  and with no change to the database but the time the session was last seen, unless its token
  stands, at the database's time, for an active user with a live session whose role the policy
  permits to make the request. The tables of the service are out of its reach.\<close>

theorem console_gate:
  assumes "Handler lib ready with_console r env w = (res, w')" "hd (rq_path r) = ''api''"
    and "\<not> (rq_method r = ''POST'' \<and> rq_path r = [''api'', ''auth'', ''login''])"
  shows "sv_db (w_db w') = sv_db (w_db w) \<and>
    ((\<exists>resp. res = Inr resp \<and> rs_status resp \<in> {401, 403, 404, 405} \<and>
        unseen (sv_console (w_db w')) = unseen (sv_console (w_db w))) \<or>
     (\<exists>u. caller lib r (en_dbnow env (w_txn w + 1)) (sv_console (w_db w)) u \<and>
        console_permitted (us_Role u) (if rq_method r = ''HEAD'' then ''GET'' else rq_method r)
          (rq_path r)))"
proof -
  let ?rs = "server_routes lib ready with_console"
  obtain rid w1 where w1: "ServeHTTP ?rs rid r env w1 = (res, w')" "w_db w1 = w_db w" "w_txn w1 = w_txn w"
    using assms(1)
    by (auto simp: Handler_def requestMiddleware_def io_bind_def io_read_def io_return_def
        split: if_splits)
  show ?thesis
  proof (cases "find_route ?rs (rq_method r) (rq_path r)")
    case None
    with w1 show ?thesis by (auto simp: ServeHTTP_def io_return_def)
  next
    case (Some x)
    obtain row vs where x: "x = (row, vs)" by fastforce
    from console_row[OF Some[unfolded x] assms(2,3)] obtain roles h where
      h: "rt_handler row = gate lib roles h" and permitted: "\<And>role. role \<in> set roles \<longleftrightarrow>
        console_permitted role (if rq_method r = ''HEAD'' then ''GET'' else rq_method r) (rq_path r)"
      by blast
    let ?h = "h r (PathValue (rt_pattern row) vs)"
    let ?v = "\<lparr>w_db = sv_console (w_db w1), w_step = w_step w1, w_txn = w_txn w1,
      w_broken = w_broken w1\<rparr>"
    have run: "on_console (requireConsoleRole lib roles ?h r) env w1 = (res, w')"
      using w1(1) Some x h by (simp add: ServeHTTP_def gate_def)
    then obtain v' where v': "requireConsoleRole lib roles ?h r env ?v = (res, v')"
      "sv_console (w_db w') = w_db v'" by (auto simp: on_console_def split: prod.splits)
    from gate_cases[OF v'(1)] show ?thesis
      using on_console_db[OF run] w1(2,3) v'(2) permitted by auto
  qed
qed

section \<open>The routes of the service\<close>

definition with_credentials :: "string \<Rightarrow> string \<Rightarrow> http_request \<Rightarrow> http_request" where
  "with_credentials authorization session r =
     r\<lparr>rq_header := (rq_header r)(''Authorization'' := authorization, ''X-Session-Token'' := session)\<rparr>"

lemma with_credentials_simps [simp]:
  "rq_method (with_credentials a s r) = rq_method r" "rq_path (with_credentials a s r) = rq_path r"
  "rq_query (with_credentials a s r) = rq_query r" "rq_body (with_credentials a s r) = rq_body r"
  "rq_header (with_credentials a s r) ''X-Request-ID'' = rq_header r ''X-Request-ID''"
  "request_meta lib rid (with_credentials a s r) = request_meta lib rid r"
  by (simp_all add: with_credentials_def request_meta_def)

lemma api_rows_open:
  "\<forall>row \<in> set (api_routes lib ready).
     rt_handler row rid (with_credentials a s r) pv = rt_handler row rid r pv"
  unfolding api_routes_def
  by (simp only: list.set ball_simps handler_of_row; intro conjI TrueI;
      simp only: api_handler_defs audit_query_params_def requiredTimeQuery_def boundedIntQuery_def
        dive_windowVersion_def with_credentials_simps)

lemma console_table_heads: "list_all (\<lambda>r. snd r \<noteq> [] \<and> hd (snd r) = Lit ''api'') console_table"
  by code_simp

lemma console_heads:
  assumes "r \<in> set (console_routes lib)" "pattern_matches (rt_pattern r) path"
  shows "hd path = ''api''"
proof -
  have "(rt_method r, rt_pattern r) \<in> set console_table"
    using assms(1) by (force simp: table_of_def simp flip: console_table[of lib])
  then have "rt_pattern r \<noteq> [] \<and> hd (rt_pattern r) = Lit ''api''"
    using console_table_heads by (auto simp: list_all_iff)
  then show ?thesis using assms(2) by (cases "rt_pattern r"; cases path) auto
qed

text \<open>C9: outside \<open>/api\<close> nobody is asked who they are: the credentials a request carries change neither
  its answer nor its effect, so every request that changes missions, jobs or reports is served
  without a session.\<close>

theorem service_open:
  assumes "hd (rq_path r) \<noteq> ''api''"
  shows "Handler lib ready with_console (with_credentials a s r) env w =
    Handler lib ready with_console r env w"
proof -
  let ?rs = "server_routes lib ready with_console"
  have "rt_handler row rid (with_credentials a s r) pv = rt_handler row rid r pv"
    if "find_route ?rs (rq_method r) (rq_path r) = Some (row, vs)" for row vs rid pv
  proof -
    have "row \<in> set ?rs \<and> pattern_matches (rt_pattern row) (rq_path r)"
      using route_dispatch[OF refl, of lib ready with_console "rq_method r" "rq_path r"] that by blast
    then have "row \<in> set (api_routes lib ready)"
      using console_heads assms by (auto simp: server_routes_def split: if_splits)
    then show ?thesis using api_rows_open by blast
  qed
  then have "ServeHTTP ?rs rid (with_credentials a s r) = ServeHTTP ?rs rid r" for rid
    by (auto simp: ServeHTTP_def split: option.split)
  then show ?thesis by (simp add: Handler_def requestMiddleware_def)
qed

section \<open>Errors\<close>

text \<open>The status of an error under \<open>/v1\<close> is decided by the sentinel at the end of its chain, whatever
  has been wrapped around it: missing rows are 404, conflicts and forbidden moves 409, exhausted
  capacity and expiry 422, in this order when an error has several. Everything else, such as what
  PostgreSQL reports, is 500; nothing is answered as the client's mistake (400).\<close>

theorem error_statuses:
  "(rs_status (writeError rid e) = 404 \<longleftrightarrow> errors_Is e (DomainErr ErrNotFound)) \<and>
   (rs_status (writeError rid e) = 409 \<longleftrightarrow> \<not> errors_Is e (DomainErr ErrNotFound) \<and>
      (errors_Is e (DomainErr ErrConflict) \<or> errors_Is e (DomainErr ErrInvalidTransition))) \<and>
   rs_status (writeError rid e) \<in> {404, 409, 422, 500} \<and>
   error_class (Errorf text e) = error_class e \<and>
   rs_status (writeError rid (PgError code)) = 500 \<and>
   (\<forall>d. rs_status (writeError rid (Sentinel (DomainErr d))) = 500 \<longleftrightarrow>
      d \<notin> {ErrNotFound, ErrConflict, ErrInvalidTransition, ErrCapacityExceeded, ErrExpired})"
  by (auto simp: writeError_def writeJSON_def error_class_def)

end
