(* ===== verification/Versioned_Rows.thy ===== *)
theory Versioned_Rows
  imports Service_Calls
begin

text \<open>
  Missions, dive windows and assignments are moved by UPDATE statements that name the version they
  expect. Their contract is a machine: for every identifier a status and a version, and a move that
  is possible along an edge at the expected version. The handlers refine it.
\<close>

section \<open>The abstract machine\<close>

type_synonym machine = "string \<Rightarrow> (string \<times> int) option"

definition machine_move ::
  "(string \<Rightarrow> string \<Rightarrow> bool) \<Rightarrow> string \<Rightarrow> string \<Rightarrow> int \<Rightarrow> machine \<Rightarrow> machine option" where
  "machine_move edge u status version m =
     (case m u of
        None \<Rightarrow> None
      | Some (s, k) \<Rightarrow>
          if k = version \<and> edge s status then Some (m(u \<mapsto> (status, version + 1))) else None)"

lemma machine_moved: "machine_move edge u status version m = Some m' \<Longrightarrow> m' u = Some (status, version + 1)"
  by (auto simp: machine_move_def split: option.splits if_splits)

definition machine_commit ::
  "(string \<Rightarrow> string \<Rightarrow> bool) \<Rightarrow> machine \<Rightarrow> string \<Rightarrow> int \<Rightarrow> string \<Rightarrow> machine \<times> bool" where
  "machine_commit edge m u version status =
     (case machine_move edge u status version m of Some m' \<Rightarrow> (m', True) | None \<Rightarrow> (m, False))"

interpretation machine: versioned "machine_commit edge" "\<lambda>m u. map_option snd (m u)" "\<lambda>_. True"
  by unfold_locales
    (auto simp: machine_commit_def machine_move_def split: option.splits if_splits)

definition machine_of ::
  "('r \<Rightarrow> string) \<Rightarrow> ('r \<Rightarrow> string) \<Rightarrow> ('r \<Rightarrow> int) \<Rightarrow> 'r list \<Rightarrow> machine" where
  "machine_of key st ver rows u = map_option (\<lambda>r. (st r, ver r)) (find (\<lambda>r. key r = u) rows)"

lemma find_upd_key:
  assumes "\<And>r. key (change r) = key r"
  shows "find (\<lambda>r. key r = k) (upd hit change rows) =
    map_option (\<lambda>r. if hit r then change r else r) (find (\<lambda>r. key r = k) rows)"
  using assms by (induction rows) (auto simp: upd_def)

lemma find_key:
  assumes "unique key rows" "r \<in> set rows" "key r = u"
  shows "find (\<lambda>r. key r = u) rows = Some r"
proof (cases "find (\<lambda>r. key r = u) rows")
  case None
  then show ?thesis using assms(2,3) by (auto simp: find_None_iff)
next
  case (Some s)
  then show ?thesis using find_SomeD[OF Some] unique_inj[OF assms(1,2), of s] assms(3) by simp
qed

text \<open>An UPDATE that changed one row, found by its key and version, was a move of the machine.\<close>

lemma update_moves:
  assumes "length (filter hit rows) = 1" "unique key rows" "\<And>r. key (change r) = key r"
    and hit: "\<And>r. r \<in> set rows \<Longrightarrow> hit r \<Longrightarrow> key r = u \<and> ver r = v \<and> edge (st r) status \<and>
      st (change r) = status \<and> ver (change r) = v + 1"
  shows "machine_move edge u status v (machine_of key st ver rows) =
    Some (machine_of key st ver (upd hit change rows))"
proof -
  obtain p where p: "p \<in> set rows" "hit p"
    using assms(1) by (metis filter_empty_conv length_0_conv zero_neq_one)
  have find: "find (\<lambda>r. key r = u) rows = Some p"
    using find_key[OF assms(2) p(1)] hit[OF p] by simp
  have other: "\<not> hit r" if "find (\<lambda>r. key r = k) rows = Some r" "k \<noteq> u" for k r
    using that hit by (auto simp: find_Some_iff)
  have "machine_of key st ver (upd hit change rows) k =
      ((machine_of key st ver rows)(u \<mapsto> (status, v + 1))) k" for k
    using find p(2) hit[OF p] other[of k]
    by (cases "find (\<lambda>r. key r = k) rows") (auto simp: machine_of_def find_upd_key[of key, OF assms(3)])
  then have "machine_of key st ver (upd hit change rows) =
      (machine_of key st ver rows)(u \<mapsto> (status, v + 1))" by blast
  then show ?thesis using find hit[OF p] by (simp add: machine_move_def machine_of_def)
qed

section \<open>The contract of a table\<close>

text \<open>\<open>body\<close> is what a handler does inside its transaction.\<close>

locale versioned_table =
  fixes body :: "string \<Rightarrow> string \<Rightarrow> int \<Rightarrow> RequestMeta \<times> string \<Rightarrow> (database, unit) io"
    and view :: "database \<Rightarrow> machine"
    and edge :: "string \<Rightarrow> string \<Rightarrow> bool"
  assumes body_moves: "db_ok (w_db w) \<Longrightarrow> body i status version x env w = (Inr (), w') \<Longrightarrow>
    \<exists>u. en_uuid_in env i = Some u \<and>
      machine_move edge u status version (view (w_db w)) = Some (view (w_db w'))"
begin

lemma refines:
  assumes "db_ok (w_db w)" "InTx Pool (body i status version x) env w = (r, w')"
  shows "(r = Inr () \<longrightarrow> (\<exists>u. en_uuid_in env i = Some u \<and>
      machine_move edge u status version (view (w_db w)) = Some (view (w_db w')))) \<and>
    (w_db w' = w_db w \<or> (\<exists>u. en_uuid_in env i = Some u \<and>
      machine_move edge u status version (view (w_db w)) = Some (view (w_db w'))))"
proof -
  have run: "run_tx ''begin transaction'' ''commit transaction'' (body i status version x) env w = (r, w')"
    using assms(2) by (simp add: InTx_def)
  have moved: "\<exists>u. en_uuid_in env i = Some u \<and>
      machine_move edge u status version (view (w_db w)) = Some (view (w_db w1))"
    if "body i status version x env (tx_begun w) = (Inr z, w1)" for z w1
    using body_moves[of "tx_begun w" i status version x env w1] assms(1) that by (cases z) simp
  from run show ?thesis by (cases rule: run_tx_cases) (auto dest: moved)
qed

text \<open>A move the machine refuses is an error, and leaves the database as it is.\<close>

lemma refused:
  assumes "db_ok (w_db w)" "InTx Pool (body i status version x) env w = (r, w')"
    and "\<And>u. en_uuid_in env i = Some u \<Longrightarrow> machine_move edge u status version (view (w_db w)) = None"
  shows "(\<exists>e. r = Inl e) \<and> w_db w' = w_db w"
  using refines[OF assms(1,2)] assms(3) by (cases r) auto

end

section \<open>The three tables\<close>

text \<open>The last step of every handler adds one audit event and nothing else.\<close>

lemma writeAudit_ok:
  assumes "writeAudit Tx inp env w = (Inr (), w')"
  shows "\<exists>a. w_db w' = (w_db w)\<lparr>db_audits := db_audits (w_db w) @ [a]\<rparr>"
proof -
  obtain i w1 where "exec_stmt Tx (sql_write_audit i
      (inp\<lparr>un_Detail := if un_Detail inp = [] then ''{}'' else un_Detail inp\<rparr>)) env w1 = (Inr (), w')"
    "w_db w1 = w_db w"
    using assms by (auto simp: writeAudit_def Let_def io_ok split: if_splits)
  from exec_tx_ok[OF this(1)] this(2) show ?thesis by (auto simp: sql_write_audit_def Let_def)
qed

definition mission_steps ::
  "string \<Rightarrow> string \<Rightarrow> int \<Rightarrow> RequestMeta \<times> string \<Rightarrow> (database, unit) io" where
  "mission_steps i status version x =
     io_bind (getSurveyMission Tx i) (\<lambda>survey_mission.
       if \<not> SurveyMission_CanMoveTo (sm_Status survey_mission) status
         then io_throw (Errorf (''survey_mission '' @ i) invalid_transition)
       else io_then (advanceSurveyMission Tx i status version)
         (writeAudit Tx (audit (fst x) ''acoustic_buoy_survey_mission'' i (snd x) ''success'' [])))"

definition window_steps ::
  "string \<Rightarrow> string \<Rightarrow> int \<Rightarrow> RequestMeta \<times> string \<Rightarrow> (database, unit) io" where
  "window_steps i status version x =
     io_then (changeDiveWindow Tx i status version)
       (writeAudit Tx (audit (fst x) ''dive_window'' i (snd x) ''success'' []))"

definition assignment_steps ::
  "string \<Rightarrow> string \<Rightarrow> int \<Rightarrow> RequestMeta \<times> string \<Rightarrow> (database, unit) io" where
  "assignment_steps i status version x =
     io_then (advanceAssignment Tx i status version)
       (writeAudit Tx (audit (fst x) ''assignment'' i (snd x) ''success'' []))"

lemma handlers_bodies:
  "service_advanceSurveyMission meta i status version action =
     InTx Pool (mission_steps i status version (meta, action))"
  "status \<in> {DiveWindowRunning, DiveWindowCompleted, DiveWindowCancelled} \<Longrightarrow>
     service_changeDiveWindow meta i version status action =
     InTx Pool (window_steps i status version (meta, action))"
  "AdvanceAssignment meta i status version =
     InTx Pool (assignment_steps i status version (meta, status))"
  by (auto simp only: service_advanceSurveyMission_def mission_steps_def service_changeDiveWindow_def
      window_steps_def AdvanceAssignment_def assignment_steps_def fst_conv snd_conv insert_iff
      empty_iff simp_thms if_True if_False list.inject char.inject)

definition mission_view :: "database \<Rightarrow> machine" where
  "mission_view d = machine_of sm_ID sm_Status sm_Version (db_missions d)"

definition window_view :: "database \<Rightarrow> machine" where
  "window_view d = machine_of wr_ID wr_Status wr_Version (db_windows d)"

definition assignment_view :: "database \<Rightarrow> machine" where
  "assignment_view d = machine_of as_ID as_Status as_Version (db_assignments d)"

lemma advance_statement:
  assumes "advanceSurveyMission Tx i status version env w = (Inr (), w')"
  shows "\<exists>u. en_uuid_in env i = Some u \<and>
    (let hit = (\<lambda>p. sm_ID p = u \<and> sm_Version p = version) in
     length (filter hit (db_missions (w_db w))) = 1 \<and>
     w_db w' = (w_db w)\<lparr>db_missions := upd hit
       (\<lambda>p. p\<lparr>sm_Status := status, sm_Version := sm_Version p + 1\<rparr>) (db_missions (w_db w))\<rparr>)"
proof -
  have "exec_stmt Tx (sql_advance_mission i status version) env w = (Inr 1, w')"
    using assms by (auto simp: advanceSurveyMission_def one_row_ok io_ok)
  from exec_tx_ok[OF this] show ?thesis
    by (auto simp: sql_advance_mission_def sql_update_Inr Let_def)
qed

interpretation mission_table: versioned_table mission_steps mission_view SurveyMission_CanMoveTo
proof
  fix w w' :: "database world" and i status version x env
  assume ok: "db_ok (w_db w)" and run: "mission_steps i status version x env w = (Inr (), w')"
  obtain p w1 w2 where p: "getSurveyMission Tx i env w = (Inr p, w1)"
    and edge: "SurveyMission_CanMoveTo (sm_Status p) status"
    and adv: "advanceSurveyMission Tx i status version env w1 = (Inr (), w2)"
    and aud: "writeAudit Tx (audit (fst x) ''acoustic_buoy_survey_mission'' i (snd x) ''success'' [])
      env w2 = (Inr (), w')"
    using run unfolding mission_steps_def by (auto simp: io_ok split: if_splits)
  have same: "w_db w1 = w_db w"
    using keepsD[OF reads_get(2) p] by simp
  obtain u where u: "en_uuid_in env i = Some u"
      "find (\<lambda>r. sm_ID r = u) (db_missions (w_db w)) = Some p"
    using query_row_found[OF p[unfolded getSurveyMission_def]] by auto
  from advance_statement[OF adv] u(1) same have one:
    "length (filter (\<lambda>p. sm_ID p = u \<and> sm_Version p = version) (db_missions (w_db w))) = 1"
    and rows: "w_db w2 = (w_db w)\<lparr>db_missions := upd (\<lambda>p. sm_ID p = u \<and> sm_Version p = version)
       (\<lambda>p. p\<lparr>sm_Status := status, sm_Version := sm_Version p + 1\<rparr>) (db_missions (w_db w))\<rparr>"
    by (auto simp: Let_def)
  have unique: "unique sm_ID (db_missions (w_db w))" using ok by (simp add: db_ok_def)
  have "machine_move SurveyMission_CanMoveTo u status version (mission_view (w_db w)) =
      Some (mission_view (w_db w2))"
    unfolding mission_view_def rows
    using one unique unique_find[OF u(2) unique] edge
    by (simp, intro update_moves) auto
  then show "\<exists>u. en_uuid_in env i = Some u \<and> machine_move SurveyMission_CanMoveTo u status version
      (mission_view (w_db w)) = Some (mission_view (w_db w'))"
    using writeAudit_ok[OF aud] u(1) by (auto simp: mission_view_def)
qed

lemma change_window_moves:
  assumes "unique wr_ID (db_windows d)"
    and "sql_change_window i status version sources env n t d = Inr (1, d')"
    and "\<And>s. s \<in> set sources \<Longrightarrow> DiveWindow_CanMoveTo s status"
  shows "\<exists>u. en_uuid_in env i = Some u \<and>
    machine_move DiveWindow_CanMoveTo u status version (window_view d) = Some (window_view d')"
  using assms(2,3) unfolding window_view_def
  by (auto simp: sql_change_window_def update_windows_def sql_update_Inr intro!: update_moves assms(1))

lemma cancel_window_moves:
  assumes "unique wr_ID (db_windows d)" "sql_cancel_window i version env n t d = Inr (1, d')"
  shows "\<exists>u. en_uuid_in env i = Some u \<and> machine_move DiveWindow_CanMoveTo u DiveWindowCancelled
    version (window_view d) = Some (window_view d')"
  using assms(2) unfolding window_view_def
  by (auto simp: sql_cancel_window_def update_windows_def update_jobs_def sql_update_Inr Let_def
      DiveWindow_CanMoveTo_def intro!: update_moves assms(1))

interpretation window_table: versioned_table window_steps window_view DiveWindow_CanMoveTo
proof
  fix w w' :: "database world" and i status version x env
  assume ok: "db_ok (w_db w)" and run: "window_steps i status version x env w = (Inr (), w')"
  then have unique: "unique wr_ID (db_windows (w_db w))" by (simp add: db_ok_def)
  obtain w1 where change: "changeDiveWindow Tx i status version env w = (Inr (), w1)"
    and aud: "writeAudit Tx (audit (fst x) ''dive_window'' i (snd x) ''success'' []) env w1 = (Inr (), w')"
    using run unfolding window_steps_def by (auto simp: io_ok)
  have "\<exists>u. en_uuid_in env i = Some u \<and>
      machine_move DiveWindow_CanMoveTo u status version (window_view (w_db w)) =
        Some (window_view (w_db w1))"
  proof -
    have sources: "\<And>s. s \<in> set [DiveWindowQueued] \<Longrightarrow> DiveWindow_CanMoveTo s DiveWindowRunning"
      "\<And>s. s \<in> set [DiveWindowRunning] \<Longrightarrow> DiveWindow_CanMoveTo s DiveWindowCompleted"
      by (simp_all add: DiveWindow_CanMoveTo_def)
    consider n t where "sql_cancel_window i version env n t (w_db w) = Inr (1, w_db w1)"
        "status = DiveWindowCancelled"
      | n t where "sql_change_window i status version [DiveWindowQueued] env n t (w_db w) =
          Inr (1, w_db w1)" "status = DiveWindowRunning"
      | n t where "sql_change_window i status version [DiveWindowRunning] env n t (w_db w) =
          Inr (1, w_db w1)" "status = DiveWindowCompleted"
      using change unfolding changeDiveWindow_def
      by (auto simp: one_row_ok io_ok split: if_splits dest!: exec_tx_ok)
    then show ?thesis
      using cancel_window_moves[OF unique] change_window_moves[OF unique] sources by cases blast+
  qed
  then show "\<exists>u. en_uuid_in env i = Some u \<and> machine_move DiveWindow_CanMoveTo u status version
      (window_view (w_db w)) = Some (window_view (w_db w'))"
    using writeAudit_ok[OF aud] by (auto simp: window_view_def)
qed

lemma advance_assignment_moves:
  assumes "unique as_ID (db_assignments d)"
    and "sql_advance_assignment i status version sources env n t d = Inr (1, d')"
    and "\<And>s. s \<in> set sources \<Longrightarrow> Assignment_CanMoveTo s status"
  shows "\<exists>u. en_uuid_in env i = Some u \<and>
    machine_move Assignment_CanMoveTo u status version (assignment_view d) = Some (assignment_view d')"
  using assms(2,3) unfolding assignment_view_def
  by (auto simp: sql_advance_assignment_def update_assignments_def sql_update_Inr
      intro!: update_moves assms(1))

interpretation assignment_table: versioned_table assignment_steps assignment_view Assignment_CanMoveTo
proof
  fix w w' :: "database world" and i status version x env
  assume ok: "db_ok (w_db w)" and run: "assignment_steps i status version x env w = (Inr (), w')"
  then have unique: "unique as_ID (db_assignments (w_db w))" by (simp add: db_ok_def)
  obtain w1 where change: "advanceAssignment Tx i status version env w = (Inr (), w1)"
    and aud: "writeAudit Tx (audit (fst x) ''assignment'' i (snd x) ''success'' []) env w1 = (Inr (), w')"
    using run unfolding assignment_steps_def by (auto simp: io_ok)
  have "\<exists>u. en_uuid_in env i = Some u \<and>
      machine_move Assignment_CanMoveTo u status version (assignment_view (w_db w)) =
        Some (assignment_view (w_db w1))"
  proof -
    obtain sources n t where "AssignmentSourcesFor status = Some sources"
      "sql_advance_assignment i status version sources env n t (w_db w) = Inr (1, w_db w1)"
      using change unfolding advanceAssignment_def
      by (auto simp: one_row_ok io_ok split: if_splits option.splits dest!: exec_tx_ok)
    then show ?thesis using advance_assignment_moves[OF unique] sources_CanMoveTo by blast
  qed
  then show "\<exists>u. en_uuid_in env i = Some u \<and> machine_move Assignment_CanMoveTo u status version
      (assignment_view (w_db w)) = Some (assignment_view (w_db w'))"
    using writeAudit_ok[OF aud] by (auto simp: assignment_view_def)
qed

text \<open>What a handler's result and its effect on the database have to do with the machine.\<close>

definition refines_machine ::
  "(string \<Rightarrow> string \<Rightarrow> bool) \<Rightarrow> (database \<Rightarrow> machine) \<Rightarrow> env \<Rightarrow> string \<Rightarrow> string \<Rightarrow> int \<Rightarrow>
   unit result \<Rightarrow> database \<Rightarrow> database \<Rightarrow> bool" where
  "refines_machine edge view env i status version r d d' \<longleftrightarrow>
     (let moved = (\<exists>u. en_uuid_in env i = Some u \<and>
        machine_move edge u status version (view d) = Some (view d')) in
      (r = Inr () \<longrightarrow> moved) \<and> (d' = d \<or> moved))"

text \<open>C5: the handlers that move missions, dive windows and assignments refine the machine of statuses
  and versions, with the status tables of the domain as its edges. Whatever fails: a success is
  exactly one move of one row at the version the caller named, and a call that did not move that
  row, or of which the machine has no such move, left the database as it was.\<close>

theorem handlers_refine_machine:
  assumes "db_ok (w_db w)"
  shows "refines_machine SurveyMission_CanMoveTo mission_view env i status version
      (fst (service_advanceSurveyMission meta i status version action env w)) (w_db w)
      (w_db (snd (service_advanceSurveyMission meta i status version action env w))) \<and>
    (status \<in> {DiveWindowRunning, DiveWindowCompleted, DiveWindowCancelled} \<longrightarrow>
     refines_machine DiveWindow_CanMoveTo window_view env i status version
      (fst (service_changeDiveWindow meta i version status action env w)) (w_db w)
      (w_db (snd (service_changeDiveWindow meta i version status action env w)))) \<and>
    refines_machine Assignment_CanMoveTo assignment_view env i status version
      (fst (AdvanceAssignment meta i status version env w)) (w_db w)
      (w_db (snd (AdvanceAssignment meta i status version env w)))"
  unfolding refines_machine_def Let_def handlers_bodies(1,3)
  using mission_table.refines[OF assms prod.collapse[symmetric]]
    assignment_table.refines[OF assms prod.collapse[symmetric]]
    window_table.refines[OF assms prod.collapse[symmetric]]
  by (intro conjI impI) (simp_all only: handlers_bodies(2))

text \<open>A database with one active mission, for the witnesses.\<close>

definition one_mission :: database where
  "one_mission = empty_db\<lparr>db_missions := [\<lparr>sm_ID = ''m'', sm_Code = ''M-1'', sm_Name = ''North'',
     sm_Status = SurveyMissionActive, sm_Timezone = ''UTC'', sm_StartsAt = 9 * hour,
     sm_EndsAt = 20 * hour, sm_Version = 3, sm_CreatedBy = ''u''\<rparr>]\<rparr>"

lemma one_mission_ok: "db_ok one_mission"
  using empty_db_ok by (simp add: one_mission_def db_ok_def empty_db_def unique_def)

lemma closing_run:
  "fst (service_advanceSurveyMission requester ''m'' SurveyMissionClosed 3 ''close'' calm_env
     (fresh_world one_mission)) = Inr ()"
  by code_simp

lemma handlers_refine_machine_witness:
  "machine_move SurveyMission_CanMoveTo ''m'' SurveyMissionClosed 3 (mission_view one_mission) =
   Some (mission_view (w_db (snd (service_advanceSurveyMission requester ''m''
     SurveyMissionClosed 3 ''close'' calm_env (fresh_world one_mission)))))"
  using handlers_refine_machine[of "fresh_world one_mission" calm_env "''m''" SurveyMissionClosed 3
      requester "''close''"] closing_run one_mission_ok
  by (simp add: refines_machine_def fresh_world_def Let_def)

text \<open>The version of a mission never falls.\<close>

lemma mission_view_later:
  assumes "history d d'" "db_ok d'" "mission_view d u = Some (s, k)"
  shows "\<exists>s' k'. mission_view d' u = Some (s', k') \<and> k \<le> k'"
proof -
  obtain n where n: "n < length (db_missions d)" "sm_ID (db_missions d ! n) = u"
      "sm_Version (db_missions d ! n) = k"
    using assms(3) by (auto simp: mission_view_def machine_of_def find_Some_iff)
  have later: "n < length (db_missions d')" "mission_rel (db_missions d ! n) (db_missions d' ! n)"
    using assms(1) n(1) grows_at[of mission_rel "db_missions d" "db_missions d'" n]
    by (auto simp: history_def)
  have "find (\<lambda>r. sm_ID r = u) (db_missions d') = Some (db_missions d' ! n)"
    using assms(2) later(1) mission_relD[OF later(2)] n(2)
    by (intro find_key) (simp_all add: db_ok_def)
  then show ?thesis
    using mission_relD[OF later(2)] n(3) by (simp add: mission_view_def machine_of_def)
qed

end
