(* ===== verification/Http_Missions.thy ===== *)
theory Http_Missions
  imports Http_Access Versioned_Rows
begin

text \<open>
  Two clients and one mission: optimistic locking as a client of the HTTP interface sees it, and a
  small server that shows the hypotheses of the server's properties can hold.
\<close>

section \<open>One winner\<close>

lemma on_db_view:
  assumes "on_db m env w = (r, w')"
  shows "\<exists>v. m env \<lparr>w_db = sv_db (w_db w), w_step = w_step w, w_txn = w_txn w,
      w_broken = w_broken w\<rparr> = (r, v) \<and> sv_db (w_db w') = w_db v"
  using assms by (auto simp: on_db_def split: prod.splits)

lemma error_not_ok: "rs_status (writeError rid e) \<noteq> 200"
  by (auto simp: writeError_def writeJSON_def error_class_def)

lemma advance_handler:
  assumes "on_db (http_advanceSurveyMission status lib rid r i) env w = (Inr resp, w')"
    and "hl_version lib (rq_body r) = Exactly version"
    and "status \<in> {SurveyMissionScheduled, SurveyMissionActive, SurveyMissionClosed}"
  shows "\<exists>action v a b. InTx Pool (mission_steps i status version
      (request_meta lib rid r, action)) env a = (v, b) \<and> w_db a = sv_db (w_db w) \<and>
    w_db b = sv_db (w_db w') \<and> (rs_status resp = 200 \<longrightarrow> v = Inr ())"
proof -
  define action where "action = (if status = SurveyMissionScheduled then ''schedule''
    else if status = SurveyMissionActive then ''activate'' else ''close'')"
  define a where "a = \<lparr>w_db = sv_db (w_db w), w_step = w_step w, w_txn = w_txn w,
      w_broken = w_broken w\<rparr>"
  obtain b where b: "http_advanceSurveyMission status lib rid r i env a = (Inr resp, b)"
      "sv_db (w_db w') = w_db b"
    using on_db_view[OF assms(1)] unfolding a_def by blast
  have "http_advanceSurveyMission status lib rid r i =
      respond (InTx Pool (mission_steps i status version (request_meta lib rid r, action)))
        (\<lambda>_. writeJSON 200 (P_Status status)) (writeError rid)"
    using assms(2,3)
    by (auto simp: http_advanceSurveyMission_def decode_body_def Let_def ScheduleSurveyMission_def
        ActivateSurveyMission_def CloseSurveyMission_def handlers_bodies(1) action_def)
  with b(1) obtain v where "InTx Pool (mission_steps i status version
      (request_meta lib rid r, action)) env a = (v, b)" "rs_status resp = 200 \<longrightarrow> v = Inr ()"
    using error_not_ok by (auto simp: respond_def split: prod.splits sum.splits)
  then show ?thesis using b(2) by (intro exI[of _ action] exI[of _ v] exI[of _ a] exI[of _ b]) (simp add: a_def)
qed

text \<open>C7: when a request to schedule, activate or close a mission has been answered with 200, no later
  request that names the same version is, whatever the server has done in between and whatever
  fails, and it changes nothing.\<close>

theorem mission_one_winner:
  assumes "db_ok (sv_db (w_db w))" "server_reached w1 w2"
    and "hl_version lib (rq_body r) = Exactly version" "hl_version lib (rq_body r2) = Exactly version"
    and "{status, status2} \<subseteq> {SurveyMissionScheduled, SurveyMissionActive, SurveyMissionClosed}"
    and "on_db (http_advanceSurveyMission status lib rid r i) env w = (Inr resp, w1)"
    and "on_db (http_advanceSurveyMission status2 lib rid2 r2 i) env2 w2 = (Inr resp2, w3)"
    and "rs_status resp = 200" "en_uuid_in env2 i = en_uuid_in env i"
  shows "rs_status resp2 \<noteq> 200 \<and> sv_db (w_db w3) = sv_db (w_db w2)"
proof -
  obtain action a b where first: "InTx Pool (mission_steps i status version
      (request_meta lib rid r, action)) env a = (Inr (), b)"
      "w_db a = sv_db (w_db w)" "w_db b = sv_db (w_db w1)"
    using advance_handler[OF assms(6,3)] assms(5,8) by auto
  obtain action2 v c d where second: "InTx Pool (mission_steps i status2 version
      (request_meta lib rid2 r2, action2)) env2 c = (v, d)"
      "w_db c = sv_db (w_db w2)" "w_db d = sv_db (w_db w3)" "rs_status resp2 = 200 \<longrightarrow> v = Inr ()"
    using advance_handler[OF assms(7,4)] assms(5) by auto
  have "keeps server_good env (on_db (http_advanceSurveyMission status lib rid r i))"
    by (simp only: api_handler_defs; intro keeps_rules)
  then have "server_good (w_db w) (w_db w1)" using assms(6) by (rule keepsD)
  then have ok1: "db_ok (sv_db (w_db w1))" using assms(1) by (simp add: server_good_def good_def)
  then have ok2: "db_ok (sv_db (w_db w2))" and later: "history (sv_db (w_db w1)) (sv_db (w_db w2))"
    using server_reached_good[OF assms(2)] by (simp_all add: server_good_def good_def)
  obtain u where moved: "en_uuid_in env i = Some u"
      "machine_move SurveyMission_CanMoveTo u status version (mission_view (w_db a)) =
        Some (mission_view (w_db b))"
    using mission_table.refines[OF _ first(1)] assms(1) first(2) by auto
  then have now: "mission_view (sv_db (w_db w1)) u = Some (status, version + 1)"
    using machine_moved first(3) by metis
  obtain s' k' where "mission_view (sv_db (w_db w2)) u = Some (s', k')" "version < k'"
    using mission_view_later[OF later ok2 now] by auto
  then have "machine_move SurveyMission_CanMoveTo u status2 version (mission_view (w_db c)) = None"
    using second(2) by (simp add: machine_move_def)
  then have "(\<exists>e. v = Inl e) \<and> w_db d = w_db c"
    using mission_table.refused[OF _ second(1)] ok2 second(2) moved(1) assms(9) by simp
  then show ?thesis using second by auto
qed

section \<open>A server\<close>

text \<open>A server with one active mission and the console's demonstration data. The body of a request is
  a number or one of two words.\<close>

definition demo_http :: http_lib where
  "demo_http = \<lparr>hl_console = demo_lib, hl_uuid_ok = (\<lambda>s. s \<noteq> []),
     hl_parse_time = (\<lambda>_ _. Inl (NewError ''cannot parse'')),
     hl_mission = (\<lambda>_. Malformed),
     hl_version = (\<lambda>s. case Atoi s of Inl _ \<Rightarrow> Malformed | Inr n \<Rightarrow> Exactly n),
     hl_job = (\<lambda>_. Malformed), hl_activation = (\<lambda>_. Malformed), hl_window = (\<lambda>_. Malformed),
     hl_report = (\<lambda>_. Malformed), hl_review = (\<lambda>_. Malformed), hl_operator = (\<lambda>_. Malformed),
     hl_rename = (\<lambda>_. Malformed), hl_assignment = (\<lambda>_. Malformed), hl_advance = (\<lambda>_. Malformed),
     hl_incident = (\<lambda>_. Malformed),
     hl_credentials = (\<lambda>s. if s = ''login'' then Exactly (''admin'', ''secret'') else Malformed),
     hl_buoy = (\<lambda>_. Malformed), hl_console_operator = (\<lambda>_. Malformed),
     hl_treatment = (\<lambda>_. Malformed), hl_order = (\<lambda>_. Malformed),
     hl_order_status = (\<lambda>_. Malformed), hl_console_report = (\<lambda>_. Malformed)\<rparr>"

definition demo_request :: "string \<Rightarrow> string list \<Rightarrow> string \<Rightarrow> http_request" where
  "demo_request method path body = \<lparr>rq_method = method, rq_path = path, rq_query = (\<lambda>_. []),
     rq_header = (\<lambda>_. []), rq_remote = ''10.0.0.7:5000'', rq_body = body\<rparr>"

definition demo_server :: "server_db world" where
  "demo_server = fresh_world \<lparr>sv_db = one_mission, sv_console = demo_console\<rparr>"

definition close_mission :: http_request where
  "close_mission = demo_request ''POST'' [''v1'', ''cases'', ''m'', ''close''] ''3''"

lemma route_dispatch_witness:
  "\<exists>r vs. find_route (server_routes demo_http None True) ''GET''
       [''api'', ''acoustic_buoy'', ''page''] = Some (r, vs) \<and>
     rt_pattern r = [Lit ''api'', Lit ''acoustic_buoy'', Lit ''page''] \<and> serves ''GET'' r"
proof -
  have "map_option (\<lambda>(r, vs). rt_pattern r) (find_route (server_routes demo_http None True) ''GET''
      [''api'', ''acoustic_buoy'', ''page'']) =
    Some [Lit ''api'', Lit ''acoustic_buoy'', Lit ''page'']" by code_simp
  then show ?thesis
    using route_dispatch[OF refl, of demo_http None True "''GET''" "[''api'', ''acoustic_buoy'', ''page'']"]
    by auto
qed

lemma service_open_witness:
  "Handler demo_http None True (with_credentials ''Bearer x'' ''y'' close_mission) calm_env demo_server =
     Handler demo_http None True close_mission calm_env demo_server \<and>
   map_sum id rs_status (fst (Handler demo_http None True close_mission calm_env demo_server)) =
     Inr 200"
proof -
  have "map_sum id rs_status (fst (Handler demo_http None True close_mission calm_env demo_server)) =
     Inr 200" by code_simp
  then show ?thesis
    using service_open[of close_mission demo_http None True "''Bearer x''" "''y''" calm_env demo_server]
    by (simp add: close_mission_def demo_request_def)
qed

lemma console_gate_witness:
  "sv_db (w_db (snd (Handler demo_http None True (demo_request ''GET'' [''api'', ''log'', ''page''] [])
     calm_env demo_server))) = one_mission"
  using console_gate[OF surjective_pairing, where r = "demo_request ''GET'' [''api'', ''log'', ''page''] []"
      and lib = demo_http and ready = None and with_console = True and env = calm_env
      and w = demo_server]
  by (simp add: demo_request_def demo_server_def fresh_world_def)

lemma demo_server_reached:
  "server_reached demo_server (snd (Handler demo_http None True close_mission calm_env demo_server))"
  by (intro server_request server_start)

lemma server_invariant_witness:
  "db_ok (sv_db (w_db (snd (Handler demo_http None True close_mission calm_env demo_server)))) \<and>
   map sm_Status (db_missions (sv_db (w_db (snd (Handler demo_http None True close_mission calm_env
     demo_server))))) = [SurveyMissionClosed]"
proof -
  have "map sm_Status (db_missions (sv_db (w_db (snd (Handler demo_http None True close_mission
     calm_env demo_server))))) = [SurveyMissionClosed]" by code_simp
  then show ?thesis
    using server_invariant[OF demo_server_reached _ _ refl refl refl refl] one_mission_ok demo_ok
    by (simp add: demo_server_def demo_start_def fresh_world_def)
qed

definition closing :: "server_db world \<Rightarrow> response result \<times> server_db world" where
  "closing = on_db (http_advanceSurveyMission SurveyMissionClosed demo_http ''r-1'' close_mission ''m'')
     calm_env"

lemma closing_twice:
  "map_sum id rs_status (fst (closing demo_server)) = Inr 200 \<and>
   map_sum id rs_status (fst (closing (snd (closing demo_server)))) = Inr 409"
  by code_simp

lemma mission_one_winner_witness:
  "sv_db (w_db (snd (closing (snd (closing demo_server))))) =
     sv_db (w_db (snd (closing demo_server))) \<and>
   map_sum id rs_status (fst (closing (snd (closing demo_server)))) = Inr 409"
proof -
  obtain resp resp2 where "closing demo_server = (Inr resp, snd (closing demo_server))"
      "closing (snd (closing demo_server)) = (Inr resp2, snd (closing (snd (closing demo_server))))"
      "rs_status resp = 200"
    using closing_twice
    by (cases "fst (closing demo_server)"; cases "fst (closing (snd (closing demo_server)))")
      (auto simp: prod_eq_iff)
  moreover have "hl_version demo_http (rq_body close_mission) = Exactly 3" by code_simp
  ultimately show ?thesis
    using mission_one_winner[where w = demo_server and ?w1.0 = "snd (closing demo_server)"
        and ?w2.0 = "snd (closing demo_server)" and ?w3.0 = "snd (closing (snd (closing demo_server)))"
        and lib = demo_http and r = close_mission and ?r2.0 = close_mission and version = 3
        and status = SurveyMissionClosed and ?status2.0 = SurveyMissionClosed and rid = "''r-1''"
        and ?rid2.0 = "''r-1''" and i = "''m''" and env = calm_env and ?env2.0 = calm_env
        and resp = resp and ?resp2.0 = resp2]
      server_start[of "snd (closing demo_server)"] one_mission_ok closing_twice
    by (simp add: closing_def demo_server_def fresh_world_def)
qed

end
