(* ===== verification/Service_Limits.thy ===== *)
theory Service_Limits
  imports Versioned_Rows
begin

text \<open>
  Where the service allows more, or less, than its specification says: hand-over does not look at the
  status of the job, and an incident cannot be closed twice for one job and kind.
\<close>

section \<open>Hand-over\<close>

lemma find_hit:
  assumes "unique key rows" "find (\<lambda>r. key r = u) rows = Some r" "ver r = v"
  shows "length (filter (\<lambda>r. key r = u \<and> ver r = v) rows) = 1"
proof -
  have "filter (\<lambda>r. key r = u \<and> ver r = v) rows = filter (\<lambda>x. x = r) rows"
    using unique_find[OF assms(2,1)] find_SomeD[OF assms(2)] assms(3) by (intro filter_cong) auto
  moreover have "distinct rows" using assms(1) by (auto simp: unique_def distinct_map)
  ultimately show ?thesis
    using find_SomeD[OF assms(2)] by (simp add: distinct_length_filter)
qed

text \<open>C39: handing a job over, accepting it and reviewing it do not ask for its status. Whatever status a
  job is in, archived and rejected included, the statement that moves it to \<open>activation_pending\<close>,
  \<open>accepted\<close>, \<open>verified\<close> or \<open>rejected\<close> succeeds at the job's version.\<close>

theorem handoff_ignores_status:
  assumes "db_ok (w_db w)" "find (\<lambda>s. rj_ID s = u) (db_jobs (w_db w)) = Some s"
    and "en_uuid_in env i = Some u" "rj_Version s < max_bigint"
    and "status \<in> {RecoveryJobActivationPending, RecoveryJobAccepted, RecoveryJobVerified,
      RecoveryJobRejected}"
    and "\<not> w_broken w" "en_fault env (w_step w) = None"
  shows "\<exists>w'. moveRecoveryJob Tx i status (rj_Version s) now env w = (Inr (), w') \<and>
    map_option rj_Status (find (\<lambda>s. rj_ID s = u) (db_jobs (w_db w'))) = Some status"
proof -
  have unique: "unique rj_ID (db_jobs (w_db w))" using assms(1) by (simp add: db_ok_def)
  let ?change = "\<lambda>s. s\<lparr>rj_Status := status,
      rj_CompletedAt := (if status = ''completed'' then Some (pg_time now) else rj_CompletedAt s),
      rj_AcceptedAt := (if status = ''accepted'' then Some (pg_time now) else rj_AcceptedAt s),
      rj_Version := rj_Version s + 1\<rparr>"
  let ?rows = "upd (\<lambda>r. rj_ID r = u \<and> rj_Version r = rj_Version s) ?change (db_jobs (w_db w))"
  have "status \<in> set job_statuses" using assms(5) by (auto simp: job_statuses_def)
  then have "sql_move_job i status (rj_Version s) now env n t (w_db w) =
      Inr (1, (w_db w)\<lparr>db_jobs := ?rows\<rparr>)" for n t
    using assms(3,4) find_hit[OF unique assms(2), of rj_Version "rj_Version s"]
    by (auto simp: sql_move_job_def update_jobs_def sql_update_def)
  then obtain w' where "moveRecoveryJob Tx i status (rj_Version s) now env w = (Inr (), w')"
      "w_db w' = (w_db w)\<lparr>db_jobs := ?rows\<rparr>"
    using assms(5-7)
    by (auto simp: moveRecoveryJob_def one_row_def io_bind_def io_wrap_def io_return_def exec_stmt_def
        exec_tx_def Let_def)
  moreover have "find (\<lambda>s. rj_ID s = u) ?rows = Some (?change s)"
    using assms(2) find_SomeD[OF assms(2)] by (subst find_upd_key) simp_all
  ultimately show ?thesis by auto
qed

section \<open>Incidents\<close>

lemma closed_final: "incident_edge\<^sup>*\<^sup>* ''closed'' s \<Longrightarrow> s = ''closed''"
  by (induction rule: rtranclp_induct) (auto simp: incident_edge_def)

lemma incident_relD: "incident_rel x y \<Longrightarrow> ii_ID y = ii_ID x \<and> ii_RecoveryJobID y = ii_RecoveryJobID x \<and>
    ii_Kind y = ii_Kind x \<and> incident_edge\<^sup>*\<^sup>* (ii_Status x) (ii_Status y)"
  by (cases x; cases y) (simp add: incident_rel_def)

definition shut_out :: "string \<Rightarrow> string \<Rightarrow> database \<Rightarrow> bool" where
  "shut_out closed_id open_id d \<longleftrightarrow>
     (\<exists>c \<in> set (db_incidents d). \<exists>p \<in> set (db_incidents d). ii_ID c = closed_id \<and> ii_ID p = open_id \<and>
        ii_RecoveryJobID p = ii_RecoveryJobID c \<and> ii_Kind p = ii_Kind c \<and> open_id \<noteq> closed_id \<and>
        ii_Status c = IntegrityIncidentClosed \<and> ii_Status p \<noteq> IntegrityIncidentClosed)"

lemma shut_out_later:
  assumes "shut_out k u d" "history d d'" "db_ok d'"
  shows "shut_out k u d'"
proof -
  obtain c p where cp: "c \<in> set (db_incidents d)" "p \<in> set (db_incidents d)" "ii_ID c = k"
      "ii_ID p = u" "ii_RecoveryJobID p = ii_RecoveryJobID c" "ii_Kind p = ii_Kind c" "u \<noteq> k"
      "ii_Status c = ''closed''"
    using assms(1) unfolding shut_out_def by blast
  have later: "\<exists>y \<in> set (db_incidents d'). incident_rel x y" if x: "x \<in> set (db_incidents d)" for x
  proof -
    obtain n where "n < length (db_incidents d)" "db_incidents d ! n = x"
      using x unfolding in_set_conv_nth by blast
    then show ?thesis
      using assms(2) grows_at[of incident_rel "db_incidents d" "db_incidents d'" n]
      by (force simp: history_def)
  qed
  obtain c' p' where rows: "c' \<in> set (db_incidents d')" "p' \<in> set (db_incidents d')"
    and rels: "incident_rel c c'" "incident_rel p p'" using later cp(1,2) by blast
  have same: "ii_ID c' = k" "ii_ID p' = u" "ii_RecoveryJobID p' = ii_RecoveryJobID c'"
    "ii_Kind p' = ii_Kind c'" and closed: "ii_Status c' = ''closed''"
    using incident_relD[OF rels(1)] incident_relD[OF rels(2)] cp closed_final by simp_all
  have "ii_Status p' \<noteq> ''closed''"
  proof
    assume "ii_Status p' = ''closed''"
    then have "incident_key p' = incident_key c'" using same closed by (simp add: incident_key_def)
    then have "p' = c'"
      using unique_inj[of incident_key "db_incidents d'"] rows assms(3) by (auto simp: db_ok_def)
    then show False using same cp(7) by simp
  qed
  then show ?thesis using rows same closed cp(7) by (auto simp: shut_out_def)
qed

lemma filter_one: "length (filter P xs) = 1 \<Longrightarrow> \<exists>x \<in> set xs. P x"
  by (metis filter_empty_conv length_0_conv zero_neq_one)

lemma close_statement:
  assumes "closeIntegrityIncident Tx i now env w = (Inr (), w')" "en_uuid_in env i = Some u"
  shows "\<exists>q \<in> set (db_incidents (w_db w')). ii_ID q = u \<and> ii_Status q = ''closed''"
proof -
  let ?hit = "\<lambda>r. ii_ID r = u \<and> ii_Status r \<in> set [''open'', ''in_progress'']"
  let ?change = "\<lambda>r. r\<lparr>ii_Status := ''closed'', ii_ClosedAt := Some (pg_time now)\<rparr>"
  have "exec_stmt Tx (sql_update_incident i [''open'', ''in_progress''] ?change) env w = (Inr 1, w')"
    using assms(1) by (simp add: closeIntegrityIncident_def one_row_ok io_wrap_ok)
  then obtain n t where st: "sql_update_incident i [''open'', ''in_progress''] ?change env n t (w_db w) =
      Inr (1, w_db w')" using exec_tx_ok by metis
  have result: "db_incidents d = upd ?hit ?change (db_incidents (w_db w)) \<and>
      length (filter ?hit (db_incidents (w_db w))) = 1"
    if "sql_update_incident i [''open'', ''in_progress''] ?change env n t (w_db w) = Inr (1, d)" for d
    using that assms(2) by (auto simp: sql_update_incident_def sql_update_Inr split: if_splits)
  note rows = result[OF st, THEN conjunct1] and one = result[OF st, THEN conjunct2]
  obtain r where "r \<in> set (db_incidents (w_db w))" "?hit r"
    using filter_one[OF one] by blast
  then have "?change r \<in> set (db_incidents (w_db w'))" unfolding rows upd_def by auto
  then show ?thesis using \<open>?hit r\<close> by (intro bexI[of _ "?change r"]) simp_all
qed

text \<open>C40: once one incident of a job has been closed, no other incident of the same job and kind ever is:
  whatever calls are made, it is not closed, because the unique key of the table contains the
  status; closing it fails and changes nothing.\<close>

theorem incident_never_closed:
  assumes "db_ok (w_db w)" "shut_out k u (w_db w)" "reached w w'" "en_uuid_in env i = Some u"
  shows "shut_out k u (w_db w') \<and> (\<exists>e. fst (CloseIntegrityIncident meta i env w') = Inl e) \<and>
    w_db (snd (CloseIntegrityIncident meta i env w')) = w_db w'"
proof -
  have always: "shut_out k u (w_db v) \<and> db_ok (w_db v)" if "reached w v" for v
    using reached_good[OF that] assms(1,2) shut_out_later by (auto simp: good_def)
  obtain r v where run: "CloseIntegrityIncident meta i env w' = (r, v)" by fastforce
  then have "reached w v"
    using reached_call[OF assms(3), of "Call_CloseIncident meta i" env] by simp
  note after = always[OF this]
  have no: False if q: "q \<in> set (db_incidents (w_db v))" "ii_ID q = u" "ii_Status q = ''closed''" for q
  proof -
    obtain p where p: "p \<in> set (db_incidents (w_db v))" "ii_ID p = u" "ii_Status p \<noteq> ''closed''"
      using after unfolding shut_out_def by blast
    have "unique ii_ID (db_incidents (w_db v))" using after by (simp add: db_ok_def)
    from unique_inj[OF this p(1) q(1)] p q show False by simp
  qed
  have fails: "\<exists>q \<in> set (db_incidents (w_db b)). ii_ID q = u \<and> ii_Status q = ''closed''"
    if body: "io_bind service_now (\<lambda>now. io_then (closeIntegrityIncident Tx i now)
      (writeAudit Tx (audit meta ''safety_alert'' i ''close'' ''success'' []))) env a = (Inr x, b)" for a b x
  proof -
    obtain now a1 b1 where "closeIntegrityIncident Tx i now env a1 = (Inr (), b1)"
        "writeAudit Tx (audit meta ''safety_alert'' i ''close'' ''success'' []) env b1 = (Inr (), b)"
      using body by (auto simp: io_ok)
    then show ?thesis using close_statement[OF _ assms(4)] writeAudit_ok by fastforce
  qed
  have "run_tx ''begin transaction'' ''commit transaction'' (io_bind service_now (\<lambda>now.
      io_then (closeIntegrityIncident Tx i now)
        (writeAudit Tx (audit meta ''safety_alert'' i ''close'' ''success'' [])))) env w' = (r, v)"
    using run by (simp add: CloseIntegrityIncident_def InTx_def)
  then have "(\<exists>e. r = Inl e) \<and> w_db v = w_db w'"
    by (cases rule: run_tx_cases) (use fails no in fastforce)+
  then show ?thesis using always[OF assms(3)] run by simp
qed


section \<open>Examples\<close>

text \<open>One mission, one buoy, one archived job, and two incidents of one kind on it, the first closed.\<close>

definition archived_job :: RecoveryJobRow where
  "archived_job = \<lparr>rj_ID = ''j'', rj_SurveyMissionID = ''m'', rj_AcousticBuoyID = ''b'',
     rj_TaskCode = ''T-1'', rj_Status = RecoveryJobArchived, rj_CompletedAt = None,
     rj_AcceptedAt = None, rj_ExpiresAt = 0, rj_Version = 4, rj_CreatedAt = 0\<rparr>"

definition two_incidents :: "IntegrityIncident list" where
  "two_incidents = map (\<lambda>(i, status, closed). \<lparr>ii_ID = i, ii_RecoveryJobID = ''j'',
     ii_Kind = ''reassess'', ii_Status = status, ii_Reason = ''noise'', ii_DueAt = 0,
     ii_ClosedAt = closed\<rparr>)
     [(''k'', IntegrityIncidentClosed, Some 0), (''p'', IntegrityIncidentOpen, None)]"

definition late_db :: database where
  "late_db = one_mission\<lparr>
     db_operators := [\<lparr>op_ID = ''u'', op_Name = ''Ann'',
       op_Role = RoleQualityReviewer\<rparr>],
     db_buoys := [\<lparr>ab_ID = ''b'', ab_SurveyMissionID = ''m'', ab_Code = ''B-1'',
       ab_ArrayOpsLane = ''lane'', ab_RequiredSuccesses = 1, ab_Completed = 0\<rparr>],
     db_jobs := [archived_job], db_incidents := two_incidents\<rparr>"

lemma late_db_ok: "db_ok late_db"
  by (simp add: late_db_def archived_job_def two_incidents_def one_mission_def db_ok_def empty_db_def
      unique_def refers_def job_place_def buoy_place_def incident_key_def buoys_ok_def completions_def
      jobs_ok_def reports_ok_def incidents_ok_def)

lemma archived_job_accepted:
  "(let (r, w') = AcceptRecoveryJob requester (handoff_to ''j'' ''u'') 4 calm_env (fresh_world late_db)
    in (r, map rj_Status (db_jobs (w_db w')))) = (Inr (), [RecoveryJobAccepted])"
  by code_simp

lemma handoff_ignores_status_witness:
  "\<exists>w'. moveRecoveryJob Tx ''j'' RecoveryJobAccepted 4 0 calm_env (fresh_world late_db) = (Inr (), w') \<and>
     map_option rj_Status (find (\<lambda>s. rj_ID s = ''j'') (db_jobs (w_db w'))) = Some RecoveryJobAccepted"
  using handoff_ignores_status[of "fresh_world late_db" "''j''" archived_job calm_env "''j''"
      RecoveryJobAccepted 0] late_db_ok
  by (simp add: fresh_world_def late_db_def archived_job_def max_bigint_def)

lemma incident_never_closed_witness:
  "w_db (snd (CloseIntegrityIncident requester ''p'' calm_env (fresh_world late_db))) = late_db"
  using incident_never_closed[where w = "fresh_world late_db" and w' = "fresh_world late_db"
      and k = "''k''" and u = "''p''" and i = "''p''" and env = calm_env and meta = requester]
    late_db_ok reached_start
  by (simp add: fresh_world_def late_db_def two_incidents_def shut_out_def)

end
