(* ===== verification/Concurrent_Moves.thy ===== *)
theory Concurrent_Moves
  imports Versioned_Rows
begin

text \<open>
  Requests that move missions and assignments at the same time. Elsewhere one transaction runs after
  the other; here the statements of any number of transactions are interleaved as PostgreSQL does at
  READ COMMITTED, the level \<open>InTx\<close> asks for: a statement sees what is committed when it runs and what
  its own transaction has written, an UPDATE keeps the row it changed locked until its transaction
  ends, and an UPDATE that finds that row locked waits and then looks at it again. At the end, two
  races that this allows.
\<close>

section \<open>The requests and their steps\<close>

datatype moved_table = Missions | Assignments

record move =
  mv_table :: moved_table
  mv_meta :: RequestMeta
  mv_id :: string
  mv_status :: string
  mv_version :: int
  mv_action :: string

text \<open>The handler of a move reads and checks, updates, and writes an audit event.\<close>

definition move_read :: "move \<Rightarrow> (database, unit) io" where
  "move_read m =
     (case mv_table m of
        Missions \<Rightarrow>
          io_bind (getSurveyMission Tx (mv_id m)) (\<lambda>survey_mission.
            if \<not> SurveyMission_CanMoveTo (sm_Status survey_mission) (mv_status m)
              then io_throw (Errorf (''survey_mission '' @ mv_id m) invalid_transition)
            else io_return ())
      | Assignments \<Rightarrow> io_return ())"

definition move_update :: "move \<Rightarrow> (database, unit) io" where
  "move_update m =
     (case mv_table m of
        Missions \<Rightarrow> advanceSurveyMission Tx (mv_id m) (mv_status m) (mv_version m)
      | Assignments \<Rightarrow> advanceAssignment Tx (mv_id m) (mv_status m) (mv_version m))"

definition move_audit :: "move \<Rightarrow> (database, unit) io" where
  "move_audit m =
     writeAudit Tx (case mv_table m of
        Missions \<Rightarrow>
          audit (mv_meta m) ''acoustic_buoy_survey_mission'' (mv_id m) (mv_action m) ''success'' []
      | Assignments \<Rightarrow> audit (mv_meta m) ''assignment'' (mv_id m) (mv_status m) ''success'' [])"

text \<open>These are the handlers of the service.\<close>

lemma io_bind_assoc: "io_bind (io_bind m f) g = io_bind m (\<lambda>x. io_bind (f x) g)"
  by (rule ext)+ (simp add: io_bind_def split: prod.split sum.split)

lemma handler_steps:
  "service_advanceSurveyMission meta i status version action =
     InTx Pool (io_then (move_read \<lparr>mv_table = Missions, mv_meta = meta, mv_id = i, mv_status = status,
         mv_version = version, mv_action = action\<rparr>)
       (io_then (move_update \<lparr>mv_table = Missions, mv_meta = meta, mv_id = i, mv_status = status,
           mv_version = version, mv_action = action\<rparr>)
         (move_audit \<lparr>mv_table = Missions, mv_meta = meta, mv_id = i, mv_status = status,
           mv_version = version, mv_action = action\<rparr>)))"
  "AdvanceAssignment meta i status version =
     InTx Pool (io_then (move_update \<lparr>mv_table = Assignments, mv_meta = meta, mv_id = i,
         mv_status = status, mv_version = version, mv_action = action\<rparr>)
       (move_audit \<lparr>mv_table = Assignments, mv_meta = meta, mv_id = i, mv_status = status,
         mv_version = version, mv_action = action\<rparr>))"
proof -
  have step: "io_bind (if c then io_throw e else io_return ()) k =
      (if c then io_throw e else k ())" for c e and k :: "unit \<Rightarrow> (database, unit) io"
    by (rule ext)+ (simp add: io_bind_def io_throw_def io_return_def)
  show "service_advanceSurveyMission meta i status version action =
     InTx Pool (io_then (move_read \<lparr>mv_table = Missions, mv_meta = meta, mv_id = i, mv_status = status,
         mv_version = version, mv_action = action\<rparr>)
       (io_then (move_update \<lparr>mv_table = Missions, mv_meta = meta, mv_id = i, mv_status = status,
           mv_version = version, mv_action = action\<rparr>)
         (move_audit \<lparr>mv_table = Missions, mv_meta = meta, mv_id = i, mv_status = status,
           mv_version = version, mv_action = action\<rparr>)))"
    by (simp add: handlers_bodies(1) mission_steps_def move_read_def move_update_def move_audit_def
        io_then_def io_bind_assoc step cong: if_cong)
  show "AdvanceAssignment meta i status version =
     InTx Pool (io_then (move_update \<lparr>mv_table = Assignments, mv_meta = meta, mv_id = i,
         mv_status = status, mv_version = version, mv_action = action\<rparr>)
       (move_audit \<lparr>mv_table = Assignments, mv_meta = meta, mv_id = i, mv_status = status,
         mv_version = version, mv_action = action\<rparr>))"
    by (simp add: AdvanceAssignment_def move_update_def move_audit_def)
qed

section \<open>Interleaving\<close>

text \<open>What an UPDATE of a move has written, as it will be seen once it is committed.\<close>

definition move_write :: "move \<Rightarrow> string \<Rightarrow> database \<Rightarrow> database" where
  "move_write m u d =
     (case mv_table m of
        Missions \<Rightarrow> d\<lparr>db_missions := upd (\<lambda>r. sm_ID r = u)
          (\<lambda>r. r\<lparr>sm_Status := mv_status m, sm_Version := sm_Version r + 1\<rparr>) (db_missions d)\<rparr>
      | Assignments \<Rightarrow> d\<lparr>db_assignments := upd (\<lambda>r. as_ID r = u)
          (\<lambda>r. r\<lparr>as_Status := mv_status m, as_Version := as_Version r + 1\<rparr>) (db_assignments d)\<rparr>)"

definition move_view :: "moved_table \<Rightarrow> database \<Rightarrow> machine" where
  "move_view k d = (case k of Missions \<Rightarrow> mission_view d | Assignments \<Rightarrow> assignment_view d)"

definition move_edge :: "moved_table \<Rightarrow> string \<Rightarrow> string \<Rightarrow> bool" where
  "move_edge k = (case k of Missions \<Rightarrow> SurveyMission_CanMoveTo | Assignments \<Rightarrow> Assignment_CanMoveTo)"

text \<open>
  Where a transaction is: begun; past its check; holding the lock of the row \<open>u\<close> it has updated;
  also with its audit event written; or over, with the answer of the request. The flag records
  whether the row had the version the request names when its status was checked.
\<close>

datatype txn_state =
    Begun
  | Checked bool
  | Updated bool string
  | Logged bool string AuditRow
  | Over "unit result"

record commit =
  cm_move :: nat
  cm_row :: string
  cm_fresh :: bool

record interleaving =
  il_db :: database
  il_txns :: "txn_state list"
  il_log :: "commit list"

definition interleaving_start :: "move list \<Rightarrow> database \<Rightarrow> interleaving" where
  "interleaving_start reqs d =
     \<lparr>il_db = d, il_txns = replicate (length reqs) Begun, il_log = []\<rparr>"

definition seen :: "nat \<Rightarrow> nat \<Rightarrow> database \<Rightarrow> database world" where
  "seen n t d = \<lparr>w_db = d, w_step = n, w_txn = t, w_broken = False\<rparr>"

definition has_version :: "env \<Rightarrow> move \<Rightarrow> database \<Rightarrow> bool" where
  "has_version env m d \<longleftrightarrow>
     (case en_uuid_in env (mv_id m) of
        None \<Rightarrow> False
      | Some u \<Rightarrow> map_option snd (move_view (mv_table m) d u) = Some (mv_version m))"

text \<open>The row a transaction has locked, and the key of the audit event it has inserted.\<close>

fun locked_row :: "txn_state \<Rightarrow> string option" where
  "locked_row (Updated fresh u) = Some u"
| "locked_row (Logged fresh u a) = Some u"
| "locked_row _ = None"

fun locked_key :: "txn_state \<Rightarrow> string option" where
  "locked_key (Logged fresh u a) = Some (ar_ID a)"
| "locked_key _ = None"

fun txn_over :: "txn_state \<Rightarrow> bool" where
  "txn_over (Over r) = True"
| "txn_over _ = False"

definition row_free :: "move list \<Rightarrow> txn_state list \<Rightarrow> moved_table \<Rightarrow> string \<Rightarrow> bool" where
  "row_free reqs txns k u \<longleftrightarrow>
     list_all (\<lambda>(m, t). \<not> (mv_table m = k \<and> locked_row t = Some u)) (zip reqs txns)"

definition key_free :: "txn_state list \<Rightarrow> string \<Rightarrow> bool" where
  "key_free txns key \<longleftrightarrow> list_all (\<lambda>t. locked_key t \<noteq> Some key) txns"

abbreviation put_txn :: "interleaving \<Rightarrow> nat \<Rightarrow> txn_state \<Rightarrow> interleaving" where
  "put_txn s j t \<equiv> s\<lparr>il_txns := (il_txns s)[j := t]\<rparr>"

inductive interleaving_step :: "env \<Rightarrow> move list \<Rightarrow> interleaving \<Rightarrow> interleaving \<Rightarrow> bool" for env reqs where
  check: "j < length reqs \<Longrightarrow> il_txns s ! j = Begun \<Longrightarrow>
    move_read (reqs ! j) env (seen n t (il_db s)) = (Inr (), w) \<Longrightarrow>
    interleaving_step env reqs s (put_txn s j (Checked (has_version env (reqs ! j) (il_db s))))"
| check_fails: "j < length reqs \<Longrightarrow> il_txns s ! j = Begun \<Longrightarrow>
    move_read (reqs ! j) env (seen n t (il_db s)) = (Inl e, w) \<Longrightarrow>
    interleaving_step env reqs s (put_txn s j (Over (Inl e)))"
| update: "j < length reqs \<Longrightarrow> il_txns s ! j = Checked fresh \<Longrightarrow>
    move_update (reqs ! j) env (seen n t (il_db s)) = (Inr (), w) \<Longrightarrow>
    en_uuid_in env (mv_id (reqs ! j)) = Some u \<Longrightarrow>
    row_free reqs (il_txns s) (mv_table (reqs ! j)) u \<Longrightarrow>
    interleaving_step env reqs s (put_txn s j (Updated fresh u))"
| update_fails: "j < length reqs \<Longrightarrow> il_txns s ! j = Checked fresh \<Longrightarrow>
    move_update (reqs ! j) env (seen n t (il_db s)) = (Inl e, w) \<Longrightarrow>
    interleaving_step env reqs s (put_txn s j (Over (Inl e)))"
| log: "j < length reqs \<Longrightarrow> il_txns s ! j = Updated fresh u \<Longrightarrow>
    move_audit (reqs ! j) env (seen n t (move_write (reqs ! j) u (il_db s))) = (Inr (), w) \<Longrightarrow>
    key_free (il_txns s) (ar_ID (last (db_audits (w_db w)))) \<Longrightarrow>
    interleaving_step env reqs s (put_txn s j (Logged fresh u (last (db_audits (w_db w)))))"
| log_fails: "j < length reqs \<Longrightarrow> il_txns s ! j = Updated fresh u \<Longrightarrow>
    move_audit (reqs ! j) env (seen n t (move_write (reqs ! j) u (il_db s))) = (Inl e, w) \<Longrightarrow>
    interleaving_step env reqs s (put_txn s j (Over (Inl e)))"
| commit: "j < length reqs \<Longrightarrow> il_txns s ! j = Logged fresh u a \<Longrightarrow>
    d = move_write (reqs ! j) u (il_db s) \<Longrightarrow> answer = Inr () \<or> answer = Inl e \<Longrightarrow>
    interleaving_step env reqs s
      \<lparr>il_db = d\<lparr>db_audits := db_audits d @ [a]\<rparr>, il_txns = (il_txns s)[j := Over answer],
       il_log = il_log s @ [\<lparr>cm_move = j, cm_row = u, cm_fresh = fresh\<rparr>]\<rparr>"
| fails: "j < length reqs \<Longrightarrow> \<not> txn_over (il_txns s ! j) \<Longrightarrow>
    interleaving_step env reqs s (put_txn s j (Over (Inl e)))"

abbreviation interleaved :: "env \<Rightarrow> move list \<Rightarrow> database \<Rightarrow> interleaving \<Rightarrow> bool" where
  "interleaved env reqs d s \<equiv> (interleaving_step env reqs)\<^sup>*\<^sup>* (interleaving_start reqs d) s"

section \<open>What the statements do\<close>

lemma update_hits:
  assumes "db_ok d" "move_update m env (seen n t d) = (Inr (), w)"
  shows "\<exists>u st. en_uuid_in env (mv_id m) = Some u \<and>
    move_view (mv_table m) d u = Some (st, mv_version m) \<and>
    (mv_table m = Assignments \<longrightarrow> Assignment_CanMoveTo st (mv_status m))"
proof (cases "mv_table m")
  case Missions
  then have "advanceSurveyMission Tx (mv_id m) (mv_status m) (mv_version m) env (seen n t d) = (Inr (), w)"
    using assms(2) by (simp add: move_update_def)
  from advance_statement[OF this] obtain u where u: "en_uuid_in env (mv_id m) = Some u"
    "length (filter (\<lambda>p. sm_ID p = u \<and> sm_Version p = mv_version m) (db_missions d)) = 1"
    by (auto simp: Let_def seen_def)
  then obtain p where p: "p \<in> set (db_missions d)" "sm_ID p = u" "sm_Version p = mv_version m"
    by (metis (mono_tags, lifting) filter_empty_conv length_0_conv zero_neq_one)
  have "unique sm_ID (db_missions d)" using assms(1) by (simp add: db_ok_def)
  from find_key[OF this p(1,2)] show ?thesis
    using u(1) p(3) Missions by (auto simp: move_view_def mission_view_def machine_of_def)
next
  case Assignments
  obtain sources a b where run: "AssignmentSourcesFor (mv_status m) = Some sources"
    "sql_advance_assignment (mv_id m) (mv_status m) (mv_version m) sources env a b d = Inr (1, w_db w)"
    using assms(2) Assignments unfolding move_update_def advanceAssignment_def
    by (auto simp: one_row_ok io_ok seen_def split: if_splits option.splits dest!: exec_tx_ok)
  have "unique as_ID (db_assignments d)" using assms(1) by (simp add: db_ok_def)
  from advance_assignment_moves[OF this run(2)] obtain u where u: "en_uuid_in env (mv_id m) = Some u"
    "machine_move Assignment_CanMoveTo u (mv_status m) (mv_version m) (assignment_view d) =
      Some (assignment_view (w_db w))"
    using sources_CanMoveTo run(1) by blast
  then show ?thesis
    using Assignments by (auto simp: move_view_def machine_move_def split: option.splits if_splits)
qed

lemma write_view:
  assumes "move_view (mv_table m) d u = Some (st, v)"
  shows "move_view k (move_write m u d) =
    (if k = mv_table m then (move_view k d)(u \<mapsto> (mv_status m, v + 1)) else move_view k d)"
proof (rule ext)
  fix x
  show "move_view k (move_write m u d) x =
    (if k = mv_table m then (move_view k d)(u \<mapsto> (mv_status m, v + 1)) else move_view k d) x"
    using assms
    by (cases "mv_table m"; cases k)
      (auto simp: move_view_def move_write_def mission_view_def assignment_view_def machine_of_def
        find_upd_key[of sm_ID] find_upd_key[of as_ID] find_Some_iff option.map_comp
        intro!: option.map_cong)
qed

lemma write_audits [simp]: "db_audits (move_write m u d) = db_audits d"
  by (simp add: move_write_def split: moved_table.split)

lemma write_ok: "db_ok d \<Longrightarrow> db_ok (move_write m u d)"
  by (simp add: move_write_def db_ok_def split: moved_table.split)

lemma audit_view [simp]: "move_view k (d\<lparr>db_audits := as\<rparr>) = move_view k d"
  by (simp add: move_view_def mission_view_def assignment_view_def split: moved_table.split)

lemma audit_ok: "db_ok d \<Longrightarrow> ar_ID a \<notin> ar_ID ` set (db_audits d) \<Longrightarrow>
    db_ok (d\<lparr>db_audits := db_audits d @ [a]\<rparr>)"
  by (simp add: db_ok_def unique_def)

lemma audit_new:
  assumes "db_ok d" "move_audit m env (seen n t d) = (Inr (), w)"
  shows "ar_ID (last (db_audits (w_db w))) \<notin> ar_ID ` set (db_audits d)"
proof -
  have new: "ar_ID (last (db_audits (w_db w))) \<notin> ar_ID ` set (db_audits d)"
    if run: "writeAudit Tx inp env (seen n t d) = (Inr (), w)" for inp
  proof -
    from writeAudit_ok[OF run] obtain a where a: "w_db w = d\<lparr>db_audits := db_audits d @ [a]\<rparr>"
      by (auto simp: seen_def)
    have "good d (w_db w)" using keepsD[OF good_writeAudit run] by (simp add: seen_def)
    then have "unique ar_ID (db_audits d @ [a])" using assms(1) a by (simp add: good_def db_ok_def)
    then show ?thesis by (auto simp: a unique_def)
  qed
  from assms(2)[unfolded move_audit_def] show ?thesis by (rule new)
qed

lemma check_passes:
  assumes "db_ok d" "move_read m env (seen n t d) = (Inr (), w)" "mv_table m = Missions"
  shows "\<exists>u st k. en_uuid_in env (mv_id m) = Some u \<and> move_view Missions d u = Some (st, k) \<and>
    SurveyMission_CanMoveTo st (mv_status m)"
proof -
  obtain p w1 where p: "getSurveyMission Tx (mv_id m) env (seen n t d) = (Inr p, w1)"
      "SurveyMission_CanMoveTo (sm_Status p) (mv_status m)"
    using assms(2,3) by (auto simp: move_read_def io_ok split: if_splits)
  obtain u where "en_uuid_in env (mv_id m) = Some u" "find (\<lambda>r. sm_ID r = u) (db_missions d) = Some p"
    using query_row_found[OF p(1)[unfolded getSurveyMission_def]] by (auto simp: seen_def)
  with p(2) show ?thesis by (auto simp: move_view_def mission_view_def machine_of_def)
qed

section \<open>Invariant\<close>

text \<open>What holds of a transaction: a check made at the version of the request stands as long as the
  row has this version, and a locked row still has it.\<close>

definition row_ok :: "env \<Rightarrow> move \<Rightarrow> database \<Rightarrow> bool \<Rightarrow> string \<Rightarrow> bool" where
  "row_ok env m d fresh u \<longleftrightarrow>
     en_uuid_in env (mv_id m) = Some u \<and>
     (\<exists>st. move_view (mv_table m) d u = Some (st, mv_version m) \<and>
        (fresh \<or> mv_table m = Assignments \<longrightarrow> move_edge (mv_table m) st (mv_status m)))"

fun txn_ok :: "env \<Rightarrow> move \<Rightarrow> database \<Rightarrow> txn_state \<Rightarrow> bool" where
  "txn_ok env m d (Checked fresh) \<longleftrightarrow>
     (fresh \<and> mv_table m = Missions \<longrightarrow>
        (\<exists>u st k. en_uuid_in env (mv_id m) = Some u \<and> move_view Missions d u = Some (st, k) \<and>
           mv_version m \<le> k \<and> (k = mv_version m \<longrightarrow> move_edge Missions st (mv_status m))))"
| "txn_ok env m d (Updated fresh u) \<longleftrightarrow> row_ok env m d fresh u"
| "txn_ok env m d (Logged fresh u a) \<longleftrightarrow> row_ok env m d fresh u \<and> ar_ID a \<notin> ar_ID ` set (db_audits d)"
| "txn_ok env m d t \<longleftrightarrow> True"

text \<open>Two transactions never hold one lock.\<close>

definition apart :: "move list \<Rightarrow> txn_state list \<Rightarrow> bool" where
  "apart reqs txns \<longleftrightarrow>
     (\<forall>i < length reqs. \<forall>j < length reqs. i \<noteq> j \<longrightarrow>
        (mv_table (reqs ! i) = mv_table (reqs ! j) \<and> locked_row (txns ! i) \<noteq> None \<longrightarrow>
           locked_row (txns ! i) \<noteq> locked_row (txns ! j)) \<and>
        (locked_key (txns ! i) \<noteq> None \<longrightarrow> locked_key (txns ! i) \<noteq> locked_key (txns ! j)))"

lemma apart_update:
  assumes "apart reqs txns" "j < length reqs" "length txns = length reqs"
    and "\<And>u. locked_row t = Some u \<Longrightarrow>
      locked_row (txns ! j) = Some u \<or> row_free reqs txns (mv_table (reqs ! j)) u"
    and "\<And>x. locked_key t = Some x \<Longrightarrow> key_free txns x"
  shows "apart reqs (txns[j := t])"
proof -
  have row: "locked_row (txns ! i) \<noteq> Some u"
    if "i < length reqs" "i \<noteq> j" "mv_table (reqs ! i) = mv_table (reqs ! j)" "locked_row t = Some u" for i u
    using assms(4)[OF that(4)]
  proof
    assume j: "locked_row (txns ! j) = Some u"
    have "locked_row (txns ! i) \<noteq> None \<longrightarrow> locked_row (txns ! i) \<noteq> locked_row (txns ! j)"
      using assms(1,2) that(1-3) unfolding apart_def by blast
    then show ?thesis using j by auto
  next
    assume "row_free reqs txns (mv_table (reqs ! j)) u"
    then show ?thesis using that(1,3) assms(3) by (auto simp: row_free_def list_all_length)
  qed
  have key: "locked_key (txns ! i) \<noteq> Some x" if "i < length reqs" "locked_key t = Some x" for i x
    using assms(5)[OF that(2)] that(1) assms(3) by (auto simp: key_free_def list_all_length)
  show ?thesis
    unfolding apart_def
  proof (intro allI impI)
    fix i k assume ik: "i < length reqs" "k < length reqs" "i \<noteq> k"
    consider "i = j" | "k = j" "i \<noteq> j" | "i \<noteq> j" "k \<noteq> j" by blast
    then show "(mv_table (reqs ! i) = mv_table (reqs ! k) \<and> locked_row (txns[j := t] ! i) \<noteq> None \<longrightarrow>
           locked_row (txns[j := t] ! i) \<noteq> locked_row (txns[j := t] ! k)) \<and>
        (locked_key (txns[j := t] ! i) \<noteq> None \<longrightarrow>
           locked_key (txns[j := t] ! i) \<noteq> locked_key (txns[j := t] ! k))"
    proof cases
      case 1
      then show ?thesis using ik assms(2,3) row[of k] key[of k] by auto
    next
      case 2
      then show ?thesis
        using ik assms(2,3) row[of i] key[of i] by (cases "locked_row t"; cases "locked_key t") auto
    next
      case 3
      then show ?thesis using ik assms(1) unfolding apart_def by simp
    qed
  qed
qed

text \<open>The commits, one after the other, on the abstract machines of the two tables.\<close>

definition commit_edge :: "moved_table \<Rightarrow> bool \<Rightarrow> string \<Rightarrow> string \<Rightarrow> bool" where
  "commit_edge k fresh = (if fresh \<or> k = Assignments then move_edge k else (\<lambda>_ _. True))"

fun replay_moves ::
  "move list \<Rightarrow> commit list \<Rightarrow> (moved_table \<Rightarrow> machine) \<Rightarrow> (moved_table \<Rightarrow> machine) option" where
  "replay_moves reqs [] v = Some v"
| "replay_moves reqs (c # cs) v =
     (let m = reqs ! cm_move c in
      case machine_move (commit_edge (mv_table m) (cm_fresh c)) (cm_row c) (mv_status m)
          (mv_version m) (v (mv_table m)) of
        None \<Rightarrow> None
      | Some x \<Rightarrow> replay_moves reqs cs (v(mv_table m := x)))"

lemma replay_moves_append:
  "replay_moves reqs (cs @ ds) v = Option.bind (replay_moves reqs cs v) (replay_moves reqs ds)"
  by (induction cs arbitrary: v) (auto simp: Let_def split: option.split)

definition interleaving_ok :: "env \<Rightarrow> move list \<Rightarrow> database \<Rightarrow> interleaving \<Rightarrow> bool" where
  "interleaving_ok env reqs d0 s \<longleftrightarrow>
     length (il_txns s) = length reqs \<and> db_ok (il_db s) \<and>
     (\<forall>j < length reqs. txn_ok env (reqs ! j) (il_db s) (il_txns s ! j)) \<and>
     apart reqs (il_txns s) \<and>
     replay_moves reqs (il_log s) (\<lambda>k. move_view k d0) = Some (\<lambda>k. move_view k (il_db s)) \<and>
     distinct (map cm_move (il_log s)) \<and>
     (\<forall>c \<in> set (il_log s). cm_move c < length reqs \<and> txn_over (il_txns s ! cm_move c)) \<and>
     (\<forall>j < length reqs. il_txns s ! j = Over (Inr ()) \<longrightarrow> j \<in> cm_move ` set (il_log s)) \<and>
     length (db_audits (il_db s)) = length (db_audits d0) + length (il_log s)"

lemma interleaving_ok_start: "db_ok d \<Longrightarrow> interleaving_ok env reqs d (interleaving_start reqs d)"
  by (simp add: interleaving_ok_def interleaving_start_def apart_def)

text \<open>Steps that leave the committed database as it is.\<close>

lemma interleaving_ok_put:
  assumes "interleaving_ok env reqs d0 s" "j < length reqs" "\<not> txn_over (il_txns s ! j)"
    and "txn_ok env (reqs ! j) (il_db s) t" "t \<noteq> Over (Inr ())"
    and "\<And>u. locked_row t = Some u \<Longrightarrow>
      locked_row (il_txns s ! j) = Some u \<or> row_free reqs (il_txns s) (mv_table (reqs ! j)) u"
    and "\<And>x. locked_key t = Some x \<Longrightarrow> key_free (il_txns s) x"
  shows "interleaving_ok env reqs d0 (put_txn s j t)"
proof -
  have "apart reqs ((il_txns s)[j := t])"
    using assms by (intro apart_update) (auto simp: interleaving_ok_def)
  moreover have "txn_ok env (reqs ! i) (il_db s) ((il_txns s)[j := t] ! i)" if "i < length reqs" for i
    using that assms(1,2,4) by (cases "i = j") (auto simp: interleaving_ok_def)
  moreover have "txn_over ((il_txns s)[j := t] ! cm_move c)" if "c \<in> set (il_log s)" for c
    using that assms(1,3) by (cases "cm_move c = j") (auto simp: interleaving_ok_def)
  moreover have "(il_txns s)[j := t] ! i = Over (Inr ()) \<longrightarrow> i \<in> cm_move ` set (il_log s)"
    if "i < length reqs" for i
    using that assms(1,2,5) by (cases "i = j") (auto simp: interleaving_ok_def)
  ultimately show ?thesis using assms(1) by (auto simp: interleaving_ok_def)
qed

text \<open>A commit moves one row on, which no other transaction has locked.\<close>

lemma txn_ok_commit:
  assumes "txn_ok env m d t" "row_ok env m' d fresh u"
    and "locked_row t \<noteq> Some u \<or> mv_table m \<noteq> mv_table m'"
    and "locked_key t \<noteq> Some (ar_ID a)"
  shows "txn_ok env m ((move_write m' u d)\<lparr>db_audits := db_audits d @ [a]\<rparr>) t"
proof -
  obtain st where view: "move_view (mv_table m') d u = Some (st, mv_version m')"
    using assms(2) by (auto simp: row_ok_def)
  show ?thesis
  proof (cases t)
    case (Checked f)
    then show ?thesis using assms(1) view by (force simp: write_view[OF view])
  next
    case (Updated f x)
    then show ?thesis using assms(1,3) by (auto simp: write_view[OF view] row_ok_def)
  next
    case (Logged f x b)
    then show ?thesis using assms(1,3,4) by (auto simp: write_view[OF view] row_ok_def)
  qed (use assms(1) in simp_all)
qed

lemma interleaving_ok_commit:
  assumes ok: "interleaving_ok env reqs d0 s" and j: "j < length reqs"
    and t: "il_txns s ! j = Logged fresh u a"
  shows "interleaving_ok env reqs d0
    \<lparr>il_db = (move_write (reqs ! j) u (il_db s))\<lparr>db_audits := db_audits (il_db s) @ [a]\<rparr>,
     il_txns = (il_txns s)[j := Over answer],
     il_log = il_log s @ [\<lparr>cm_move = j, cm_row = u, cm_fresh = fresh\<rparr>]\<rparr>"
proof -
  let ?m = "reqs ! j" and ?d = "il_db s"
  let ?d' = "(move_write ?m u ?d)\<lparr>db_audits := db_audits ?d @ [a]\<rparr>"
  have "txn_ok env ?m ?d (Logged fresh u a)" using ok j t unfolding interleaving_ok_def by metis
  then have row: "row_ok env ?m ?d fresh u" and new: "ar_ID a \<notin> ar_ID ` set (db_audits ?d)" by simp_all
  obtain st where view: "move_view (mv_table ?m) ?d u = Some (st, mv_version ?m)"
    and edge: "fresh \<or> mv_table ?m = Assignments \<longrightarrow> move_edge (mv_table ?m) st (mv_status ?m)"
    using row by (auto simp: row_ok_def)
  have len: "length (il_txns s) = length reqs" using ok by (simp add: interleaving_ok_def)
  have "db_ok ?d'"
    using audit_ok[of "move_write ?m u ?d" a] write_ok ok new by (simp add: interleaving_ok_def)
  moreover have "txn_ok env (reqs ! i) ?d' ((il_txns s)[j := Over answer] ! i)" if i: "i < length reqs" for i
  proof (cases "i = j")
    case False
    have "locked_row (il_txns s ! i) \<noteq> Some u \<or> mv_table (reqs ! i) \<noteq> mv_table ?m"
      "locked_key (il_txns s ! i) \<noteq> Some (ar_ID a)"
      using ok i j False t unfolding interleaving_ok_def apart_def by (metis locked_row.simps(2) locked_key.simps(1) option.distinct(1))+
    then show ?thesis
      using txn_ok_commit[OF _ row] ok i False by (simp add: interleaving_ok_def)
  qed (use i len in simp)
  moreover have "apart reqs ((il_txns s)[j := Over answer])"
    using ok j by (intro apart_update) (auto simp: interleaving_ok_def)
  moreover have "replay_moves reqs (il_log s @ [\<lparr>cm_move = j, cm_row = u, cm_fresh = fresh\<rparr>])
      (\<lambda>k. move_view k d0) = Some (\<lambda>k. move_view k ?d')"
    using ok view edge
    by (auto simp: interleaving_ok_def replay_moves_append Let_def machine_move_def commit_edge_def
        write_view[OF view] fun_eq_iff)
  moreover have "cm_move c \<noteq> j \<and> txn_over ((il_txns s)[j := Over answer] ! cm_move c)"
    if "c \<in> set (il_log s)" for c
    using that ok t by (cases "cm_move c = j") (auto simp: interleaving_ok_def)
  moreover have "(il_txns s)[j := Over answer] ! i = Over (Inr ()) \<longrightarrow> i = j \<or> i \<in> cm_move ` set (il_log s)"
    if "i < length reqs" for i
    using that ok by (cases "i = j") (auto simp: interleaving_ok_def)
  ultimately show ?thesis using ok j by (auto simp: interleaving_ok_def)
qed

lemma interleaving_ok_step:
  assumes "interleaving_step env reqs s s'" "interleaving_ok env reqs d0 s"
  shows "interleaving_ok env reqs d0 s'"
  using assms
proof (induction rule: interleaving_step.induct)
  case (check j s n t w)
  have "txn_ok env (reqs ! j) (il_db s) (Checked (has_version env (reqs ! j) (il_db s)))"
  proof (cases "mv_table (reqs ! j)")
    case Missions
    have "db_ok (il_db s)" using check.prems by (simp add: interleaving_ok_def)
    from check_passes[OF this check.hyps(3) Missions] Missions show ?thesis
      by (auto simp: has_version_def move_edge_def)
  qed simp
  with check show ?case by (intro interleaving_ok_put) simp_all
next
  case (update j s fresh n t w u)
  have ok: "db_ok (il_db s)" "txn_ok env (reqs ! j) (il_db s) (Checked fresh)"
    using update unfolding interleaving_ok_def by metis+
  from update_hits[OF ok(1) update.hyps(3)] ok(2) update.hyps(4)
  have "row_ok env (reqs ! j) (il_db s) fresh u"
    by (cases "mv_table (reqs ! j)") (auto simp: row_ok_def move_edge_def)
  with update show ?case by (intro interleaving_ok_put) simp_all
next
  case (log j s fresh u n t w)
  have ok: "db_ok (move_write (reqs ! j) u (il_db s))" "txn_ok env (reqs ! j) (il_db s) (Updated fresh u)"
    using log write_ok unfolding interleaving_ok_def by metis+
  from audit_new[OF ok(1) log.hyps(3)] ok(2) log show ?case by (intro interleaving_ok_put) simp_all
next
  case (commit j s fresh u a d answer e)
  then show ?case using interleaving_ok_commit by simp
qed (intro interleaving_ok_put; simp)+

lemma interleaved_ok: "interleaved env reqs d s \<Longrightarrow> db_ok d \<Longrightarrow> interleaving_ok env reqs d s"
  by (induction rule: rtranclp_induct) (auto intro: interleaving_ok_start interleaving_ok_step)

section \<open>Progress\<close>

text \<open>A transaction that waits for a lock waits for one that does not: the step of a transaction that
  is furthest on is always possible.\<close>

definition txn_next ::
  "env \<Rightarrow> move list \<Rightarrow> nat \<Rightarrow> nat \<Rightarrow> interleaving \<Rightarrow> interleaving option" where
  "txn_next env reqs n j s =
     (let m = reqs ! j; d = il_db s in
      case il_txns s ! j of
        Begun \<Rightarrow>
          (case move_read m env (seen n n d) of
             (Inr _, w) \<Rightarrow> Some (put_txn s j (Checked (has_version env m d)))
           | (Inl e, w) \<Rightarrow> Some (put_txn s j (Over (Inl e))))
      | Checked fresh \<Rightarrow>
          (case move_update m env (seen n n d) of
             (Inr _, w) \<Rightarrow>
               (case en_uuid_in env (mv_id m) of
                  None \<Rightarrow> None
                | Some u \<Rightarrow>
                    if row_free reqs (il_txns s) (mv_table m) u then Some (put_txn s j (Updated fresh u))
                    else None)
           | (Inl e, w) \<Rightarrow> Some (put_txn s j (Over (Inl e))))
      | Updated fresh u \<Rightarrow>
          (case move_audit m env (seen n n (move_write m u d)) of
             (Inr _, w) \<Rightarrow>
               let a = last (db_audits (w_db w)) in
               if key_free (il_txns s) (ar_ID a) then Some (put_txn s j (Logged fresh u a)) else None
           | (Inl e, w) \<Rightarrow> Some (put_txn s j (Over (Inl e))))
      | Logged fresh u a \<Rightarrow>
          let d' = move_write m u d in
          Some \<lparr>il_db = d'\<lparr>db_audits := db_audits d' @ [a]\<rparr>, il_txns = (il_txns s)[j := Over (Inr ())],
            il_log = il_log s @ [\<lparr>cm_move = j, cm_row = u, cm_fresh = fresh\<rparr>]\<rparr>
      | Over r \<Rightarrow> None)"

lemma txn_next_step:
  assumes "txn_next env reqs n j s = Some s'" "j < length reqs"
  shows "interleaving_step env reqs s s'"
proof (cases "il_txns s ! j")
  case Begun
  with assms show ?thesis
    by (auto simp: txn_next_def Let_def split: prod.splits sum.splits intro: check check_fails)
next
  case (Checked fresh)
  with assms show ?thesis
    by (auto simp: txn_next_def Let_def split: prod.splits sum.splits option.splits if_splits
        intro: update update_fails)
next
  case (Updated fresh u)
  with assms show ?thesis
    by (auto simp: txn_next_def Let_def split: prod.splits sum.splits if_splits intro: log log_fails)
next
  case (Logged fresh u a)
  with assms commit[OF assms(2) Logged refl, of "Inr ()"] show ?thesis
    by (simp add: txn_next_def Let_def)
next
  case (Over r)
  with assms show ?thesis by (simp add: txn_next_def)
qed

fun txn_left :: "txn_state \<Rightarrow> nat" where
  "txn_left Begun = 4"
| "txn_left (Checked fresh) = 3"
| "txn_left (Updated fresh u) = 2"
| "txn_left (Logged fresh u a) = 1"
| "txn_left (Over r) = 0"

lemma no_rows_locked: "list_all (\<lambda>t. 3 \<le> txn_left t \<or> txn_over t) txns \<Longrightarrow> row_free reqs txns k u"
  by (auto simp: row_free_def list_all_iff elim!: locked_row.elims dest!: set_zip_rightD)

lemma no_keys_locked: "list_all (\<lambda>t. 2 \<le> txn_left t \<or> txn_over t) txns \<Longrightarrow> key_free txns x"
  by (auto simp: key_free_def list_all_iff elim!: locked_key.elims)

lemma txn_next_exists:
  assumes "interleaving_ok env reqs d0 s" "j < length reqs" "\<not> txn_over (il_txns s ! j)"
  shows "\<exists>i < length reqs. txn_next env reqs n i s \<noteq> None"
proof -
  let ?P = "\<lambda>i. i < length reqs \<and> \<not> txn_over (il_txns s ! i)"
  obtain i where i: "?P i" and least: "\<And>k. ?P k \<Longrightarrow> txn_left (il_txns s ! i) \<le> txn_left (il_txns s ! k)"
    using ex_has_least_nat[of ?P j "\<lambda>i. txn_left (il_txns s ! i)"] assms(2,3) by blast
  have ok: "db_ok (il_db s)" "length (il_txns s) = length reqs" using assms(1) by (simp_all add: interleaving_ok_def)
  have others: "list_all (\<lambda>t. txn_left (il_txns s ! i) \<le> txn_left t \<or> txn_over t) (il_txns s)"
    using least ok(2) unfolding list_all_length by auto
  have "txn_next env reqs n i s \<noteq> None"
  proof (cases "il_txns s ! i")
    case (Checked fresh)
    have "row_free reqs (il_txns s) k u" for k u
      using others by (intro no_rows_locked) (simp add: Checked)
    then show ?thesis
      using Checked update_hits[OF ok(1), of "reqs ! i" env n n]
      by (auto simp: txn_next_def Let_def split: prod.split sum.split option.split)
  next
    case (Updated fresh u)
    have "key_free (il_txns s) x" for x
      using others by (intro no_keys_locked) (simp add: Updated)
    then show ?thesis
      using Updated by (auto simp: txn_next_def Let_def split: prod.split sum.split)
  qed (use i in \<open>auto simp: txn_next_def Let_def split: prod.split sum.split\<close>)
  then show ?thesis using i by blast
qed

lemma txn_left_decreases:
  assumes "interleaving_step env reqs s s'" "length (il_txns s) = length reqs"
  shows "sum_list (map txn_left (il_txns s')) < sum_list (map txn_left (il_txns s)) \<and>
    length (il_txns s') = length reqs"
proof -
  have put: "sum_list (map txn_left ((il_txns s)[j := t])) < sum_list (map txn_left (il_txns s))"
    if "j < length reqs" "txn_left t < txn_left (il_txns s ! j)" for j t
    using sum_list_update_map[of j "il_txns s" txn_left t] that assms(2) by linarith
  have over: "0 < txn_left t \<longleftrightarrow> \<not> txn_over t" for t by (cases t) auto
  show ?thesis
    using assms by cases (auto intro!: put simp: over)
qed

lemma interleaving_ends:
  assumes "(interleaving_step env reqs ^^ n) (interleaving_start reqs d) s"
  shows "n + sum_list (map txn_left (il_txns s)) \<le> 4 * length reqs \<and> length (il_txns s) = length reqs"
  using assms
proof (induction n arbitrary: s)
  case 0
  then have "s = interleaving_start reqs d" by simp
  then show ?case by (simp add: interleaving_start_def sum_list_replicate)
next
  case (Suc n)
  then obtain r where r: "(interleaving_step env reqs ^^ n) (interleaving_start reqs d) r"
      "interleaving_step env reqs r s" by auto
  show ?case using Suc.IH[OF r(1)] txn_left_decreases[OF r(2)] by linarith
qed

section \<open>Properties\<close>

lemma replay_versions:
  assumes "replay_moves reqs cs v = Some v'"
  shows "distinct (map (\<lambda>c. (mv_table (reqs ! cm_move c), cm_row c, mv_version (reqs ! cm_move c))) cs) \<and>
    (\<forall>c \<in> set cs. \<exists>st k. v' (mv_table (reqs ! cm_move c)) (cm_row c) = Some (st, k) \<and>
       mv_version (reqs ! cm_move c) < k)"
  using assms
proof (induction cs arbitrary: v' rule: rev_induct)
  case (snoc c cs)
  let ?m = "reqs ! cm_move c"
  obtain w x where w: "replay_moves reqs cs v = Some w"
    and x: "machine_move (commit_edge (mv_table ?m) (cm_fresh c)) (cm_row c) (mv_status ?m)
      (mv_version ?m) (w (mv_table ?m)) = Some x" and v': "v' = w(mv_table ?m := x)"
    using snoc.prems by (auto simp: replay_moves_append Let_def split: option.splits bind_splits)
  obtain st where st: "w (mv_table ?m) (cm_row c) = Some (st, mv_version ?m)"
    "x = (w (mv_table ?m))(cm_row c \<mapsto> (mv_status ?m, mv_version ?m + 1))"
    using x by (auto simp: machine_move_def split: option.splits if_splits)
  show ?case using snoc.IH[OF w] st by (force simp: v')
qed simp

text \<open>C6: any number of requests that move missions and assignments, interleaved statement by
  statement, have the effect of the committed ones one after the other: in the order of their
  commits each moves its row from the version it names, and two never from the same version. A
  request answered with success is among them and none is there twice, each with one audit event.
  The statuses of assignments always follow their table, those of missions when the version named
  was the row's version at the time of the check. No deadlock is possible, and after at most four
  steps a request all are over.\<close>

theorem concurrent_moves:
  assumes "db_ok d" "interleaved env reqs d s"
  shows "db_ok (il_db s) \<and>
    replay_moves reqs (il_log s) (\<lambda>k. move_view k d) = Some (\<lambda>k. move_view k (il_db s)) \<and>
    distinct (map (\<lambda>c. (mv_table (reqs ! cm_move c), cm_row c, mv_version (reqs ! cm_move c))) (il_log s)) \<and>
    distinct (map cm_move (il_log s)) \<and>
    (\<forall>j < length reqs. il_txns s ! j = Over (Inr ()) \<longrightarrow> j \<in> cm_move ` set (il_log s)) \<and>
    length (db_audits (il_db s)) = length (db_audits d) + length (il_log s) \<and>
    ((\<forall>j < length reqs. txn_over (il_txns s ! j)) \<or>
     (\<exists>j < length reqs. txn_next env reqs n j s \<noteq> None)) \<and>
    (\<forall>k s'. (interleaving_step env reqs ^^ k) (interleaving_start reqs d) s' \<longrightarrow> k \<le> 4 * length reqs)"
proof -
  have ok: "interleaving_ok env reqs d s" by (rule interleaved_ok[OF assms(2,1)])
  then have replay: "replay_moves reqs (il_log s) (\<lambda>k. move_view k d) = Some (\<lambda>k. move_view k (il_db s))"
    by (simp add: interleaving_ok_def)
  have "(\<forall>j < length reqs. txn_over (il_txns s ! j)) \<or> (\<exists>j < length reqs. txn_next env reqs n j s \<noteq> None)"
    using txn_next_exists[OF ok] by blast
  moreover have "\<forall>k s'. (interleaving_step env reqs ^^ k) (interleaving_start reqs d) s' \<longrightarrow>
      k \<le> 4 * length reqs"
    using interleaving_ends by fastforce
  ultimately show ?thesis
    using ok replay replay_versions[OF replay] unfolding interleaving_ok_def by blast
qed

section \<open>A check that is out of date\<close>

text \<open>A schedule names, step by step, the transaction that goes on.\<close>

fun run_schedule :: "env \<Rightarrow> move list \<Rightarrow> (nat \<times> nat) list \<Rightarrow> interleaving \<Rightarrow> interleaving option" where
  "run_schedule env reqs [] s = Some s"
| "run_schedule env reqs ((n, j) # steps) s =
     (if j < length reqs then Option.bind (txn_next env reqs n j s) (run_schedule env reqs steps)
      else None)"

lemma run_schedule_steps:
  "run_schedule env reqs steps s = Some s' \<Longrightarrow> (interleaving_step env reqs)\<^sup>*\<^sup>* s s'"
proof (induction steps arbitrary: s)
  case (Cons x steps)
  obtain n j where "x = (n, j)" by (cases x)
  with Cons.prems obtain s1 where s1: "j < length reqs" "txn_next env reqs n j s = Some s1"
      "run_schedule env reqs steps s1 = Some s'" by (auto split: bind_splits if_splits)
  show ?case
    using txn_next_step[OF s1(2,1)] Cons.IH[OF s1(3)] by (rule converse_rtranclp_into_rtranclp)
qed simp

text \<open>
  A mission is scheduled, at version 3. One request closes it at version 3; another activates it and
  names version 4. The second checks the status while the mission is scheduled, then the first is
  served to its end, and then the UPDATE of the second finds version 4.
\<close>

definition scheduled_mission :: database where
  "scheduled_mission = one_mission\<lparr>db_missions :=
     map (\<lambda>r. r\<lparr>sm_Status := SurveyMissionScheduled\<rparr>) (db_missions one_mission)\<rparr>"

definition two_moves :: "move list" where
  "two_moves = map (\<lambda>(status, version). \<lparr>mv_table = Missions, mv_meta = requester, mv_id = ''m'',
     mv_status = status, mv_version = version, mv_action = ''move''\<rparr>)
     [(SurveyMissionClosed, 3), (SurveyMissionActive, 4)]"

definition late_update :: "(nat \<times> nat) list" where
  "late_update = [(1, 1), (2, 0), (3, 0), (4, 0), (5, 0), (6, 1), (7, 1), (8, 1)]"

lemma scheduled_mission_ok: "db_ok scheduled_mission"
  using one_mission_ok by (simp add: scheduled_mission_def db_ok_def unique_def refers_def one_mission_def)

lemma late_update_run:
  "map_option (\<lambda>s. (map (\<lambda>r. (sm_Status r, sm_Version r)) (db_missions (il_db s)), il_txns s))
     (run_schedule calm_env two_moves late_update (interleaving_start two_moves scheduled_mission)) =
   Some ([(SurveyMissionActive, 5)], [Over (Inr ()), Over (Inr ())])"
  by code_simp

text \<open>Both requests succeed, and a mission that has been closed is active again: a move that no order of
  the two requests one after the other allows.\<close>

lemma closed_mission_active_again:
  "\<exists>s. interleaved calm_env two_moves scheduled_mission s \<and>
     il_txns s = [Over (Inr ()), Over (Inr ())] \<and>
     map (\<lambda>r. (sm_Status r, sm_Version r)) (db_missions (il_db s)) = [(SurveyMissionActive, 5)]"
proof -
  obtain s where s: "run_schedule calm_env two_moves late_update
      (interleaving_start two_moves scheduled_mission) = Some s"
    "(map (\<lambda>r. (sm_Status r, sm_Version r)) (db_missions (il_db s)), il_txns s) =
      ([(SurveyMissionActive, 5)], [Over (Inr ()), Over (Inr ())])"
    using late_update_run unfolding map_option_eq_Some by (elim exE conjE) (rule that)
  note result = s(2)[unfolded prod.inject]
  show ?thesis
    by (intro exI conjI, rule run_schedule_steps[OF s(1)], rule result[THEN conjunct2],
        rule result[THEN conjunct1])
qed

lemma concurrent_moves_witness:
  "\<exists>s :: interleaving. map (\<lambda>r. (sm_Status r, sm_Version r)) (db_missions (il_db s)) = [(SurveyMissionActive, 5)] \<and>
     length (db_audits (il_db s)) = length (il_log s) \<and> distinct (map cm_move (il_log s)) \<and>
     0 \<in> cm_move ` set (il_log s) \<and> 1 \<in> cm_move ` set (il_log s)"
proof -
  obtain s where s: "interleaved calm_env two_moves scheduled_mission s"
    "il_txns s = [Over (Inr ()), Over (Inr ())]"
    "map (\<lambda>r. (sm_Status r, sm_Version r)) (db_missions (il_db s)) = [(SurveyMissionActive, 5)]"
    using closed_mission_active_again by (elim exE conjE) (rule that)
  note facts = concurrent_moves[OF scheduled_mission_ok s(1)]
  note answered = facts[THEN conjunct2, THEN conjunct2, THEN conjunct2, THEN conjunct2, THEN conjunct1]
  have both: "0 \<in> cm_move ` set (il_log s)" "1 \<in> cm_move ` set (il_log s)"
    by (rule answered[rule_format]; simp add: s(2) two_moves_def)+
  have audits: "length (db_audits (il_db s)) = length (il_log s)"
    using facts[THEN conjunct2, THEN conjunct2, THEN conjunct2, THEN conjunct2, THEN conjunct2, THEN conjunct1]
    by (simp add: scheduled_mission_def one_mission_def empty_db_def)
  have "distinct (map cm_move (il_log s))"
    using facts[THEN conjunct2, THEN conjunct2, THEN conjunct2, THEN conjunct1] .
  with s(3) audits both show ?thesis
    by - (rule exI[of _ s], rule conjI, assumption, rule conjI, assumption, rule conjI, assumption,
        rule conjI, assumption, assumption)
qed

section \<open>A job counted twice\<close>











end
