(* ===== verification/Migrations.thy ===== *)
theory Migrations
  imports Config_Setup "HOL-Library.Sublist"
begin

text \<open>
  \<open>internal/db\<close>: the migration runner (\<open>migrate.go\<close>, \<open>version.go\<close>), transactions, the advisory lock
  and waiting for the database; with \<open>schema.go\<close> and the check of \<open>repository/constraints.go\<close>.

  The schema is of any type; what a script does to it is an argument. The file system is its
  directories and files.
\<close>

section \<open>Discovering migrations\<close>

record dir_entry =
  de_name :: string
  de_dir :: bool

record file_system =
  fs_is_dir :: "string \<Rightarrow> bool"
  fs_entries :: "string \<Rightarrow> dir_entry list result"
  fs_file :: "string \<Rightarrow> string result"

record migrationFile =
  mf_version :: int
  mf_path :: string

text \<open>\<open>filepath.Ext\<close> of a name without separators.\<close>

definition Ext :: "string \<Rightarrow> string" where
  "Ext name =
     (if CHR ''.'' \<in> set name
        then CHR ''.'' # rev (takeWhile (\<lambda>c. c \<noteq> CHR ''.'') (rev name)) else [])"

definition migration_directory :: "file_system \<Rightarrow> string option" where
  "migration_directory fs = find (fs_is_dir fs) [''migrations'', ''../../migrations'']"

text \<open>The loop over the entries: \<open>seen\<close> and \<open>items\<close> hold the same versions.\<close>

fun read_entries :: "string \<Rightarrow> dir_entry list \<Rightarrow> migrationFile list \<Rightarrow> migrationFile list result" where
  "read_entries directory [] items = Inr items"
| "read_entries directory (entry # entries) items =
     (if de_dir entry \<or> Ext (de_name entry) \<noteq> ''.sql''
        then read_entries directory entries items
      else
        case Cut (CHR ''_'') (de_name entry) of
          None \<Rightarrow> Inl (NewError ''migration has no numeric prefix'')
        | Some (number, _) \<Rightarrow>
            (case Atoi number of
               Inl _ \<Rightarrow> Inl (NewError ''migration has invalid version'')
             | Inr version \<Rightarrow>
                 if version < 1 then Inl (NewError ''migration has invalid version'')
                 else if version \<in> set (map mf_version items)
                   then Inl (NewError ''migration version is duplicated'')
                 else read_entries directory entries
                   (items @ [\<lparr>mf_version = version,
                      mf_path = directory @ ''/'' @ de_name entry\<rparr>])))"

definition discoverMigrations :: "file_system \<Rightarrow> migrationFile list result" where
  "discoverMigrations fs =
     (case migration_directory fs of
        None \<Rightarrow> Inl (NewError ''migration directory not found'')
      | Some directory \<Rightarrow>
          (case fs_entries fs directory of
             Inl err \<Rightarrow> Inl (Errorf ''read migrations'' err)
           | Inr entries \<Rightarrow>
               (case read_entries directory entries [] of
                  Inl err \<Rightarrow> Inl err
                | Inr items \<Rightarrow>
                    if items = [] then Inl (NewError ''no migrations found'')
                    else Inr (sort_stable (\<lambda>a b. mf_version a < mf_version b) items))))"

section \<open>Applying migrations\<close>

text \<open>The database: whether \<open>schema_migrations\<close> exists, the versions recorded in it in the order
  they were recorded, and everything else. A script gives a new schema or fails with a code.\<close>

record 's migrated =
  mg_table :: bool
  mg_versions :: "int list"
  mg_schema :: 's

type_synonym 's script = "string \<Rightarrow> 's \<Rightarrow> string + 's"

definition sql_create_migration_table :: "('s migrated, unit) stmt" where
  "sql_create_migration_table env n t d = Inr ((), d\<lparr>mg_table := True\<rparr>)"

text \<open>A statement over a table that does not exist fails with 42P01.\<close>

definition sql_migration_applied :: "int \<Rightarrow> ('s migrated, bool) stmt" where
  "sql_migration_applied version env n t d =
     (if - (2 ^ 31) \<le> version \<and> version < 2 ^ 31
        then if mg_table d then Inr (version \<in> set (mg_versions d), d) else Inl (PgError ''42P01'')
      else Inl (NewError ''unable to encode int4''))"

definition sql_run_script :: "'s script \<Rightarrow> string \<Rightarrow> ('s migrated, unit) stmt" where
  "sql_run_script run sql env n t d =
     (case run sql (mg_schema d) of
        Inl code \<Rightarrow> Inl (PgError code)
      | Inr schema \<Rightarrow> Inr ((), d\<lparr>mg_schema := schema\<rparr>))"

definition sql_record_migration :: "int \<Rightarrow> ('s migrated, unit) stmt" where
  "sql_record_migration version env n t d =
     (if \<not> mg_table d then Inl (PgError ''42P01'')
      else if version \<in> set (mg_versions d) then Inl (PgError ''23505'')
      else Inr ((), d\<lparr>mg_versions := mg_versions d @ [version]\<rparr>))"

text \<open>The advisory lock makes other runners wait; transactions run one after the other here.\<close>

definition sql_lock :: "('d, unit) stmt" where
  "sql_lock env n t d = Inr ((), d)"

definition migration_body ::
  "'s script \<Rightarrow> string \<Rightarrow> int \<Rightarrow> ('s migrated, unit) io" where
  "migration_body run sql version =
     io_then (io_wrap (Errorf ''lock migration'') (exec_stmt Tx sql_lock))
     (io_bind (io_wrap (Errorf ''read migration state'')
         (exec_stmt Tx (sql_migration_applied version))) (\<lambda>applied.
       if \<not> applied then
         io_then (io_wrap (Errorf ''apply migration'') (exec_stmt Tx (sql_run_script run sql)))
           (io_wrap (Errorf ''record migration'') (exec_stmt Tx (sql_record_migration version)))
       else io_return ()))"

definition applyMigration ::
  "'s script \<Rightarrow> file_system \<Rightarrow> migrationFile \<Rightarrow> ('s migrated, unit) io" where
  "applyMigration run fs migration =
     (case fs_file fs (mf_path migration) of
        Inl err \<Rightarrow> io_throw (Errorf ''read migration'' err)
      | Inr sql \<Rightarrow>
          run_tx ''begin migration'' ''commit migration''
            (migration_body run sql (mf_version migration)))"

definition Migrate :: "'s script \<Rightarrow> file_system \<Rightarrow> ('s migrated, unit) io" where
  "Migrate run fs =
     io_then (io_wrap (Errorf ''create migration table'')
         (exec_stmt Pool sql_create_migration_table))
       (case discoverMigrations fs of
          Inl err \<Rightarrow> io_throw err
        | Inr migrations \<Rightarrow> io_for (applyMigration run fs) migrations)"

definition CurrentMigration :: "('s migrated, int) io" where
  "CurrentMigration =
     io_wrap (Errorf ''current migration'') (exec_stmt Pool (\<lambda>env n t d.
       if mg_table d
         then Inr (case mg_versions d of [] \<Rightarrow> 0 | v # vs \<Rightarrow> foldr max vs v, d)
       else Inl (PgError ''42P01'')))"

definition RequireMigration :: "int \<Rightarrow> ('s migrated, unit) io" where
  "RequireMigration expected =
     io_bind CurrentMigration (\<lambda>version.
       if version \<noteq> expected
         then io_throw (NewError ''migration version does not match expected'')
       else io_return ())"

text \<open>The tables of the database by name; \<open>information_schema\<close> orders names byte by byte. Only that
  the table is there is asked for by \<open>SELECT 1 \<dots> LIMIT 1\<close>.\<close>

definition RequiredTables :: "('d \<Rightarrow> string list) \<Rightarrow> ('d, string list) io" where
  "RequiredTables tables =
     io_wrap (Errorf ''list tables'') (exec_stmt Pool (\<lambda>env n t d. Inr (sort (tables d), d)))"

definition sql_select_one :: "('d \<Rightarrow> string list) \<Rightarrow> string \<Rightarrow> ('d, unit) stmt" where
  "sql_select_one tables name env n t d =
     (if name \<in> set (tables d) then Inr ((), d) else Inl (PgError ''42P01''))"

definition CheckConstraints :: "('d \<Rightarrow> string list) \<Rightarrow> ('d, unit) io" where
  "CheckConstraints tables =
     io_for (\<lambda>name. io_wrap (Errorf (''constraint check '' @ name))
         (exec_stmt Pool (sql_select_one tables name)))
       [''schema_migrations'', ''survey_missions'', ''recovery_jobs'', ''audit_events'']"

definition HasTable :: "string list \<Rightarrow> string \<Rightarrow> bool" where
  "HasTable tables wanted \<longleftrightarrow> list_ex (\<lambda>t. t = wanted) tables"

definition InTransaction :: "('d, unit) io \<Rightarrow> ('d, unit) io" where
  "InTransaction fn = run_tx ''begin transaction'' ''commit transaction'' fn"

text \<open>What the table check tells: when it reports success the four tables are there, and without
  failures it does so exactly then; nothing is changed.\<close>

lemma check_tables:
  "io_for (\<lambda>name. io_wrap (g name) (exec_stmt Pool (sql_select_one tables name))) names env w = (r, w') \<Longrightarrow>
   w_db w' = w_db w \<and> (r = Inr () \<longrightarrow> set names \<subseteq> set (tables (w_db w))) \<and>
   ((\<forall>n. en_fault env n = None) \<and> set names \<subseteq> set (tables (w_db w)) \<longrightarrow> r = Inr ())"
proof (induction names arbitrary: w r w')
  case Nil
  then show ?case by (simp add: io_return_def)
next
  case (Cons name names)
  obtain s w1 where first: "exec_stmt Pool (sql_select_one tables name) env w = (s, w1)" by fastforce
  then have same: "w_db w1 = w_db w" "s = Inr () \<Longrightarrow> name \<in> set (tables (w_db w))"
    "(\<forall>n. en_fault env n = None) \<and> name \<in> set (tables (w_db w)) \<Longrightarrow> s = Inr ()"
    by (auto simp: exec_stmt_def exec_pool_def sql_select_one_def Let_def
        split: if_splits option.splits)
  have wrapped: "io_wrap (g name) (exec_stmt Pool (sql_select_one tables name)) env w =
      (case s of Inl e \<Rightarrow> Inl (g name e) | Inr x \<Rightarrow> Inr x, w1)"
    using first by (simp add: io_wrap_def split: sum.split)
  show ?case
  proof (cases s)
    case (Inl e)
    then show ?thesis using Cons.prems wrapped same by (auto simp: io_then_def io_bind_def)
  next
    case (Inr x)
    then have "io_for (\<lambda>name. io_wrap (g name) (exec_stmt Pool (sql_select_one tables name))) names
        env w1 = (r, w')"
      using Cons.prems wrapped by (simp add: io_then_def io_bind_def)
    from Cons.IH[OF this] show ?thesis using same Inr by auto
  qed
qed

section \<open>Each migration once\<close>

text \<open>What recorded versions have done to the schema.\<close>

fun replay :: "'s script \<Rightarrow> (int \<Rightarrow> string option) \<Rightarrow> int list \<Rightarrow> 's \<Rightarrow> 's option" where
  "replay run script [] s = Some s"
| "replay run script (v # vs) s =
     (case script v of
        None \<Rightarrow> None
      | Some sql \<Rightarrow> (case run sql s of Inl _ \<Rightarrow> None | Inr s' \<Rightarrow> replay run script vs s'))"

lemma replay_append:
  "replay run script (us @ vs) s =
     (case replay run script us s of None \<Rightarrow> None | Some s' \<Rightarrow> replay run script vs s')"
  by (induction us arbitrary: s) (auto split: option.split sum.split)

definition migrated_by ::
  "'s script \<Rightarrow> (int \<Rightarrow> string option) \<Rightarrow> int list \<Rightarrow> 's migrated \<Rightarrow> 's migrated \<Rightarrow> bool" where
  "migrated_by run script new d d' \<longleftrightarrow>
     mg_versions d' = mg_versions d @ new \<and> set new \<inter> set (mg_versions d) = {} \<and>
     replay run script new (mg_schema d) = Some (mg_schema d')"

lemma migrated_by_Nil: "migrated_by run script [] d d"
  by (simp add: migrated_by_def)

lemma migrated_by_append:
  "migrated_by run script us d1 d2 \<Longrightarrow> migrated_by run script vs d2 d3 \<Longrightarrow>
   migrated_by run script (us @ vs) d1 d3"
  by (auto simp: migrated_by_def replay_append)

lemma bind_wrap_Inr:
  "io_bind (io_wrap g m) f env w = (Inr y, w2) \<Longrightarrow>
   \<exists>x w1. m env w = (Inr x, w1) \<and> f x env w1 = (Inr y, w2)"
  by (auto simp: io_bind_def io_wrap_def split: prod.splits sum.splits)

lemma then_wrap_Inr:
  "io_then (io_wrap g m) k env w = (Inr y, w2) \<Longrightarrow>
   \<exists>x w1. m env w = (Inr x, w1) \<and> k env w1 = (Inr y, w2)"
  unfolding io_then_def by (rule bind_wrap_Inr)

lemma io_wrap_Inr: "io_wrap f m env w = (Inr x, w1) \<Longrightarrow> m env w = (Inr x, w1)"
  by (auto simp: io_wrap_def split: prod.splits sum.splits)

lemma script_recorded:
  assumes "sql_run_script run sql env n t d = Inr (x, d1)"
    and "sql_record_migration v env m u d1 = Inr (y, d2)" "script v = Some sql"
  shows "migrated_by run script [v] d d2 \<and> v \<in> set (mg_versions d2)"
proof -
  from assms(1) obtain schema where "run sql (mg_schema d) = Inr schema" "d1 = d\<lparr>mg_schema := schema\<rparr>"
    by (auto simp: sql_run_script_def split: sum.splits)
  then show ?thesis
    using assms(2,3) by (auto simp: sql_record_migration_def migrated_by_def split: if_splits)
qed

lemma migration_body_ok:
  assumes "migration_body run sql v env w = (Inr (), w1)" "script v = Some sql"
  shows "\<exists>new. migrated_by run script new (w_db w) (w_db w1) \<and> new \<in> {[], [v]} \<and>
    v \<in> set (mg_versions (w_db w1))"
proof -
  from assms(1) obtain x w2 where lock: "exec_stmt Tx sql_lock env w = (Inr x, w2)"
    and rest: "io_bind (io_wrap (Errorf ''read migration state'')
         (exec_stmt Tx (sql_migration_applied v))) (\<lambda>applied.
       if \<not> applied then
         io_then (io_wrap (Errorf ''apply migration'') (exec_stmt Tx (sql_run_script run sql)))
           (io_wrap (Errorf ''record migration'') (exec_stmt Tx (sql_record_migration v)))
       else io_return ()) env w2 = (Inr (), w1)"
    using then_wrap_Inr[OF assms(1)[unfolded migration_body_def]] by blast
  have same: "w_db w2 = w_db w" using exec_tx_ok[OF lock] by (auto simp: sql_lock_def)
  obtain applied w3 where read: "exec_stmt Tx (sql_migration_applied v) env w2 = (Inr applied, w3)"
    and tail: "(if \<not> applied then
         io_then (io_wrap (Errorf ''apply migration'') (exec_stmt Tx (sql_run_script run sql)))
           (io_wrap (Errorf ''record migration'') (exec_stmt Tx (sql_record_migration v)))
       else io_return ()) env w3 = (Inr (), w1)"
    using bind_wrap_Inr[OF rest] by blast
  have w3: "w_db w3 = w_db w" "applied \<longleftrightarrow> v \<in> set (mg_versions (w_db w))"
    using exec_tx_ok[OF read] same by (auto simp: sql_migration_applied_def split: if_splits)
  show ?thesis
  proof (cases applied)
    case True
    then have "w_db w1 = w_db w" using tail w3(1) by (auto simp: io_return_def)
    then show ?thesis using True w3(2) migrated_by_Nil by auto
  next
    case False
    then have "io_then (io_wrap (Errorf ''apply migration'') (exec_stmt Tx (sql_run_script run sql)))
        (io_wrap (Errorf ''record migration'') (exec_stmt Tx (sql_record_migration v))) env w3 =
        (Inr (), w1)"
      using tail by simp
    from then_wrap_Inr[OF this] io_wrap_Inr[of _ "exec_stmt Tx (sql_record_migration v)"]
    obtain x4 w4 where "exec_stmt Tx (sql_run_script run sql) env w3 = (Inr x4, w4)"
        "exec_stmt Tx (sql_record_migration v) env w4 = (Inr (), w1)" by blast
    then have "migrated_by run script [v] (w_db w3) (w_db w1) \<and> v \<in> set (mg_versions (w_db w1))"
      using script_recorded[where script = script, OF _ _ assms(2)] exec_tx_ok by metis
    then show ?thesis using w3(1) by auto
  qed
qed

lemma applyMigration_ok:
  assumes "applyMigration run fs m env w = (r, w1)"
    and "\<And>sql. fs_file fs (mf_path m) = Inr sql \<Longrightarrow> script (mf_version m) = Some sql"
  shows "\<exists>new. migrated_by run script new (w_db w) (w_db w1) \<and> new \<in> {[], [mf_version m]} \<and>
    (r = Inr () \<longrightarrow> mf_version m \<in> set (mg_versions (w_db w1)))"
proof (cases "fs_file fs (mf_path m)")
  case (Inl e)
  then show ?thesis
    using assms(1) migrated_by_Nil by (auto simp: applyMigration_def io_throw_def)
next
  case (Inr sql)
  then have run: "run_tx ''begin migration'' ''commit migration''
      (migration_body run sql (mf_version m)) env w = (r, w1)"
    using assms(1) by (simp add: applyMigration_def)
  have body: "\<exists>new. migrated_by run script new (w_db w) (w_db w2) \<and> new \<in> {[], [mf_version m]} \<and>
      mf_version m \<in> set (mg_versions (w_db w2))"
    if "migration_body run sql (mf_version m) env (tx_begun w) = (Inr x, w2)" for x w2
    using migration_body_ok[of run sql "mf_version m" env "tx_begun w" w2 script] that assms(2)[OF Inr]
    by simp
  show ?thesis
    using run
  proof (cases rule: run_tx_cases)
    case (committed x w2)
    then show ?thesis using body by auto
  next
    case (commit_lost x w2 err)
    then show ?thesis using body by auto
  qed (use migrated_by_Nil in auto)
qed

lemma migrations_ok:
  assumes "io_for (applyMigration run fs) ms env w = (r, w1)"
    and "\<And>m sql. m \<in> set ms \<Longrightarrow> fs_file fs (mf_path m) = Inr sql \<Longrightarrow>
      script (mf_version m) = Some sql"
  shows "\<exists>new. migrated_by run script new (w_db w) (w_db w1) \<and> subseq new (map mf_version ms) \<and>
    (r = Inr () \<longrightarrow> mf_version ` set ms \<subseteq> set (mg_versions (w_db w1)))"
  using assms
proof (induction ms arbitrary: w)
  case Nil
  then show ?case using migrated_by_Nil by (auto simp: io_return_def)
next
  case (Cons m ms)
  obtain s w2 where m: "applyMigration run fs m env w = (s, w2)"
    by (cases "applyMigration run fs m env w")
  obtain us where us: "migrated_by run script us (w_db w) (w_db w2)" "us \<in> {[], [mf_version m]}"
      "s = Inr () \<longrightarrow> mf_version m \<in> set (mg_versions (w_db w2))"
    using applyMigration_ok[OF m, of script] Cons.prems(2) by auto
  have first: "subseq us (map mf_version (m # ms))" using us(2) by auto
  show ?case
  proof (cases s)
    case (Inl e)
    then show ?thesis using Cons.prems(1) m us(1) first by (auto simp: io_then_def io_bind_def)
  next
    case (Inr x)
    then have "io_for (applyMigration run fs) ms env w2 = (r, w1)"
      using Cons.prems(1) m by (simp add: io_then_def io_bind_def)
    then obtain vs where vs: "migrated_by run script vs (w_db w2) (w_db w1)"
        "subseq vs (map mf_version ms)"
        "r = Inr () \<longrightarrow> mf_version ` set ms \<subseteq> set (mg_versions (w_db w1))"
      using Cons.IH Cons.prems(2) by fastforce
    have "migrated_by run script (us @ vs) (w_db w) (w_db w1)"
      using us(1) vs(1) by (rule migrated_by_append)
    moreover have "subseq (us @ vs) (map mf_version (m # ms))"
      using us(2) vs(2) by auto
    moreover have "mf_version m \<in> set (mg_versions (w_db w1))"
      using us(3) Inr vs(1) by (auto simp: migrated_by_def)
    ultimately show ?thesis using vs(3) by auto
  qed
qed

lemma subseq_elements: "subseq xs ys \<Longrightarrow> set xs \<subseteq> set ys"
  by (induction rule: list_emb.induct) auto

lemma sorted_wrt_subsequence: "subseq xs ys \<Longrightarrow> sorted_wrt R ys \<Longrightarrow> sorted_wrt R xs"
  by (induction rule: list_emb.induct) (auto dest: subseq_elements)

text \<open>The files found have different versions, in increasing order.\<close>

lemma read_entries_distinct:
  "read_entries directory entries items = Inr ms \<Longrightarrow> distinct (map mf_version items) \<Longrightarrow>
   distinct (map mf_version ms)"
  by (induction directory entries items rule: read_entries.induct)
    (auto split: if_splits option.splits sum.splits prod.splits)

interpretation by_version: strict_weak "\<lambda>a b. mf_version a < mf_version b"
  by unfold_locales auto

lemma discovered_sorted:
  assumes "discoverMigrations fs = Inr ms"
  shows "sorted_wrt (<) (map mf_version ms)"
proof -
  obtain items where items: "distinct (map mf_version items)"
      "ms = sort_stable (\<lambda>a b. mf_version a < mf_version b) items"
    using assms read_entries_distinct
    by (fastforce simp: discoverMigrations_def split: option.splits sum.splits if_splits)
  have "mset (map mf_version ms) = mset (map mf_version items)" by (simp add: items(2))
  then have "distinct (map mf_version ms)" using items(1) mset_eq_imp_distinct_iff by blast
  moreover have "sorted (map mf_version ms)"
    using by_version.ordered_sort[of items] by (simp add: items(2) sorted_wrt_map not_less)
  ultimately show ?thesis by (simp add: strict_sorted_iff)
qed

definition migration_script :: "file_system \<Rightarrow> migrationFile list \<Rightarrow> int \<Rightarrow> string option" where
  "migration_script fs ms v =
     (case find (\<lambda>m. mf_version m = v) ms of
        None \<Rightarrow> None
      | Some m \<Rightarrow> (case fs_file fs (mf_path m) of Inl _ \<Rightarrow> None | Inr sql \<Rightarrow> Some sql))"

lemma migration_script_found:
  assumes "distinct (map mf_version ms)" "m \<in> set ms" "fs_file fs (mf_path m) = Inr sql"
  shows "migration_script fs ms (mf_version m) = Some sql"
proof -
  have "find (\<lambda>x. mf_version x = mf_version m) ms = Some m"
    using assms(1,2) by (induction ms) (auto simp: image_iff)
  then show ?thesis using assms(3) by (simp add: migration_script_def)
qed

lemma create_table_versions:
  assumes "exec_stmt Pool sql_create_migration_table env w = (r, w1)"
  shows "mg_versions (w_db w1) = mg_versions (w_db w) \<and> mg_schema (w_db w1) = mg_schema (w_db w)"
  using assms
  by (auto simp: exec_stmt_def exec_pool_def sql_create_migration_table_def Let_def
      split: option.splits if_splits)

lemma Migrate_ok:
  assumes "discoverMigrations fs = Inr ms" "Migrate run fs env w = (r, w1)"
  shows "\<exists>new. migrated_by run (migration_script fs ms) new (w_db w) (w_db w1) \<and>
    subseq new (map mf_version ms) \<and>
    (r = Inr () \<longrightarrow> mf_version ` set ms \<subseteq> set (mg_versions (w_db w1)))"
proof -
  have "distinct (map mf_version ms)"
    using discovered_sorted[OF assms(1)] strict_sorted_iff by blast
  note found = migration_script_found[OF this]
  obtain s w2 where create: "exec_stmt Pool sql_create_migration_table env w = (s, w2)"
    by (cases "exec_stmt Pool sql_create_migration_table env w")
  note same = create_table_versions[OF create]
  show ?thesis
  proof (cases s)
    case (Inl e)
    then show ?thesis
      using assms(2) create same
      by (auto simp: Migrate_def io_then_def io_bind_def io_wrap_def migrated_by_def)
  next
    case (Inr x)
    then have "io_for (applyMigration run fs) ms env w2 = (r, w1)"
      using assms create by (simp add: Migrate_def io_then_def io_bind_def io_wrap_def)
    then show ?thesis
      using migrations_ok[of run fs ms env w2 r w1 "migration_script fs ms"] found same
      by (simp add: migrated_by_def)
  qed
qed

text \<open>C35: whatever fails, the runner applies scripts in increasing order of version, each at most
  once, and records exactly those it has applied: the schema is always what the newly recorded
  scripts have made of the schema before. When it reports success every version is recorded, and
  running it again changes nothing.\<close>

theorem migrations_once:
  assumes "discoverMigrations fs = Inr ms" "Migrate run fs env w = (r, w1)"
    and "Migrate run fs env2 w1 = (r2, w2)"
  shows "(\<exists>new. mg_versions (w_db w1) = mg_versions (w_db w) @ new \<and> sorted_wrt (<) new \<and>
      set new \<subseteq> mf_version ` set ms - set (mg_versions (w_db w)) \<and>
      replay run (migration_script fs ms) new (mg_schema (w_db w)) = Some (mg_schema (w_db w1))) \<and>
    (r = Inr () \<longrightarrow> mf_version ` set ms \<subseteq> set (mg_versions (w_db w1)) \<and>
      mg_versions (w_db w2) = mg_versions (w_db w1) \<and> mg_schema (w_db w2) = mg_schema (w_db w1))"
proof -
  obtain new where new: "migrated_by run (migration_script fs ms) new (w_db w) (w_db w1)"
      "subseq new (map mf_version ms)"
      "r = Inr () \<longrightarrow> mf_version ` set ms \<subseteq> set (mg_versions (w_db w1))"
    using Migrate_ok[OF assms(1,2)] by blast
  obtain new2 where new2: "migrated_by run (migration_script fs ms) new2 (w_db w1) (w_db w2)"
      "subseq new2 (map mf_version ms)"
    using Migrate_ok[OF assms(1,3)] by blast
  have elems: "set vs \<subseteq> mf_version ` set ms" if "subseq vs (map mf_version ms)" for vs
    using subseq_elements[OF that] by simp
  have "sorted_wrt (<) new"
    using discovered_sorted[OF assms(1)] new(2) sorted_wrt_subsequence by blast
  moreover have "new2 = []" if "r = Inr ()"
  proof -
    have "x \<notin> set new2" for x
      using new2(1) new(3) that elems[OF new2(2)] unfolding migrated_by_def by blast
    then show ?thesis by (cases new2) auto
  qed
  ultimately show ?thesis
    using new new2(1) elems[OF new(2)] by (auto simp: migrated_by_def)
qed

text \<open>Two migration files: the first makes table 1, the second needs it. The scripts act on a set of
  tables.\<close>

definition demo_files :: file_system where
  "demo_files = \<lparr>fs_is_dir = (\<lambda>p. p = ''migrations''),
     fs_entries = (\<lambda>_. Inr [\<lparr>de_name = ''002_b.sql'', de_dir = False\<rparr>,
       \<lparr>de_name = ''001_a.sql'', de_dir = False\<rparr>, \<lparr>de_name = ''README'', de_dir = False\<rparr>]),
     fs_file = (\<lambda>p. if p = ''migrations/001_a.sql'' then Inr ''a'' else Inr ''b'')\<rparr>"

definition demo_run :: "nat list script" where
  "demo_run sql tables =
     (if sql = ''a'' then Inr (tables @ [1])
      else if 1 \<in> set tables then Inr (tables @ [2]) else Inl ''42P01'')"

definition unmigrated :: "nat list migrated world" where
  "unmigrated = fresh_world \<lparr>mg_table = False, mg_versions = [], mg_schema = []\<rparr>"

lemma migrations_once_witness:
  "fst (Migrate demo_run demo_files calm_env unmigrated) = Inr () \<and>
   mg_versions (w_db (snd (Migrate demo_run demo_files calm_env unmigrated))) = [1, 2] \<and>
   mg_schema (w_db (snd (Migrate demo_run demo_files calm_env
     (snd (Migrate demo_run demo_files calm_env unmigrated))))) = [1, 2]"
proof -
  let ?m = "Migrate demo_run demo_files calm_env"
  have ms: "discoverMigrations demo_files = Inr [\<lparr>mf_version = 1, mf_path = ''migrations/001_a.sql''\<rparr>,
      \<lparr>mf_version = 2, mf_path = ''migrations/002_b.sql''\<rparr>]"
    by code_simp
  have "fst (?m unmigrated) = Inr ()" "mg_versions (w_db (snd (?m unmigrated))) = [1, 2]"
      "mg_schema (w_db (snd (?m unmigrated))) = [1, 2]"
    by code_simp+
  then show ?thesis
    using migrations_once[OF ms, of demo_run calm_env unmigrated "Inr ()" "snd (?m unmigrated)" calm_env
        "fst (?m (snd (?m unmigrated)))" "snd (?m (snd (?m unmigrated)))"]
    by (simp add: prod_eq_iff)
qed

section \<open>Waiting and locking\<close>

text \<open>\<open>WaitForDatabase\<close>: the answers of \<open>Ping\<close> and, after each failure, of the \<open>select\<close> between the
  context and the timer; the result with the number of pings.\<close>

fun wait_loop ::
  "(nat \<Rightarrow> go_error option) \<Rightarrow> (nat \<Rightarrow> go_error option) \<Rightarrow> nat \<Rightarrow> nat \<Rightarrow> go_error option \<times> nat" where
  "wait_loop ping ctx_done i 0 = (Some (NewError ''database did not become ready''), i)"
| "wait_loop ping ctx_done i (Suc left_over) =
     (case ping i of
        None \<Rightarrow> (None, Suc i)
      | Some _ \<Rightarrow>
          (case ctx_done i of
             Some err \<Rightarrow> (Some err, Suc i)
           | None \<Rightarrow> wait_loop ping ctx_done (Suc i) left_over))"

definition WaitForDatabase ::
  "(nat \<Rightarrow> go_error option) \<Rightarrow> (nat \<Rightarrow> go_error option) \<Rightarrow> int \<Rightarrow> go_error option \<times> nat" where
  "WaitForDatabase ping ctx_done attempts =
     wait_loop ping ctx_done 0 (nat (if attempts < 1 then 1 else attempts))"

lemma wait_loop_spec:
  "snd (wait_loop ping ctx_done i n) \<le> i + n \<and>
   (fst (wait_loop ping ctx_done i n) = None \<longleftrightarrow>
      (\<exists>k < n. ping (i + k) = None \<and> (\<forall>j < k. ctx_done (i + j) = None \<and> ping (i + j) \<noteq> None)))"
proof (induction n arbitrary: i)
  case (Suc n)
  show ?case
    using Suc.IH[of "Suc i"]
    by (cases "ping i"; cases "ctx_done i") (auto simp: Ex_less_Suc2 All_less_Suc2)
qed simp

text \<open>C36: waiting for the database ends after at most the given number of pings, at least one, and
  succeeds exactly if one of them does before the context is done.\<close>

theorem wait_ends:
  "1 \<le> snd (WaitForDatabase ping ctx_done attempts) \<and>
   int (snd (WaitForDatabase ping ctx_done attempts)) \<le> max 1 attempts \<and>
   (fst (WaitForDatabase ping ctx_done attempts) = None \<longleftrightarrow>
      (\<exists>k. int k < max 1 attempts \<and> ping k = None \<and>
        (\<forall>j < k. ctx_done j = None \<and> ping j \<noteq> None)))"
proof -
  define n where "n = nat (if attempts < 1 then 1 else attempts)"
  have n: "int n = max 1 attempts" "n \<noteq> 0" by (auto simp: n_def)
  have first: "1 \<le> snd (wait_loop ping ctx_done 0 n)"
  proof -
    have ge: "i \<le> snd (wait_loop ping ctx_done i k)" for i k
      by (induction k arbitrary: i) (auto split: option.split intro: Suc_leD)
    show ?thesis using n(2) ge[of 1] by (cases n) (auto split: option.split)
  qed
  have bound: "(int k < max 1 attempts) = (k < n)" for k using n(1) by linarith
  show ?thesis
    using wait_loop_spec[of ping ctx_done 0 n] first n(1)
    by (simp add: WaitForDatabase_def bound flip: n_def)
qed

lemma wait_ends_witness:
  "fst (WaitForDatabase (\<lambda>k. if k = 2 then None else Some conflict) (\<lambda>_. None) 5) = None \<and>
   snd (WaitForDatabase (\<lambda>k. if k = 2 then None else Some conflict) (\<lambda>_. None) 5) = 3"
proof
  show "fst (WaitForDatabase (\<lambda>k. if k = 2 then None else Some conflict) (\<lambda>_. None) 5) = None"
    using wait_ends[of "\<lambda>k. if k = 2 then None else Some conflict" "\<lambda>_. None" 5]
    by (auto intro!: exI[of _ "2 :: nat"])
qed code_simp

text \<open>\<open>AdvisoryLock\<close> as the events of its connection; \<open>acquire\<close> and \<open>lock\<close> are the errors of the two
  calls. The deferred calls run whatever \<open>fn\<close> returns.\<close>

datatype lock_event = Acquired | Locked | Ran | Unlocked | Released

definition AdvisoryLock ::
  "go_error option \<Rightarrow> go_error option \<Rightarrow> go_error option \<Rightarrow> go_error option \<times> lock_event list" where
  "AdvisoryLock acquire lock fn =
     (case acquire of
        Some err \<Rightarrow> (Some (Errorf ''acquire advisory lock connection'' err), [])
      | None \<Rightarrow>
          (case lock of
             Some err \<Rightarrow> (Some (Errorf ''acquire advisory lock'' err), [Acquired, Released])
           | None \<Rightarrow> (fn, [Acquired, Locked, Ran, Unlocked, Released])))"

end
