(* ===== verification/Workers.thy ===== *)
theory Workers
  imports ArrayOps_Runtime Repository "HOL-Library.Signed_Division"
begin

text \<open>
  \<open>internal/worker\<close>: retry policy (\<open>retry.go\<close>), lease, metrics, health, outcome log, the dive window
  processor, the reconcilers and the periodic workers. Sources, executors and generators are the
  interfaces of the package; they are arguments that thread the state they work on. A periodic
  worker runs until its context ends; its run over a finite list of rounds is a value, \<open>None\<close> when
  the list is used up before the worker returns.
\<close>

section \<open>Retries\<close>

record RetryPolicy =
  rp_Attempts :: int
  rp_BaseDelay :: duration
  rp_MaxDelay :: duration

text \<open>The loop of \<open>Delay\<close> with \<open>n\<close> doublings left, on 64-bit durations; Go's division truncates.\<close>

fun delay_loop :: "duration \<Rightarrow> nat \<Rightarrow> duration \<Rightarrow> duration" where
  "delay_loop maxDelay 0 delay = (if maxDelay < delay then maxDelay else delay)"
| "delay_loop maxDelay (Suc n) delay =
     (if maxDelay sdiv 2 \<le> delay then maxDelay else delay_loop maxDelay n (wrap64 (delay * 2)))"

definition Delay :: "RetryPolicy \<Rightarrow> int \<Rightarrow> duration" where
  "Delay p attempt =
     (let attempt' = (if attempt < 1 then 1 else attempt) in
      delay_loop (rp_MaxDelay p) (nat (attempt' - 1)) (rp_BaseDelay p))"

text \<open>\<open>waits k d\<close> is the outcome of the wait of length \<open>d\<close> after attempt \<open>k\<close>.\<close>

fun retry_loop ::
  "(nat \<Rightarrow> go_error option) \<Rightarrow> (nat \<Rightarrow> duration \<Rightarrow> select_outcome) \<Rightarrow> RetryPolicy \<Rightarrow>
   ('s \<Rightarrow> 's \<times> go_error option) \<Rightarrow> nat \<Rightarrow> nat \<Rightarrow> 's \<Rightarrow> go_error \<Rightarrow> 's \<times> go_error option" where
  "retry_loop ctx_err waits policy operation attempts 0 s last_err =
     (s, Some (Errorf ''operation failed after attempts'' last_err))"
| "retry_loop ctx_err waits policy operation attempts (Suc n) s last_err =
     (let attempt = attempts - n in
      case ctx_err attempt of
        Some err \<Rightarrow> (s, Some err)
      | None \<Rightarrow>
          (case operation s of
             (s', None) \<Rightarrow> (s', None)
           | (s', Some err) \<Rightarrow>
               if attempt = attempts
                 then (s', Some (Errorf ''operation failed after attempts'' err))
               else (case waits attempt (Delay policy (int attempt)) of
                   CtxDone werr \<Rightarrow> (s', Some werr)
                 | TimerFired \<Rightarrow> retry_loop ctx_err waits policy operation attempts n s' err)))"

definition RunWithRetry ::
  "(nat \<Rightarrow> go_error option) \<Rightarrow> (nat \<Rightarrow> duration \<Rightarrow> select_outcome) \<Rightarrow> RetryPolicy \<Rightarrow>
   ('s \<Rightarrow> 's \<times> go_error option) \<Rightarrow> 's \<Rightarrow> 's \<times> go_error option" where
  "RunWithRetry ctx_err waits policy operation s =
     (if rp_Attempts policy < 1 then (s, Some (NewError ''retry attempts must be positive''))
      else retry_loop ctx_err waits policy operation (nat (rp_Attempts policy))
             (nat (rp_Attempts policy)) s (NewError ''''))"

lemma delay_loop_le: "delay_loop m n d \<le> m"
  by (induction m n d rule: delay_loop.induct) auto

lemma sdiv_2: "0 \<le> m \<Longrightarrow> m sdiv 2 = m div (2 :: int)"
  by (simp add: signed_divide_int_def sgn_if)

text \<open>For an even maximum the delay is the doubled base, cut off at the maximum.\<close>

lemma delay_loop_exact:
  "0 \<le> d \<Longrightarrow> 0 \<le> m \<Longrightarrow> even m \<Longrightarrow> m < 2 ^ 63 \<Longrightarrow> delay_loop m n d = min m (d * 2 ^ n)"
proof (induction n arbitrary: d)
  case 0
  then show ?case by simp
next
  case (Suc n)
  show ?case
  proof (cases "m div 2 \<le> d")
    case True
    then have "m \<le> d * 2" using Suc.prems by (auto elim: evenE)
    also have "d * 2 * 1 \<le> d * 2 * 2 ^ n" using Suc.prems by (intro mult_left_mono) auto
    finally show ?thesis using True Suc.prems by (simp add: sdiv_2 algebra_simps)
  next
    case False
    then have "d * 2 < m" by linarith
    then have "wrap64 (d * 2) = d * 2" using Suc.prems by (intro wrap64_id) (simp add: is_int64_def)
    then show ?thesis using Suc.IH[of "d * 2"] Suc.prems False by (simp add: sdiv_2 algebra_simps)
  qed
qed

text \<open>An operation that counts its calls and fails as \<open>f\<close> says.\<close>

definition counted :: "(nat \<Rightarrow> go_error option) \<Rightarrow> nat \<Rightarrow> nat \<times> go_error option" where
  "counted f k = (Suc k, f (Suc k))"

lemma retry_loop_counts:
  "n \<le> a \<Longrightarrow> 0 < n \<Longrightarrow>
   retry_loop ctx_err waits policy (counted f) a n (a - n) e = (k, r) \<Longrightarrow>
   a - n \<le> k \<and> k \<le> a \<and> (\<forall>j. a - n < j \<and> j < k \<longrightarrow> f j \<noteq> None) \<and>
   (r = None \<longleftrightarrow> a - n < k \<and> f k = None)"
proof (induction n arbitrary: e)
  case 0
  then show ?case by simp
next
  case (Suc n)
  define i where "i = a - n"
  have i: "a - Suc n = i - 1" "Suc (i - 1) = i" "i \<le> a" using Suc.prems by (auto simp: i_def)
  show ?case
  proof (cases "ctx_err i")
    case (Some e')
    then have "k = a - Suc n" "r = Some e'"
      using Suc.prems(3) by (auto simp: Let_def i_def[symmetric])
    then show ?thesis using Suc.prems(1) by auto
  next
    case None
    show ?thesis
    proof (cases "f i")
      case None': None
      then have "k = i" "r = None"
        using Suc.prems None i by (auto simp: Let_def i_def[symmetric] counted_def)
      then show ?thesis using None' i by auto
    next
      case (Some e')
      show ?thesis
      proof (cases "i = a \<or> waits i (Delay policy (int i)) \<noteq> TimerFired")
        case True
        then have "k = i" "r \<noteq> None"
          using Suc.prems None Some i
          by (auto simp: Let_def i_def[symmetric] counted_def split: if_splits select_outcome.splits)
        then show ?thesis using Some i by auto
      next
        case False
        have step: "counted f (a - Suc n) = (i, Some e')" using i(1,2) Some by (simp add: counted_def)
        have "0 < n" using False by (cases n) (auto simp: i_def)
        moreover have "retry_loop ctx_err waits policy (counted f) a n i e' = (k, r)"
          using Suc.prems(3) None False step by (simp add: Let_def i_def[symmetric])
        ultimately have IH: "i \<le> k" "k \<le> a" "\<forall>j. i < j \<and> j < k \<longrightarrow> f j \<noteq> None"
          "r = None \<longleftrightarrow> i < k \<and> f k = None"
          using Suc.IH[of e'] Suc.prems(1) unfolding i_def by auto
        have "f j \<noteq> None" if "a - Suc n < j" "j < k" for j
          using IH(3) that Some i by (cases "j = i") auto
        moreover have "i < k \<and> f k = None \<longleftrightarrow> a - Suc n < k \<and> f k = None"
          using IH(1) Some i by (cases "k = i") auto
        ultimately show ?thesis using IH i by auto
      qed
    qed
  qed
qed

section \<open>Lease, metrics, health, outcomes\<close>

record work_lease =
  wl_owner :: string
  wl_until :: time

definition Lease_Acquire :: "work_lease \<Rightarrow> string \<Rightarrow> time \<Rightarrow> duration \<Rightarrow> work_lease \<times> bool" where
  "Lease_Acquire l owner now ttl =
     (if owner = '''' \<or> ttl \<le> 0 then (l, False)
      else if wl_owner l \<noteq> '''' \<and> now < wl_until l \<and> wl_owner l \<noteq> owner then (l, False)
      else (l\<lparr>wl_owner := owner, wl_until := now + ttl\<rparr>, True))"

definition Lease_Release :: "work_lease \<Rightarrow> string \<Rightarrow> work_lease \<times> bool" where
  "Lease_Release l owner =
     (if wl_owner l \<noteq> owner then (l, False)
      else (l\<lparr>wl_owner := '''', wl_until := 0\<rparr>, True))"

definition HeldBy :: "work_lease \<Rightarrow> string \<Rightarrow> time \<Rightarrow> bool" where
  "HeldBy l owner now \<longleftrightarrow> wl_owner l = owner \<and> now < wl_until l"

text \<open>Nobody has an empty name; a fresh or released lease is held by nobody after the zero time.\<close>

definition lease_held :: "work_lease \<Rightarrow> string \<Rightarrow> time \<Rightarrow> bool" where
  "lease_held l owner now \<longleftrightarrow> owner \<noteq> '''' \<and> HeldBy l owner now"

interpretation work_lease: releasable_lease Lease_Acquire lease_held Lease_Release
  by unfold_locales
    (auto simp: Lease_Acquire_def Lease_Release_def lease_held_def HeldBy_def split: if_splits)

record Metrics =
  me_runs :: int
  me_failures :: int
  me_due :: int

definition no_metrics :: Metrics where
  "no_metrics = \<lparr>me_runs = 0, me_failures = 0, me_due = 0\<rparr>"

definition RecordRun :: "Metrics \<Rightarrow> Metrics" where
  "RecordRun m = m\<lparr>me_runs := wrap64 (me_runs m + 1)\<rparr>"

definition RecordFailure :: "Metrics \<Rightarrow> Metrics" where
  "RecordFailure m = m\<lparr>me_failures := wrap64 (me_failures m + 1)\<rparr>"

definition RecordDue :: "Metrics \<Rightarrow> int \<Rightarrow> Metrics" where
  "RecordDue m n = m\<lparr>me_due := wrap64 (me_due m + n)\<rparr>"

definition metrics_Snapshot :: "Metrics \<Rightarrow> int \<times> int \<times> int" where
  "metrics_Snapshot m = (me_runs m, me_failures m, me_due m)"

text \<open>Instants are kept as nanoseconds since 1970, an \<open>int64\<close>.\<close>

definition unix_epoch :: time where
  "unix_epoch = 62135596800 * second"

definition UnixNano :: "time \<Rightarrow> int" where
  "UnixNano t = wrap64 (t - unix_epoch)"

record Health =
  he_running :: bool
  he_lastRun :: int
  he_lastError :: int

definition Health_Start :: "Health \<Rightarrow> Health" where
  "Health_Start h = h\<lparr>he_running := True\<rparr>"

definition Health_Stop :: "Health \<Rightarrow> Health" where
  "Health_Stop h = h\<lparr>he_running := False\<rparr>"

definition Health_RecordRun :: "Health \<Rightarrow> time \<Rightarrow> Health" where
  "Health_RecordRun h now = h\<lparr>he_lastRun := UnixNano now\<rparr>"

definition Health_RecordError :: "Health \<Rightarrow> time \<Rightarrow> Health" where
  "Health_RecordError h now = h\<lparr>he_lastError := UnixNano now\<rparr>"

definition Health_Check :: "Health \<Rightarrow> duration \<Rightarrow> time \<Rightarrow> go_error option" where
  "Health_Check h staleAfter now =
     (if \<not> he_running h then Some (Sentinel (ExternalErr ContextCanceled))
      else (let last_run = unix_epoch + he_lastRun h in
        if IsZero last_run \<or> staleAfter < time_Sub now last_run
          then Some (Sentinel (ExternalErr ContextDeadlineExceeded))
        else None))"

type_synonym job_outcome = string

abbreviation OutcomeSuccess :: job_outcome where "OutcomeSuccess \<equiv> ''success''"
abbreviation OutcomeRetry :: job_outcome where "OutcomeRetry \<equiv> ''retry''"
abbreviation OutcomePermanentFailure :: job_outcome where
  "OutcomePermanentFailure \<equiv> ''permanent_failure''"
abbreviation OutcomeCancelled :: job_outcome where "OutcomeCancelled \<equiv> ''cancelled''"

record OutcomeRecord =
  ou_JobID :: string
  ou_Outcome :: job_outcome
  ou_Attempts :: int
  ou_Error :: string
  ou_At :: time

definition OutcomeLog_Append :: "OutcomeRecord list \<Rightarrow> OutcomeRecord \<Rightarrow> OutcomeRecord list" where
  "OutcomeLog_Append l r = l @ [r]"

definition OutcomeLog_List :: "OutcomeRecord list \<Rightarrow> OutcomeRecord list" where
  "OutcomeLog_List l = l"

fun outcome_count :: "OutcomeRecord list \<Rightarrow> job_outcome \<Rightarrow> int \<Rightarrow> int" where
  "outcome_count [] oc cnt = cnt"
| "outcome_count (r # rs) oc cnt =
     outcome_count rs oc (if ou_Outcome r = oc then cnt + 1 else cnt)"

definition OutcomeLog_Count :: "OutcomeRecord list \<Rightarrow> job_outcome \<Rightarrow> int" where
  "OutcomeLog_Count l oc = outcome_count l oc 0"

lemma outcome_count_eq: "outcome_count l oc n = n + int (length (filter (\<lambda>r. ou_Outcome r = oc) l))"
  by (induction l oc n rule: outcome_count.induct) auto

lemma OutcomeLog_Count_Append: "OutcomeLog_Count (OutcomeLog_Append l r) oc =
    OutcomeLog_Count l oc + (if ou_Outcome r = oc then 1 else 0)"
  by (simp add: OutcomeLog_Count_def OutcomeLog_Append_def outcome_count_eq)

lemma Health_fresh: "he_running h \<Longrightarrow> is_int64 (now - unix_epoch) \<Longrightarrow> 0 \<le> staleAfter \<Longrightarrow>
    now \<noteq> 0 \<Longrightarrow> Health_Check (Health_RecordRun h now) staleAfter now = None"
  by (simp add: Health_Check_def Health_RecordRun_def UnixNano_def time_Sub_def)

section \<open>The dive window processor\<close>

record DiveWindowJob =
  jb_ID :: string
  jb_Attempts :: int
  jb_MaxAttempts :: int

definition capped_policy :: "RetryPolicy \<Rightarrow> DiveWindowJob \<Rightarrow> RetryPolicy" where
  "capped_policy p job =
     (if 0 < jb_MaxAttempts job \<and> jb_MaxAttempts job < rp_Attempts p
        then p\<lparr>rp_Attempts := jb_MaxAttempts job\<rparr> else p)"

text \<open>The operation handed to \<open>RunWithRetry\<close> counts the attempt in the job and executes it.\<close>

definition execute_attempt ::
  "('s \<Rightarrow> DiveWindowJob \<Rightarrow> 's \<times> go_error option) \<Rightarrow> 's \<times> DiveWindowJob \<Rightarrow>
   ('s \<times> DiveWindowJob) \<times> go_error option" where
  "execute_attempt executor st =
     (case st of (s, job) \<Rightarrow>
        let job' = job\<lparr>jb_Attempts := wrap64 (jb_Attempts job + 1)\<rparr> in
        (case executor s job' of (s', err) \<Rightarrow> ((s', job'), err)))"

definition Process ::
  "(nat \<Rightarrow> go_error option) \<Rightarrow> (nat \<Rightarrow> duration \<Rightarrow> select_outcome) \<Rightarrow>
   ('s \<Rightarrow> DiveWindowJob \<Rightarrow> 's \<times> go_error option) option \<Rightarrow> RetryPolicy \<Rightarrow>
   's \<times> Metrics \<Rightarrow> DiveWindowJob \<Rightarrow> ('s \<times> Metrics) \<times> go_error option" where
  "Process ctx_err waits executor policy st job =
     (case st of (s, metrics) \<Rightarrow>
        if jb_ID job = '''' then (st, Some (NewError ''dive_window job id is required''))
        else (case executor of
            None \<Rightarrow> (st, Some (NewError ''dive_window executor is nil''))
          | Some ex \<Rightarrow>
              (case RunWithRetry ctx_err waits (capped_policy policy job) (execute_attempt ex) (s, job) of
                 ((s', _), None) \<Rightarrow> ((s', RecordRun metrics), None)
               | ((s', _), Some err) \<Rightarrow> ((s', RecordFailure (RecordRun metrics)), Some err))))"

section \<open>Reconcilers\<close>

definition Expiration_Reconcile ::
  "go_error option \<Rightarrow> ('s \<Rightarrow> time \<Rightarrow> int \<Rightarrow> 's \<times> ReconcileResult result) option \<Rightarrow> time \<Rightarrow>
   's \<times> Metrics \<Rightarrow> ('s \<times> Metrics) \<times> go_error option" where
  "Expiration_Reconcile ctx_err source now st =
     (case ctx_err of
        Some err \<Rightarrow> (st, Some err)
      | None \<Rightarrow>
          (case source of
             None \<Rightarrow> (st, Some (NewError ''expiration source is nil''))
           | Some mark \<Rightarrow>
               (let metrics = RecordRun (snd st) in
                case mark (fst st) now 100 of
                  (s, Inl err) \<Rightarrow> ((s, RecordFailure metrics), Some err)
                | (s, Inr result) \<Rightarrow> ((s, RecordDue metrics (re_Marked result)), None))))"

definition Expiry_Reconcile ::
  "go_error option \<Rightarrow> ('s \<Rightarrow> time \<Rightarrow> int \<Rightarrow> 's \<times> 'job list result) option \<Rightarrow> time \<Rightarrow>
   's \<times> Metrics \<Rightarrow> ('s \<times> Metrics) \<times> go_error option" where
  "Expiry_Reconcile ctx_err repo now st =
     (case ctx_err of
        Some err \<Rightarrow> (st, Some err)
      | None \<Rightarrow>
          (case repo of
             None \<Rightarrow> (st, Some (NewError ''task expiry repository is nil''))
           | Some expiring \<Rightarrow>
               (let metrics = RecordRun (snd st) in
                case expiring (fst st) now 100 of
                  (s, Inl err) \<Rightarrow> ((s, RecordFailure metrics), Some err)
                | (s, Inr items) \<Rightarrow> ((s, RecordDue metrics (int (length items))), None))))"

section \<open>Periodic workers\<close>

text \<open>A round of a worker: the answer of the context at its beginning, the clock, whether the
  context is alive when a failed call is looked at, and what ends the wait for the ticker.\<close>

record round =
  ro_ctx_err :: "go_error option"
  ro_now :: time
  ro_alive :: bool
  ro_wait :: select_outcome

text \<open>The \<open>for\<close> loop all workers share; the body may return from the worker.\<close>

fun ticker_loop :: "(round \<Rightarrow> 's \<Rightarrow> 's \<times> go_error option) \<Rightarrow> round list \<Rightarrow> 's \<Rightarrow> 's \<times> go_error option" where
  "ticker_loop body [] s = (s, None)"
| "ticker_loop body (r # rounds) s =
     (case ro_ctx_err r of
        Some err \<Rightarrow> (s, Some err)
      | None \<Rightarrow>
          (case body r s of
             (s', Some err) \<Rightarrow> (s', Some err)
           | (s', None) \<Rightarrow>
               (case ro_wait r of
                  CtxDone err \<Rightarrow> (s', Some err)
                | TimerFired \<Rightarrow> ticker_loop body rounds s')))"

definition assignment_body ::
  "('s \<Rightarrow> time \<Rightarrow> int \<Rightarrow> 's \<times> int \<times> go_error option) option \<Rightarrow> round \<Rightarrow> 's \<times> Metrics \<Rightarrow>
   ('s \<times> Metrics) \<times> go_error option" where
  "assignment_body source r st =
     (case source of
        None \<Rightarrow> (st, None)
      | Some activate \<Rightarrow>
          (let metrics = RecordRun (snd st) in
           case activate (fst st) (ro_now r) 100 of
             (s, n, err) \<Rightarrow>
               (if err \<noteq> None \<and> ro_alive r then ((s, RecordFailure metrics), None)
                else ((s, RecordDue metrics n), None))))"

definition AssignmentWorker_Run where
  "AssignmentWorker_Run source = ticker_loop (assignment_body source)"

definition periodic_body ::
  "('s \<Rightarrow> time \<Rightarrow> 's \<times> go_error option) option \<Rightarrow> round \<Rightarrow> 's \<Rightarrow> 's \<times> go_error option" where
  "periodic_body run r s =
     (case run of None \<Rightarrow> (s, None) | Some reconcile \<Rightarrow> (fst (reconcile s (ro_now r)), None))"

definition Periodic_Run where
  "Periodic_Run run = ticker_loop (periodic_body run)"

definition ReportWorker_Run where
  "ReportWorker_Run generator = ticker_loop (periodic_body generator)"

definition incident_body ::
  "('s \<Rightarrow> time \<Rightarrow> int \<Rightarrow> 's \<times> 'item list result) option \<Rightarrow> round \<Rightarrow> 's \<Rightarrow> 's \<times> go_error option" where
  "incident_body service r s =
     (case service of
        None \<Rightarrow> (s, Some (NewError ''safety_alert service is nil''))
      | Some due \<Rightarrow> (fst (due s (ro_now r) 100), None))"

definition IntegrityIncidentWorker_Run where
  "IntegrityIncidentWorker_Run service = ticker_loop (incident_body service)"

text \<open>The instants at which a body that never returns from the worker is called.\<close>

fun round_times :: "round list \<Rightarrow> time list" where
  "round_times [] = []"
| "round_times (r # rounds) =
     (case ro_ctx_err r of
        Some err \<Rightarrow> []
      | None \<Rightarrow> ro_now r # (case ro_wait r of CtxDone err \<Rightarrow> [] | TimerFired \<Rightarrow> round_times rounds))"

lemma ticker_loop_calls:
  "(\<And>r s. body r s = (f s (ro_now r), None)) \<Longrightarrow>
   fst (ticker_loop body rounds s) = foldl f s (round_times rounds)"
  by (induction rounds arbitrary: s) (auto split: option.splits select_outcome.splits)

lemma ticker_loop_ends: "(\<And>r s. snd (body r s) = None) \<Longrightarrow>
   snd (ticker_loop body rounds s) = None \<longleftrightarrow>
   (\<forall>r \<in> set rounds. ro_ctx_err r = None \<and> ro_wait r = TimerFired)"
proof (induction rounds arbitrary: s)
  case Nil
  then show ?case by simp
next
  case (Cons r rounds)
  obtain s' where "body r s = (s', None)" using Cons.prems[of r s] by (cases "body r s") auto
  then show ?case using Cons by (auto split: option.splits select_outcome.splits)
qed

section \<open>Properties\<close>

text \<open>The delay before a retry never passes the maximum of the policy, not even when the doubling
  overflows; and for a base that is not negative and an even maximum it is the base doubled
  \<open>attempt - 1\<close> times, cut off at the maximum.\<close>

theorem delay_bounds:
  "Delay p attempt \<le> rp_MaxDelay p \<and>
   (0 \<le> rp_BaseDelay p \<and> 0 \<le> rp_MaxDelay p \<and> rp_MaxDelay p < 2 ^ 63 \<and> even (rp_MaxDelay p) \<longrightarrow>
      Delay p attempt = min (rp_MaxDelay p) (rp_BaseDelay p * 2 ^ nat (max 1 attempt - 1)))"
proof -
  have "nat ((if attempt < 1 then 1 else attempt) - 1) = nat (max 1 attempt - 1)" by auto
  then show ?thesis unfolding Delay_def Let_def
    using delay_loop_le delay_loop_exact[of "rp_BaseDelay p" "rp_MaxDelay p"] by simp
qed

theorem delay_bounds_witness:
  "Delay \<lparr>rp_Attempts = 5, rp_BaseDelay = 3, rp_MaxDelay = 40\<rparr> 4 = 24"
  using delay_bounds[of "\<lparr>rp_Attempts = 5, rp_BaseDelay = 3, rp_MaxDelay = 40\<rparr>" 4] by simp

text \<open>The dive window processor executes a job at most as often as the policy allows and, where
  the job sets its own limit, no more than that; it stops at the first success and reports success
  exactly if the last execution succeeded; and it counts one run, and one failure if it fails.\<close>

theorem process_attempts:
  assumes "Process ctx_err waits (Some (\<lambda>k job. counted f k)) policy (0, m) job = ((k, m'), r)"
    and "jb_ID job \<noteq> []"
  shows "int k \<le> max 0 (rp_Attempts policy) \<and> (0 < jb_MaxAttempts job \<longrightarrow> int k \<le> jb_MaxAttempts job) \<and>
    (\<forall>j. 0 < j \<and> j < k \<longrightarrow> f j \<noteq> None) \<and> (r = None \<longleftrightarrow> 0 < k \<and> f k = None) \<and>
    me_runs m' = wrap64 (me_runs m + 1) \<and>
    me_failures m' = (if r = None then me_failures m else wrap64 (me_failures m + 1))"
proof -
  let ?p = "capped_policy policy job"
  define ex where "ex = execute_attempt (\<lambda>k (job :: DiveWindowJob). counted f k)"
  have drop_job: "fst (fst (retry_loop ctx_err waits q ex a n (k0, jb) e)) =
        fst (retry_loop ctx_err waits q (counted f) a n k0 e) \<and>
      snd (retry_loop ctx_err waits q ex a n (k0, jb) e) =
        snd (retry_loop ctx_err waits q (counted f) a n k0 e)" for q a n k0 jb e
    by (induction n arbitrary: k0 jb e)
      (auto simp: Let_def ex_def execute_attempt_def counted_def
        split: option.splits select_outcome.splits)
  obtain k1 jb1 r1 where run: "RunWithRetry ctx_err waits ?p ex (0, job) = ((k1, jb1), r1)"
    by (metis prod.collapse)
  have res: "k = k1" "r = r1"
    "m' = (if r1 = None then RecordRun m else RecordFailure (RecordRun m))"
    using assms run by (auto simp: Process_def ex_def[symmetric] split: option.splits)
  have bound: "int k1 \<le> max 0 (rp_Attempts ?p) \<and> (\<forall>j. 0 < j \<and> j < k1 \<longrightarrow> f j \<noteq> None) \<and>
      (r1 = None \<longleftrightarrow> 0 < k1 \<and> f k1 = None)"
  proof (cases "rp_Attempts ?p < 1")
    case True
    then show ?thesis using run by (auto simp: RunWithRetry_def)
  next
    case False
    let ?a = "nat (rp_Attempts ?p)"
    have "retry_loop ctx_err waits ?p (counted f) ?a ?a (?a - ?a) (NewError '''') = (k1, r1)"
      using run False drop_job[of ?p ?a ?a 0 job "NewError ''''"]
      by (simp add: RunWithRetry_def prod_eq_iff)
    from retry_loop_counts[OF _ _ this] False show ?thesis by auto
  qed
  moreover have "rp_Attempts ?p \<le> rp_Attempts policy"
    "0 < jb_MaxAttempts job \<Longrightarrow> rp_Attempts ?p \<le> jb_MaxAttempts job"
    by (auto simp: capped_policy_def)
  ultimately show ?thesis
    by (auto simp: res RecordRun_def RecordFailure_def)
qed

theorem process_attempts_witness:
  "\<exists>k m' r. Process (\<lambda>_. None) (\<lambda>_ _. TimerFired)
      (Some (\<lambda>k job. counted (\<lambda>i. if i < 9 then Some (NewError ''busy'') else None) k))
      \<lparr>rp_Attempts = 5, rp_BaseDelay = 1, rp_MaxDelay = 4\<rparr> (0, no_metrics)
      \<lparr>jb_ID = ''j'', jb_Attempts = 0, jb_MaxAttempts = 3\<rparr> = ((k, m'), r) \<and> int k \<le> 3"
proof -
  let ?job = "\<lparr>jb_ID = ''j'', jb_Attempts = 0, jb_MaxAttempts = 3\<rparr>"
  let ?r = "Process (\<lambda>_. None) (\<lambda>_ _. TimerFired)
      (Some (\<lambda>k job. counted (\<lambda>i. if i < 9 then Some (NewError ''busy'') else None) k))
      \<lparr>rp_Attempts = 5, rp_BaseDelay = 1, rp_MaxDelay = 4\<rparr> (0, no_metrics) ?job"
  obtain k m' r where r: "?r = ((k, m'), r)" by (metis prod.collapse)
  have "jb_ID ?job \<noteq> []" by simp
  from process_attempts[OF r this] have "int k \<le> 3" by simp
  with r show ?thesis by blast
qed

text \<open>C27: a periodic worker calls its reconciler once per round, with the clock of the round, and a
  failed call does not stop it: it returns only when its context has ended. The worker's lease is
  exclusive in the same way as the array lease; releasing a free lease with an empty name is
  reported as a release.\<close>

theorem workers_keep_going:
  "fst (Periodic_Run (Some reconcile) rounds s) =
     foldl (\<lambda>s t. fst (reconcile s t)) s (round_times rounds) \<and>
   (snd (Periodic_Run (Some reconcile) rounds s) = None \<longleftrightarrow>
      list_all (\<lambda>r. ro_ctx_err r = None \<and> ro_wait r = TimerFired) rounds) \<and>
   (lease_held l v u \<and> list_all (work_lease.foreign_until v u) reqs \<longrightarrow>
      foldl work_lease.lease_step l reqs = l) \<and>
   snd (Lease_Release \<lparr>wl_owner = [], wl_until = 0\<rparr> [])"
proof -
  have "fst (Periodic_Run (Some reconcile) rounds s) =
      foldl (\<lambda>s t. fst (reconcile s t)) s (round_times rounds)"
    unfolding Periodic_Run_def by (rule ticker_loop_calls) (simp add: periodic_body_def)
  moreover have "snd (Periodic_Run (Some reconcile) rounds s) = None \<longleftrightarrow>
      list_all (\<lambda>r. ro_ctx_err r = None \<and> ro_wait r = TimerFired) rounds"
    unfolding Periodic_Run_def list_all_iff by (rule ticker_loop_ends) (simp add: periodic_body_def)
  ultimately show ?thesis using work_lease.foreign_run[of l v u reqs] by (simp add: Lease_Release_def)
qed

theorem workers_keep_going_witness:
  "foldl work_lease.lease_step \<lparr>wl_owner = ''a'', wl_until = 9\<rparr> [LeaseAcquire ''b'' 3 4] =
     \<lparr>wl_owner = ''a'', wl_until = 9\<rparr>"
  using workers_keep_going[of "\<lambda>s t. (s, None)" "[]" "()" "\<lparr>wl_owner = ''a'', wl_until = 9\<rparr>" "''a''" 8
      "[LeaseAcquire ''b'' 3 4]"]
  by (simp add: lease_held_def HeldBy_def work_lease.foreign_until_def)

end
