(* ===== verification/Server_Main.thy ===== *)
theory Server_Main
  imports Http_Routes Migrations Workers
begin

text \<open>
  \<open>cmd/server/main.go\<close> and \<open>internal/db/pool.go\<close>: the server comes up (configuration, connection pool,
  migrations, in this order) and then runs as a handful of goroutines: one per worker, one for the
  HTTP listener, one that waits for the workers, and \<open>run\<close> itself, which stops on the first of a
  signal, an error of the listener and an error of a worker. Startup is a function; the goroutines
  are a step relation.
\<close>

section \<open>Opening the pool\<close>

text \<open>The settings of \<open>pgxpool.Config\<close> the code sets, beside the text it was parsed from; what pgx
  answers is an argument.\<close>

record pool_config =
  pl_ConnString :: string
  pl_MaxConns :: int
  pl_MinConns :: int
  pl_MaxConnLifetime :: duration
  pl_MaxConnIdleTime :: duration

record pgx_lib =
  px_ParseConfig :: "string \<Rightarrow> pool_config result"
  px_NewWithConfig :: "pool_config \<Rightarrow> go_error option"
  px_Ping :: "pool_config \<Rightarrow> go_error option"

text \<open>\<open>pools\<close> are the pools that are open.\<close>

definition db_Open ::
  "pgx_lib \<Rightarrow> string \<Rightarrow> int \<Rightarrow> int \<Rightarrow> pool_config list \<Rightarrow> pool_config result \<times> pool_config list" where
  "db_Open px url maxConns minConns pools =
     (case px_ParseConfig px url of
        Inl err \<Rightarrow> (Inl (Errorf ''parse database url'' err), pools)
      | Inr parsed \<Rightarrow>
          let cfg = parsed\<lparr>pl_MaxConns := maxConns, pl_MinConns := minConns,
            pl_MaxConnLifetime := 30 * minute, pl_MaxConnIdleTime := 5 * minute\<rparr> in
          (case px_NewWithConfig px cfg of
             Some err \<Rightarrow> (Inl (Errorf ''open database pool'' err), pools)
           | None \<Rightarrow>
               let opened = cfg # pools in
               (case px_Ping px cfg of
                  Some err \<Rightarrow> (Inl (Errorf ''ping database'' err), remove1 cfg opened)
                | None \<Rightarrow> (Inr cfg, opened))))"

section \<open>Coming up\<close>

record http_server =
  hs_Addr :: string
  hs_Handler :: "http_request \<Rightarrow> (server_db, response) io"
  hs_ReadHeaderTimeout :: duration
  hs_ReadTimeout :: duration
  hs_WriteTimeout :: duration
  hs_IdleTimeout :: duration

definition new_server :: "http_lib \<Rightarrow> (nat \<Rightarrow> go_error option) \<Rightarrow> Config \<Rightarrow> http_server" where
  "new_server lib ping cfg = \<lparr>hs_Addr = cg_Addr cfg, hs_Handler = Handler lib (Some ping) True,
     hs_ReadHeaderTimeout = 5 * second, hs_ReadTimeout = 15 * second,
     hs_WriteTimeout = 30 * second, hs_IdleTimeout = 60 * second\<rparr>"

text \<open>\<open>run\<close> up to the server: the error it returns, or the configuration, the pool and the server; the
  pools left open, with the deferred \<open>p.Close\<close> on the way out; and the database.\<close>

definition startup ::
  "(string \<Rightarrow> duration result) \<Rightarrow> (string \<Rightarrow> string) \<Rightarrow> pgx_lib \<Rightarrow> 's script \<Rightarrow> file_system \<Rightarrow>
   http_lib \<Rightarrow> (nat \<Rightarrow> go_error option) \<Rightarrow> env \<Rightarrow> 's migrated world \<Rightarrow>
   (Config \<times> pool_config \<times> http_server) result \<times> pool_config list \<times> 's migrated world" where
  "startup parse getenv px run fs lib ping env w =
     (case Load parse getenv of
        Inl err \<Rightarrow> (Inl err, [], w)
      | Inr cfg \<Rightarrow>
          (case db_Open px (cg_DatabaseURL cfg) (cg_DatabaseMaxConns cfg) (cg_DatabaseMinConns cfg) [] of
             (Inl err, pools) \<Rightarrow> (Inl err, pools, w)
           | (Inr p, pools) \<Rightarrow>
               (case Migrate run fs env w of
                  (Inl err, w1) \<Rightarrow> (Inl err, remove1 p pools, w1)
                | (Inr _, w1) \<Rightarrow> (Inr (cfg, p, new_server lib ping cfg), pools, w1))))"

section \<open>Running\<close>

text \<open>The workers by name; a worker is what its \<open>Run\<close> returns after the given rounds, and None while it
  has not returned.\<close>

type_synonym worker = "string \<times> (round list \<Rightarrow> go_error option)"

abbreviation canceled :: go_error where
  "canceled \<equiv> Sentinel (ExternalErr ContextCanceled)"

text \<open>What a worker sees of \<open>workerCtx\<close>, which is only ever cancelled.\<close>

definition sees_context :: "bool \<Rightarrow> round list \<Rightarrow> bool" where
  "sees_context ctx_done rounds \<longleftrightarrow>
     list_all (\<lambda>r. (ro_ctx_err r = None \<or> ctx_done \<and> ro_ctx_err r = Some canceled) \<and>
       (ro_wait r = TimerFired \<or> ctx_done \<and> ro_wait r = CtxDone canceled)) rounds"

datatype worker_state = WorkerRuns | WorkerSends go_error | WorkerEnded
datatype listen_end = ServerClosed | ListenFailed go_error
datatype listener_state = Listening | ListenerSends listen_end | ListenerEnded

text \<open>Where \<open>run\<close> is: in its first \<open>select\<close>, before \<open>cancelWorkers\<close>, before \<open>Shutdown\<close>, in its second
  \<open>select\<close>, or back with a result; the argument is \<open>runErr\<close>.\<close>

datatype run_state =
    Selecting
  | Cancelling "go_error option"
  | ShuttingDown "go_error option"
  | Draining "go_error option"
  | Returned "go_error option"

record process =
  pr_run :: run_state
  pr_signalled :: bool
  pr_cancelled :: bool
  pr_workers :: "worker_state list"
  pr_workerErr :: "go_error list"
  pr_workersDone :: bool
  pr_listener :: listener_state
  pr_serverErr :: "listen_end list"

definition process_start :: "worker list \<Rightarrow> process" where
  "process_start workers = \<lparr>pr_run = Selecting, pr_signalled = False, pr_cancelled = False,
     pr_workers = replicate (length workers) WorkerRuns, pr_workerErr = [], pr_workersDone = False,
     pr_listener = Listening, pr_serverErr = []\<rparr>"

text \<open>What a worker goroutine does with the value its worker returned.\<close>

definition after_worker :: "string \<Rightarrow> go_error option \<Rightarrow> worker_state" where
  "after_worker name result =
     (case result of
        None \<Rightarrow> WorkerEnded
      | Some err \<Rightarrow>
          if \<not> errors_Is err (ExternalErr ContextCanceled)
            then WorkerSends (Errorf (name @ '' worker'') err)
          else WorkerEnded)"

definition listener_result :: "listen_end \<Rightarrow> go_error option" where
  "listener_result e = (case e of ServerClosed \<Rightarrow> None | ListenFailed err \<Rightarrow> Some (Errorf ''http server'' err))"

definition after_shutdown :: "go_error option \<Rightarrow> go_error option \<Rightarrow> go_error option" where
  "after_shutdown shutdown runErr =
     (case shutdown of
        None \<Rightarrow> runErr
      | Some err \<Rightarrow> if runErr = None then Some (Errorf ''shutdown http server'' err) else runErr)"

definition has_returned :: "run_state \<Rightarrow> bool" where
  "has_returned m \<longleftrightarrow> (case m of Returned _ \<Rightarrow> True | _ \<Rightarrow> False)"

definition shutdown_called :: "run_state \<Rightarrow> bool" where
  "shutdown_called m \<longleftrightarrow> (case m of Draining _ \<Rightarrow> True | Returned _ \<Rightarrow> True | _ \<Rightarrow> False)"

text \<open>
  One step of any goroutine. \<open>workerErr\<close> has room for one error per worker and \<open>serverErr\<close> for one
  value. \<open>ListenAndServe\<close> answers \<open>ErrServerClosed\<close> only after \<open>Shutdown\<close>, and \<open>workerCtx\<close> is done after
  a signal or \<open>cancelWorkers\<close>.
\<close>

inductive process_step :: "worker list \<Rightarrow> process \<Rightarrow> process \<Rightarrow> bool" for workers where
  signal: "\<not> pr_signalled p \<Longrightarrow> process_step workers p (p\<lparr>pr_signalled := True\<rparr>)"
| worker_returns: "i < length (pr_workers p) \<Longrightarrow> pr_workers p ! i = WorkerRuns \<Longrightarrow>
    sees_context (pr_signalled p \<or> pr_cancelled p) rounds \<Longrightarrow>
    workers ! i = (name, worker) \<Longrightarrow> worker rounds = Some err \<Longrightarrow>
    process_step workers p
      (p\<lparr>pr_workers := (pr_workers p)[i := after_worker name (Some err)]\<rparr>)"
| worker_sends: "i < length (pr_workers p) \<Longrightarrow> pr_workers p ! i = WorkerSends err \<Longrightarrow>
    length (pr_workerErr p) < length workers \<Longrightarrow>
    process_step workers p
      (p\<lparr>pr_workers := (pr_workers p)[i := WorkerEnded], pr_workerErr := pr_workerErr p @ [err]\<rparr>)"
| workers_done: "list_all (\<lambda>s. s = WorkerEnded) (pr_workers p) \<Longrightarrow> \<not> pr_workersDone p \<Longrightarrow>
    process_step workers p (p\<lparr>pr_workersDone := True\<rparr>)"
| listener_returns: "pr_listener p = Listening \<Longrightarrow>
    (e = ServerClosed \<longrightarrow> shutdown_called (pr_run p)) \<Longrightarrow>
    process_step workers p (p\<lparr>pr_listener := ListenerSends e\<rparr>)"
| listener_sends: "pr_listener p = ListenerSends e \<Longrightarrow> pr_serverErr p = [] \<Longrightarrow>
    process_step workers p (p\<lparr>pr_listener := ListenerEnded, pr_serverErr := [e]\<rparr>)"
| select_server: "pr_run p = Selecting \<Longrightarrow> pr_serverErr p = e # es \<Longrightarrow>
    process_step workers p (p\<lparr>pr_run := Cancelling (listener_result e), pr_serverErr := es\<rparr>)"
| select_worker: "pr_run p = Selecting \<Longrightarrow> pr_workerErr p = err # es \<Longrightarrow>
    process_step workers p (p\<lparr>pr_run := Cancelling (Some err), pr_workerErr := es\<rparr>)"
| select_signal: "pr_run p = Selecting \<Longrightarrow> pr_signalled p \<Longrightarrow>
    process_step workers p (p\<lparr>pr_run := Cancelling None\<rparr>)"
| cancel: "pr_run p = Cancelling runErr \<Longrightarrow>
    process_step workers p (p\<lparr>pr_run := ShuttingDown runErr, pr_cancelled := True\<rparr>)"
| shutdown: "pr_run p = ShuttingDown runErr \<Longrightarrow>
    process_step workers p (p\<lparr>pr_run := Draining (after_shutdown result runErr)\<rparr>)"
| drained: "pr_run p = Draining runErr \<Longrightarrow> pr_workersDone p \<Longrightarrow>
    process_step workers p (p\<lparr>pr_run := Returned runErr\<rparr>)"
| timeout: "pr_run p = Draining runErr \<Longrightarrow>
    process_step workers p (p\<lparr>pr_run := Returned (Some (NewError ''worker shutdown timeout''))\<rparr>)"

text \<open>\<open>main\<close>: the exit code.\<close>

definition exit_code :: "go_error option \<Rightarrow> int" where
  "exit_code result = (if result \<noteq> None then 1 else 0)"

section \<open>The workers of the server\<close>

definition server_workers where
  "server_workers activate reconcile due s1 s2 s3 = [
     (''assignment'', \<lambda>rounds. snd (AssignmentWorker_Run (Some activate) rounds s1)),
     (''task-expiration'', \<lambda>rounds. snd (Periodic_Run (Some reconcile) rounds s2)),
     (''safety_alert'', \<lambda>rounds. snd (IntegrityIncidentWorker_Run (Some due) rounds s3))]"

lemma ticker_loop_error:
  assumes "\<And>r s. snd (body r s) = None" "sees_context c rounds" "snd (ticker_loop body rounds s) = Some err"
  shows "err = canceled \<and> c"
  using assms(2,3)
proof (induction rounds arbitrary: s)
  case (Cons r rounds)
  obtain s' where "body r s = (s', None)" using assms(1)[of r s] by (cases "body r s") auto
  then show ?case using Cons by (auto simp: sees_context_def)
qed simp

lemma server_workers_error:
  assumes "i < 3" "server_workers activate reconcile due s1 s2 s3 ! i = (name, worker)"
    "sees_context c rounds" "worker rounds = Some err"
  shows "err = canceled \<and> c"
proof -
  have quiet: "snd (assignment_body (Some activate) r u) = None"
    "snd (periodic_body (Some reconcile) r v) = None" "snd (incident_body (Some due) r x) = None"
    for r u v x
    by (simp_all add: assignment_body_def periodic_body_def incident_body_def Let_def split: prod.split)
  note errors = ticker_loop_error[OF quiet(1) assms(3)] ticker_loop_error[OF quiet(2) assms(3)]
    ticker_loop_error[OF quiet(3) assms(3)]
  consider "i = 0" | "i = 1" | "i = 2" using assms(1) by linarith
  then show ?thesis
  proof cases
    case 1
    show ?thesis
      using assms(2,4) by (intro errors(1)) (auto simp: 1 server_workers_def AssignmentWorker_Run_def)
  next
    case 2
    show ?thesis
      using assms(2,4) by (intro errors(2)) (auto simp: 2 server_workers_def Periodic_Run_def)
  next
    case 3
    show ?thesis
      using assms(2,4) by (intro errors(3)) (auto simp: 3 server_workers_def IntegrityIncidentWorker_Run_def)
  qed
qed

section \<open>What holds in every state\<close>

definition unended :: "process \<Rightarrow> nat" where
  "unended p = sum_list (map (\<lambda>s. if s = WorkerEnded then 0 else 1) (pr_workers p))"

definition run_error_ok :: "process \<Rightarrow> bool" where
  "run_error_ok p \<longleftrightarrow>
     (case pr_run p of
        Selecting \<Rightarrow> True
      | Cancelling r \<Rightarrow> r = None \<longrightarrow> pr_signalled p
      | ShuttingDown r \<Rightarrow> r = None \<longrightarrow> pr_signalled p
      | Draining r \<Rightarrow> r = None \<longrightarrow> pr_signalled p
      | Returned r \<Rightarrow> r = None \<longrightarrow> pr_signalled p \<and> pr_workersDone p)"

lemma run_error_ok_simps [simp]:
  "run_error_ok (p\<lparr>pr_workers := a\<rparr>) = run_error_ok p"
  "run_error_ok (p\<lparr>pr_workerErr := b\<rparr>) = run_error_ok p"
  "run_error_ok (p\<lparr>pr_workers := a, pr_workerErr := b\<rparr>) = run_error_ok p"
  "run_error_ok (p\<lparr>pr_listener := c\<rparr>) = run_error_ok p"
  "run_error_ok (p\<lparr>pr_listener := c, pr_serverErr := d\<rparr>) = run_error_ok p"
  by (simp_all add: run_error_ok_def split: run_state.split)

lemma run_error_ok_more:
  "run_error_ok p \<Longrightarrow> run_error_ok (p\<lparr>pr_signalled := True\<rparr>)"
  "run_error_ok p \<Longrightarrow> run_error_ok (p\<lparr>pr_workersDone := True\<rparr>)"
  by (auto simp: run_error_ok_def split: run_state.splits)

lemma unended_simps [simp]:
  "unended (p\<lparr>pr_workers := a, pr_workerErr := b\<rparr>) = unended (p\<lparr>pr_workers := a\<rparr>)"
  "unended (p\<lparr>pr_signalled := s\<rparr>) = unended p" "unended (p\<lparr>pr_workersDone := s\<rparr>) = unended p"
  "unended (p\<lparr>pr_listener := c\<rparr>) = unended p"
  "unended (p\<lparr>pr_listener := c, pr_serverErr := d\<rparr>) = unended p"
  "unended (p\<lparr>pr_run := m, pr_serverErr := d\<rparr>) = unended p"
  "unended (p\<lparr>pr_run := m, pr_workerErr := b\<rparr>) = unended p"
  "unended (p\<lparr>pr_run := m, pr_cancelled := s\<rparr>) = unended p"
  "unended (p\<lparr>pr_run := m\<rparr>) = unended p"
  by (simp_all add: unended_def)

lemma shutdown_called_simps [simp]:
  "\<not> shutdown_called Selecting" "\<not> shutdown_called (Cancelling r)"
  "\<not> shutdown_called (ShuttingDown r)" "shutdown_called (Draining r)" "shutdown_called (Returned r)"
  by (simp_all add: shutdown_called_def)

definition process_ok :: "worker list \<Rightarrow> process \<Rightarrow> bool" where
  "process_ok workers p \<longleftrightarrow>
     length (pr_workers p) = length workers \<and>
     length (pr_workerErr p) + unended p \<le> length workers \<and>
     (pr_listener p \<noteq> ListenerEnded \<longrightarrow> pr_serverErr p = []) \<and>
     (pr_run p = Selecting \<and> pr_listener p = ListenerEnded \<longrightarrow> pr_serverErr p \<noteq> []) \<and>
     (pr_workersDone p \<longrightarrow> list_all (\<lambda>s. s = WorkerEnded) (pr_workers p)) \<and>
     (\<not> shutdown_called (pr_run p) \<longrightarrow>
        pr_listener p \<noteq> ListenerSends ServerClosed \<and> ServerClosed \<notin> set (pr_serverErr p)) \<and>
     run_error_ok p"

lemma process_ok_start: "process_ok workers (process_start workers)"
  by (simp add: process_ok_def process_start_def unended_def run_error_ok_def sum_list_replicate)

lemma unended_update:
  assumes "i < length (pr_workers p)"
  shows "unended (p\<lparr>pr_workers := (pr_workers p)[i := y]\<rparr>) + (if pr_workers p ! i = WorkerEnded then 0 else 1) =
    unended p + (if y = WorkerEnded then 0 else 1)"
  using sum_list_update_map[OF assms, of "\<lambda>s. if s = WorkerEnded then 0 else 1" y]
  by (simp add: unended_def)

lemma process_ok_step:
  assumes "process_step workers p q" "process_ok workers p"
  shows "process_ok workers q"
  using assms
proof (induction rule: process_step.induct)
  case (worker_returns i p rounds name worker err)
  then have "unended (p\<lparr>pr_workers := (pr_workers p)[i := after_worker name (Some err)]\<rparr>) \<le> unended p"
    "\<not> pr_workersDone p"
    using unended_update[of i p "after_worker name (Some err)"]
    by (auto simp: process_ok_def list_all_length split: if_splits)
  then show ?case using worker_returns.prems by (auto simp: process_ok_def)
next
  case (worker_sends i p err)
  then have "unended (p\<lparr>pr_workers := (pr_workers p)[i := WorkerEnded]\<rparr>) + 1 = unended p"
    "\<not> pr_workersDone p"
    using unended_update[of i p WorkerEnded] by (auto simp: process_ok_def list_all_length)
  then show ?case using worker_sends.prems
    by (auto simp: process_ok_def)
next
  case (select_server p e es)
  then show ?case
    by (cases e) (auto simp: process_ok_def run_error_ok_def listener_result_def)
next
  case (shutdown p runErr result)
  then show ?case
    by (cases result) (auto simp: process_ok_def run_error_ok_def after_shutdown_def)
qed (auto simp: process_ok_def run_error_ok_more; simp add: run_error_ok_def)+

abbreviation process_reaches :: "worker list \<Rightarrow> process \<Rightarrow> bool" where
  "process_reaches workers p \<equiv> (process_step workers)\<^sup>*\<^sup>* (process_start workers) p"

lemma process_ok_reached: "process_reaches workers p \<Longrightarrow> process_ok workers p"
  by (induction rule: rtranclp_induct) (auto intro: process_ok_start process_ok_step)

text \<open>Every step makes this number smaller.\<close>

definition steps_left :: "process \<Rightarrow> nat" where
  "steps_left p =
     (if pr_signalled p then 0 else 1) + (if pr_workersDone p then 0 else 1) +
     sum_list (map (\<lambda>s. case s of WorkerRuns \<Rightarrow> 2 | WorkerSends _ \<Rightarrow> 1 | WorkerEnded \<Rightarrow> 0) (pr_workers p)) +
     (case pr_listener p of Listening \<Rightarrow> 2 | ListenerSends _ \<Rightarrow> 1 | ListenerEnded \<Rightarrow> 0) +
     (case pr_run p of Selecting \<Rightarrow> 4 | Cancelling _ \<Rightarrow> 3 | ShuttingDown _ \<Rightarrow> 2 | Draining _ \<Rightarrow> 1
        | Returned _ \<Rightarrow> 0)"

lemma steps_left_decreases: "process_step workers p q \<Longrightarrow> steps_left q < steps_left p"
proof (induction rule: process_step.induct)
  case (worker_returns i p rounds name worker err)
  then show ?case
    using sum_list_update_map[of i "pr_workers p"
        "\<lambda>s. case s of WorkerRuns \<Rightarrow> 2 | WorkerSends _ \<Rightarrow> 1 | WorkerEnded \<Rightarrow> 0" "after_worker name (Some err)"]
    by (auto simp: steps_left_def after_worker_def)
next
  case (worker_sends i p err)
  then show ?case
    using sum_list_update_map[of i "pr_workers p"
        "\<lambda>s. case s of WorkerRuns \<Rightarrow> 2 | WorkerSends _ \<Rightarrow> 1 | WorkerEnded \<Rightarrow> 0" WorkerEnded]
    by (auto simp: steps_left_def)
qed (auto simp: steps_left_def)

lemma steps_bounded: "(process_step workers ^^ n) p q \<Longrightarrow> n + steps_left q \<le> steps_left p"
  by (rule falling_steps[OF steps_left_decreases])

lemma steps_left_start: "steps_left (process_start workers) = 2 * length workers + 8"
  by (simp add: steps_left_def process_start_def sum_list_replicate)

text \<open>The server is up: nobody has asked it to stop, and nothing is on its way to \<open>run\<close>.\<close>

definition server_up :: "process \<Rightarrow> bool" where
  "server_up p \<longleftrightarrow> pr_run p = Selecting \<and> \<not> pr_signalled p \<and> pr_listener p = Listening \<and>
     pr_workerErr p = [] \<and> list_all (\<lambda>s. s = WorkerRuns \<or> s = WorkerEnded) (pr_workers p)"

text \<open>A step of \<open>run\<close> or a send on a channel, that is, nothing from outside.\<close>

definition own_step :: "worker list \<Rightarrow> process \<Rightarrow> process \<Rightarrow> bool" where
  "own_step workers p q \<longleftrightarrow> process_step workers p q \<and>
     (pr_run q \<noteq> pr_run p \<or> length (pr_serverErr p) < length (pr_serverErr q) \<or>
        length (pr_workerErr p) < length (pr_workerErr q))"

lemma own_stepI:
  "process_step workers p q \<Longrightarrow> pr_run q \<noteq> pr_run p \<or> length (pr_serverErr p) < length (pr_serverErr q) \<or>
     length (pr_workerErr p) < length (pr_workerErr q) \<Longrightarrow> \<exists>q. own_step workers p q"
  by (auto simp: own_step_def)

text \<open>What is in a channel or on its way to one.\<close>

lemma pending_cases:
  assumes "process_ok workers p" "pr_run p = Selecting" "\<not> server_up p"
  obtains "pr_signalled p" | e es where "pr_serverErr p = e # es"
  | e es where "pr_workerErr p = e # es"
  | e where "pr_listener p = ListenerSends e" "pr_serverErr p = []"
  | i e where "i < length (pr_workers p)" "pr_workers p ! i = WorkerSends e"
    "length (pr_workerErr p) < length workers"
proof (cases "pr_signalled p \<or> pr_serverErr p \<noteq> [] \<or> pr_workerErr p \<noteq> []")
  case True
  then show ?thesis using that(1-3) by (auto simp: neq_Nil_conv)
next
  case False
  then have quiet: "pr_serverErr p = []" "pr_workerErr p = []" "\<not> pr_signalled p" by auto
  with assms consider e where "pr_listener p = ListenerSends e"
    | i e where "i < length (pr_workers p)" "pr_workers p ! i = WorkerSends e"
    unfolding server_up_def process_ok_def list_all_length
    by (metis listener_state.exhaust worker_state.exhaust)
  then show ?thesis
  proof cases
    case (1 e)
    show ?thesis by (rule that(4)[OF 1 quiet(1)])
  next
    case (2 i e)
    show ?thesis by (rule that(5)[OF 2]) (use 2 quiet assms(1) in \<open>auto simp: process_ok_def\<close>)
  qed
qed

lemma own_step_exists:
  assumes "process_ok workers p" "\<not> has_returned (pr_run p)" "\<not> server_up p"
  shows "\<exists>q. own_step workers p q"
proof (cases "pr_run p")
  case Selecting
  from assms(1) Selecting assms(3) show ?thesis
  proof (cases rule: pending_cases)
    case 1
    then show ?thesis by (rule own_stepI[OF process_step.select_signal[OF Selecting]]) (simp add: Selecting)
  next
    case 2
    then show ?thesis by (rule own_stepI[OF process_step.select_server[OF Selecting]]) (simp add: Selecting)
  next
    case 3
    then show ?thesis by (rule own_stepI[OF process_step.select_worker[OF Selecting]]) (simp add: Selecting)
  next
    case 4
    show ?thesis by (rule own_stepI[OF process_step.listener_sends[OF 4]]) (simp add: 4)
  next
    case 5
    show ?thesis by (rule own_stepI[OF process_step.worker_sends[OF 5]]) simp
  qed
next
  case (Cancelling r)
  show ?thesis by (rule own_stepI[OF process_step.cancel[OF Cancelling]]) (simp add: Cancelling)
next
  case (ShuttingDown r)
  show ?thesis by (rule own_stepI[OF process_step.shutdown[OF ShuttingDown]]) (simp add: ShuttingDown)
next
  case (Draining r)
  show ?thesis by (rule own_stepI[OF process_step.timeout[OF Draining]]) (simp add: Draining)
next
  case (Returned r)
  then show ?thesis using assms(2) by (simp add: has_returned_def)
qed

section \<open>With the workers of the server\<close>

definition stop_error :: "go_error \<Rightarrow> bool" where
  "stop_error e \<longleftrightarrow> e = NewError ''worker shutdown timeout'' \<or>
     (\<exists>err. e = Errorf ''http server'' err \<or> e = Errorf ''shutdown http server'' err)"

definition run_result_ok :: "run_state \<Rightarrow> bool" where
  "run_result_ok m \<longleftrightarrow>
     (case m of Selecting \<Rightarrow> True | Cancelling r \<Rightarrow> pred_option stop_error r
        | ShuttingDown r \<Rightarrow> pred_option stop_error r | Draining r \<Rightarrow> pred_option stop_error r
        | Returned r \<Rightarrow> pred_option stop_error r)"

definition quiet_ok :: "process \<Rightarrow> bool" where
  "quiet_ok p \<longleftrightarrow> pr_workerErr p = [] \<and>
     list_all (\<lambda>s. s = WorkerRuns \<or> s = WorkerEnded \<and> (pr_signalled p \<or> pr_cancelled p)) (pr_workers p) \<and>
     (pr_cancelled p \<longrightarrow> pr_run p \<noteq> Selecting) \<and> run_result_ok (pr_run p)"

lemma quiet_ok_start: "quiet_ok (process_start workers)"
  by (simp add: quiet_ok_def process_start_def run_result_ok_def list_all_iff)

lemma list_all_update: "list_all P xs \<Longrightarrow> P y \<Longrightarrow> list_all P (xs[i := y])"
  by (auto simp: list_all_iff dest: set_update_subset_insert[THEN subsetD])

lemma quiet_ok_step:
  assumes "process_step (server_workers activate reconcile due s1 s2 s3) p q" "quiet_ok p"
    "length (pr_workers p) = 3"
  shows "quiet_ok q"
  using assms
proof (induction rule: process_step.induct)
  case (worker_returns i p rounds name worker err)
  then have "err = canceled \<and> (pr_signalled p \<or> pr_cancelled p)"
    using server_workers_error[of i activate reconcile due s1 s2 s3] by metis
  then show ?case
    using worker_returns.prems by (auto simp: quiet_ok_def after_worker_def intro: list_all_update)
next
  case (select_server p e es)
  then show ?case
    by (cases e) (auto simp: quiet_ok_def run_result_ok_def listener_result_def stop_error_def)
next
  case (shutdown p runErr result)
  then show ?case
    by (cases result) (auto simp: quiet_ok_def run_result_ok_def after_shutdown_def stop_error_def)
next
  case (worker_sends i p err)
  then show ?case by (auto simp: quiet_ok_def list_all_length)
qed (auto simp: quiet_ok_def run_result_ok_def stop_error_def list_all_iff)

abbreviation server_reaches where
  "server_reaches activate reconcile due s1 s2 s3 p \<equiv>
     process_reaches (server_workers activate reconcile due s1 s2 s3) p"

lemma quiet_ok_reached: "server_reaches activate reconcile due s1 s2 s3 p \<Longrightarrow> quiet_ok p"
proof (induction rule: rtranclp_induct)
  case (step q r)
  have "length (pr_workers q) = 3"
    using process_ok_reached[OF step.hyps(1)] by (simp add: process_ok_def server_workers_def)
  then show ?case by (rule quiet_ok_step[OF step.hyps(2) step.IH])
qed (rule quiet_ok_start)

section \<open>Properties\<close>

lemma Migrate_versions:
  assumes "Migrate run fs env w = (r, w1)"
  shows "(\<exists>new. mg_versions (w_db w1) = mg_versions (w_db w) @ new) \<and>
    (r = Inr () \<longrightarrow> (\<exists>ms. discoverMigrations fs = Inr ms \<and>
      mf_version ` set ms \<subseteq> set (mg_versions (w_db w1))))"
proof (cases "discoverMigrations fs")
  case (Inr ms)
  then show ?thesis using Migrate_ok[OF Inr assms] by (auto simp: migrated_by_def)
next
  case (Inl err)
  obtain s w2 where create: "exec_stmt Pool sql_create_migration_table env w = (s, w2)" by fastforce
  show ?thesis
    using assms create create_table_versions[OF create] Inl
    by (cases s) (auto simp: Migrate_def io_then_def io_bind_def io_wrap_def io_throw_def)
qed

text \<open>C37: the server comes up in order or not at all: if it gets as far as serving, the configuration has
  passed its checks, the only pool open is one within the configured limits that has answered a ping,
  and every migration found is recorded; otherwise no pool is left open. Migrations recorded on the
  way stay recorded, and none is taken back.\<close>

theorem server_starts:
  "(case startup parse getenv px run fs lib ping env w of
      (Inl err, pools, w') \<Rightarrow> pools = [] \<and> (\<exists>new. mg_versions (w_db w') = mg_versions (w_db w) @ new)
    | (Inr (cfg, p, server), pools, w') \<Rightarrow>
        Load parse getenv = Inr cfg \<and> pools = [p] \<and> px_Ping px p = None \<and>
        pl_MaxConns p = cg_DatabaseMaxConns cfg \<and> pl_MinConns p = cg_DatabaseMinConns cfg \<and>
        0 \<le> pl_MinConns p \<and> pl_MinConns p \<le> pl_MaxConns p \<and> 1 \<le> pl_MaxConns p \<and>
        (\<exists>ms new. discoverMigrations fs = Inr ms \<and>
           mf_version ` set ms \<subseteq> set (mg_versions (w_db w')) \<and>
           mg_versions (w_db w') = mg_versions (w_db w) @ new) \<and>
        hs_Handler server = Handler lib (Some ping) True)"
proof (cases "Load parse getenv")
  case (Inl err)
  then show ?thesis by (simp add: startup_def)
next
  case (Inr cfg)
  have bounds: "0 \<le> cg_DatabaseMinConns cfg" "cg_DatabaseMinConns cfg \<le> cg_DatabaseMaxConns cfg"
    "1 \<le> cg_DatabaseMaxConns cfg"
    using Inr by (auto simp: Load_def Let_def guard_err_def split: if_splits option.splits)
  obtain r pools where opened: "db_Open px (cg_DatabaseURL cfg) (cg_DatabaseMaxConns cfg)
      (cg_DatabaseMinConns cfg) [] = (r, pools)" by fastforce
  have pool: "(case r of Inl _ \<Rightarrow> pools = [] | Inr p \<Rightarrow> pools = [p] \<and> px_Ping px p = None \<and>
      pl_MaxConns p = cg_DatabaseMaxConns cfg \<and> pl_MinConns p = cg_DatabaseMinConns cfg)"
    using opened by (auto simp: db_Open_def Let_def split: sum.splits option.splits)
  obtain m w1 where migrated: "Migrate run fs env w = (m, w1)" by fastforce
  have kept: "\<exists>new. mg_versions (w_db w1) = mg_versions (w_db w) @ new"
    and recorded: "m = Inr () \<Longrightarrow> \<exists>ms. discoverMigrations fs = Inr ms \<and>
      mf_version ` set ms \<subseteq> set (mg_versions (w_db w1))"
    using Migrate_versions[OF migrated] by auto
  show ?thesis
    using Inr opened pool migrated kept recorded bounds
    by (cases r; cases m) (auto simp: startup_def new_server_def)
qed

text \<open>C38: once it serves, the server stops as it should. Its goroutines take at most 14 steps. In every
  state in which it has not returned it is either up, with its three workers running, or \<open>run\<close> or one
  of the senders can go on: no send on a channel ever blocks. Its workers never make it stop: it
  returns no error only after a signal and when all workers have ended, and an error is one of the
  listener, of the shutdown, or the timeout of the workers, which hides the others.\<close>

theorem server_stops:
  assumes "server_reaches activate reconcile due s1 s2 s3 p"
  shows "(\<forall>n q. (process_step (server_workers activate reconcile due s1 s2 s3) ^^ n)
        (process_start (server_workers activate reconcile due s1 s2 s3)) q \<longrightarrow> n \<le> 14) \<and>
    (has_returned (pr_run p) \<or>
     server_up p \<and> pr_workers p = [WorkerRuns, WorkerRuns, WorkerRuns] \<or>
     (\<exists>q. own_step (server_workers activate reconcile due s1 s2 s3) p q)) \<and>
    pr_workerErr p = [] \<and>
    (pr_run p = Returned None \<longrightarrow> pr_signalled p \<and> list_all (\<lambda>s. s = WorkerEnded) (pr_workers p)) \<and>
    (\<forall>e. pr_run p = Returned (Some e) \<longrightarrow> stop_error e)"
proof -
  let ?workers = "server_workers activate reconcile due s1 s2 s3"
  have ok: "process_ok ?workers p" by (rule process_ok_reached[OF assms])
  have quiet: "quiet_ok p" by (rule quiet_ok_reached[OF assms])
  have three: "length ?workers = 3" by (simp add: server_workers_def)
  have "n \<le> 14" if "(process_step ?workers ^^ n) (process_start ?workers) q" for n q
    using steps_bounded[OF that] steps_left_start[of ?workers] three by simp
  moreover have "pr_workers p = [WorkerRuns, WorkerRuns, WorkerRuns]" if "server_up p"
  proof -
    have "pr_workers p = replicate 3 WorkerRuns"
      using that quiet ok three
      by (intro replicate_eqI) (auto simp: server_up_def quiet_ok_def process_ok_def list_all_iff)
    then show ?thesis by (simp add: numeral_3_eq_3)
  qed
  moreover have "has_returned (pr_run p) \<or> server_up p \<or> (\<exists>q. own_step ?workers p q)"
    using own_step_exists[OF ok] by blast
  moreover have "pr_run p = Returned None \<longrightarrow>
      pr_signalled p \<and> list_all (\<lambda>s. s = WorkerEnded) (pr_workers p)"
    using ok by (auto simp: process_ok_def run_error_ok_def)
  moreover have "\<forall>e. pr_run p = Returned (Some e) \<longrightarrow> stop_error e"
    using quiet by (auto simp: quiet_ok_def run_result_ok_def)
  ultimately show ?thesis using quiet by (simp only: quiet_ok_def) blast
qed

section \<open>An example\<close>

text \<open>Workers that have nothing to do; a listener that fails; and a worker that is still running when
  the time is up: the error of the listener is lost.\<close>

abbreviation idle_workers :: "worker list" where
  "idle_workers \<equiv> server_workers (\<lambda>s t n. (s, 0, None)) (\<lambda>s t. (s, None))
     (\<lambda>s t n. (s, Inr ([] :: unit list))) ((), no_metrics) () ()"

lemma reaches_same: "p = q \<Longrightarrow> r\<^sup>*\<^sup>* p q"
  by simp

lemmas first_step = converse_rtranclp_into_rtranclp[of "process_step idle_workers"]

lemma timeout_hides_error:
  "process_reaches idle_workers ((process_start idle_workers)\<lparr>pr_listener := ListenerEnded,
     pr_cancelled := True, pr_run := Returned (Some (NewError ''worker shutdown timeout''))\<rparr>)"
  by (rule first_step, rule process_step.listener_returns[where e = "ListenFailed (NewError ''bind'')"],
      simp add: process_start_def, simp,
      rule first_step, rule process_step.listener_sends, simp, simp add: process_start_def,
      rule first_step, rule process_step.select_server, simp add: process_start_def, simp,
      rule first_step, rule process_step.cancel, simp,
      rule first_step, rule process_step.shutdown, simp,
      rule first_step, rule process_step.timeout, simp,
      rule reaches_same, simp add: process_start_def)

lemma server_stops_witness:
  "\<exists>q. own_step idle_workers ((process_start idle_workers)\<lparr>pr_signalled := True\<rparr>) q"
proof -
  have "process_reaches idle_workers ((process_start idle_workers)\<lparr>pr_signalled := True\<rparr>)"
    by (rule r_into_rtranclp, rule process_step.signal) (simp add: process_start_def)
  from server_stops[OF this] show ?thesis
    by (simp add: has_returned_def server_up_def process_start_def)
qed

end
